(* ===== verification/Prelude.thy ===== *)
theory Prelude
  imports Main
begin

text \<open>
  Shared ground of the development: Python exceptions as values, results, truthiness, rows kept in
  tables with an integer primary key, the "collect what was not seen yet" loop that several
  components run, and the lemmas about them that the component theories use.
\<close>

section \<open>Lemma collections\<close>

named_theorems py_simps \<open>rewrite rules for the Python-level helpers\<close>
named_theorems table_simps \<open>rewrite rules for keyed rows\<close>
named_theorems status_simps \<open>rewrite rules for run states and their counts\<close>

section \<open>Exceptions and results\<close>

text \<open>
  A raised exception is its class name and its message: the code looks at nothing else
  (\<open>type(exc).__name__\<close> and \<open>str(exc)\<close>).
\<close>

datatype py_exn = Exn (exn_class: string) (exn_msg: string)

type_synonym 'a result = "py_exn + 'a"

abbreviation ValueError :: "string \<Rightarrow> py_exn" where
  "ValueError \<equiv> Exn ''ValueError''"

abbreviation KeyError :: "string \<Rightarrow> py_exn" where
  "KeyError \<equiv> Exn ''KeyError''"

definition bind_result :: "'a result \<Rightarrow> ('a \<Rightarrow> 'b result) \<Rightarrow> 'b result" where
  "bind_result r f = (case r of Inl e \<Rightarrow> Inl e | Inr x \<Rightarrow> f x)"

lemma bind_result_simps [simp, py_simps]:
  "bind_result (Inl e) f = Inl e"
  "bind_result (Inr x) f = f x"
  by (simp_all add: bind_result_def)

lemma bind_result_Inr_iff [py_simps]:
  "bind_result r f = Inr y \<longleftrightarrow> (\<exists>x. r = Inr x \<and> f x = Inr y)"
  by (cases r) auto

lemma bind_result_Inl_iff:
  "bind_result r f = Inl e \<longleftrightarrow> r = Inl e \<or> (\<exists>x. r = Inr x \<and> f x = Inl e)"
  by (cases r) auto

text \<open>A loop that appends \<open>f x\<close> for every \<open>x\<close> and stops at the first exception.\<close>

fun traverse :: "('a \<Rightarrow> 'b result) \<Rightarrow> 'a list \<Rightarrow> 'b list result" where
  "traverse f [] = Inr []"
| "traverse f (x # xs) =
     bind_result (f x) (\<lambda>y. bind_result (traverse f xs) (\<lambda>ys. Inr (y # ys)))"

lemma traverse_Inr_iff:
  "traverse f xs = Inr ys \<longleftrightarrow> list_all2 (\<lambda>x y. f x = Inr y) xs ys"
proof (induction xs arbitrary: ys)
  case Nil
  then show ?case by auto
next
  case (Cons x xs)
  then show ?case
    by (cases ys) (auto simp: bind_result_Inr_iff)
qed

lemma traverse_all_Inr:
  "(\<And>x. x \<in> set xs \<Longrightarrow> f x = Inr (g x)) \<Longrightarrow> traverse f xs = Inr (map g xs)"
  by (induction xs) auto

lemma traverse_cong_set:
  "(\<And>x. x \<in> set xs \<Longrightarrow> f x = g x) \<Longrightarrow> traverse f xs = traverse g xs"
  by (induction xs) auto

lemma traverse_Inl_obtain:
  assumes "x \<in> set xs" and "f x = Inl e"
  shows "\<exists>e'. traverse f xs = Inl e'"
  using assms
proof (induction xs)
  case Nil
  then show ?case by simp
next
  case (Cons y ys)
  then show ?case
    by (cases "f y") (auto simp: bind_result_def split: sum.splits)
qed

section \<open>Effects\<close>

text \<open>
  A statement that may raise and that changes an external or shared state \<open>'s\<close>: the state it leaves
  is kept also when it raises, as in Python.
\<close>

type_synonym ('s, 'a) eff = "'s \<Rightarrow> 'a result \<times> 's"

definition ret :: "'a \<Rightarrow> ('s, 'a) eff" where
  "ret x = (\<lambda>s. (Inr x, s))"

definition raise :: "py_exn \<Rightarrow> ('s, 'a) eff" where
  "raise e = (\<lambda>s. (Inl e, s))"

definition seq :: "('s, 'a) eff \<Rightarrow> ('a \<Rightarrow> ('s, 'b) eff) \<Rightarrow> ('s, 'b) eff" where
  "seq m f = (\<lambda>s. case m s of (Inl e, s') \<Rightarrow> (Inl e, s') | (Inr x, s') \<Rightarrow> f x s')"

text \<open>\<open>try: m except Exception as exc: h(exc)\<close>.\<close>

definition catch :: "('s, 'a) eff \<Rightarrow> (py_exn \<Rightarrow> ('s, 'a) eff) \<Rightarrow> ('s, 'a) eff" where
  "catch m h = (\<lambda>s. case m s of (Inl e, s') \<Rightarrow> h e s' | (Inr x, s') \<Rightarrow> (Inr x, s'))"

lemma eff_simps [simp, py_simps]:
  "ret x s = (Inr x, s)"
  "raise e s = (Inl e, s)"
  by (simp_all add: ret_def raise_def)

lemma seq_simps [py_simps]:
  "m s = (Inl e, s') \<Longrightarrow> seq m f s = (Inl e, s')"
  "m s = (Inr x, s') \<Longrightarrow> seq m f s = f x s'"
  by (simp_all add: seq_def)

lemma seq_Inr_iff:
  "seq m f s = (Inr y, t) \<longleftrightarrow> (\<exists>x s'. m s = (Inr x, s') \<and> f x s' = (Inr y, t))"
  by (auto simp: seq_def split: prod.splits sum.splits)

lemma catch_simps [py_simps]:
  "m s = (Inl e, s') \<Longrightarrow> catch m h s = h e s'"
  "m s = (Inr x, s') \<Longrightarrow> catch m h s = (Inr x, s')"
  by (simp_all add: catch_def)

section \<open>Truthiness of optional strings and numbers\<close>

text \<open>\<open>x or None\<close> for a string that may be missing: the empty string counts as missing.\<close>

fun or_none :: "string option \<Rightarrow> string option" where
  "or_none None = None"
| "or_none (Some s) = (if s = [] then None else Some s)"

text \<open>\<open>x or y\<close> where the left operand may be missing or empty.\<close>

fun or_str :: "string option \<Rightarrow> string \<Rightarrow> string" where
  "or_str None d = d"
| "or_str (Some s) d = (if s = [] then d else s)"

definition truthy :: "string option \<Rightarrow> bool" where
  "truthy s \<longleftrightarrow> s \<noteq> None \<and> s \<noteq> Some []"

lemma truthy_simps [simp, py_simps]:
  "\<not> truthy None"
  "truthy (Some s) \<longleftrightarrow> s \<noteq> []"
  by (simp_all add: truthy_def)

lemma or_none_truthy [py_simps]: "or_none s = (if truthy s then s else None)"
  by (cases s) auto

lemma or_none_idem [simp]: "or_none (or_none s) = or_none s"
  by (cases s) auto

text \<open>The same for a chain of alternatives: \<open>a or b\<close> on objects that are never falsy.\<close>

definition or_else :: "'a option \<Rightarrow> 'a option \<Rightarrow> 'a option" where
  "or_else a b = (case a of None \<Rightarrow> b | Some x \<Rightarrow> Some x)"

lemma or_else_simps [simp, py_simps]:
  "or_else None b = b"
  "or_else (Some x) b = Some x"
  "or_else a None = a"
  by (simp_all add: or_else_def split: option.splits)

text \<open>\<open>n or d\<close> on an integer that may be missing: zero counts as missing.\<close>

definition or_int :: "int option \<Rightarrow> int \<Rightarrow> int" where
  "or_int n d = (case n of None \<Rightarrow> d | Some k \<Rightarrow> (if k = 0 then d else k))"

lemma or_int_simps [simp, py_simps]:
  "or_int None d = d"
  "or_int (Some k) d = (if k = 0 then d else k)"
  by (simp_all add: or_int_def)

section \<open>Dictionaries as association lists\<close>

text \<open>
  A form, a claims set or a parsed row is an association list: the insertion order is kept, as
  Python keeps it, and the first entry of a key is the one that counts.
\<close>

fun dict_set :: "'k \<Rightarrow> 'v \<Rightarrow> ('k \<times> 'v) list \<Rightarrow> ('k \<times> 'v) list" where
  "dict_set k v [] = [(k, v)]"
| "dict_set k v ((k', v') # d) = (if k = k' then (k, v) # d else (k', v') # dict_set k v d)"

lemma map_of_dict_set [simp]: "map_of (dict_set k v d) = (map_of d)(k \<mapsto> v)"
  by (induction k v d rule: dict_set.induct) auto

lemma keys_dict_set:
  "map fst (dict_set k v d) = (if k \<in> fst ` set d then map fst d else map fst d @ [k])"
  by (induction k v d rule: dict_set.induct) auto

lemma distinct_dict_set: "distinct (map fst d) \<Longrightarrow> distinct (map fst (dict_set k v d))"
  by (auto simp: keys_dict_set)

fun dict_del :: "'k \<Rightarrow> ('k \<times> 'v) list \<Rightarrow> ('k \<times> 'v) list" where
  "dict_del k [] = []"
| "dict_del k ((k', v') # d) = (if k = k' then dict_del k d else (k', v') # dict_del k d)"

lemma map_of_dict_del [simp]: "map_of (dict_del k d) = (map_of d)(k := None)"
  by (induction k d rule: dict_del.induct) auto

end
