(* ===== verification/PyStr.thy ===== *)
theory PyStr
  imports Prelude "HOL-Library.Sublist"
begin

text \<open>
  The part of Python's \<open>str\<close> the program uses, on strings whose characters are the code points
  U+0000 to U+00FF (an Isabelle \<open>char\<close>). White space, line boundaries, digits, letters and
  case follow the Unicode properties of that block, as CPython's \<open>str\<close> methods do.
\<close>

section \<open>Character classes\<close>

abbreviation cp :: "char \<Rightarrow> nat" where
  "cp c \<equiv> of_char c"

definition LF :: char where "LF = CHR 0x0A"
definition CR :: char where "CR = CHR 0x0D"

text \<open>\<open>str.isspace\<close> for one character: what \<open>strip\<close> removes.\<close>

definition is_space :: "char \<Rightarrow> bool" where
  "is_space c \<longleftrightarrow> cp c \<in> {9, 10, 11, 12, 13, 28, 29, 30, 31, 32, 133, 160}"

text \<open>The line boundaries of \<open>str.splitlines\<close>.\<close>

definition is_break :: "char \<Rightarrow> bool" where
  "is_break c \<longleftrightarrow> cp c \<in> {10, 11, 12, 13, 28, 29, 30, 133}"

definition is_digit :: "char \<Rightarrow> bool" where
  "is_digit c \<longleftrightarrow> 48 \<le> cp c \<and> cp c \<le> 57"

text \<open>\<open>str.isdigit\<close> also accepts the superscript digits two, three and one.\<close>

definition py_isdigit_char :: "char \<Rightarrow> bool" where
  "py_isdigit_char c \<longleftrightarrow> is_digit c \<or> cp c \<in> {178, 179, 185}"

definition is_upper :: "char \<Rightarrow> bool" where
  "is_upper c \<longleftrightarrow> (65 \<le> cp c \<and> cp c \<le> 90) \<or> (192 \<le> cp c \<and> cp c \<le> 222 \<and> cp c \<noteq> 215)"

definition is_alpha :: "char \<Rightarrow> bool" where
  "is_alpha c \<longleftrightarrow> is_upper c \<or> (97 \<le> cp c \<and> cp c \<le> 122)
     \<or> (223 \<le> cp c \<and> cp c \<noteq> 247) \<or> cp c \<in> {170, 181, 186}"

text \<open>\<open>str.isalnum\<close>: letters, digits, and the numeric characters of the block.\<close>

definition is_alnum :: "char \<Rightarrow> bool" where
  "is_alnum c \<longleftrightarrow> is_alpha c \<or> py_isdigit_char c \<or> cp c \<in> {188, 189, 190}"

definition lower_char :: "char \<Rightarrow> char" where
  "lower_char c = (if is_upper c then char_of (cp c + 32) else c)"

definition py_lower :: "string \<Rightarrow> string" where
  "py_lower s = map lower_char s"

lemma break_is_space: "is_break c \<Longrightarrow> is_space c"
  by (auto simp: is_break_def is_space_def)

lemma LF_break [simp]: "is_break LF" and CR_break [simp]: "is_break CR"
  by (simp_all add: is_break_def LF_def CR_def)

lemma LF_space [simp]: "is_space LF" and CR_space [simp]: "is_space CR"
  by (simp_all add: break_is_space)

lemma CR_neq_LF [simp]: "CR \<noteq> LF" "LF \<noteq> CR"
  by (simp_all add: LF_def CR_def)

section \<open>Stripping\<close>

definition lstrip :: "string \<Rightarrow> string" where
  "lstrip s = dropWhile is_space s"

definition rstrip :: "string \<Rightarrow> string" where
  "rstrip s = rev (dropWhile is_space (rev s))"

definition strip :: "string \<Rightarrow> string" where
  "strip s = rstrip (lstrip s)"

text \<open>\<open>s.rstrip(c)\<close> for a single character.\<close>

definition rstrip_char :: "char \<Rightarrow> string \<Rightarrow> string" where
  "rstrip_char c s = rev (dropWhile (\<lambda>d. d = c) (rev s))"

lemma rstrip_Nil [simp]: "rstrip [] = []"
  by (simp add: rstrip_def)

lemma strip_Nil [simp]: "strip [] = []"
  by (simp add: strip_def lstrip_def)

lemma set_rstrip_subset: "set (rstrip s) \<subseteq> set s"
  unfolding rstrip_def using set_dropWhileD by fastforce

lemma rstrip_last: "rstrip s \<noteq> [] \<Longrightarrow> \<not> is_space (last (rstrip s))"
  unfolding rstrip_def by (metis hd_dropWhile last_rev rev_is_Nil_conv)

lemma rstrip_id: "(s = [] \<or> \<not> is_space (last s)) \<Longrightarrow> rstrip s = s"
  unfolding rstrip_def
  by (cases "rev s") (auto simp: dropWhile_eq_self_iff hd_rev)

lemma rstrip_rstrip [simp]: "rstrip (rstrip s) = rstrip s"
  by (rule rstrip_id) (auto dest: rstrip_last)

lemma rstrip_eq_Nil_iff: "rstrip s = [] \<longleftrightarrow> (\<forall>c \<in> set s. is_space c)"
  by (simp add: rstrip_def dropWhile_eq_Nil_conv)

lemma strip_eq_Nil_iff: "strip s = [] \<longleftrightarrow> (\<forall>c \<in> set s. is_space c)"
proof -
  have "strip s = [] \<longleftrightarrow> (\<forall>c \<in> set (dropWhile is_space s). is_space c)"
    by (simp add: strip_def lstrip_def rstrip_eq_Nil_iff)
  also have "\<dots> \<longleftrightarrow> (\<forall>c \<in> set s. is_space c)"
    by (metis dropWhile_eq_Nil_conv hd_dropWhile list.set_sel(1) set_dropWhileD)
  finally show ?thesis .
qed

section \<open>Lines\<close>

definition drop_lf :: "string \<Rightarrow> string" where
  "drop_lf s = (case s of [] \<Rightarrow> [] | c # cs \<Rightarrow> (if c = LF then cs else s))"

lemma length_drop_lf [termination_simp]: "length (drop_lf s) \<le> length s"
  by (cases s) (simp_all add: drop_lf_def)

lemma drop_lf_less [termination_simp]: "length (drop_lf s) < Suc (length s)"
  by (simp add: length_drop_lf less_Suc_eq_le)

text \<open>
  \<open>str.splitlines()\<close>: a carriage return followed by a line feed is one boundary, and a boundary
  at the end of the text opens no further line.
\<close>

fun splitlines :: "string \<Rightarrow> string list" where
  "splitlines [] = []"
| "splitlines (c # cs) =
     (if c = CR then [] # splitlines (drop_lf cs)
      else if is_break c then [] # splitlines cs
      else (case splitlines cs of [] \<Rightarrow> [[c]] | l # ls \<Rightarrow> (c # l) # ls))"

text \<open>\<open>str.splitlines(keepends=True)\<close>.\<close>

fun splitlines_keep :: "string \<Rightarrow> string list" where
  "splitlines_keep [] = []"
| "splitlines_keep (c # cs) =
     (if c = CR \<and> drop_lf cs \<noteq> cs then [CR, LF] # splitlines_keep (drop_lf cs)
      else if is_break c then [c] # splitlines_keep cs
      else (case splitlines_keep cs of [] \<Rightarrow> [[c]] | l # ls \<Rightarrow> (c # l) # ls))"

text \<open>\<open>sep.join(lines)\<close>.\<close>

fun join :: "string \<Rightarrow> string list \<Rightarrow> string" where
  "join sep [] = []"
| "join sep [x] = x"
| "join sep (x # y # ys) = x @ sep @ join sep (y # ys)"

abbreviation unlines :: "string list \<Rightarrow> string" where
  "unlines \<equiv> join [LF]"

lemma splitlines_no_break: "l \<in> set (splitlines s) \<Longrightarrow> c \<in> set l \<Longrightarrow> \<not> is_break c"
proof (induction s arbitrary: l c rule: splitlines.induct)
  case 1
  then show ?case by simp
next
  case (2 d cs)
  show ?case
  proof (cases "is_break d")
    case True
    with 2 show ?thesis by (cases "d = CR") auto
  next
    case False
    then have "d \<noteq> CR" by auto
    with False have "splitlines (d # cs) = (case splitlines cs of [] \<Rightarrow> [[d]] | l # ls \<Rightarrow> (d # l) # ls)"
      by simp
    with 2 False \<open>d \<noteq> CR\<close> show ?thesis
      by (cases "splitlines cs") fastforce+
  qed
qed

lemma splitlines_single:
  "\<forall>c \<in> set l. \<not> is_break c \<Longrightarrow> splitlines l = (if l = [] then [] else [l])"
  by (induction l) auto

lemma splitlines_line_LF:
  assumes "\<forall>c \<in> set l. \<not> is_break c"
  shows "splitlines (l @ LF # s) = l # splitlines s"
  using assms
proof (induction l)
  case Nil
  then show ?case by simp
next
  case (Cons c l)
  then show ?case by auto
qed

lemma splitlines_unlines:
  assumes "\<forall>l \<in> set ls. \<forall>c \<in> set l. \<not> is_break c" and "ls \<noteq> []" and "last ls \<noteq> []"
  shows "splitlines (unlines ls) = ls"
  using assms
proof (induction ls rule: induct_list012)
  case (3 x y zs)
  then have "splitlines (unlines (y # zs)) = y # zs" by simp
  with 3 show ?case by (simp add: splitlines_line_LF)
qed (simp_all add: splitlines_single)

lemma set_unlines: "set (unlines ls) \<subseteq> insert LF (\<Union> (set ` set ls))"
  by (induction ls rule: induct_list012) auto

lemma unlines_eq_Nil_iff: "unlines ls = [] \<longleftrightarrow> ls = [] \<or> ls = [[]]"
  by (induction ls rule: induct_list012) auto

lemma splitlines_eq_Nil_iff [simp]: "splitlines s = [] \<longleftrightarrow> s = []"
  by (cases s) (auto split: list.splits)

lemma concat_splitlines_keep: "concat (splitlines_keep s) = s"
proof (induction s rule: splitlines_keep.induct)
  case 1
  then show ?case by simp
next
  case (2 c cs)
  show ?case
  proof (cases "c = CR \<and> drop_lf cs \<noteq> cs")
    case True
    then have "LF # drop_lf cs = cs"
      by (cases cs) (auto simp: drop_lf_def split: if_splits)
    with True 2 show ?thesis by auto
  next
    case False
    with 2 show ?thesis by (auto split: list.splits)
  qed
qed

section \<open>Searching, replacing, splitting\<close>

definition startswith :: "string \<Rightarrow> string \<Rightarrow> bool" where
  "startswith s p \<longleftrightarrow> take (length p) s = p"

lemma startswith_append [simp]: "startswith (p @ s) p"
  by (simp add: startswith_def)

lemma startswith_iff: "startswith s p \<longleftrightarrow> (\<exists>r. s = p @ r)"
  unfolding startswith_def by (metis append_eq_conv_conj append_take_drop_id)

text \<open>\<open>sub in s\<close>.\<close>

fun contains :: "string \<Rightarrow> string \<Rightarrow> bool" where
  "contains sub [] = (sub = [])"
| "contains sub (c # cs) = (startswith (c # cs) sub \<or> contains sub cs)"

lemma contains_iff: "contains sub s \<longleftrightarrow> (\<exists>a b. s = a @ sub @ b)"
proof (induction s)
  case Nil
  then show ?case by auto
next
  case (Cons c cs)
  show ?case
  proof
    assume "contains sub (c # cs)"
    then consider "startswith (c # cs) sub" | "contains sub cs" by auto
    then show "\<exists>a b. c # cs = a @ sub @ b"
    proof cases
      case 1
      then obtain r where "c # cs = sub @ r" by (auto simp: startswith_iff)
      then have "c # cs = [] @ sub @ r" by simp
      then show ?thesis by blast
    next
      case 2
      with Cons.IH obtain a b where "cs = a @ sub @ b" by blast
      then have "c # cs = (c # a) @ sub @ b" by simp
      then show ?thesis by blast
    qed
  next
    assume "\<exists>a b. c # cs = a @ sub @ b"
    then obtain a b where ab: "c # cs = a @ sub @ b" by blast
    show "contains sub (c # cs)"
    proof (cases a)
      case Nil
      with ab show ?thesis by (auto simp: startswith_iff simp del: contains.simps) (metis contains.simps(2) startswith_append)
    next
      case (Cons d a')
      with ab have "cs = a' @ sub @ b" by simp
      with Cons.IH show ?thesis by auto
    qed
  qed
qed

text \<open>\<open>s.replace(old, new)\<close> for a non-empty \<open>old\<close>: left to right, without overlap.\<close>

function py_replace :: "string \<Rightarrow> string \<Rightarrow> string \<Rightarrow> string" where
  "py_replace old new [] = []"
| "py_replace old new (c # cs) =
     (if old \<noteq> [] \<and> startswith (c # cs) old
      then new @ py_replace old new (drop (length old - 1) cs)
      else c # py_replace old new cs)"
  by pat_completeness auto
termination
  by (relation "measure (\<lambda>(old, new, s). length s)") (auto simp: le_imp_less_Suc)

lemma py_replace_char: "py_replace [a] [b] s = map (\<lambda>c. if c = a then b else c) s"
  by (induction s) (auto simp: startswith_def)

text \<open>\<open>s.split(sep)\<close> for a one-character separator.\<close>

fun split_on :: "char \<Rightarrow> string \<Rightarrow> string list" where
  "split_on sep [] = [[]]"
| "split_on sep (c # cs) =
     (if c = sep then [] # split_on sep cs
      else (case split_on sep cs of [] \<Rightarrow> [[c]] | w # ws \<Rightarrow> (c # w) # ws))"

lemma split_on_not_Nil [simp]: "split_on sep s \<noteq> []"
  by (induction s) (auto split: list.splits)

lemma join_split_on: "join [sep] (split_on sep s) = s"
proof (induction s)
  case Nil
  then show ?case by simp
next
  case (Cons c cs)
  then obtain w ws where "split_on sep cs = w # ws"
    using split_on_not_Nil by (metis neq_Nil_conv)
  with Cons show ?case by (cases ws) auto
qed

lemma split_on_no_sep: "w \<in> set (split_on sep s) \<Longrightarrow> sep \<notin> set w"
  by (induction s arbitrary: w) (auto split: if_splits list.splits)

text \<open>\<open>s.split(sep, 1)\<close> when the separator occurs.\<close>

definition split_once :: "char \<Rightarrow> string \<Rightarrow> string \<times> string" where
  "split_once sep s = (takeWhile (\<lambda>c. c \<noteq> sep) s, tl (dropWhile (\<lambda>c. c \<noteq> sep) s))"

text \<open>\<open>s.split()\<close>: the maximal runs of characters that are not white space.\<close>

function split_ws :: "string \<Rightarrow> string list" where
  "split_ws s =
     (let t = lstrip s in
      if t = [] then []
      else takeWhile (\<lambda>c. \<not> is_space c) t # split_ws (dropWhile (\<lambda>c. \<not> is_space c) t))"
  by pat_completeness auto
termination
proof (relation "measure length", goal_cases)
  case (2 s t)
  then have "t \<noteq> []" by simp
  moreover from this 2 have "\<not> is_space (hd t)"
    using hd_dropWhile [of is_space s] by (simp add: lstrip_def)
  ultimately have "\<not> is_space (hd t)" and "t \<noteq> []" by simp_all
  then have "length (dropWhile (\<lambda>c. \<not> is_space c) t) < length t"
    by (cases t) (auto simp: length_dropWhile_le le_imp_less_Suc)
  moreover have "length t \<le> length s"
    using 2 by (simp add: lstrip_def length_dropWhile_le)
  ultimately show ?case by simp
qed simp

declare split_ws.simps [simp del]

section \<open>Integers\<close>

definition digit_val :: "char \<Rightarrow> int" where
  "digit_val c = int (cp c) - 48"

fun digits_val :: "int \<Rightarrow> string \<Rightarrow> int" where
  "digits_val acc [] = acc"
| "digits_val acc (c # cs) = digits_val (10 * acc + digit_val c) cs"

text \<open>An underscore is accepted between two digits only.\<close>

fun underscores_ok :: "bool \<Rightarrow> string \<Rightarrow> bool" where
  "underscores_ok prev [] = True"
| "underscores_ok prev (c # cs) =
     (if c = CHR ''_'' then prev \<and> cs \<noteq> [] \<and> is_digit (hd cs) \<and> underscores_ok False cs
      else underscores_ok (is_digit c) cs)"

definition drop_underscores :: "string \<Rightarrow> string" where
  "drop_underscores s = filter (\<lambda>c. c \<noteq> CHR ''_'') s"

definition parse_digits :: "string \<Rightarrow> int option" where
  "parse_digits s =
     (let d = drop_underscores s in
      if d \<noteq> [] \<and> list_all is_digit d \<and> underscores_ok False s then Some (digits_val 0 d)
      else None)"

text \<open>\<open>int(s)\<close>; \<open>None\<close> stands for the \<open>ValueError\<close>.\<close>

definition py_int :: "string \<Rightarrow> int option" where
  "py_int s =
     (case strip s of
        [] \<Rightarrow> None
      | c # cs \<Rightarrow>
          if c = CHR ''-'' then map_option uminus (parse_digits cs)
          else if c = CHR ''+'' then parse_digits cs
          else parse_digits (c # cs))"

definition int_exn :: "string \<Rightarrow> py_exn" where
  "int_exn s = ValueError (''invalid literal for int() with base 10: '' @ s)"

definition to_int :: "string \<Rightarrow> int result" where
  "to_int s = (case py_int s of None \<Rightarrow> Inl (int_exn s) | Some n \<Rightarrow> Inr n)"

definition py_isdigit :: "string \<Rightarrow> bool" where
  "py_isdigit s \<longleftrightarrow> s \<noteq> [] \<and> list_all py_isdigit_char s"

text \<open>\<open>str(n)\<close> for an integer.\<close>

fun show_nat :: "nat \<Rightarrow> string" where
  "show_nat n = (if n < 10 then [char_of (48 + n)] else show_nat (n div 10) @ [char_of (48 + n mod 10)])"

declare show_nat.simps [simp del]

definition show_int :: "int \<Rightarrow> string" where
  "show_int i = (if i < 0 then CHR ''-'' # show_nat (nat (- i)) else show_nat (nat i))"

text \<open>Printing a number and reading it back.\<close>

lemma digits_val_append: "digits_val acc (xs @ ys) = digits_val (digits_val acc xs) ys"
  by (induction acc xs rule: digits_val.induct) simp_all

lemma digits_val_show_nat: "digits_val 0 (show_nat n) = int n"
proof (induction n rule: show_nat.induct)
  case (1 n)
  have d: "digit_val (char_of (48 + n mod 10)) = int (n mod 10)" by (simp add: digit_val_def)
  show ?case
  proof (cases "n < 10")
    case True
    with d show ?thesis by (simp add: show_nat.simps)
  next
    case False
    have "digits_val 0 (show_nat n) = 10 * int (n div 10) + int (n mod 10)"
      unfolding show_nat.simps [of n] using 1 False d by (simp add: digits_val_append)
    then show ?thesis by presburger
  qed
qed

lemma show_nat_digits: "c \<in> set (show_nat n) \<Longrightarrow> is_digit c"
proof (induction n rule: show_nat.induct)
  case (1 n)
  have d: "is_digit (char_of (48 + n mod 10))" by (simp add: is_digit_def)
  from 1 show ?case
    by (cases "n < 10") (use d in \<open>auto simp: show_nat.simps [of n]\<close>)
qed

lemma show_nat_not_Nil [simp]: "show_nat n \<noteq> []"
  by (subst show_nat.simps) simp

lemma underscores_ok_digits: "list_all is_digit s \<Longrightarrow> underscores_ok prev s"
proof (induction s arbitrary: prev)
  case (Cons c s)
  then have "c \<noteq> CHR ''_''" by (auto simp: is_digit_def)
  with Cons show ?case by simp
qed simp

lemma parse_digits_show_nat: "parse_digits (show_nat n) = Some (int n)"
proof -
  have all: "list_all is_digit (show_nat n)" by (simp add: list_all_iff show_nat_digits)
  have "c \<noteq> CHR ''_''" if "c \<in> set (show_nat n)" for c
    using show_nat_digits [OF that] by (auto simp: is_digit_def)
  then have "drop_underscores (show_nat n) = show_nat n" by (simp add: drop_underscores_def)
  with all show ?thesis by (simp add: parse_digits_def digits_val_show_nat underscores_ok_digits)
qed

lemma strip_id: "s \<noteq> [] \<Longrightarrow> \<not> is_space (hd s) \<Longrightarrow> \<not> is_space (last s) \<Longrightarrow> strip s = s"
  by (cases s) (simp_all add: strip_def lstrip_def rstrip_id)

lemma digit_not_space: "is_digit c \<Longrightarrow> \<not> is_space c"
  by (auto simp: is_digit_def is_space_def)

lemma show_nat_ends: "\<not> is_space (hd (show_nat n))" "\<not> is_space (last (show_nat n))"
  using show_nat_digits [OF hd_in_set [OF show_nat_not_Nil]] show_nat_digits [OF last_in_set [OF show_nat_not_Nil]]
  by (simp_all add: digit_not_space)

lemma py_int_signed:
  "py_int (CHR ''-'' # show_nat n) = Some (- int n)"
  "py_int (CHR ''+'' # show_nat n) = Some (int n)"
proof -
  have "\<not> is_space CHR ''-''" "\<not> is_space CHR ''+''" by (simp_all add: is_space_def)
  then have "strip (CHR ''-'' # show_nat n) = CHR ''-'' # show_nat n"
    "strip (CHR ''+'' # show_nat n) = CHR ''+'' # show_nat n"
    by (simp_all add: strip_id show_nat_ends)
  then show "py_int (CHR ''-'' # show_nat n) = Some (- int n)"
    "py_int (CHR ''+'' # show_nat n) = Some (int n)"
    by (simp_all add: py_int_def parse_digits_show_nat)
qed

lemma py_int_show_int: "py_int (show_int i) = Some i"
proof (cases "i < 0")
  case True
  then show ?thesis by (simp add: show_int_def py_int_signed)
next
  case False
  let ?s = "show_nat (nat i)"
  obtain c cs where s: "?s = c # cs" by (cases ?s) simp_all
  have "is_digit c" by (rule show_nat_digits [of c "nat i"]) (simp add: s)
  then have "c \<noteq> CHR ''-''" "c \<noteq> CHR ''+''" by (auto simp: is_digit_def)
  moreover have "strip ?s = ?s"
    by (rule strip_id) (simp_all add: show_nat_ends)
  ultimately have "py_int ?s = Some (int (nat i))"
    using parse_digits_show_nat [of "nat i"] by (simp add: py_int_def s)
  with False show ?thesis by (simp add: show_int_def)
qed

lemma split_on_word: "sep \<notin> set w \<Longrightarrow> split_on sep (w @ sep # s) = w # split_on sep s"
  by (induction w) auto

lemma split_on_last: "sep \<notin> set w \<Longrightarrow> split_on sep w = [w]"
  by (induction w) auto

end
