(* ===== verification/PyFloat.thy ===== *)
theory PyFloat
  imports Complex_Main PyStr
begin

text \<open>
  Python's \<open>float\<close>: binary64 values, the constructor \<open>float(s)\<close> on a string (correctly rounded
  decimal input, ties to even), multiplication, truncation to \<open>int\<close>, and the comparisons, NaN
  included. A finite value is a signed mantissa and a binary exponent.
\<close>

section \<open>Values and comparison\<close>

datatype pyfloat = Fin int int | PInf | NInf | NaN

text \<open>The two mantissas at the smaller of the two exponents.\<close>

definition scaled :: "int \<Rightarrow> int \<Rightarrow> int \<Rightarrow> int" where
  "scaled m e k = m * 2 ^ nat (e - k)"

fun f_less :: "pyfloat \<Rightarrow> pyfloat \<Rightarrow> bool" where
  "f_less (Fin m e) (Fin n f) = (scaled m e (min e f) < scaled n f (min e f))"
| "f_less NaN _ = False"
| "f_less _ NaN = False"
| "f_less NInf y = (y \<noteq> NInf)"
| "f_less x NInf = False"
| "f_less x PInf = (x \<noteq> PInf)"
| "f_less PInf _ = False"

fun f_eq :: "pyfloat \<Rightarrow> pyfloat \<Rightarrow> bool" where
  "f_eq (Fin m e) (Fin n f) = (scaled m e (min e f) = scaled n f (min e f))"
| "f_eq PInf PInf = True"
| "f_eq NInf NInf = True"
| "f_eq _ _ = False"

definition f_le :: "pyfloat \<Rightarrow> pyfloat \<Rightarrow> bool" where
  "f_le x y \<longleftrightarrow> f_less x y \<or> f_eq x y"

text \<open>The rational a finite value denotes.\<close>

definition fin_val :: "int \<Rightarrow> int \<Rightarrow> rat" where
  "fin_val m e = of_int m * 2 powi e"

lemma scaled_val: "k \<le> e \<Longrightarrow> of_int (scaled m e k) = fin_val m e / 2 powi k"
proof -
  assume "k \<le> e"
  then have "(2::rat) powi e = 2 ^ nat (e - k) * 2 powi k"
    by (metis diff_add_cancel diff_ge_0_iff_ge int_nat_eq power_int_add power_int_of_nat zero_neq_numeral)
  then show ?thesis by (simp add: scaled_def fin_val_def)
qed

lemma f_less_Fin: "f_less (Fin m e) (Fin n f) \<longleftrightarrow> fin_val m e < fin_val n f"
proof -
  let ?k = "min e f"
  have "f_less (Fin m e) (Fin n f) \<longleftrightarrow> (of_int (scaled m e ?k) :: rat) < of_int (scaled n f ?k)"
    by simp
  also have "\<dots> \<longleftrightarrow> fin_val m e / 2 powi ?k < fin_val n f / 2 powi ?k"
    by (simp only: scaled_val [of ?k e m] scaled_val [of ?k f n] min.cobounded1 min.cobounded2)
  also have "\<dots> \<longleftrightarrow> fin_val m e < fin_val n f"
    by (simp add: divide_strict_right_mono pos_divide_less_eq)
  finally show ?thesis .
qed

lemma f_eq_Fin: "f_eq (Fin m e) (Fin n f) \<longleftrightarrow> fin_val m e = fin_val n f"
proof -
  let ?k = "min e f"
  have "f_eq (Fin m e) (Fin n f) \<longleftrightarrow> (of_int (scaled m e ?k) :: rat) = of_int (scaled n f ?k)"
    by simp
  also have "\<dots> \<longleftrightarrow> fin_val m e / 2 powi ?k = fin_val n f / 2 powi ?k"
    by (simp only: scaled_val [of ?k e m] scaled_val [of ?k f n] min.cobounded1 min.cobounded2)
  also have "\<dots> \<longleftrightarrow> fin_val m e = fin_val n f"
    by simp
  finally show ?thesis .
qed

lemmas f_Fin_iffs = f_less_Fin f_eq_Fin

lemma f_eq_refl_iff: "f_eq x x \<longleftrightarrow> x \<noteq> NaN"
  by (cases x) auto

lemma f_eq_sym: "f_eq x y \<longleftrightarrow> f_eq y x"
  by (cases x; cases y) (auto simp: f_eq_Fin simp del: f_eq.simps(1))

lemma f_trichotomy:
  assumes "x \<noteq> NaN" and "y \<noteq> NaN"
  shows "f_less x y \<or> f_eq x y \<or> f_less y x"
  using assms
  by (cases x; cases y) (auto simp: f_Fin_iffs simp del: f_eq.simps(1) f_less.simps(1))

lemma f_less_not_le: "f_less x y \<Longrightarrow> \<not> f_le y x"
  by (cases x; cases y) (auto simp: f_le_def f_Fin_iffs simp del: f_eq.simps(1) f_less.simps(1))

section \<open>Rounding to binary64\<close>

function bitlen :: "int \<Rightarrow> int" where
  "bitlen n = (if n \<le> 0 then 0 else 1 + bitlen (n div 2))"
  by pat_completeness auto
termination
  by (relation "measure nat") auto

declare bitlen.simps [simp del]

definition half_even :: "int \<Rightarrow> int \<Rightarrow> int" where
  "half_even a b =
     (let q = a div b; r = a mod b in
      if 2 * r < b then q else if 2 * r > b then q + 1 else if even q then q else q + 1)"

text \<open>\<open>n / (d * 2^e)\<close> as a quotient of non-negative integers.\<close>

definition scale_num :: "int \<Rightarrow> int \<Rightarrow> int" where
  "scale_num n e = (if e < 0 then n * 2 ^ nat (- e) else n)"

definition scale_den :: "int \<Rightarrow> int \<Rightarrow> int" where
  "scale_den d e = (if e < 0 then d else d * 2 ^ nat e)"

definition round_exp :: "int \<Rightarrow> int \<Rightarrow> int" where
  "round_exp n d =
     (let e0 = bitlen n - bitlen d - 53;
          e1 = (if scale_num n e0 < 2 ^ 53 * scale_den d e0 then e0 else e0 + 1)
      in max e1 (- 1074))"

text \<open>The binary64 value nearest to \<open>n / d\<close>, ties to even; beyond the largest one, infinity.\<close>

definition round64 :: "int \<Rightarrow> int \<Rightarrow> pyfloat" where
  "round64 n d =
     (if n = 0 then Fin 0 0
      else let e = round_exp n d;
               q = half_even (scale_num n e) (scale_den d e)
           in if e + bitlen q > 1024 then PInf else Fin q e)"

fun f_neg :: "pyfloat \<Rightarrow> pyfloat" where
  "f_neg (Fin m e) = Fin (- m) e"
| "f_neg PInf = NInf"
| "f_neg NInf = PInf"
| "f_neg NaN = NaN"

definition round_signed :: "bool \<Rightarrow> int \<Rightarrow> int \<Rightarrow> pyfloat" where
  "round_signed neg n d = (if neg then f_neg (round64 n d) else round64 n d)"

lemma half_even_exact: "0 < (b::int) \<Longrightarrow> half_even (a * b) b = a"
  by (simp add: half_even_def)

lemma half_even_near:
  assumes "0 < b"
  shows "\<bar>2 * half_even a b * b - 2 * a\<bar> \<le> b"
proof -
  define q where "q = a div b"
  define r where "r = a mod b"
  have a: "a = q * b + r" by (simp add: q_def r_def)
  have r: "0 \<le> r" "r < b" using assms by (simp_all add: r_def)
  have "half_even a b = q \<and> 2 * r \<le> b \<or> half_even a b = q + 1 \<and> b \<le> 2 * r"
    by (auto simp: half_even_def Let_def q_def [symmetric] r_def [symmetric])
  with a r show ?thesis by (auto simp: algebra_simps)
qed

section \<open>Conversions and arithmetic the program uses\<close>

text \<open>An \<open>int\<close> operand of a float multiplication is converted first.\<close>

definition f_of_int :: "int \<Rightarrow> pyfloat" where
  "f_of_int n = round_signed (n < 0) \<bar>n\<bar> 1"

fun f_mult :: "pyfloat \<Rightarrow> pyfloat \<Rightarrow> pyfloat" where
  "f_mult (Fin m e) (Fin n f) =
     round_signed (m * n < 0) (scale_num \<bar>m * n\<bar> (- (e + f))) (scale_den 1 (- (e + f)))"
| "f_mult NaN _ = NaN"
| "f_mult _ NaN = NaN"
| "f_mult (Fin m e) y = (if m = 0 then NaN else if m > 0 then y else f_neg y)"
| "f_mult x (Fin n f) = (if n = 0 then NaN else if n > 0 then x else f_neg x)"
| "f_mult x y = (if x = y then PInf else NInf)"

text \<open>\<open>int(f)\<close>: truncation towards zero; infinities and NaN raise.\<close>

fun f_to_int :: "pyfloat \<Rightarrow> int result" where
  "f_to_int (Fin m e) =
     Inr (if 0 \<le> e then m * 2 ^ nat e else sgn m * (\<bar>m\<bar> div 2 ^ nat (- e)))"
| "f_to_int NaN = Inl (ValueError ''cannot convert float NaN to integer'')"
| "f_to_int _ = Inl (Exn ''OverflowError'' ''cannot convert float infinity to integer'')"

section \<open>\<open>float(s)\<close>\<close>

text \<open>The digits before and after the point and the exponent of a decimal literal.\<close>

definition span_digits :: "string \<Rightarrow> string \<times> string" where
  "span_digits s = (takeWhile is_digit s, dropWhile is_digit s)"

definition parse_exponent :: "string \<Rightarrow> int option" where
  "parse_exponent s =
     (case s of
        [] \<Rightarrow> Some 0
      | c # cs \<Rightarrow>
          if c = CHR ''e'' then
            (case cs of
               [] \<Rightarrow> None
             | d # ds \<Rightarrow>
                 (let neg = (d = CHR ''-'');
                      ds' = (if d = CHR ''-'' \<or> d = CHR ''+'' then ds else cs)
                  in if ds' \<noteq> [] \<and> list_all is_digit ds'
                     then Some (if neg then - digits_val 0 ds' else digits_val 0 ds')
                     else None))
          else None)"

definition decimal :: "bool \<Rightarrow> string \<Rightarrow> string \<Rightarrow> int \<Rightarrow> pyfloat" where
  "decimal neg ip fp ex =
     (let n = digits_val 0 (ip @ fp); e = ex - int (length fp)
      in if 0 \<le> e then round_signed neg (n * 10 ^ nat e) 1
         else round_signed neg n (10 ^ nat (- e)))"

definition parse_unsigned :: "bool \<Rightarrow> string \<Rightarrow> pyfloat option" where
  "parse_unsigned neg s =
     (if s = ''inf'' \<or> s = ''infinity'' then Some (if neg then NInf else PInf)
      else if s = ''nan'' then Some NaN
      else case span_digits s of (ip, rest) \<Rightarrow>
        (case (case rest of c # cs \<Rightarrow> (if c = CHR ''.'' then span_digits cs else ([], rest)) | [] \<Rightarrow> ([], []))
         of (fp, rest') \<Rightarrow>
           if ip = [] \<and> fp = [] then None
           else map_option (decimal neg ip fp) (parse_exponent rest')))"

text \<open>\<open>None\<close> stands for the \<open>ValueError\<close> that \<open>float(s)\<close> raises.\<close>

definition py_float :: "string \<Rightarrow> pyfloat option" where
  "py_float s =
     (let t = py_lower (strip s) in
      if \<not> underscores_ok False t then None
      else case drop_underscores t of
        [] \<Rightarrow> None
      | c # cs \<Rightarrow>
          if c = CHR ''-'' then parse_unsigned True cs
          else if c = CHR ''+'' then parse_unsigned False cs
          else parse_unsigned False (c # cs))"

end
