(* ===== verification/Models.thy ===== *)
theory Models
  imports PyFloat
begin

text \<open>
  The data of the program: the settings (\<open>config.py\<close>), the tables (\<open>models/*.py\<close>), the schemas
  that travel through the streams (\<open>jobs.py\<close>) and the resolved secrets
  (\<open>credentials/base.py\<close>). A table is a list of rows in primary-key order, a many-to-many table
  a list of pairs; an ORM relationship is the lookup through its foreign key or its secondary
  table. An aware \<open>datetime\<close> is the number of microseconds since the epoch. The mixin's
  \<open>updated_at\<close> and the derived text index \<open>content_fts\<close> are left out: no code reads them back.
\<close>

type_synonym datetime = int

section \<open>Dynamic values\<close>

text \<open>
  What parsers return and JSON columns hold. A float is kept as its \<open>repr\<close>, which determines it.
\<close>

datatype pyval =
    PNone
  | PBool bool
  | PInt int
  | PFloat string
  | PStr string
  | PList "pyval list"
  | PDict "(string \<times> pyval) list"

type_synonym row = "(string \<times> pyval) list"

text \<open>\<open>bool(v)\<close>; a float is false exactly when it equals zero.\<close>

fun py_truth :: "pyval \<Rightarrow> bool" where
  "py_truth PNone = False"
| "py_truth (PBool b) = b"
| "py_truth (PInt n) = (n \<noteq> 0)"
| "py_truth (PFloat s) = (case py_float s of None \<Rightarrow> True | Some x \<Rightarrow> \<not> f_eq x (Fin 0 0))"
| "py_truth (PStr s) = (s \<noteq> [])"
| "py_truth (PList xs) = (xs \<noteq> [])"
| "py_truth (PDict d) = (d \<noteq> [])"

text \<open>\<open>repr(s)\<close> of a string: the quote that avoids escapes, then the escapes of the block.\<close>

definition hex_char :: "nat \<Rightarrow> char" where
  "hex_char n = (if n < 10 then char_of (48 + n) else char_of (87 + n))"

definition is_printable :: "char \<Rightarrow> bool" where
  "is_printable c \<longleftrightarrow> (32 \<le> cp c \<and> cp c \<le> 126) \<or> (161 \<le> cp c \<and> cp c \<noteq> 173)"

definition repr_char :: "char \<Rightarrow> char \<Rightarrow> string" where
  "repr_char q c =
     (if c = q \<or> cp c = 92 then [char_of (92::nat), c]
      else if cp c = 9 then [char_of (92::nat), CHR ''t'']
      else if cp c = 10 then [char_of (92::nat), CHR ''n'']
      else if cp c = 13 then [char_of (92::nat), CHR ''r'']
      else if is_printable c then [c]
      else [char_of (92::nat), CHR ''x'', hex_char (cp c div 16), hex_char (cp c mod 16)])"

definition repr_str :: "string \<Rightarrow> string" where
  "repr_str s =
     (let sq = char_of (39::nat); dq = char_of (34::nat);
          q = (if sq \<in> set s \<and> dq \<notin> set s then dq else sq)
      in [q] @ concat (map (repr_char q) s) @ [q])"

text \<open>\<open>repr(v)\<close> and \<open>str(v)\<close>.\<close>

fun py_repr :: "pyval \<Rightarrow> string" where
  "py_repr PNone = ''None''"
| "py_repr (PBool b) = (if b then ''True'' else ''False'')"
| "py_repr (PInt n) = show_int n"
| "py_repr (PFloat s) = s"
| "py_repr (PStr s) = repr_str s"
| "py_repr (PList xs) = ''['' @ join '', '' (map py_repr xs) @ '']''"
| "py_repr (PDict d) =
     ''{'' @ join '', '' (map (\<lambda>(k, v). repr_str k @ '': '' @ py_repr v) d) @ ''}''"

fun py_str :: "pyval \<Rightarrow> string" where
  "py_str (PStr s) = s"
| "py_str v = py_repr v"

text \<open>
  \<open>float(v)\<close> on a dynamic value: a string that is no number, a value of another type and an
  integer beyond the binary64 range raise.
\<close>

definition float_of_str :: "string \<Rightarrow> pyfloat result" where
  "float_of_str s =
     (case py_float s of
        Some x \<Rightarrow> Inr x
      | None \<Rightarrow> Inl (ValueError (''could not convert string to float: '' @ repr_str s)))"

fun val_float :: "pyval \<Rightarrow> pyfloat result" where
  "val_float (PStr s) = float_of_str s"
| "val_float (PFloat s) = float_of_str s"
| "val_float (PInt n) =
     (case f_of_int n of
        Fin m e \<Rightarrow> Inr (Fin m e)
      | _ \<Rightarrow> Inl (Exn ''OverflowError'' ''int too large to convert to float''))"
| "val_float (PBool b) = Inr (f_of_int (if b then 1 else 0))"
| "val_float _ = Inl (Exn ''TypeError'' ''float() argument must be a string or a real number'')"

section \<open>Enumerations\<close>

datatype job_kind = Backup | Collect | Cve_scan
datatype driver_kind = Dk_cli | Dk_netconf
datatype transport_protocol = Tp_ssh | Tp_telnet | Tp_netconf
datatype credential_provider = Prov_local | Prov_vault | Prov_bitwarden
datatype parser_type = Textfsm | Ttp | Xslt
datatype run_status = Pending | Running | Success | Failed | Timeout | Cancelled

fun job_kind_value :: "job_kind \<Rightarrow> string" where
  "job_kind_value Backup = ''backup''"
| "job_kind_value Collect = ''collect''"
| "job_kind_value Cve_scan = ''cve_scan''"

fun driver_kind_value :: "driver_kind \<Rightarrow> string" where
  "driver_kind_value Dk_cli = ''cli''"
| "driver_kind_value Dk_netconf = ''netconf''"

fun transport_value :: "transport_protocol \<Rightarrow> string" where
  "transport_value Tp_ssh = ''ssh''"
| "transport_value Tp_telnet = ''telnet''"
| "transport_value Tp_netconf = ''netconf''"

fun provider_value :: "credential_provider \<Rightarrow> string" where
  "provider_value Prov_local = ''local''"
| "provider_value Prov_vault = ''vault''"
| "provider_value Prov_bitwarden = ''bitwarden''"

fun parser_type_value :: "parser_type \<Rightarrow> string" where
  "parser_type_value Textfsm = ''textfsm''"
| "parser_type_value Ttp = ''ttp''"
| "parser_type_value Xslt = ''xslt''"

fun run_status_value :: "run_status \<Rightarrow> string" where
  "run_status_value Pending = ''pending''"
| "run_status_value Running = ''running''"
| "run_status_value Success = ''success''"
| "run_status_value Failed = ''failed''"
| "run_status_value Timeout = ''timeout''"
| "run_status_value Cancelled = ''cancelled''"

text \<open>\<open>Enum(value)\<close>: the member with this value, or a \<open>ValueError\<close>.\<close>

definition enum_of :: "string \<Rightarrow> ('e \<Rightarrow> string) \<Rightarrow> 'e list \<Rightarrow> string \<Rightarrow> 'e result" where
  "enum_of cls value members s =
     (case find (\<lambda>e. value e = s) members of
        Some e \<Rightarrow> Inr e
      | None \<Rightarrow> Inl (ValueError (repr_str s @ '' is not a valid '' @ cls)))"

definition job_kind_of :: "string \<Rightarrow> job_kind result" where
  "job_kind_of = enum_of ''JobKind'' job_kind_value [Backup, Collect, Cve_scan]"

definition driver_kind_of :: "string \<Rightarrow> driver_kind result" where
  "driver_kind_of = enum_of ''DriverKind'' driver_kind_value [Dk_cli, Dk_netconf]"

definition transport_of :: "string \<Rightarrow> transport_protocol result" where
  "transport_of = enum_of ''TransportProtocol'' transport_value [Tp_ssh, Tp_telnet, Tp_netconf]"

definition provider_of :: "string \<Rightarrow> credential_provider result" where
  "provider_of = enum_of ''CredentialProvider'' provider_value [Prov_local, Prov_vault, Prov_bitwarden]"

definition parser_type_of :: "string \<Rightarrow> parser_type result" where
  "parser_type_of = enum_of ''ParserType'' parser_type_value [Textfsm, Ttp, Xslt]"

lemmas enum_of_defs =
  job_kind_of_def driver_kind_of_def transport_of_def provider_of_def parser_type_of_def enum_of_def

lemma enum_of_Inr: "enum_of cls value members s = Inr e \<Longrightarrow> value e = s \<and> e \<in> set members"
  by (auto simp: enum_of_def find_Some_iff split: option.splits)

text \<open>Runs in these states still wait for a result.\<close>

definition open_status :: "run_status \<Rightarrow> bool" where
  "open_status s \<longleftrightarrow> s \<in> {Pending, Running}"

lemma open_status_simps [simp, status_simps]:
  "open_status Pending" "open_status Running" "\<not> open_status Success"
  "\<not> open_status Failed" "\<not> open_status Timeout" "\<not> open_status Cancelled"
  by (simp_all add: open_status_def)

text \<open>
  Floats are compared with the usual signs, as the code compares them; NaN makes the order partial
  and irreflexive on it, so no stronger class applies.
\<close>

instantiation pyfloat :: ord
begin

definition less_pyfloat :: "pyfloat \<Rightarrow> pyfloat \<Rightarrow> bool" where
  "less_pyfloat x y = f_less x y"

definition less_eq_pyfloat :: "pyfloat \<Rightarrow> pyfloat \<Rightarrow> bool" where
  "less_eq_pyfloat x y = f_le x y"

instance ..

end

text \<open>The states of a run in the order a run passes through them, the closed ones last.\<close>

fun status_rank :: "run_status \<Rightarrow> nat" where
  "status_rank Pending = 0"
| "status_rank Running = 1"
| "status_rank Success = 2"
| "status_rank Failed = 3"
| "status_rank Timeout = 4"
| "status_rank Cancelled = 5"

instantiation run_status :: linorder
begin

definition less_run_status :: "run_status \<Rightarrow> run_status \<Rightarrow> bool" where
  "less_run_status a b \<longleftrightarrow> status_rank a < status_rank b"

definition less_eq_run_status :: "run_status \<Rightarrow> run_status \<Rightarrow> bool" where
  "less_eq_run_status a b \<longleftrightarrow> status_rank a \<le> status_rank b"

instance
proof
  fix a b :: run_status
  assume "a \<le> b" and "b \<le> a"
  then show "a = b" by (cases a; cases b) (simp_all add: less_eq_run_status_def)
qed (auto simp: less_run_status_def less_eq_run_status_def)

end

lemma open_status_less: "open_status s \<longleftrightarrow> s < Success"
  by (cases s) (simp_all add: less_run_status_def)

end
