(* ===== verification/Schema.thy ===== *)
theory Schema
  imports Models
begin

text \<open>
  The settings, the rows of every table, the database as the session sees it, and the messages of
  the two streams. Field names carry a prefix for their table (\<open>dev_\<close> for \<open>Device\<close>, \<open>bat_\<close> for
  \<open>RunBatch\<close>, ...) because record fields share one name space.
\<close>

section \<open>Settings\<close>

record settings =
  set_job_stream :: string
  set_result_stream :: string
  set_job_consumer_group :: string
  set_result_consumer_group :: string
  set_worker_pool :: "string option"
  set_scheduler_tick_seconds :: int
  set_scheduler_advisory_lock_id :: int
  set_worker_concurrency :: int
  set_worker_connect_timeout :: int
  set_worker_command_timeout :: int
  set_recorder_batch_timeout :: int
  set_stream_max_len :: int
  set_stream_high_water_ratio :: pyfloat
  set_result_stream_max_len :: int
  set_auth_provider :: string
  set_root_path :: string
  set_base_url :: string
  set_oidc_admin_role :: string
  set_oidc_operator_role :: string
  set_oidc_role_claim :: string

definition default_settings :: settings where
  "default_settings = \<lparr>
     set_job_stream = ''kiroku:jobs'',
     set_result_stream = ''kiroku:results'',
     set_job_consumer_group = ''workers'',
     set_result_consumer_group = ''recorders'',
     set_worker_pool = None,
     set_scheduler_tick_seconds = 15,
     set_scheduler_advisory_lock_id = 1263096399,
     set_worker_concurrency = 8,
     set_worker_connect_timeout = 30,
     set_worker_command_timeout = 60,
     set_recorder_batch_timeout = 1800,
     set_stream_max_len = 10000,
     set_stream_high_water_ratio = decimal False ''0'' ''8'' 0,
     set_result_stream_max_len = 500,
     set_auth_provider = ''none'',
     set_root_path = [],
     set_base_url = ''http://localhost:8000'',
     set_oidc_admin_role = ''kiroku-admin'',
     set_oidc_operator_role = ''kiroku-operator'',
     set_oidc_role_claim = ''realm_access.roles''\<rparr>"

text \<open>\<open>Settings.effective_job_stream\<close>: the stream a worker reads from.\<close>

definition effective_job_stream :: "settings \<Rightarrow> string" where
  "effective_job_stream st =
     (if truthy (set_worker_pool st)
      then set_job_stream st @ '':'' @ the (set_worker_pool st)
      else set_job_stream st)"

section \<open>Inventory tables\<close>

record device =
  dev_id :: int
  dev_name :: string
  dev_hostname :: string
  dev_port :: "int option"
  dev_description :: "string option"
  dev_platform :: "string option"
  dev_custom_platform_id :: "int option"
  dev_transport :: "transport_protocol option"
  dev_driver_kind :: "driver_kind option"
  dev_connect_timeout :: "int option"
  dev_command_timeout :: "int option"
  dev_credential_id :: "int option"
  dev_make :: "string option"
  dev_model :: "string option"
  dev_role :: "string option"
  dev_enabled :: bool
  dev_worker_pool :: "string option"
  dev_latest_backup_path :: "string option"
  dev_latest_backup_at :: "datetime option"

record device_group =
  grp_id :: int
  grp_name :: string
  grp_description :: "string option"
  grp_default_credential_id :: "int option"
  grp_max_parallel :: int
  grp_worker_pool :: "string option"

record credential =
  cred_id :: int
  cred_name :: string
  cred_description :: "string option"
  cred_provider :: credential_provider
  cred_encrypted_payload :: "string option"
  cred_ref :: "string option"
  cred_username :: "string option"
  cred_is_default :: bool

record platform =
  plat_id :: int
  plat_name :: string
  plat_description :: "string option"
  plat_yaml_body :: string

record parser_template =
  pt_id :: int
  pt_name :: string
  pt_description :: "string option"
  pt_type :: parser_type
  pt_body :: string
  pt_jinja2_template :: "string option"
  pt_aggregate_template :: "string option"

record job =
  job_id :: int
  job_name :: string
  job_description :: "string option"
  job_kind :: job_kind
  job_commands :: "string option"
  job_rpc :: "string option"
  job_parser_template_id :: "int option"
  job_cve_vendor :: "string option"
  job_cve_product :: "string option"
  job_show_on_device :: bool

record schedule =
  sch_id :: int
  sch_name :: string
  sch_description :: "string option"
  sch_job_id :: "int option"
  sch_cron :: string
  sch_timezone :: string
  sch_enabled :: bool
  sch_skip_next_run :: bool
  sch_last_run_at :: "datetime option"
  sch_next_run_at :: "datetime option"

section \<open>Run tables\<close>

record run_batch =
  bat_id :: int
  bat_schedule_id :: "int option"
  bat_schedule_name :: string
  bat_kind :: string
  bat_total :: int
  bat_succeeded :: int
  bat_failed :: int
  bat_started_at :: "datetime option"
  bat_finished_at :: "datetime option"
  bat_commit_sha :: "string option"
  bat_created_at :: datetime

record run =
  run_id :: int
  run_schedule_id :: "int option"
  run_batch_id :: "int option"
  run_device_id :: int
  run_kind :: string
  run_status :: run_status
  run_started_at :: "datetime option"
  run_finished_at :: "datetime option"
  run_commit_sha :: "string option"
  run_payload_sha256 :: "string option"
  run_bytes_captured :: "int option"
  run_error :: "string option"
  run_parsed_data :: "pyval option"
  run_parse_error :: "string option"
  run_parser_template_id :: "int option"
  run_job_id :: "int option"
  run_created_at :: datetime

record device_config =
  cfg_device_id :: int
  cfg_batch_id :: "int option"
  cfg_captured_at :: "datetime option"
  cfg_content :: "string option"

record cve_scan =
  scan_id :: int
  scan_run_id :: "int option"
  scan_device_id :: int
  scan_cpe :: string
  scan_version_found :: "string option"
  scan_raw_version :: "string option"
  scan_scanned_at :: datetime

record cve_result =
  cver_scan_id :: int
  cver_cve_id :: pyval
  cver_cvss_v3_score :: pyval
  cver_severity :: pyval
  cver_summary :: pyval
  cver_published_at :: "datetime option"
  cver_url :: pyval

section \<open>Compliance tables\<close>

record compliance_check =
  chk_id :: int
  chk_name :: string
  chk_field :: string
  chk_operator :: string
  chk_expected :: "string option"
  chk_mode :: string
  chk_severity :: string
  chk_description :: "string option"
  chk_sort_order :: int

record check_outcome =
  out_check :: compliance_check
  out_status :: string
  out_failing_rows :: "row list"

text \<open>The \<open>detail\<close> column: the outcomes of the checks, or the text of a parse error.\<close>

datatype policy_detail = Outcomes "check_outcome list" | Parse_failed string

record compliance_policy =
  pol_id :: int
  pol_name :: string
  pol_description :: "string option"
  pol_parser_type :: string
  pol_parser_body :: string
  pol_enabled :: bool
  pol_auto_evaluate :: bool
  pol_checks :: "compliance_check list"

record compliance_result =
  cres_policy_id :: int
  cres_device_id :: int
  cres_evaluated_at :: datetime
  cres_status :: string
  cres_detail :: policy_detail

section \<open>The database\<close>

text \<open>The \<open>seq_\<close> fields are the primary-key sequences: the next id each table assigns.\<close>

record db =
  db_devices :: "device list"
  db_groups :: "device_group list"
  db_memberships :: "(int \<times> int) list"
  db_credentials :: "credential list"
  db_platforms :: "platform list"
  db_parser_templates :: "parser_template list"
  db_jobs :: "job list"
  db_job_device_groups :: "(int \<times> int) list"
  db_job_devices :: "(int \<times> int) list"
  db_schedules :: "schedule list"
  db_batches :: "run_batch list"
  db_runs :: "run list"
  db_configs :: "device_config list"
  db_cve_scans :: "cve_scan list"
  db_cve_results :: "cve_result list"
  db_policies :: "compliance_policy list"
  db_policy_groups :: "(int \<times> int) list"
  db_policy_devices :: "(int \<times> int) list"
  db_compliance_results :: "compliance_result list"
  seq_device :: int
  seq_group :: int
  seq_credential :: int
  seq_platform :: int
  seq_parser :: int
  seq_job :: int
  seq_schedule :: int
  seq_policy :: int
  seq_check :: int
  seq_batch :: int
  seq_run :: int
  seq_scan :: int

definition empty_db :: db where
  "empty_db = \<lparr>
     db_devices = [], db_groups = [], db_memberships = [], db_credentials = [],
     db_platforms = [], db_parser_templates = [], db_jobs = [],
     db_job_device_groups = [], db_job_devices = [], db_schedules = [],
     db_batches = [], db_runs = [], db_configs = [], db_cve_scans = [], db_cve_results = [],
     db_policies = [], db_policy_groups = [], db_policy_devices = [],
     db_compliance_results = [],
     seq_device = 1, seq_group = 1, seq_credential = 1, seq_platform = 1, seq_parser = 1,
     seq_job = 1, seq_schedule = 1, seq_policy = 1, seq_check = 1, seq_batch = 1, seq_run = 1, seq_scan = 1\<rparr>"

section \<open>Messages\<close>

record credential_material =
  mat_username :: string
  mat_password :: "string option"
  mat_enable_password :: "string option"
  mat_private_key :: "string option"
  mat_private_key_passphrase :: "string option"

record credential_ref =
  ref_provider :: string
  ref_credential_id :: int
  ref_ref :: "string option"

record job_spec =
  sp_run_id :: int
  sp_schedule_id :: "int option"
  sp_device_id :: int
  sp_device_name :: string
  sp_hostname :: string
  sp_port :: "int option"
  sp_kind :: string
  sp_job_id :: int
  sp_driver_kind :: string
  sp_platform :: "string option"
  sp_custom_platform_yaml :: "string option"
  sp_transport :: "string option"
  sp_commands :: "string list"
  sp_rpc :: "string option"
  sp_parser_template_id :: "int option"
  sp_parser_type :: "string option"
  sp_parser_body :: "string option"
  sp_cve_vendor :: "string option"
  sp_cve_product :: "string option"
  sp_connect_timeout :: "int option"
  sp_command_timeout :: "int option"
  sp_worker_pool :: "string option"
  sp_credential :: credential_ref
  sp_credential_material :: "credential_material option"

record command_result =
  cr_command :: string
  cr_output :: string
  cr_elapsed_ms :: int
  cr_failed :: bool

record job_result =
  jr_run_id :: int
  jr_device_id :: int
  jr_device_name :: string
  jr_kind :: string
  jr_success :: bool
  jr_error :: "string option"
  jr_started_at :: string
  jr_finished_at :: string
  jr_config_text :: "string option"
  jr_command_results :: "command_result list"
  jr_parsed :: "pyval option"
  jr_parse_error :: "string option"
  jr_parser_template_id :: "int option"
  jr_job_id :: "int option"
  jr_cve_entries :: "row list"
  jr_cpe :: "string option"

end
