(* ===== verification/Tables.thy ===== *)
theory Tables
  imports Schema
begin

text \<open>
  Rows by primary key, and the relationships of the schema as look-ups. The locale \<open>row_table\<close>
  states what a table's "get by id" and "update by id" promise; its lemmas are the ones every
  component that edits runs, batches or devices uses, and it is interpreted on those tables.
\<close>

section \<open>Keyed rows\<close>

definition get_row :: "('r \<Rightarrow> int) \<Rightarrow> int \<Rightarrow> 'r list \<Rightarrow> 'r option" where
  "get_row key k rs = find (\<lambda>r. key r = k) rs"

definition upd_row :: "('r \<Rightarrow> int) \<Rightarrow> int \<Rightarrow> ('r \<Rightarrow> 'r) \<Rightarrow> 'r list \<Rightarrow> 'r list" where
  "upd_row key k f rs = map (\<lambda>r. if key r = k then f r else r) rs"

definition count_rows :: "('r \<Rightarrow> bool) \<Rightarrow> 'r list \<Rightarrow> int" where
  "count_rows P rs = int (length (filter P rs))"

lemma count_rows_simps [simp, table_simps]:
  "count_rows P [] = 0"
  "count_rows P (r # rs) = (if P r then 1 else 0) + count_rows P rs"
  "count_rows P (rs @ ss) = count_rows P rs + count_rows P ss"
  by (simp_all add: count_rows_def)

lemma count_rows_nonneg [simp]: "0 \<le> count_rows P rs"
  by (simp add: count_rows_def)

lemma count_rows_eq_0_iff: "count_rows P rs = 0 \<longleftrightarrow> (\<forall>r \<in> set rs. \<not> P r)"
  by (auto simp: count_rows_def filter_empty_conv)

lemma count_rows_le_length: "count_rows P rs \<le> int (length rs)"
  by (simp add: count_rows_def)

lemma count_rows_cong: "(\<And>r. r \<in> set rs \<Longrightarrow> P r = Q r) \<Longrightarrow> count_rows P rs = count_rows Q rs"
  unfolding count_rows_def by (metis filter_cong)

lemma count_rows_map: "count_rows P (map f rs) = count_rows (P \<circ> f) rs"
  by (induction rs) auto

lemma count_rows_disj:
  "(\<And>r. r \<in> set rs \<Longrightarrow> \<not> (P r \<and> Q r)) \<Longrightarrow>
   count_rows (\<lambda>r. P r \<or> Q r) rs = count_rows P rs + count_rows Q rs"
  by (induction rs) auto

lemma count_rows_mono: "(\<And>r. r \<in> set rs \<Longrightarrow> P r \<Longrightarrow> Q r) \<Longrightarrow> count_rows P rs \<le> count_rows Q rs"
  by (induction rs) fastforce+

lemma get_row_Some: "get_row key k rs = Some r \<Longrightarrow> r \<in> set rs \<and> key r = k"
  by (auto simp: get_row_def find_Some_iff)

lemma get_row_None_iff: "get_row key k rs = None \<longleftrightarrow> k \<notin> key ` set rs"
  by (auto simp: get_row_def find_None_iff)

lemma get_row_distinct:
  "distinct (map key rs) \<Longrightarrow> r \<in> set rs \<Longrightarrow> get_row key (key r) rs = Some r"
proof (induction rs)
  case Nil
  then show ?case by simp
next
  case (Cons a rs)
  then show ?case by (auto simp: get_row_def image_iff)
qed

lemma get_row_upd_row:
  "(\<And>r. key (f r) = key r) \<Longrightarrow>
   get_row key j (upd_row key k f rs) = (if j = k then map_option f (get_row key k rs) else get_row key j rs)"
  by (induction rs) (auto simp: get_row_def upd_row_def)

lemma count_rows_upd_row:
  assumes "distinct (map key rs)" and "get_row key k rs = Some r"
  shows "count_rows P (upd_row key k f rs)
    = count_rows P rs - (if P r then 1 else 0) + (if P (f r) then 1 else 0)"
  using assms
proof (induction rs)
  case Nil
  then show ?case by (simp add: get_row_def)
next
  case (Cons a rs)
  show ?case
  proof (cases "key a = k")
    case True
    with Cons.prems have "a = r" and "upd_row key k f rs = rs"
      by (auto simp: get_row_def upd_row_def image_iff intro!: map_idI)
    with True show ?thesis by (simp add: upd_row_def)
  next
    case False
    with Cons have "count_rows P (upd_row key k f rs)
        = count_rows P rs - (if P r then 1 else 0) + (if P (f r) then 1 else 0)"
      by (simp add: get_row_def)
    with False show ?thesis by (simp add: upd_row_def)
  qed
qed

lemma get_row_map:
  "(\<And>r. key (f r) = key r) \<Longrightarrow> get_row key k (map f rs) = map_option f (get_row key k rs)"
  by (induction rs) (auto simp: get_row_def)

lemma filter_upd_row:
  "(\<And>r. key (f r) = key r) \<Longrightarrow>
   filter (\<lambda>r. key r \<noteq> k) (upd_row key k f rs) = filter (\<lambda>r. key r \<noteq> k) rs"
  by (induction rs) (auto simp: upd_row_def)

lemma upd_row_absent: "get_row key k rs = None \<Longrightarrow> upd_row key k f rs = rs"
  by (auto simp: get_row_None_iff upd_row_def image_iff intro!: map_idI)

section \<open>The table interface\<close>

locale row_table =
  fixes key :: "'r \<Rightarrow> int"
    and rows :: "'t \<Rightarrow> 'r list"
    and get :: "int \<Rightarrow> 't \<Rightarrow> 'r option"
    and upd :: "int \<Rightarrow> ('r \<Rightarrow> 'r) \<Rightarrow> 't \<Rightarrow> 't"
  assumes get_rows: "get k t = get_row key k (rows t)"
    and rows_upd: "rows (upd k f t) = upd_row key k f (rows t)"
begin

lemma get_Some: "get k t = Some r \<Longrightarrow> r \<in> set (rows t) \<and> key r = k"
  by (simp add: get_rows get_row_Some)

lemma get_upd:
  "(\<And>r. key (f r) = key r) \<Longrightarrow>
   get j (upd k f t) = (if j = k then map_option f (get k t) else get j t)"
  by (simp add: get_rows rows_upd get_row_upd_row)

lemma get_member: "distinct (map key (rows t)) \<Longrightarrow> r \<in> set (rows t) \<Longrightarrow> get (key r) t = Some r"
  by (simp add: get_rows get_row_distinct)

lemma keys_upd: "(\<And>r. key (f r) = key r) \<Longrightarrow> map key (rows (upd k f t)) = map key (rows t)"
  by (simp add: rows_upd upd_row_def)

lemma count_upd:
  "distinct (map key (rows t)) \<Longrightarrow> get k t = Some r \<Longrightarrow>
   count_rows P (rows (upd k f t))
     = count_rows P (rows t) - (if P r then 1 else 0) + (if P (f r) then 1 else 0)"
  by (simp add: get_rows rows_upd count_rows_upd_row)

lemma rows_upd_absent: "get k t = None \<Longrightarrow> rows (upd k f t) = rows t"
  by (simp add: get_rows rows_upd upd_row_absent)

lemma set_rows_upd:
  "set (rows (upd k f t)) = (\<lambda>r. if key r = k then f r else r) ` set (rows t)"
  by (simp add: rows_upd upd_row_def)

end

section \<open>The tables of the database\<close>

definition get_run :: "int \<Rightarrow> db \<Rightarrow> run option" where
  "get_run k d = get_row run_id k (db_runs d)"

definition upd_run :: "int \<Rightarrow> (run \<Rightarrow> run) \<Rightarrow> db \<Rightarrow> db" where
  "upd_run k f d = d\<lparr>db_runs := upd_row run_id k f (db_runs d)\<rparr>"

definition get_batch :: "int \<Rightarrow> db \<Rightarrow> run_batch option" where
  "get_batch k d = get_row bat_id k (db_batches d)"

definition upd_batch :: "int \<Rightarrow> (run_batch \<Rightarrow> run_batch) \<Rightarrow> db \<Rightarrow> db" where
  "upd_batch k f d = d\<lparr>db_batches := upd_row bat_id k f (db_batches d)\<rparr>"

definition get_device :: "int \<Rightarrow> db \<Rightarrow> device option" where
  "get_device k d = get_row dev_id k (db_devices d)"

definition upd_device :: "int \<Rightarrow> (device \<Rightarrow> device) \<Rightarrow> db \<Rightarrow> db" where
  "upd_device k f d = d\<lparr>db_devices := upd_row dev_id k f (db_devices d)\<rparr>"

definition get_schedule :: "int \<Rightarrow> db \<Rightarrow> schedule option" where
  "get_schedule k d = get_row sch_id k (db_schedules d)"

definition upd_schedule :: "int \<Rightarrow> (schedule \<Rightarrow> schedule) \<Rightarrow> db \<Rightarrow> db" where
  "upd_schedule k f d = d\<lparr>db_schedules := upd_row sch_id k f (db_schedules d)\<rparr>"

interpretation run_tab: row_table run_id db_runs get_run upd_run
  by unfold_locales (simp_all add: get_run_def upd_run_def)

interpretation batch_tab: row_table bat_id db_batches get_batch upd_batch
  by unfold_locales (simp_all add: get_batch_def upd_batch_def)

interpretation device_tab: row_table dev_id db_devices get_device upd_device
  by unfold_locales (simp_all add: get_device_def upd_device_def)

interpretation schedule_tab: row_table sch_id db_schedules get_schedule upd_schedule
  by unfold_locales (simp_all add: get_schedule_def upd_schedule_def)

text \<open>An edit of one table leaves the others alone.\<close>

lemma upd_run_frame [simp, table_simps]:
  "db_batches (upd_run k f d) = db_batches d"
  "db_devices (upd_run k f d) = db_devices d"
  "db_configs (upd_run k f d) = db_configs d"
  "get_batch b (upd_run k f d) = get_batch b d"
  "get_device b (upd_run k f d) = get_device b d"
  by (simp_all add: upd_run_def get_batch_def get_device_def)

lemma upd_batch_frame [simp, table_simps]:
  "db_runs (upd_batch k f d) = db_runs d"
  "db_devices (upd_batch k f d) = db_devices d"
  "db_configs (upd_batch k f d) = db_configs d"
  "get_run b (upd_batch k f d) = get_run b d"
  "get_device b (upd_batch k f d) = get_device b d"
  by (simp_all add: upd_batch_def get_run_def get_device_def)

lemma upd_device_frame [simp, table_simps]:
  "db_runs (upd_device k f d) = db_runs d"
  "db_batches (upd_device k f d) = db_batches d"
  "db_configs (upd_device k f d) = db_configs d"
  "get_run b (upd_device k f d) = get_run b d"
  "get_batch b (upd_device k f d) = get_batch b d"
  by (simp_all add: upd_device_def get_run_def get_batch_def)

section \<open>Relationships\<close>

definition get_credential :: "int \<Rightarrow> db \<Rightarrow> credential option" where
  "get_credential k d = get_row cred_id k (db_credentials d)"

definition get_group :: "int \<Rightarrow> db \<Rightarrow> device_group option" where
  "get_group k d = get_row grp_id k (db_groups d)"

definition get_platform :: "int \<Rightarrow> db \<Rightarrow> platform option" where
  "get_platform k d = get_row plat_id k (db_platforms d)"

definition get_parser :: "int \<Rightarrow> db \<Rightarrow> parser_template option" where
  "get_parser k d = get_row pt_id k (db_parser_templates d)"

definition get_job :: "int \<Rightarrow> db \<Rightarrow> job option" where
  "get_job k d = get_row job_id k (db_jobs d)"

definition get_policy :: "int \<Rightarrow> db \<Rightarrow> compliance_policy option" where
  "get_policy k d = get_row pol_id k (db_policies d)"

text \<open>A many-to-one relationship: the row behind a nullable foreign key.\<close>

definition follow :: "int option \<Rightarrow> (int \<Rightarrow> db \<Rightarrow> 'r option) \<Rightarrow> db \<Rightarrow> 'r option" where
  "follow fk get d = Option.bind fk (\<lambda>k. get k d)"

text \<open>A many-to-many relationship: the right-hand rows of the pairs of a secondary table.\<close>

fun linked :: "(int \<times> int) list \<Rightarrow> int \<Rightarrow> (int \<Rightarrow> db \<Rightarrow> 'r option) \<Rightarrow> db \<Rightarrow> 'r list" where
  "linked [] k g d = []"
| "linked ((a, b) # pairs) k g d =
     (if a = k
      then (case g b d of None \<Rightarrow> linked pairs k g d | Some r \<Rightarrow> r # linked pairs k g d)
      else linked pairs k g d)"

definition device_credential :: "db \<Rightarrow> device \<Rightarrow> credential option" where
  "device_credential d dev = follow (dev_credential_id dev) get_credential d"

definition device_custom_platform :: "db \<Rightarrow> device \<Rightarrow> platform option" where
  "device_custom_platform d dev = follow (dev_custom_platform_id dev) get_platform d"

definition device_groups :: "db \<Rightarrow> device \<Rightarrow> device_group list" where
  "device_groups d dev = linked (db_memberships d) (dev_id dev) get_group d"

definition group_devices :: "db \<Rightarrow> device_group \<Rightarrow> device list" where
  "group_devices d g =
     linked (map (\<lambda>(dv, gr). (gr, dv)) (db_memberships d)) (grp_id g) get_device d"

definition group_default_credential :: "db \<Rightarrow> device_group \<Rightarrow> credential option" where
  "group_default_credential d g = follow (grp_default_credential_id g) get_credential d"

definition job_parser_template :: "db \<Rightarrow> job \<Rightarrow> parser_template option" where
  "job_parser_template d j = follow (job_parser_template_id j) get_parser d"

definition job_groups :: "db \<Rightarrow> job \<Rightarrow> device_group list" where
  "job_groups d j = linked (db_job_device_groups d) (job_id j) get_group d"

definition job_devices :: "db \<Rightarrow> job \<Rightarrow> device list" where
  "job_devices d j = linked (db_job_devices d) (job_id j) get_device d"

definition policy_groups :: "db \<Rightarrow> compliance_policy \<Rightarrow> device_group list" where
  "policy_groups d p = linked (db_policy_groups d) (pol_id p) get_group d"

definition policy_devices :: "db \<Rightarrow> compliance_policy \<Rightarrow> device list" where
  "policy_devices d p = linked (db_policy_devices d) (pol_id p) get_device d"

definition schedule_job :: "db \<Rightarrow> schedule \<Rightarrow> job option" where
  "schedule_job d s = follow (sch_job_id s) get_job d"

definition batch_runs :: "db \<Rightarrow> int \<Rightarrow> run list" where
  "batch_runs d b = filter (\<lambda>r. run_batch_id r = Some b) (db_runs d)"

lemmas relationship_defs =
  follow_def device_credential_def device_custom_platform_def device_groups_def
  group_devices_def group_default_credential_def job_parser_template_def job_groups_def
  job_devices_def policy_groups_def policy_devices_def schedule_job_def
  get_credential_def get_group_def get_platform_def get_parser_def get_job_def

lemma set_linked: "r \<in> set (linked pairs k g d) \<longleftrightarrow> (\<exists>b. (k, b) \<in> set pairs \<and> g b d = Some r)"
  by (induction pairs k g d rule: linked.induct) (auto split: option.splits)

section \<open>References\<close>

text \<open>A reference of a row that is written: a key of the table it refers to, or none.\<close>

definition foreign_key_error :: py_exn where
  "foreign_key_error = Exn ''IntegrityError'' ''insert or update violates foreign key constraint''"

definition refers_to :: "int option \<Rightarrow> int list \<Rightarrow> unit result" where
  "refers_to k keys =
     (case k of None \<Rightarrow> Inr () | Some n \<Rightarrow> if n \<in> set keys then Inr () else Inl foreign_key_error)"

lemma refers_to_Inr: "refers_to k keys = Inr () \<longleftrightarrow> set_option k \<subseteq> set keys"
  by (cases k) (simp_all add: refers_to_def)

section \<open>Collecting what was not seen yet\<close>

text \<open>
  The loop shared by the dispatcher and the compliance scope: walk over candidates, skip those that
  are not eligible or whose key was seen, remember the key and append the rest.
\<close>

fun collect :: "('a \<Rightarrow> int) \<Rightarrow> ('a \<Rightarrow> bool) \<Rightarrow> 'a list \<Rightarrow> int set \<times> 'a list \<Rightarrow> int set \<times> 'a list" where
  "collect key ok [] st = st"
| "collect key ok (x # xs) (seen, acc) =
     collect key ok xs
       (if ok x \<and> key x \<notin> seen then (insert (key x) seen, acc @ [x]) else (seen, acc))"

definition collect_inv :: "('a \<Rightarrow> int) \<Rightarrow> ('a \<Rightarrow> bool) \<Rightarrow> 'a list \<Rightarrow> int set \<times> 'a list \<Rightarrow> bool" where
  "collect_inv key ok past st \<longleftrightarrow>
     fst st = key ` set (snd st) \<and> distinct (map key (snd st))
     \<and> key ` set (snd st) = key ` {x \<in> set past. ok x}
     \<and> (\<forall>x \<in> set (snd st). ok x \<and> find (\<lambda>y. ok y \<and> key y = key x) past = Some x)"

lemma collect_append: "collect key ok (xs @ ys) st = collect key ok ys (collect key ok xs st)"
  by (induction key ok xs st rule: collect.induct) auto

lemma find_append: "find P (xs @ ys) = (case find P xs of None \<Rightarrow> find P ys | Some x \<Rightarrow> Some x)"
  by (induction xs) auto

lemma collect_inv_step:
  assumes "collect_inv key ok past (seen, acc)"
  shows "collect_inv key ok (past @ [x])
    (if ok x \<and> key x \<notin> seen then (insert (key x) seen, acc @ [x]) else (seen, acc))"
proof (cases "ok x \<and> key x \<notin> seen")
  case True
  with assms have new: "key x \<notin> key ` {y \<in> set past. ok y}"
    by (simp add: collect_inv_def)
  then have "find (\<lambda>y. ok y \<and> key y = key x) past = None"
    by (auto simp: find_None_iff image_iff)
  with True assms show ?thesis
    by (auto simp: collect_inv_def find_append image_iff split: option.splits)
next
  case False
  with assms show ?thesis
    by (auto simp: collect_inv_def find_append image_iff split: option.splits)
qed

lemma collect_inv_collect:
  "collect_inv key ok past st \<Longrightarrow> collect_inv key ok (past @ xs) (collect key ok xs st)"
proof (induction xs arbitrary: past st)
  case Nil
  then show ?case by simp
next
  case (Cons x xs)
  obtain seen acc where st: "st = (seen, acc)" by (cases st)
  from Cons.prems have "collect_inv key ok (past @ [x])
      (if ok x \<and> key x \<notin> seen then (insert (key x) seen, acc @ [x]) else (seen, acc))"
    unfolding st by (rule collect_inv_step)
  from Cons.IH [OF this] show ?case by (simp add: st)
qed

lemma collect_inv_start: "collect_inv key ok xs (collect key ok xs ({}, []))"
  using collect_inv_collect [of key ok "[]" "({}, [])" xs] by (simp add: collect_inv_def)

text \<open>
  What the collector promises its callers: every eligible key once, the first eligible candidate of
  each key, nothing else.
\<close>

locale unique_collector =
  fixes key :: "'a \<Rightarrow> int" and ok :: "'a \<Rightarrow> bool" and gather :: "'a list \<Rightarrow> 'a list"
  assumes gather_distinct: "distinct (map key (gather xs))"
    and gather_keys: "key ` set (gather xs) = key ` {x \<in> set xs. ok x}"
    and gather_first: "x \<in> set (gather xs) \<Longrightarrow> ok x \<and> find (\<lambda>y. ok y \<and> key y = key x) xs = Some x"
begin

lemma gather_subset: "set (gather xs) \<subseteq> {x \<in> set xs. ok x}"
  using gather_first by (fastforce simp: find_Some_iff)

lemma gather_complete: "x \<in> set xs \<Longrightarrow> ok x \<Longrightarrow> \<exists>y \<in> set (gather xs). key y = key x"
  using gather_keys [of xs] by (metis (mono_tags, lifting) image_iff mem_Collect_eq)

lemma length_gather: "length (gather xs) = card (key ` {x \<in> set xs. ok x})"
  by (metis distinct_card gather_distinct gather_keys length_map list.set_map)

end

interpretation collector: unique_collector key ok "\<lambda>xs. snd (collect key ok xs ({}, []))"
  for key ok
proof
  fix xs x
  have inv: "collect_inv key ok xs (collect key ok xs ({}, []))" by (rule collect_inv_start)
  then show "distinct (map key (snd (collect key ok xs ({}, []))))"
    and "key ` set (snd (collect key ok xs ({}, []))) = key ` {x \<in> set xs. ok x}"
    by (simp_all add: collect_inv_def)
  from inv show "ok x \<and> find (\<lambda>y. ok y \<and> key y = key x) xs = Some x"
    if "x \<in> set (snd (collect key ok xs ({}, [])))"
    using that by (simp add: collect_inv_def)
qed

end
