(* ===== verification/Queue.thy ===== *)
theory Queue
  imports Tables
begin

text \<open>
  \<open>queue.py\<close>: the Redis Streams helpers. Redis is not part of the repository, so its commands are a
  parameter: a record of operations over an opaque server state \<open>'q\<close>. The same holds for pydantic's
  JSON encoding of the messages (\<open>codec\<close>).
\<close>

section \<open>The server and the message encoding\<close>

record group_info =
  gi_name :: string
  gi_entries_read :: "int option"
  gi_last_delivered_id :: string

type_synonym fields = "(string \<times> string) list"
type_synonym entry = "string \<times> fields"
type_synonym entries = "(string \<times> entry list) list"

record 'q broker =
  xadd :: "string \<Rightarrow> fields \<Rightarrow> int \<Rightarrow> ('q, string) eff"
  xlen :: "string \<Rightarrow> ('q, int) eff"
  xinfo_groups :: "string \<Rightarrow> ('q, group_info list) eff"
  xgroup_create :: "string \<Rightarrow> string \<Rightarrow> ('q, unit) eff"
  xreadgroup :: "string \<Rightarrow> string \<Rightarrow> string \<Rightarrow> int \<Rightarrow> int \<Rightarrow> ('q, entries) eff"
  xread :: "string \<Rightarrow> string \<Rightarrow> int \<Rightarrow> ('q, entries) eff"
  xack :: "string \<Rightarrow> string \<Rightarrow> string \<Rightarrow> ('q, unit) eff"
  xdel :: "string \<Rightarrow> string list \<Rightarrow> ('q, unit) eff"
  scan_iter :: "string \<Rightarrow> ('q, string list) eff"

text \<open>\<open>model_dump_json\<close> and \<open>model_validate_json\<close>; \<open>None\<close> is a validation error.\<close>

record codec =
  dump_spec :: "job_spec \<Rightarrow> string"
  load_spec :: "string \<Rightarrow> job_spec option"
  dump_result :: "job_result \<Rightarrow> string"
  load_result :: "string \<Rightarrow> job_result option"

definition is_response_error :: "py_exn \<Rightarrow> bool" where
  "is_response_error e \<longleftrightarrow> exn_class e = ''ResponseError''"

text \<open>\<open>except redis.ResponseError\<close>: another exception goes on.\<close>

definition on_response_error :: "('q, 'a) eff \<Rightarrow> (py_exn \<Rightarrow> ('q, 'a) eff) \<Rightarrow> ('q, 'a) eff" where
  "on_response_error m h = catch m (\<lambda>e. if is_response_error e then h e else raise e)"

section \<open>Groups, stream names, pressure\<close>

definition ensure_consumer_group :: "'q broker \<Rightarrow> string \<Rightarrow> string \<Rightarrow> ('q, unit) eff" where
  "ensure_consumer_group B stream grp =
     on_response_error (xgroup_create B stream grp)
       (\<lambda>e. if contains ''BUSYGROUP'' (exn_msg e) then ret () else raise e)"

definition job_stream_for :: "settings \<Rightarrow> string option \<Rightarrow> string" where
  "job_stream_for st pool =
     (if truthy pool then set_job_stream st @ '':'' @ the pool else set_job_stream st)"

definition spec_stream :: "settings \<Rightarrow> job_spec \<Rightarrow> string" where
  "spec_stream st spec = job_stream_for st (sp_worker_pool spec)"

text \<open>\<open>g.get("entries-read") or 0\<close> of the first group with the configured name.\<close>

fun entries_read_of :: "string \<Rightarrow> group_info list \<Rightarrow> int" where
  "entries_read_of name [] = 0"
| "entries_read_of name (g # gs) =
     (if gi_name g = name then or_int (gi_entries_read g) 0 else entries_read_of name gs)"

definition job_stream_pressure :: "'q broker \<Rightarrow> settings \<Rightarrow> string \<Rightarrow> ('q, int \<times> int) eff" where
  "job_stream_pressure B st stream =
     seq (on_response_error (seq (xlen B stream) (\<lambda>n. ret (Some n))) (\<lambda>_. ret None))
       (\<lambda>len. case len of
          None \<Rightarrow> ret (0, set_stream_max_len st)
        | Some n \<Rightarrow>
            seq (on_response_error
                   (seq (xinfo_groups B stream)
                      (\<lambda>gs. ret (entries_read_of (set_job_consumer_group st) gs)))
                   (\<lambda>_. ret 0))
              (\<lambda>entries_read. ret (max 0 (n - entries_read), set_stream_max_len st)))"

section \<open>Publishing, reading, acknowledging\<close>

definition publish_job :: "'q broker \<Rightarrow> codec \<Rightarrow> settings \<Rightarrow> job_spec \<Rightarrow> ('q, string) eff" where
  "publish_job B C st spec =
     xadd B (spec_stream st spec) [(''data'', dump_spec C spec)] (set_stream_max_len st)"

definition publish_result :: "'q broker \<Rightarrow> codec \<Rightarrow> settings \<Rightarrow> job_result \<Rightarrow> ('q, string) eff" where
  "publish_result B C st res =
     xadd B (set_result_stream st) [(''data'', dump_result C res)] (set_result_stream_max_len st)"

text \<open>
  \<open>_unpack\<close>: entries without data are skipped, entries that do not decode are logged and skipped.
\<close>

definition unpack_entry :: "(string \<Rightarrow> 'a option) \<Rightarrow> entry \<Rightarrow> (string \<times> 'a) list" where
  "unpack_entry load e =
     (case e of (msg_id, fs) \<Rightarrow>
        if \<not> truthy (map_of fs ''data'') then []
        else (case load (the (map_of fs ''data'')) of None \<Rightarrow> [] | Some v \<Rightarrow> [(msg_id, v)]))"

definition unpack :: "(string \<Rightarrow> 'a option) \<Rightarrow> entries \<Rightarrow> (string \<times> 'a) list" where
  "unpack load es = concat (map (\<lambda>(stream, msgs). concat (map (unpack_entry load) msgs)) es)"

definition read_jobs :: "'q broker \<Rightarrow> codec \<Rightarrow> settings \<Rightarrow> string \<Rightarrow> int \<Rightarrow> int
    \<Rightarrow> ('q, (string \<times> job_spec) list) eff" where
  "read_jobs B C st consumer count block =
     (let stream = effective_job_stream st in
      seq (ensure_consumer_group B stream (set_job_consumer_group st)) (\<lambda>_.
      seq (xreadgroup B (set_job_consumer_group st) consumer stream count block) (\<lambda>es.
      ret (unpack (load_spec C) es))))"

definition read_results :: "'q broker \<Rightarrow> codec \<Rightarrow> settings \<Rightarrow> string \<Rightarrow> int \<Rightarrow> int
    \<Rightarrow> ('q, (string \<times> job_result) list) eff" where
  "read_results B C st consumer count block =
     seq (ensure_consumer_group B (set_result_stream st) (set_result_consumer_group st)) (\<lambda>_.
     seq (xreadgroup B (set_result_consumer_group st) consumer (set_result_stream st) count block)
       (\<lambda>es. ret (unpack (load_result C) es)))"

definition ack_job :: "'q broker \<Rightarrow> settings \<Rightarrow> string \<Rightarrow> ('q, unit) eff" where
  "ack_job B st msg_id =
     (let stream = effective_job_stream st in
      seq (xack B stream (set_job_consumer_group st) msg_id) (\<lambda>_. xdel B stream [msg_id]))"

definition ack_result :: "'q broker \<Rightarrow> settings \<Rightarrow> string \<Rightarrow> ('q, unit) eff" where
  "ack_result B st msg_id =
     seq (xack B (set_result_stream st) (set_result_consumer_group st) msg_id)
       (\<lambda>_. xdel B (set_result_stream st) [msg_id])"

definition job_stream_names :: "'q broker \<Rightarrow> settings \<Rightarrow> ('q, string list) eff" where
  "job_stream_names B st =
     seq (scan_iter B (set_job_stream st @ ''*''))
       (\<lambda>names. ret (if names = [] then [set_job_stream st] else names))"

section \<open>Purging what no consumer has fetched\<close>

fun last_delivered_of :: "string \<Rightarrow> group_info list \<Rightarrow> string" where
  "last_delivered_of name [] = ''0-0''"
| "last_delivered_of name (g # gs) =
     (if gi_name g = name then gi_last_delivered_id g else last_delivered_of name gs)"

definition entry_ids :: "entries \<Rightarrow> string list" where
  "entry_ids raw = concat (map (\<lambda>(stream, es). map fst es) raw)"

definition purge_undelivered ::
    "'q broker \<Rightarrow> codec \<Rightarrow> string \<Rightarrow> string \<Rightarrow> ('q, (string \<times> int) list) eff" where
  "purge_undelivered B C stream grp =
     seq (on_response_error (seq (xinfo_groups B stream) (\<lambda>gs. ret (Some gs))) (\<lambda>_. ret None))
       (\<lambda>groups. case groups of
          None \<Rightarrow> ret []
        | Some gs \<Rightarrow>
            seq (on_response_error (xread B stream (last_delivered_of grp gs) 10000) (\<lambda>_. ret []))
              (\<lambda>raw.
                 let msg_ids = entry_ids raw;
                     results = map (\<lambda>(i, s). (i, sp_run_id s)) (unpack (load_spec C) raw)
                 in seq (if msg_ids = [] then ret () else xdel B stream msg_ids) (\<lambda>_. ret results)))"

section \<open>Lemmas\<close>

lemma on_response_error_ok [py_simps]:
  "m q = (Inr x, q') \<Longrightarrow> on_response_error m h q = (Inr x, q')"
  by (simp add: on_response_error_def catch_def)

lemma on_response_error_caught [py_simps]:
  "m q = (Inl e, q') \<Longrightarrow> is_response_error e \<Longrightarrow> on_response_error m h q = h e q'"
  by (simp add: on_response_error_def catch_def)

lemma on_response_error_other [py_simps]:
  "m q = (Inl e, q') \<Longrightarrow> \<not> is_response_error e \<Longrightarrow> on_response_error m h q = (Inl e, q')"
  by (simp add: on_response_error_def catch_def)

lemma unpack_Nil [simp]: "unpack load [] = []"
  by (simp add: unpack_def)

lemma unpack_one:
  assumes "load (dump v) = Some v" and "dump v \<noteq> []"
  shows "unpack load [(stream, [(i, [(''data'', dump v)])])] = [(i, v)]"
  using assms by (simp add: unpack_def unpack_entry_def)

lemma unpack_entry_ids: "x \<in> set (unpack_entry load e) \<Longrightarrow> fst x = fst e"
  by (cases e) (auto simp: unpack_entry_def split: if_splits option.splits)

lemma unpack_ids: "fst ` set (unpack load es) \<subseteq> set (entry_ids es)"
proof
  fix i
  assume "i \<in> fst ` set (unpack load es)"
  then obtain str msgs e x
    where "(str, msgs) \<in> set es" "e \<in> set msgs" "x \<in> set (unpack_entry load e)" "fst x = i"
    by (auto simp: unpack_def)
  then show "i \<in> set (entry_ids es)"
    by (auto simp: entry_ids_def dest!: unpack_entry_ids intro!: bexI [of _ "(str, msgs)"] imageI)
qed

lemma job_stream_pressure_reads:
  assumes "xlen B stream q = (Inr n, q)" and "xinfo_groups B stream q = (Inr gs, q)"
  shows "job_stream_pressure B st stream q
    = (Inr (max 0 (n - entries_read_of (set_job_consumer_group st) gs), set_stream_max_len st), q)"
  using assms by (simp add: job_stream_pressure_def seq_def on_response_error_ok)

lemma job_stream_for_or_none: "job_stream_for st (or_none p) = job_stream_for st p"
  by (cases p) (simp_all add: job_stream_for_def)

lemma job_stream_for_eq_iff:
  "job_stream_for st p = job_stream_for st p' \<longleftrightarrow> or_none p = or_none p'"
  by (cases p; cases p') (auto simp: job_stream_for_def)

lemma effective_job_stream_for: "effective_job_stream st = job_stream_for st (set_worker_pool st)"
  by (simp add: effective_job_stream_def job_stream_for_def)

end
