(* ===== verification/GitStore.thy ===== *)
theory GitStore
  imports Tables
begin

text \<open>
  \<open>recorder/git_store.py\<close>: the backup store, a working tree of text files and a git repository.
  The tree is a map from repository-relative paths to the text stored there. GitPython and the
  digest function are parameters; \<open>difflib.unified_diff\<close> too, the code's own work being the
  classification and numbering of its output. Disk failures are not modelled.
\<close>

section \<open>Paths\<close>

definition slug_ok :: "char \<Rightarrow> bool" where
  "slug_ok c \<longleftrightarrow> is_alnum c \<or> c \<in> set ''-_.''"

definition slugify :: "string \<Rightarrow> string" where
  "slugify value = map (\<lambda>c. if slug_ok c then c else CHR ''_'') value"

text \<open>
  \<open>str(Path(a) / b)\<close> for components without a slash: an empty or single-dot component vanishes.
\<close>

definition path_join :: "string \<Rightarrow> string \<Rightarrow> string" where
  "path_join a b = (if a = [] \<or> a = ''.'' then b else a @ ''/'' @ b)"

definition file_path :: "string \<Rightarrow> string \<Rightarrow> string" where
  "file_path grp dev = path_join (slugify grp) (slugify dev @ ''.cfg'')"

lemma slug_no_slash: "CHR ''/'' \<notin> set (slugify s)"
  by (auto simp: slugify_def slug_ok_def is_alnum_def is_alpha_def is_upper_def
      py_isdigit_char_def is_digit_def split: if_splits)

lemma slugify_idem [simp]: "slugify (slugify s) = slugify s"
  by (auto simp: slugify_def slug_ok_def)

lemma length_slugify [simp]: "length (slugify s) = length s"
  by (simp add: slugify_def)

lemma slugify_eq_Nil [simp]: "slugify s = [] \<longleftrightarrow> s = []"
  by (simp add: slugify_def)

section \<open>The store\<close>

record 'g git =
  git_add :: "string list \<Rightarrow> ('g, unit) eff"
  git_differs :: "('g, bool) eff"
  git_commit :: "string \<Rightarrow> ('g, string) eff"

record 'g store =
  st_files :: "string \<Rightarrow> string option"
  st_git :: 'g

text \<open>\<open>read_text\<close> translates every line ending to a line feed, \<open>write_text\<close> keeps the text.\<close>

definition universal_newlines :: "string \<Rightarrow> string" where
  "universal_newlines s = py_replace [CR] [LF] (py_replace [CR, LF] [LF] s)"

definition stage :: "(string \<Rightarrow> string) \<Rightarrow> string \<Rightarrow> string \<Rightarrow> string \<Rightarrow> 'g store
    \<Rightarrow> (bool \<times> string) \<times> 'g store" where
  "stage sha grp dev content s =
     (let digest = sha content;
          rel = file_path grp dev;
          unchanged = (case st_files s rel of
             None \<Rightarrow> False
           | Some existing \<Rightarrow> sha (universal_newlines existing) = digest)
      in if unchanged then ((False, digest), s)
         else ((True, digest), s\<lparr>st_files := (st_files s)(rel \<mapsto> content)\<rparr>))"

definition on_git :: "('g, 'a) eff \<Rightarrow> ('g store, 'a) eff" where
  "on_git m = (\<lambda>s. case m (st_git s) of (r, g') \<Rightarrow> (r, s\<lparr>st_git := g'\<rparr>))"

definition commit_batch :: "'g git \<Rightarrow> string list \<Rightarrow> string \<Rightarrow> ('g store, string option) eff" where
  "commit_batch G rel_paths message =
     (if rel_paths = [] then ret None
      else seq (on_git (git_add G rel_paths)) (\<lambda>_.
           seq (on_git (git_differs G)) (\<lambda>differs.
             if \<not> differs then ret None
             else seq (on_git (git_commit G message)) (\<lambda>sha. ret (Some sha)))))"

definition write_config :: "'g git \<Rightarrow> (string \<Rightarrow> string) \<Rightarrow> string \<Rightarrow> string \<Rightarrow> string \<Rightarrow> string
    \<Rightarrow> ('g store, string option \<times> string) eff" where
  "write_config G sha grp dev content author_note = (\<lambda>s.
     case stage sha grp dev content s of ((changed, digest), s') \<Rightarrow>
       if \<not> changed then (Inr (None, digest), s')
       else
         let msg = ''backup: '' @ grp @ ''/'' @ dev
               @ (if author_note = [] then [] else [LF, LF] @ author_note)
         in seq (on_git (git_add G [file_path grp dev])) (\<lambda>_.
            seq (on_git (git_commit G msg)) (\<lambda>c. ret (Some c, digest))) s')"

lemma on_git_files:
  "on_git m s = (r, s') \<Longrightarrow> st_files s' = st_files s"
  by (auto simp: on_git_def split: prod.splits)

lemma commit_batch_files: "commit_batch G ps msg s = (r, s') \<Longrightarrow> st_files s' = st_files s"
  by (auto simp: commit_batch_def seq_def split: if_splits prod.splits sum.splits dest!: on_git_files)

text \<open>
  What the recorder relies on: after staging, the file at the path reads back as the text whose
  digest was returned, and no other file is touched; committing touches no file.
\<close>

locale config_store =
  fixes path :: "string \<Rightarrow> string \<Rightarrow> string"
    and contents :: "'s \<Rightarrow> string \<Rightarrow> string option"
    and put :: "string \<Rightarrow> string \<Rightarrow> string \<Rightarrow> 's \<Rightarrow> (bool \<times> string) \<times> 's"
    and digest :: "string \<Rightarrow> string"
  assumes put_digest: "put g d c s = ((changed, h), s') \<Longrightarrow> h = digest c"
    and put_changed: "put g d c s = ((True, h), s') \<Longrightarrow> contents s' = (contents s)(path g d \<mapsto> c)
      \<and> (\<forall>old. contents s (path g d) = Some old \<longrightarrow> digest (universal_newlines old) \<noteq> h)"
    and put_unchanged: "put g d c s = ((False, h), s') \<Longrightarrow>
      s' = s \<and> (\<exists>old. contents s (path g d) = Some old \<and> digest (universal_newlines old) = h)"
begin

lemma put_other: "put g d c s = ((ch, h), s') \<Longrightarrow> p \<noteq> path g d \<Longrightarrow> contents s' p = contents s p"
  by (cases ch) (auto dest: put_changed put_unchanged)

lemma put_holds:
  assumes "put g d c s = ((ch, h), s')" and "universal_newlines c = c"
  shows "\<exists>t. contents s' (path g d) = Some t \<and> digest (universal_newlines t) = digest c"
proof (cases ch)
  case True
  with assms show ?thesis using put_changed by fastforce
next
  case False
  with assms(1) have "put g d c s = ((False, h), s')" by simp
  from put_unchanged [OF this] put_digest [OF this] show ?thesis by auto
qed

text \<open>Text without carriage returns that is stored once is not stored again.\<close>

lemma put_again:
  assumes "put g d c s = ((ch, h), s')" and "universal_newlines c = c"
  shows "put g d c s' = ((False, digest c), s')"
proof -
  obtain ch' h' s'' where again: "put g d c s' = ((ch', h'), s'')"
    by (metis prod.exhaust)
  have h': "h' = digest c" by (rule put_digest [OF again])
  obtain t where "contents s' (path g d) = Some t" "digest (universal_newlines t) = digest c"
    using put_holds [OF assms] by blast
  with again h' have "\<not> ch'"
    using put_changed by (cases ch') auto
  with again h' show ?thesis
    using put_unchanged [of g d c s' h' s''] by simp
qed

end

interpretation git_store: config_store file_path "st_files :: 'g store \<Rightarrow> _" "stage sha" sha for sha
  by unfold_locales (auto simp: stage_def Let_def split: if_splits option.splits)

lemma stage_changed_iff:
  "fst (fst (stage sha grp dev content s)) \<longleftrightarrow>
    (\<forall>old. st_files s (file_path grp dev) = Some old \<longrightarrow> sha (universal_newlines old) \<noteq> sha content)"
  by (simp add: stage_def Let_def split: option.splits)

lemma universal_newlines_id: "CR \<notin> set s \<Longrightarrow> universal_newlines s = s"
proof -
  assume cr: "CR \<notin> set s"
  then have "py_replace [CR, LF] [LF] s = s"
    by (induction s) (auto simp: startswith_def)
  with cr show ?thesis
    by (auto simp: universal_newlines_def py_replace_char intro!: map_idI)
qed

section \<open>Reading the history\<close>

text \<open>
  A commit as the code reads it; \<open>c_file\<close> is the decoded blob of a path, \<open>None\<close> where the tree
  lookup or the decoding raises.
\<close>

record commit =
  c_hexsha :: string
  c_message :: string
  c_date :: string
  c_file :: "string \<Rightarrow> string option"

record history_entry =
  he_sha :: string
  he_sha_full :: string
  he_message :: string
  he_date :: string

record history_match =
  hm_sha :: string
  hm_sha_full :: string
  hm_date :: string
  hm_message :: string
  hm_line_no :: nat
  hm_line :: string

text \<open>\<open>c.message.strip().split("\n")[0]\<close>.\<close>

definition subject :: "string \<Rightarrow> string" where
  "subject msg = hd (split_on LF (strip msg))"

definition history :: "commit list \<Rightarrow> history_entry list" where
  "history commits = map (\<lambda>c. \<lparr>he_sha = take 8 (c_hexsha c), he_sha_full = c_hexsha c,
     he_message = subject (c_message c), he_date = c_date c\<rparr>) commits"

definition history_matches :: "(string \<Rightarrow> bool) \<Rightarrow> string \<Rightarrow> commit \<Rightarrow> history_match list" where
  "history_matches match_fn rel c =
     (case c_file c rel of
        None \<Rightarrow> []
      | Some content \<Rightarrow>
          map (\<lambda>(n, line). \<lparr>hm_sha = take 8 (c_hexsha c), hm_sha_full = c_hexsha c,
                 hm_date = c_date c, hm_message = subject (c_message c),
                 hm_line_no = n, hm_line = line\<rparr>)
            (filter (\<lambda>(n, line). match_fn line)
               (zip [1..<Suc (length (splitlines content))] (splitlines content))))"

text \<open>
  \<open>re_compile\<close> is \<open>re.compile(query, re.IGNORECASE)\<close> followed by \<open>search\<close>; it raises on an
  invalid pattern.
\<close>

definition search_history :: "(string \<Rightarrow> (string \<Rightarrow> bool) result) \<Rightarrow> commit list \<Rightarrow> string
    \<Rightarrow> string \<Rightarrow> bool \<Rightarrow> history_match list result" where
  "search_history re_compile commits rel query use_regex =
     bind_result
       (if use_regex then re_compile query
        else Inr (\<lambda>line. contains (py_lower query) (py_lower line)))
       (\<lambda>match_fn. Inr (concat (map (history_matches match_fn rel) commits)))"

text \<open>\<open>read_at\<close>: any failure to find the commit or the blob is \<open>None\<close>.\<close>

definition read_at :: "(string \<Rightarrow> commit option) \<Rightarrow> string \<Rightarrow> string \<Rightarrow> string option" where
  "read_at find_commit rel sha =
     (case find_commit sha of None \<Rightarrow> None | Some c \<Rightarrow> c_file c rel)"

section \<open>Diff rows\<close>

datatype row_kind = Header | Removed | Added | Context

record diff_row =
  dr_type :: row_kind
  dr_old_no :: "int option"
  dr_new_no :: "int option"
  dr_text :: string

definition header_row :: "string \<Rightarrow> diff_row" where
  "header_row t = \<lparr>dr_type = Header, dr_old_no = None, dr_new_no = None, dr_text = t\<rparr>"

text \<open>\<open>abs(int(parts[i].split(",")[0]))\<close>; \<open>None\<close> when the field is missing or no number.\<close>

definition hunk_start :: "string list \<Rightarrow> nat \<Rightarrow> int option" where
  "hunk_start parts i =
     (if i < length parts then map_option abs (py_int (hd (split_on CHR '','' (parts ! i)))) else None)"

text \<open>The loop of \<open>diff_commits\<close> over the lines of the unified diff.\<close>

fun diff_rows :: "int \<Rightarrow> int \<Rightarrow> string list \<Rightarrow> diff_row list" where
  "diff_rows old_no new_no [] = []"
| "diff_rows old_no new_no (line # rest) =
     (let t = rstrip_char LF line in
      if startswith t ''@@'' then
        (let parts = split_on CHR '' '' t;
             old' = hunk_start parts 1;
             new' = (if old' = None then None else hunk_start parts 2)
         in header_row t
              # diff_rows (case old' of None \<Rightarrow> old_no | Some n \<Rightarrow> n)
                          (case new' of None \<Rightarrow> new_no | Some n \<Rightarrow> n) rest)
      else if startswith t ''---'' \<or> startswith t ''+++'' then
        header_row t # diff_rows old_no new_no rest
      else if startswith t ''-'' then
        \<lparr>dr_type = Removed, dr_old_no = Some old_no, dr_new_no = None, dr_text = tl t\<rparr>
          # diff_rows (old_no + 1) new_no rest
      else if startswith t ''+'' then
        \<lparr>dr_type = Added, dr_old_no = None, dr_new_no = Some new_no, dr_text = tl t\<rparr>
          # diff_rows old_no (new_no + 1) rest
      else
        \<lparr>dr_type = Context, dr_old_no = Some old_no, dr_new_no = Some new_no,
          dr_text = (if startswith t '' '' then tl t else t)\<rparr>
          # diff_rows (old_no + 1) (new_no + 1) rest)"

definition diff_commits :: "(string list \<Rightarrow> string list \<Rightarrow> string \<Rightarrow> string \<Rightarrow> string list)
    \<Rightarrow> (string \<Rightarrow> commit option) \<Rightarrow> string \<Rightarrow> string \<Rightarrow> string \<Rightarrow> diff_row list" where
  "diff_commits unified_diff find_commit rel sha_a sha_b =
     (let a = splitlines_keep (or_str (read_at find_commit rel sha_a) []);
          b = splitlines_keep (or_str (read_at find_commit rel sha_b) [])
      in diff_rows 0 0 (unified_diff a b (take 8 sha_a) (take 8 sha_b)))"

text \<open>The reference: the edit script of a hunk, and the numbers its lines should carry.\<close>

datatype edit = Keep string | Del string | Ins string

fun render_edit :: "edit \<Rightarrow> string" where
  "render_edit (Keep s) = CHR '' '' # s"
| "render_edit (Del s) = CHR ''-'' # s"
| "render_edit (Ins s) = CHR ''+'' # s"

fun numbered :: "int \<Rightarrow> int \<Rightarrow> edit list \<Rightarrow> diff_row list" where
  "numbered o1 n1 [] = []"
| "numbered o1 n1 (Keep s # es) =
     \<lparr>dr_type = Context, dr_old_no = Some o1, dr_new_no = Some n1, dr_text = s\<rparr> # numbered (o1 + 1) (n1 + 1) es"
| "numbered o1 n1 (Del s # es) =
     \<lparr>dr_type = Removed, dr_old_no = Some o1, dr_new_no = None, dr_text = s\<rparr> # numbered (o1 + 1) n1 es"
| "numbered o1 n1 (Ins s # es) =
     \<lparr>dr_type = Added, dr_old_no = None, dr_new_no = Some n1, dr_text = s\<rparr> # numbered o1 (n1 + 1) es"

text \<open>An edit the classification reads right: no removed line that itself begins with two dashes.\<close>

fun plain_edit :: "edit \<Rightarrow> bool" where
  "plain_edit (Keep s) \<longleftrightarrow> LF \<notin> set s"
| "plain_edit (Del s) \<longleftrightarrow> LF \<notin> set s \<and> \<not> startswith s ''--''"
| "plain_edit (Ins s) \<longleftrightarrow> LF \<notin> set s \<and> \<not> startswith s ''++''"

lemma rstrip_char_id: "c \<notin> set s \<Longrightarrow> rstrip_char c s = s"
proof -
  assume "c \<notin> set s"
  then have "dropWhile (\<lambda>d. d = c) (rev s) = rev s"
    unfolding dropWhile_eq_self_iff by (metis hd_in_set set_rev)
  then show ?thesis by (simp add: rstrip_char_def)
qed

lemma diff_rows_plain_edit:
  assumes "plain_edit e" and "rstrip_char LF line = render_edit e"
  shows "diff_rows o1 n1 (line # rest) =
    (case e of
       Keep s \<Rightarrow> \<lparr>dr_type = Context, dr_old_no = Some o1, dr_new_no = Some n1, dr_text = s\<rparr>
         # diff_rows (o1 + 1) (n1 + 1) rest
     | Del s \<Rightarrow> \<lparr>dr_type = Removed, dr_old_no = Some o1, dr_new_no = None, dr_text = s\<rparr>
         # diff_rows (o1 + 1) n1 rest
     | Ins s \<Rightarrow> \<lparr>dr_type = Added, dr_old_no = None, dr_new_no = Some n1, dr_text = s\<rparr>
         # diff_rows o1 (n1 + 1) rest)"
  using assms by (cases e) (simp_all add: startswith_def Let_def)

text \<open>A line as \<open>splitlines(keepends=True)\<close> leaves it: with its line feed, or the last one without.\<close>

fun terminated :: "edit \<times> bool \<Rightarrow> string" where
  "terminated (e, lf) = render_edit e @ (if lf then [LF] else [])"

lemma rstrip_terminated:
  assumes "plain_edit (fst x)"
  shows "rstrip_char LF (terminated x) = render_edit (fst x)"
proof -
  have "LF \<noteq> CHR '' ''" "LF \<noteq> CHR ''-''" "LF \<noteq> CHR ''+''" by (simp_all add: LF_def)
  with assms have "LF \<notin> set (render_edit (fst x))" by (cases "fst x") simp_all
  from rstrip_char_id [OF this] have "rstrip_char LF (render_edit (fst x) @ [LF]) = render_edit (fst x)"
    by (simp add: rstrip_char_def)
  with rstrip_char_id [OF \<open>LF \<notin> set (render_edit (fst x))\<close>] show ?thesis
    by (cases x) simp
qed

text \<open>
  A hunk of a unified diff: where it starts and how many lines it spans in either text, and its lines.
  \<open>difflib\<close> leaves out a span of one line.
\<close>

datatype hunk = Hunk nat nat nat nat "(edit \<times> bool) list"

definition show_span :: "nat \<Rightarrow> nat \<Rightarrow> string" where
  "show_span a n = show_nat a @ (if n = 1 then [] else CHR '','' # show_nat n)"

fun hunk_header :: "hunk \<Rightarrow> string" where
  "hunk_header (Hunk a m b n es) = ''@@ -'' @ show_span a m @ '' +'' @ show_span b n @ '' @@''"

fun hunk_edits :: "hunk \<Rightarrow> (edit \<times> bool) list" where
  "hunk_edits (Hunk a m b n es) = es"

definition render_hunk :: "hunk \<Rightarrow> string list" where
  "render_hunk h = hunk_header h # map terminated (hunk_edits h)"

fun numbered_hunk :: "hunk \<Rightarrow> diff_row list" where
  "numbered_hunk (Hunk a m b n es) =
     header_row (hunk_header (Hunk a m b n es)) # numbered (int a) (int b) (map fst es)"

definition plain_hunk :: "hunk \<Rightarrow> bool" where
  "plain_hunk h \<longleftrightarrow> list_all (\<lambda>x. plain_edit (fst x)) (hunk_edits h)"

lemma digits_no_char: "\<not> is_digit c \<Longrightarrow> c \<notin> set (show_nat n)"
  using show_nat_digits by blast

lemma show_span_no_space: "CHR '' '' \<notin> set (show_span a n)" and show_span_no_LF: "LF \<notin> set (show_span a n)"
  by (auto simp: show_span_def digits_no_char is_digit_def LF_def)

lemma span_start: "hd (split_on CHR '','' (c # show_span a n)) = c # show_nat a" if "c \<noteq> CHR '',''"
proof -
  have w: "CHR '','' \<notin> set (c # show_nat a)" using that by (simp add: digits_no_char is_digit_def)
  have "c # show_span a n = (c # show_nat a) @ (if n = 1 then [] else CHR '','' # show_nat n)"
    by (simp add: show_span_def)
  then show ?thesis
    using split_on_word [OF w, of "show_nat n"] split_on_last [OF w] by (simp only: append_Nil2 list.sel split: if_split) simp
qed

lemma hunk_header_parts:
  "split_on CHR '' '' (hunk_header (Hunk a m b n es))
   = [''@@'', CHR ''-'' # show_span a m, CHR ''+'' # show_span b n, ''@@'']"
proof -
  have "hunk_header (Hunk a m b n es) = ''@@'' @ CHR '' '' # (CHR ''-'' # show_span a m)
      @ CHR '' '' # (CHR ''+'' # show_span b n) @ CHR '' '' # ''@@''" by simp
  moreover have "CHR '' '' \<notin> set (CHR ''-'' # show_span a m)" "CHR '' '' \<notin> set (CHR ''+'' # show_span b n)"
    by (simp_all add: show_span_no_space)
  ultimately show ?thesis
    by (simp only: split_on_word) (simp add: split_on_word)
qed

lemma diff_rows_edits_append:
  "list_all (\<lambda>x. plain_edit (fst x)) es \<Longrightarrow>
   \<exists>o2 n2. diff_rows o1 n1 (map terminated es @ rest) = numbered o1 n1 (map fst es) @ diff_rows o2 n2 rest"
proof (induction es arbitrary: o1 n1)
  case Nil
  then show ?case by auto
next
  case (Cons x es)
  then have x: "plain_edit (fst x)" by simp
  note step = diff_rows_plain_edit [OF x rstrip_terminated [OF x]]
  have IH: "\<exists>o2 n2. diff_rows o1 n1 (map terminated es @ rest) = numbered o1 n1 (map fst es) @ diff_rows o2 n2 rest" for o1 n1
    using Cons by simp
  show ?case
    using IH by (cases "fst x") (simp_all add: step del: diff_rows.simps)
qed

lemma diff_rows_hunk_header:
  "diff_rows o1 n1 (hunk_header (Hunk a m b n es) # rest)
    = header_row (hunk_header (Hunk a m b n es)) # diff_rows (int a) (int b) rest"
proof -
  let ?h = "hunk_header (Hunk a m b n es)"
  have t: "rstrip_char LF ?h = ?h"
    by (rule rstrip_char_id) (use show_span_no_LF in \<open>auto simp: LF_def\<close>)
  have s: "startswith ?h ''@@''" by (simp add: startswith_def)
  have "hunk_start (split_on CHR '' '' ?h) 1 = Some (int a)" "hunk_start (split_on CHR '' '' ?h) 2 = Some (int b)"
    unfolding hunk_header_parts hunk_start_def
    by (simp_all add: span_start py_int_signed numeral_2_eq_2 del: split_on.simps)
  then show ?thesis
    by (simp only: diff_rows.simps Let_def t s if_True option.case option.distinct if_False)
qed

lemma diff_rows_hunks:
  "list_all plain_hunk hs \<Longrightarrow> diff_rows o1 n1 (concat (map render_hunk hs)) = concat (map numbered_hunk hs)"
proof (induction hs arbitrary: o1 n1)
  case Nil
  then show ?case by simp
next
  case (Cons h hs)
  obtain a m b n es where h: "h = Hunk a m b n es" by (cases h)
  from Cons.prems have plain: "list_all (\<lambda>x. plain_edit (fst x)) es" by (simp add: h plain_hunk_def)
  obtain o2 n2 where "diff_rows (int a) (int b) (map terminated es @ concat (map render_hunk hs))
      = numbered (int a) (int b) (map fst es) @ diff_rows o2 n2 (concat (map render_hunk hs))"
    using diff_rows_edits_append [OF plain] by blast
  moreover have "diff_rows o2 n2 (concat (map render_hunk hs)) = concat (map numbered_hunk hs)"
    by (rule Cons.IH) (use Cons.prems in simp)
  moreover have "concat (map render_hunk (h # hs))
      = hunk_header (Hunk a m b n es) # map terminated es @ concat (map render_hunk hs)"
    by (simp add: h render_hunk_def)
  ultimately show ?case
    by (simp only: diff_rows_hunk_header list.map concat.simps h numbered_hunk.simps append_Cons)
qed

end
