(* ===== verification/Parsers.thy ===== *)
theory Parsers
  imports Models
begin

text \<open>
  \<open>parsers.py\<close>: cleaning the device output and handing it to a parser engine. The engines (TextFSM,
  TTP, the \<open>parse\<close> library, lxml's XSLT) are parameters; the regular expression for the Juniper
  routing-engine indicator and everything around the engines is the code's own.
\<close>

section \<open>The indicator line\<close>

definition is_az :: "char \<Rightarrow> bool" where
  "is_az c \<longleftrightarrow> 97 \<le> cp c \<and> cp c \<le> 122"

text \<open>An optional \<open>:\<close> with digits, then the closing brace; what follows it.\<close>

definition after_name :: "string \<Rightarrow> string option" where
  "after_name s =
     (case s of
        [] \<Rightarrow> None
      | c # cs \<Rightarrow>
          if c = CHR ''}'' then Some cs
          else if c = CHR '':'' \<and> takeWhile is_digit cs \<noteq> [] then
            (case dropWhile is_digit cs of
               [] \<Rightarrow> None
             | d # ds \<Rightarrow> if d = CHR ''}'' then Some ds else None)
          else None)"

text \<open>
  White space up to a line end: greedy, so it takes every blank it can while a line feed or the
  end of the text still follows.
\<close>

definition to_line_end :: "string \<Rightarrow> string option" where
  "to_line_end s =
     (let ws = takeWhile is_space s; rest = dropWhile is_space s in
      if rest = [] then Some []
      else if LF \<in> set ws then Some (LF # rev (takeWhile (\<lambda>c. c \<noteq> LF) (rev ws)) @ rest)
      else None)"

text \<open>The text after a match of the indicator at the start of a line.\<close>

definition match_indicator :: "string \<Rightarrow> string option" where
  "match_indicator s =
     (case s of
        c # d # ds \<Rightarrow>
          if c = CHR ''{'' \<and> is_az d
          then Option.bind (after_name (dropWhile (\<lambda>x. is_az x \<or> is_digit x) ds)) to_line_end
          else None
      | _ \<Rightarrow> None)"

lemma after_name_suffix: "after_name s = Some r \<Longrightarrow> suffix r s"
proof (cases s)
  case (Cons c cs)
  assume r: "after_name s = Some r"
  show ?thesis
  proof (cases "c = CHR ''}''")
    case True
    with r Cons show ?thesis by (simp add: after_name_def suffix_ConsI)
  next
    case False
    with r Cons have "dropWhile is_digit cs = CHR ''}'' # r"
      by (auto simp: after_name_def split: list.splits if_splits)
    then have "suffix r (dropWhile is_digit cs)" by (simp add: suffix_ConsI)
    then show ?thesis
      using Cons suffix_dropWhile [of is_digit cs] by (meson suffix_ConsI suffix_order.trans)
  qed
qed (simp add: after_name_def)

lemmas length_after_name = suffix_length_le [OF after_name_suffix]
  and set_after_name = set_mono_suffix [OF after_name_suffix]

lemma to_line_end_suffix: "to_line_end s = Some r \<Longrightarrow> suffix r s"
proof -
  assume r: "to_line_end s = Some r"
  let ?ws = "takeWhile is_space s" and ?rest = "dropWhile is_space s"
  show "suffix r s"
  proof (cases "?rest = []")
    case True
    with r show ?thesis by (simp add: to_line_end_def)
  next
    case False
    with r have lf: "LF \<in> set ?ws"
      and r': "r = LF # rev (takeWhile (\<lambda>c. c \<noteq> LF) (rev ?ws)) @ ?rest"
      by (auto simp: to_line_end_def Let_def split: if_splits)
    from lf have "dropWhile (\<lambda>c. c \<noteq> LF) (rev ?ws) \<noteq> []"
      by (auto simp: dropWhile_eq_Nil_conv)
    then obtain u where u: "dropWhile (\<lambda>c. c \<noteq> LF) (rev ?ws) = LF # u"
      by (cases "dropWhile (\<lambda>c. c \<noteq> LF) (rev ?ws)") (auto simp: dropWhile_eq_Cons_conv)
    have "rev ?ws = takeWhile (\<lambda>c. c \<noteq> LF) (rev ?ws) @ LF # u"
      by (metis u takeWhile_dropWhile_id)
    then have "?ws = rev u @ LF # rev (takeWhile (\<lambda>c. c \<noteq> LF) (rev ?ws))"
      by (metis append.assoc append_Cons append_Nil rev.simps(2) rev_append rev_rev_ident)
    then have "s = rev u @ r"
      unfolding r' by (metis append.assoc append_Cons takeWhile_dropWhile_id)
    then show ?thesis by (auto simp: suffix_def)
  qed
qed

lemma match_indicator_shorter: "match_indicator s = Some r \<Longrightarrow> length r < length s"
proof -
  assume m: "match_indicator s = Some r"
  then obtain c d ds t where s: "s = c # d # ds"
    and t: "after_name (dropWhile (\<lambda>x. is_az x \<or> is_digit x) ds) = Some t"
    and r: "to_line_end t = Some r"
    by (auto simp: match_indicator_def bind_eq_Some_conv split: list.splits if_splits)
  have "length r \<le> length t" using to_line_end_suffix [OF r] by (rule suffix_length_le)
  also have "\<dots> \<le> length ds"
    using length_after_name [OF t] length_dropWhile_le le_trans by blast
  finally show ?thesis by (simp add: s)
qed

text \<open>\<open>_JUNIPER_RE_INDICATOR.sub("", payload)\<close>; the flag says whether a line starts here.\<close>

function clean_from :: "bool \<Rightarrow> string \<Rightarrow> string" where
  "clean_from bol [] = []"
| "clean_from bol (c # cs) =
     (case (if bol then match_indicator (c # cs) else None) of
        Some rest \<Rightarrow> clean_from False rest
      | None \<Rightarrow> c # clean_from (c = LF) cs)"
  by pat_completeness auto
termination
  by (relation "measure (length \<circ> snd)")
     (auto dest!: match_indicator_shorter split: if_splits)

definition clean :: "string \<Rightarrow> string" where
  "clean payload = clean_from True payload"

lemma clean_from_no_brace: "CHR ''{'' \<notin> set s \<Longrightarrow> clean_from bol s = s"
proof (induction s arbitrary: bol)
  case Nil
  then show ?case by simp
next
  case (Cons c cs)
  then have "match_indicator (c # cs) = None"
    by (auto simp: match_indicator_def split: list.splits)
  with Cons show ?case by simp
qed

lemma set_clean_from: "set (clean_from bol s) \<subseteq> set s"
proof (induction bol s rule: clean_from.induct)
  case (1 bol)
  then show ?case by simp
next
  case (2 bol c cs)
  show ?case
  proof (cases "if bol then match_indicator (c # cs) else None")
    case None
    with 2 show ?thesis by auto
  next
    case (Some rest)
    then have "match_indicator (c # cs) = Some rest" by (simp split: if_splits)
    then obtain t d ds where "cs = d # ds"
      and t: "after_name (dropWhile (\<lambda>x. is_az x \<or> is_digit x) ds) = Some t"
      and r: "to_line_end t = Some rest"
      by (auto simp: match_indicator_def bind_eq_Some_conv split: list.splits if_splits)
    have "set t \<subseteq> set (dropWhile (\<lambda>x. is_az x \<or> is_digit x) ds)"
      by (rule set_after_name [OF t])
    then have "set rest \<subseteq> set cs"
      using set_mono_suffix [OF to_line_end_suffix [OF r]] set_dropWhileD \<open>cs = d # ds\<close> by fastforce
    with Some 2 show ?thesis by auto
  qed
qed

section \<open>Engines and dispatch\<close>

record pmatch =
  m_named :: row
  m_fixed :: "pyval list"

record engines =
  textfsm_run :: "string \<Rightarrow> string \<Rightarrow> (string list \<times> pyval list list) result"
  ttp_run :: "string \<Rightarrow> string \<Rightarrow> pyval result"
  xslt_run :: "string \<Rightarrow> string \<Rightarrow> string result"
  parse_compile :: "string \<Rightarrow> ((string \<Rightarrow> pmatch option) \<times> (string \<Rightarrow> pmatch option)) result"

text \<open>\<open>dict(zip(header, r))\<close>.\<close>

definition zip_dict :: "string list \<Rightarrow> pyval list \<Rightarrow> row" where
  "zip_dict hdr r = fold (\<lambda>(k, v) d. dict_set k v d) (zip hdr r) []"

definition run_textfsm :: "engines \<Rightarrow> string \<Rightarrow> string \<Rightarrow> pyval result" where
  "run_textfsm E template payload =
     bind_result (textfsm_run E template payload)
       (\<lambda>(hdr, rs). Inr (PList (map (\<lambda>r. PDict (zip_dict hdr r)) rs)))"

fun flatten_ttp :: "pyval \<Rightarrow> pyval" where
  "flatten_ttp (PList [PList xs]) = PList xs"
| "flatten_ttp v = v"

definition run_ttp :: "engines \<Rightarrow> string \<Rightarrow> string \<Rightarrow> pyval result" where
  "run_ttp E template payload = bind_result (ttp_run E template payload) (\<lambda>raw. Inr (flatten_ttp raw))"

text \<open>\<open>{f"_{i}": v for i, v in enumerate(match.fixed)}\<close>.\<close>

definition fixed_row :: "pyval list \<Rightarrow> row" where
  "fixed_row vs = map (\<lambda>(i, v). (CHR ''_'' # show_nat i, v)) (zip [0..<length vs] vs)"

definition match_row :: "pmatch \<Rightarrow> row list" where
  "match_row m =
     (if m_named m \<noteq> [] then [m_named m]
      else if m_fixed m \<noteq> [] then [fixed_row (m_fixed m)]
      else [])"

definition parse_line :: "(string \<Rightarrow> pmatch option) \<Rightarrow> (string \<Rightarrow> pmatch option) \<Rightarrow> string \<Rightarrow> row list" where
  "parse_line full search line =
     (let l = rstrip line in
      if l = [] then []
      else case or_else (full l) (search l) of None \<Rightarrow> [] | Some m \<Rightarrow> match_row m)"

definition run_parse_lib :: "engines \<Rightarrow> string \<Rightarrow> string \<Rightarrow> pyval result" where
  "run_parse_lib E template payload =
     bind_result (parse_compile E (strip template))
       (\<lambda>(full, search). Inr (PList (map PDict (concat (map (parse_line full search) (splitlines payload))))))"

definition run_xslt :: "engines \<Rightarrow> string \<Rightarrow> string \<Rightarrow> pyval result" where
  "run_xslt E stylesheet payload =
     bind_result (xslt_run E stylesheet payload) (\<lambda>t. Inr (PDict [(''transformed'', PStr t)]))"

text \<open>\<open>parse\<close>: no type or no body is no result; an unknown type raises.\<close>

definition parse :: "engines \<Rightarrow> string option \<Rightarrow> string option \<Rightarrow> string \<Rightarrow> pyval option result" where
  "parse E parser_type body payload =
     (if \<not> truthy parser_type \<or> \<not> truthy body then Inr None
      else
        let ty = the parser_type; b = the body; p = clean payload in
        bind_result
          (if ty = ''textfsm'' then run_textfsm E b p
           else if ty = ''ttp'' then run_ttp E b p
           else if ty = ''xslt'' then run_xslt E b p
           else if ty = ''parse'' then run_parse_lib E b p
           else Inl (ValueError (''unknown parser type: '' @ repr_str ty)))
          (\<lambda>v. Inr (Some v)))"

end
