(* ===== verification/Compliance.thy ===== *)
theory Compliance
  imports Tables Parsers
begin

text \<open>
  \<open>compliance.py\<close>: evaluating the checks of a policy on the parsed rows of a stored configuration.
  \<open>re_search\<close> is \<open>re.search(pattern, text, re.IGNORECASE)\<close>, which raises on an invalid pattern;
  patterns are user data, so the matcher is a parameter.
\<close>

section \<open>Comparing one row\<close>

datatype coerced = Nums pyfloat pyfloat | Strs string string

definition coerce_pair :: "string \<Rightarrow> string \<Rightarrow> coerced" where
  "coerce_pair a b =
     (case (py_float a, py_float b) of (Some x, Some y) \<Rightarrow> Nums x y | _ \<Rightarrow> Strs a b)"

fun coerced_eq :: "coerced \<Rightarrow> bool" where
  "coerced_eq (Nums x y) = f_eq x y"
| "coerced_eq (Strs a b) = (a = b)"

definition field_present :: "row \<Rightarrow> string \<Rightarrow> bool" where
  "field_present r f =
     (case map_of r f of None \<Rightarrow> False | Some v \<Rightarrow> v \<noteq> PNone \<and> v \<noteq> PStr [])"

definition field_value :: "row \<Rightarrow> string \<Rightarrow> pyval" where
  "field_value r f = (case map_of r f of None \<Rightarrow> PStr [] | Some v \<Rightarrow> v)"

definition compare_op :: "string \<Rightarrow> pyfloat \<Rightarrow> pyfloat \<Rightarrow> bool" where
  "compare_op op a b =
     (if op = ''gt'' then b < a
      else if op = ''lt'' then a < b
      else if op = ''ge'' then b \<le> a
      else a \<le> b)"

text \<open>\<open>except (ValueError, TypeError)\<close>.\<close>

definition is_value_or_type_error :: "py_exn \<Rightarrow> bool" where
  "is_value_or_type_error e \<longleftrightarrow> exn_class e \<in> {''ValueError'', ''TypeError''}"

definition satisfies :: "(string \<Rightarrow> string \<Rightarrow> bool result) \<Rightarrow> row \<Rightarrow> compliance_check \<Rightarrow> bool result" where
  "satisfies re_search r c =
     (let op = chk_operator c; f = chk_field c; expected = or_str (chk_expected c) [];
          v = field_value r f
      in if op = ''exists'' then Inr (field_present r f)
      else if op = ''not_exists'' then Inr (\<not> field_present r f)
      else if op = ''eq'' then Inr (coerced_eq (coerce_pair (py_str v) expected))
      else if op = ''ne'' then Inr (\<not> coerced_eq (coerce_pair (py_str v) expected))
      else if op = ''contains'' then Inr (contains (py_lower expected) (py_lower (py_str v)))
      else if op = ''not_contains'' then Inr (\<not> contains (py_lower expected) (py_lower (py_str v)))
      else if op = ''regex'' then re_search expected (py_str v)
      else if op \<in> {''gt'', ''lt'', ''ge'', ''le''} then
        (case bind_result (val_float v) (\<lambda>a. bind_result (float_of_str expected) (\<lambda>b. Inr (a, b))) of
           Inl e \<Rightarrow> if is_value_or_type_error e then Inr False else Inl e
         | Inr (a, b) \<Rightarrow> Inr (compare_op op a b))
      else Inr False)"

section \<open>Checks and policies\<close>

definition outcome :: "compliance_check \<Rightarrow> bool \<Rightarrow> row list \<Rightarrow> check_outcome" where
  "outcome c passed failing = \<lparr>out_check = c,
     out_status = (if passed then ''pass'' else ''fail''),
     out_failing_rows = (if passed then [] else failing)\<rparr>"

definition select_rows :: "bool \<Rightarrow> row list \<Rightarrow> bool list \<Rightarrow> row list" where
  "select_rows b rs marks = map fst (filter (\<lambda>(r, m). m = b) (zip rs marks))"

definition evaluate_check :: "(string \<Rightarrow> string \<Rightarrow> bool result) \<Rightarrow> compliance_check \<Rightarrow> row list
    \<Rightarrow> check_outcome result" where
  "evaluate_check re_search c rs =
     (if rs = [] then Inr (outcome c (chk_mode c = ''none'') [])
      else bind_result (traverse (\<lambda>r. satisfies re_search r c) rs) (\<lambda>marks.
        let satisfying = select_rows True rs marks;
            failing = select_rows False rs marks;
            passed = (if chk_mode c = ''any'' then satisfying \<noteq> []
                      else if chk_mode c = ''all'' then failing = []
                      else satisfying = [])
        in Inr (outcome c passed failing)))"

definition parsed_rows :: "pyval option \<Rightarrow> row list" where
  "parsed_rows v =
     (case v of
        Some (PList xs) \<Rightarrow> concat (map (\<lambda>x. case x of PDict d \<Rightarrow> [d] | _ \<Rightarrow> []) xs)
      | Some (PDict d) \<Rightarrow> [d]
      | _ \<Rightarrow> [])"

definition overall_status :: "check_outcome list \<Rightarrow> string" where
  "overall_status outcomes =
     (let failed_critical =
            list_ex (\<lambda>x. out_status x = ''fail'' \<and> chk_severity (out_check x) = ''critical'') outcomes;
          failed_any =
            list_ex (\<lambda>x. out_status x = ''fail'' \<and> chk_severity (out_check x) \<noteq> ''info'') outcomes
      in if failed_critical \<or> failed_any then ''fail'' else ''pass'')"

text \<open>Only the parse is guarded: an exception of a check leaves the function.\<close>

definition evaluate_policy :: "engines \<Rightarrow> (string \<Rightarrow> string \<Rightarrow> bool result) \<Rightarrow> compliance_policy
    \<Rightarrow> string \<Rightarrow> (string \<times> policy_detail) result" where
  "evaluate_policy E re_search p content =
     (case parse E (Some (pol_parser_type p)) (Some (pol_parser_body p)) content of
        Inl e \<Rightarrow> Inr (''error'', Parse_failed (exn_msg e))
      | Inr parsed \<Rightarrow>
          bind_result (traverse (\<lambda>c. evaluate_check re_search c (parsed_rows parsed)) (pol_checks p))
            (\<lambda>outcomes. Inr (overall_status outcomes, Outcomes outcomes)))"

section \<open>Scope and results\<close>

text \<open>\<open>scoped_device_ids\<close>: the groups first, then the directly listed devices.\<close>

definition scoped_device_ids :: "db \<Rightarrow> compliance_policy \<Rightarrow> int list" where
  "scoped_device_ids d p =
     map dev_id (snd (collect dev_id (\<lambda>_. True) (policy_devices d p)
       (fold (\<lambda>g. collect dev_id (\<lambda>_. True) (group_devices d g)) (policy_groups d p) ({}, []))))"

fun run_policy_for_devices :: "engines \<Rightarrow> (string \<Rightarrow> string \<Rightarrow> bool result) \<Rightarrow> datetime
    \<Rightarrow> compliance_policy \<Rightarrow> (int \<times> string option) list \<Rightarrow> compliance_result list result" where
  "run_policy_for_devices E re_search now p [] = Inr []"
| "run_policy_for_devices E re_search now p ((devid, content) # rest) =
     bind_result
       (case content of
          None \<Rightarrow> Inr \<lparr>cres_policy_id = pol_id p, cres_device_id = devid, cres_evaluated_at = now,
                       cres_status = ''skip'', cres_detail = Outcomes []\<rparr>
        | Some text \<Rightarrow>
            bind_result (evaluate_policy E re_search p text) (\<lambda>(status, detail).
              Inr \<lparr>cres_policy_id = pol_id p, cres_device_id = devid, cres_evaluated_at = now,
                   cres_status = status, cres_detail = detail\<rparr>))
       (\<lambda>r. bind_result (run_policy_for_devices E re_search now p rest) (\<lambda>rs. Inr (r # rs)))"

text \<open>\<open>INSERT ... ON CONFLICT (policy_id, device_id) DO UPDATE\<close>, one row after the other.\<close>

fun upsert_result :: "compliance_result \<Rightarrow> compliance_result list \<Rightarrow> compliance_result list" where
  "upsert_result r [] = [r]"
| "upsert_result r (x # xs) =
     (if cres_policy_id x = cres_policy_id r \<and> cres_device_id x = cres_device_id r
      then x\<lparr>cres_evaluated_at := cres_evaluated_at r, cres_status := cres_status r,
             cres_detail := cres_detail r\<rparr> # xs
      else x # upsert_result r xs)"

definition upsert_compliance_results :: "compliance_result list \<Rightarrow> db \<Rightarrow> db" where
  "upsert_compliance_results rs d =
     d\<lparr>db_compliance_results := fold upsert_result rs (db_compliance_results d)\<rparr>"

text \<open>The content of the stored configurations of the given devices (\<open>content_map.get(did)\<close>).\<close>

definition config_content :: "db \<Rightarrow> int \<Rightarrow> string option" where
  "config_content d devid =
     Option.bind (find (\<lambda>c. cfg_device_id c = devid) (db_configs d)) cfg_content"

text \<open>\<open>_run_policy\<close> of the compliance pages: all scoped devices.\<close>

definition run_policy_now :: "engines \<Rightarrow> (string \<Rightarrow> string \<Rightarrow> bool result) \<Rightarrow> datetime
    \<Rightarrow> compliance_policy \<Rightarrow> db \<Rightarrow> db result" where
  "run_policy_now E re_search now p d =
     (let ids = scoped_device_ids d p in
      if ids = [] then Inr d
      else bind_result
        (run_policy_for_devices E re_search now p (map (\<lambda>i. (i, config_content d i)) ids))
        (\<lambda>rs. Inr (upsert_compliance_results rs d)))"

section \<open>Lemmas\<close>

definition res_key :: "compliance_result \<Rightarrow> int \<times> int" where
  "res_key r = (cres_policy_id r, cres_device_id r)"

lemma res_keys_upsert:
  "map res_key (upsert_result r rs)
    = (if res_key r \<in> res_key ` set rs then map res_key rs else map res_key rs @ [res_key r])"
  by (induction r rs rule: upsert_result.induct) (auto simp: res_key_def)

lemma distinct_upsert: "distinct (map res_key rs) \<Longrightarrow> distinct (map res_key (upsert_result r rs))"
  by (simp add: res_keys_upsert)

lemma distinct_fold_upsert:
  "distinct (map res_key rs) \<Longrightarrow> distinct (map res_key (fold upsert_result new rs))"
  by (induction new arbitrary: rs) (simp_all add: distinct_upsert)

definition result_of :: "int \<times> int \<Rightarrow> compliance_result list \<Rightarrow> compliance_result option" where
  "result_of k rs = find (\<lambda>x. res_key x = k) rs"

lemma result_of_upsert:
  "result_of k (upsert_result r rs) = (if k = res_key r then Some r else result_of k rs)"
proof (induction r rs rule: upsert_result.induct)
  case (1 r)
  then show ?case by (simp add: result_of_def)
next
  case (2 r x xs)
  then show ?case
    by (cases x; cases r) (auto simp: result_of_def res_key_def)
qed

lemma run_policy_for_devices_shape:
  "run_policy_for_devices E re_search now p pairs = Inr rs \<Longrightarrow>
   list_all2 (\<lambda>(devid, content) r.
      cres_policy_id r = pol_id p \<and> cres_device_id r = devid \<and> cres_evaluated_at r = now
      \<and> (case content of None \<Rightarrow> cres_status r = ''skip'' \<and> cres_detail r = Outcomes []
         | Some t \<Rightarrow> evaluate_policy E re_search p t = Inr (cres_status r, cres_detail r))) pairs rs"
proof (induction pairs arbitrary: rs)
  case Nil
  then show ?case by simp
next
  case (Cons x pairs)
  obtain devid content where x: "x = (devid, content)" by (cases x)
  from Cons.prems obtain r rs' where "rs = r # rs'"
    and "run_policy_for_devices E re_search now p pairs = Inr rs'"
    and r: "(case content of
          None \<Rightarrow> Inr \<lparr>cres_policy_id = pol_id p, cres_device_id = devid, cres_evaluated_at = now,
                       cres_status = ''skip'', cres_detail = Outcomes []\<rparr>
        | Some text \<Rightarrow>
            bind_result (evaluate_policy E re_search p text) (\<lambda>(status, detail).
              Inr \<lparr>cres_policy_id = pol_id p, cres_device_id = devid, cres_evaluated_at = now,
                   cres_status = status, cres_detail = detail\<rparr>)) = Inr r"
    unfolding x by (auto simp: bind_result_Inr_iff)
  then show ?case
    using Cons.IH x by (cases content) (auto simp: bind_result_Inr_iff)
qed

lemma select_rows_map:
  "select_rows b rs (map P rs) = filter (\<lambda>r. P r = b) rs"
  by (induction rs) (auto simp: select_rows_def)

lemma scoped_device_ids_collect:
  "scoped_device_ids d p = map dev_id (snd (collect dev_id (\<lambda>_. True)
     (concat (map (group_devices d) (policy_groups d p)) @ policy_devices d p) ({}, [])))"
proof -
  have "fold (\<lambda>g. collect dev_id (\<lambda>_. True) (group_devices d g)) gs st
      = collect dev_id (\<lambda>_. True) (concat (map (group_devices d) gs)) st" for gs st
    by (induction gs arbitrary: st) (simp_all add: collect_append)
  then show ?thesis by (simp add: scoped_device_ids_def collect_append)
qed

end
