(* ===== verification/Recorder.thy ===== *)
theory Recorder
  imports Queue GitStore Compliance
begin

text \<open>
  \<open>recorder/runner.py\<close>: consuming results. The state of the process is the database (through its
  sessions), the backup store and the in-memory map from batches to staged paths. A session that
  raises is rolled back; files already written and the staged map are not.
\<close>

section \<open>State and environment\<close>

record 'g rstate =
  rec_db :: db
  rec_store :: "'g store"
  rec_staged :: "(int \<times> string list) list"

text \<open>\<open>fromiso\<close> is \<open>datetime.fromisoformat\<close>, \<open>None\<close> its \<open>ValueError\<close>; \<open>now\<close> is the clock.\<close>

record 'g recorder_env =
  env_git :: "'g git"
  env_sha :: "string \<Rightarrow> string"
  env_engines :: engines
  env_re_search :: "string \<Rightarrow> string \<Rightarrow> bool result"
  env_fromiso :: "string \<Rightarrow> datetime option"
  env_now :: datetime

definition parse_iso :: "(string \<Rightarrow> datetime option) \<Rightarrow> string option \<Rightarrow> datetime option" where
  "parse_iso fromiso v = (if truthy v then fromiso (the v) else None)"

definition utf8_len :: "string \<Rightarrow> int" where
  "utf8_len s = sum_list (map (\<lambda>c. if cp c < 128 then 1 else 2) s)"

text \<open>\<open>session_scope()\<close>: commit on success, roll back and re-raise on an exception.\<close>

definition session_scope :: "('g rstate, 'a) eff \<Rightarrow> ('g rstate, 'a) eff" where
  "session_scope m = (\<lambda>s. case m s of
     (Inl e, s') \<Rightarrow> (Inl e, s'\<lparr>rec_db := rec_db s\<rparr>)
   | (Inr x, s') \<Rightarrow> (Inr x, s'))"

definition on_store :: "('g store, 'a) eff \<Rightarrow> ('g rstate, 'a) eff" where
  "on_store m = (\<lambda>s. case m (rec_store s) of (r, st') \<Rightarrow> (r, s\<lparr>rec_store := st'\<rparr>))"

definition modify_db :: "(db \<Rightarrow> db) \<Rightarrow> ('g rstate, unit) eff" where
  "modify_db f = (\<lambda>s. (Inr (), s\<lparr>rec_db := f (rec_db s)\<rparr>))"

definition modify_db_r :: "(db \<Rightarrow> db result) \<Rightarrow> ('g rstate, unit) eff" where
  "modify_db_r f = (\<lambda>s. case f (rec_db s) of
     Inl e \<Rightarrow> (Inl e, s) | Inr d \<Rightarrow> (Inr (), s\<lparr>rec_db := d\<rparr>))"

section \<open>CVE scans\<close>

definition version_rows :: "pyval option \<Rightarrow> pyval list" where
  "version_rows parsed =
     (case parsed of
        Some (PList xs) \<Rightarrow> xs
      | Some v \<Rightarrow> (if py_truth v then [v] else [])
      | None \<Rightarrow> [])"

fun found_version :: "pyval list \<Rightarrow> string option" where
  "found_version [] = None"
| "found_version (PDict d # rs) =
     (case map_of d ''version'' of
        Some v \<Rightarrow> (if py_truth v then Some (py_str v) else found_version rs)
      | None \<Rightarrow> found_version rs)"
| "found_version (_ # rs) = found_version rs"

definition entry_get :: "row \<Rightarrow> string \<Rightarrow> pyval" where
  "entry_get e k = (case map_of e k of None \<Rightarrow> PNone | Some v \<Rightarrow> v)"

definition published_at :: "(string \<Rightarrow> datetime option) \<Rightarrow> pyval \<Rightarrow> datetime option result" where
  "published_at fromiso v =
     (case v of
        PStr s \<Rightarrow> Inr (parse_iso fromiso (Some s))
      | _ \<Rightarrow> (if py_truth v then Inl (Exn ''TypeError'' ''fromisoformat: argument must be str'')
             else Inr None))"

definition cve_result_row :: "(string \<Rightarrow> datetime option) \<Rightarrow> int \<Rightarrow> row \<Rightarrow> cve_result result" where
  "cve_result_row fromiso sid e =
     bind_result (published_at fromiso (entry_get e ''published_at'')) (\<lambda>t. Inr \<lparr>
       cver_scan_id = sid,
       cver_cve_id = (case map_of e ''cve_id'' of None \<Rightarrow> PStr [] | Some v \<Rightarrow> v),
       cver_cvss_v3_score = entry_get e ''cvss_v3_score'',
       cver_severity = entry_get e ''severity'',
       cver_summary = entry_get e ''summary'',
       cver_published_at = t,
       cver_url = entry_get e ''url''\<rparr>)"

definition record_cve_scan :: "(string \<Rightarrow> datetime option) \<Rightarrow> datetime \<Rightarrow> job_result \<Rightarrow> db \<Rightarrow> db result" where
  "record_cve_scan fromiso now res d =
     (let version = found_version (version_rows (jr_parsed res));
          sid = seq_scan d;
          scan = \<lparr>scan_id = sid, scan_run_id = Some (jr_run_id res),
                  scan_device_id = jr_device_id res, scan_cpe = or_str (jr_cpe res) [],
                  scan_version_found = version, scan_raw_version = version,
                  scan_scanned_at =
                    (case parse_iso fromiso (Some (jr_finished_at res)) of None \<Rightarrow> now | Some t \<Rightarrow> t)\<rparr>
      in bind_result (refers_to (Some (jr_device_id res)) (map dev_id (db_devices d))) (\<lambda>_.
         bind_result (traverse (cve_result_row fromiso sid) (jr_cve_entries res)) (\<lambda>rows.
         Inr (upd_run (jr_run_id res)
                (\<lambda>r. r\<lparr>run_bytes_captured := Some (int (length (jr_cve_entries res)))\<rparr>)
              (d\<lparr>db_cve_scans := db_cve_scans d @ [scan],
                 db_cve_results := db_cve_results d @ rows,
                 seq_scan := sid + 1\<rparr>)))))"

section \<open>Backups and collections\<close>

text \<open>\<open>INSERT INTO device_configs ... ON CONFLICT (device_id) DO UPDATE\<close>.\<close>

fun upsert_config :: "device_config \<Rightarrow> device_config list \<Rightarrow> device_config list" where
  "upsert_config c [] = [c]"
| "upsert_config c (x # xs) =
     (if cfg_device_id x = cfg_device_id c then c # xs else x # upsert_config c xs)"

definition backup_group :: "db \<Rightarrow> int \<Rightarrow> string" where
  "backup_group d devid =
     (case get_device devid d of
        None \<Rightarrow> ''ungrouped''
      | Some dev \<Rightarrow> (case device_groups d dev of [] \<Rightarrow> ''ungrouped'' | g # _ \<Rightarrow> grp_name g))"

definition push_staged :: "int \<Rightarrow> string \<Rightarrow> (int \<times> string list) list \<Rightarrow> (int \<times> string list) list" where
  "push_staged b p m = dict_set b ((case map_of m b of None \<Rightarrow> [] | Some ps \<Rightarrow> ps) @ [p]) m"

definition staged_paths :: "int \<Rightarrow> (int \<times> string list) list \<Rightarrow> string list" where
  "staged_paths b m = (case map_of m b of None \<Rightarrow> [] | Some ps \<Rightarrow> ps)"

text \<open>Putting the file in the store: staged under the batch, or committed at once without one.\<close>

definition store_backup :: "'g recorder_env \<Rightarrow> job_result \<Rightarrow> int option \<Rightarrow> string \<Rightarrow> string
    \<Rightarrow> ('g rstate, string) eff" where
  "store_backup V res batch grp content =
     (case batch of
        Some b \<Rightarrow> (\<lambda>s.
          case stage (env_sha V) grp (jr_device_name res) content (rec_store s) of
            ((changed, digest), st') \<Rightarrow>
              (Inr digest,
               s\<lparr>rec_store := st',
                 rec_staged := (if changed
                   then push_staged b (file_path grp (jr_device_name res)) (rec_staged s)
                   else rec_staged s)\<rparr>))
      | None \<Rightarrow>
          seq (on_store (write_config (env_git V) (env_sha V) grp (jr_device_name res) content
                 (''run_id='' @ show_int (jr_run_id res))))
            (\<lambda>(sha, digest).
               seq (modify_db (upd_run (jr_run_id res) (\<lambda>r. r\<lparr>run_commit_sha := sha\<rparr>)))
                 (\<lambda>_. ret digest)))"

definition note_backup :: "(string \<Rightarrow> datetime option) \<Rightarrow> job_result \<Rightarrow> int option \<Rightarrow> string
    \<Rightarrow> string \<Rightarrow> string \<Rightarrow> db \<Rightarrow> db" where
  "note_backup fromiso res batch_id rel content digest d =
     (let captured_at = parse_iso fromiso (Some (jr_finished_at res));
          d1 = upd_run (jr_run_id res) (\<lambda>r. r\<lparr>run_payload_sha256 := Some digest,
                 run_bytes_captured := Some (utf8_len content)\<rparr>) d;
          d2 = upd_device (jr_device_id res) (\<lambda>dv. dv\<lparr>dev_latest_backup_path := Some rel,
                 dev_latest_backup_at := captured_at\<rparr>) d1
      in d2\<lparr>db_configs := upsert_config \<lparr>cfg_device_id = jr_device_id res,
              cfg_batch_id = batch_id, cfg_captured_at = captured_at,
              cfg_content = Some content\<rparr> (db_configs d2)\<rparr>)"

definition record_backup :: "'g recorder_env \<Rightarrow> job_result \<Rightarrow> int option \<Rightarrow> int option \<Rightarrow> string
    \<Rightarrow> ('g rstate, unit) eff" where
  "record_backup V res batch batch_id content = (\<lambda>s.
     let grp = backup_group (rec_db s) (jr_device_id res);
         rel = file_path grp (jr_device_name res)
     in seq (store_backup V res batch grp content) (\<lambda>digest.
          modify_db_r (\<lambda>d. bind_result (refers_to (Some (jr_device_id res)) (map dev_id (db_devices d)))
            (\<lambda>_. Inr (note_backup (env_fromiso V) res batch_id rel content digest d)))) s)"

definition note_collect :: "job_result \<Rightarrow> run \<Rightarrow> run" where
  "note_collect res r = r\<lparr>
     run_bytes_captured := Some (sum_list (map (utf8_len \<circ> cr_output) (jr_command_results res))),
     run_parsed_data := (case jr_parsed res of None \<Rightarrow> run_parsed_data r | Some v \<Rightarrow> Some v),
     run_parse_error := (if truthy (jr_parse_error res) then jr_parse_error res else run_parse_error r),
     run_parser_template_id :=
       (if or_int (jr_parser_template_id res) 0 \<noteq> 0 then jr_parser_template_id res
        else run_parser_template_id r),
     run_job_id := (if or_int (jr_job_id res) 0 \<noteq> 0 then jr_job_id res else run_job_id r)\<rparr>"

text \<open>The template and the job of the result become references of the run: they must still exist.\<close>

definition nonzero :: "int option \<Rightarrow> int option" where
  "nonzero k = (if or_int k 0 \<noteq> 0 then k else None)"

definition record_collect :: "job_result \<Rightarrow> db \<Rightarrow> db result" where
  "record_collect res d =
     bind_result (refers_to (nonzero (jr_parser_template_id res)) (map pt_id (db_parser_templates d))) (\<lambda>_.
     bind_result (refers_to (nonzero (jr_job_id res)) (map job_id (db_jobs d))) (\<lambda>_.
       Inr (upd_run (jr_run_id res) (note_collect res) d)))"

section \<open>Closing a batch\<close>

definition stamp_runs :: "int \<Rightarrow> (run \<Rightarrow> run) \<Rightarrow> db \<Rightarrow> db" where
  "stamp_runs b f d =
     d\<lparr>db_runs := map (\<lambda>r. if run_batch_id r = Some b then f r else r) (db_runs d)\<rparr>"

definition auto_policies :: "db \<Rightarrow> compliance_policy list" where
  "auto_policies d = filter (\<lambda>p. pol_auto_evaluate p \<and> pol_enabled p) (db_policies d)"

fun evaluate_policies :: "engines \<Rightarrow> (string \<Rightarrow> string \<Rightarrow> bool result) \<Rightarrow> datetime
    \<Rightarrow> int list \<Rightarrow> compliance_policy list \<Rightarrow> db \<Rightarrow> db result" where
  "evaluate_policies E re now devs [] d = Inr d"
| "evaluate_policies E re now devs (p # ps) d =
     (let affected = filter (\<lambda>i. i \<in> set devs) (scoped_device_ids d p) in
      if affected = [] then evaluate_policies E re now devs ps d
      else bind_result
        (run_policy_for_devices E re now p (map (\<lambda>i. (i, config_content d i)) affected))
        (\<lambda>rs. evaluate_policies E re now devs ps (upsert_compliance_results rs d)))"

definition auto_evaluate_compliance :: "'g recorder_env \<Rightarrow> int \<Rightarrow> db \<Rightarrow> db result" where
  "auto_evaluate_compliance V b d =
     (let devs = map run_device_id (batch_runs d b) in
      if devs = [] then Inr d
      else evaluate_policies (env_engines V) (env_re_search V) (env_now V) devs (auto_policies d) d)"

definition batch_message :: "run_batch \<Rightarrow> string list \<Rightarrow> string" where
  "batch_message b paths =
     ''backup batch: '' @ bat_schedule_name b @ [LF, LF]
     @ ''batch_id='' @ show_int (bat_id b) @ '', devices='' @ show_int (bat_total b) @ [LF]
     @ join [LF] paths"

text \<open>Committing what was staged for the batch and stamping the sha on the batch and its runs.\<close>

definition commit_staged :: "'g recorder_env \<Rightarrow> int \<Rightarrow> (string list \<Rightarrow> string) \<Rightarrow> (run \<Rightarrow> string \<Rightarrow> run)
    \<Rightarrow> ('g rstate, unit) eff" where
  "commit_staged V b message stamp = (\<lambda>s.
     let paths = staged_paths b (rec_staged s);
         s1 = s\<lparr>rec_staged := dict_del b (rec_staged s)\<rparr>
     in if paths = [] then (Inr (), s1)
        else seq (on_store (commit_batch (env_git V) paths (message paths))) (\<lambda>sha.
               case sha of
                 None \<Rightarrow> ret ()
               | Some c \<Rightarrow>
                   modify_db (\<lambda>d. stamp_runs b (\<lambda>r. stamp r c)
                     (upd_batch b (\<lambda>x. x\<lparr>bat_commit_sha := Some c\<rparr>) d))) s1)"

definition close_if_done :: "'g recorder_env \<Rightarrow> job_result \<Rightarrow> int \<Rightarrow> ('g rstate, unit) eff" where
  "close_if_done V res b = (\<lambda>s.
     case get_batch b (rec_db s) of
       None \<Rightarrow> (Inr (), s)
     | Some batch \<Rightarrow>
         if bat_finished_at batch = None \<and> bat_succeeded batch + bat_failed batch \<ge> bat_total batch
         then
           let t = (case parse_iso (env_fromiso V) (Some (jr_finished_at res)) of
                      None \<Rightarrow> env_now V | Some t \<Rightarrow> t)
           in seq (modify_db (upd_batch b (\<lambda>x. x\<lparr>bat_finished_at := Some t\<rparr>))) (\<lambda>_.
              seq (commit_staged V b (batch_message batch) (\<lambda>r c. r\<lparr>run_commit_sha := Some c\<rparr>)) (\<lambda>_.
                if bat_kind batch = ''backup''
                then modify_db_r (auto_evaluate_compliance V b)
                else ret ())) s
         else (Inr (), s))"

section \<open>Persisting one result\<close>

definition note_times :: "(string \<Rightarrow> datetime option) \<Rightarrow> job_result \<Rightarrow> run \<Rightarrow> run" where
  "note_times fromiso res r = r\<lparr>
     run_started_at := or_else (parse_iso fromiso (Some (jr_started_at res))) (run_started_at r),
     run_finished_at := or_else (parse_iso fromiso (Some (jr_finished_at res))) (run_finished_at r),
     run_error := jr_error res\<rparr>"

definition bump_batch :: "int option \<Rightarrow> (run_batch \<Rightarrow> run_batch) \<Rightarrow> db \<Rightarrow> db" where
  "bump_batch batch f d = (case batch of None \<Rightarrow> d | Some b \<Rightarrow> upd_batch b f d)"

text \<open>The counters: the run gets its final state, the batch counts it.\<close>

definition close_run :: "(string \<Rightarrow> datetime option) \<Rightarrow> job_result \<Rightarrow> int option \<Rightarrow> db \<Rightarrow> db" where
  "close_run fromiso res batch d =
     (if jr_success res
      then bump_batch batch (\<lambda>b. b\<lparr>bat_succeeded := bat_succeeded b + 1\<rparr>)
             (upd_run (jr_run_id res) (\<lambda>r. (note_times fromiso res r)\<lparr>run_status := Success\<rparr>) d)
      else bump_batch batch (\<lambda>b. b\<lparr>bat_failed := bat_failed b + 1\<rparr>)
             (upd_run (jr_run_id res) (\<lambda>r. (note_times fromiso res r)\<lparr>run_status := Failed\<rparr>) d))"

definition record_payload :: "'g recorder_env \<Rightarrow> job_result \<Rightarrow> int option \<Rightarrow> int option
    \<Rightarrow> ('g rstate, unit) eff" where
  "record_payload V res batch batch_id =
     (if \<not> jr_success res then ret ()
      else if jr_kind res = ''backup'' \<and> jr_config_text res \<noteq> None
      then record_backup V res batch batch_id (the (jr_config_text res))
      else if jr_kind res = ''collect''
      then modify_db_r (record_collect res)
      else if jr_kind res = ''cve_scan''
      then modify_db_r (record_cve_scan (env_fromiso V) (env_now V) res)
      else ret ())"

definition persist_body :: "'g recorder_env \<Rightarrow> job_result \<Rightarrow> ('g rstate, unit) eff" where
  "persist_body V res = (\<lambda>s.
     case get_run (jr_run_id res) (rec_db s) of
       None \<Rightarrow> (Inr (), s)
     | Some r \<Rightarrow>
         let batch = Option.bind (run_batch_id r) (\<lambda>b. map_option bat_id (get_batch b (rec_db s)))
         in if run_status r = Cancelled then (Inr (), s)
            else seq (modify_db (close_run (env_fromiso V) res batch)) (\<lambda>_.
                 seq (record_payload V res batch (run_batch_id r)) (\<lambda>_.
                   case batch of None \<Rightarrow> ret () | Some b \<Rightarrow> close_if_done V res b)) s)"

definition persist :: "'g recorder_env \<Rightarrow> job_result \<Rightarrow> ('g rstate, unit) eff" where
  "persist V res = session_scope (persist_body V res)"

section \<open>Reaping stale batches\<close>

definition reap_message :: "run_batch \<Rightarrow> int \<Rightarrow> string list \<Rightarrow> string" where
  "reap_message b age_s paths =
     ''backup batch (reaped): '' @ bat_schedule_name b @ [LF, LF]
     @ ''batch_id='' @ show_int (bat_id b) @ '', age_s='' @ show_int age_s @ [LF]
     @ join [LF] paths"

definition timeout_run :: "datetime \<Rightarrow> run \<Rightarrow> run" where
  "timeout_run now r = r\<lparr>run_status := Failed,
     run_error := Some ''batch timed out: result never received from worker'',
     run_finished_at := Some now\<rparr>"

definition open_run :: "int \<Rightarrow> run \<Rightarrow> bool" where
  "open_run b r \<longleftrightarrow> run_batch_id r = Some b \<and> open_status (run_status r)"

text \<open>
  The loop over the open runs of a batch: every one gets the new state and is counted as failed.
\<close>

definition close_open_runs :: "int \<Rightarrow> (run \<Rightarrow> run) \<Rightarrow> db \<Rightarrow> db" where
  "close_open_runs b f d =
     upd_batch b (\<lambda>x. x\<lparr>bat_failed := bat_failed x + count_rows (open_run b) (db_runs d)\<rparr>)
       (d\<lparr>db_runs := map (\<lambda>r. if open_run b r then f r else r) (db_runs d)\<rparr>)"

definition reap_batch :: "'g recorder_env \<Rightarrow> run_batch \<Rightarrow> ('g rstate, unit) eff" where
  "reap_batch V batch =
     (let b = bat_id batch;
          age_s = (env_now V - bat_created_at batch) div 1000000
      in seq (commit_staged V b (reap_message batch age_s)
                (\<lambda>r c. r\<lparr>run_commit_sha := or_else (run_commit_sha r) (Some c)\<rparr>)) (\<lambda>_.
           modify_db (\<lambda>d. close_open_runs b (timeout_run (env_now V))
             (upd_batch b (\<lambda>x. x\<lparr>bat_finished_at := Some (env_now V)\<rparr>) d))))"

definition stale :: "datetime \<Rightarrow> int \<Rightarrow> run_batch \<Rightarrow> bool" where
  "stale now timeout_s b \<longleftrightarrow>
     bat_finished_at b = None \<and> bat_created_at b < now - timeout_s * 1000000"

fun reap_all :: "'g recorder_env \<Rightarrow> run_batch list \<Rightarrow> ('g rstate, unit) eff" where
  "reap_all V [] = ret ()"
| "reap_all V (b # bs) = seq (reap_batch V b) (\<lambda>_. reap_all V bs)"

definition reap_stale_batches :: "'g recorder_env \<Rightarrow> int \<Rightarrow> ('g rstate, unit) eff" where
  "reap_stale_batches V timeout_s =
     session_scope (\<lambda>s. reap_all V (filter (stale (env_now V) timeout_s) (db_batches (rec_db s))) s)"

section \<open>The loop\<close>

text \<open>
  One pass of \<open>run_recorder\<close>: read, persist and acknowledge each result; an exception of either is
  logged and the next result is taken, the failed one unacknowledged. Then, when the interval has
  passed, the reaper.
\<close>

type_synonym ('g, 'q) rworld = "'g rstate \<times> 'q"

definition handle_result :: "'g recorder_env \<Rightarrow> 'q broker \<Rightarrow> settings \<Rightarrow> string \<times> job_result
    \<Rightarrow> ('g, 'q) rworld \<Rightarrow> ('g, 'q) rworld" where
  "handle_result V B st m = (\<lambda>(s, q).
     case m of (msg_id, res) \<Rightarrow>
       (case persist V res s of
          (Inl e, s') \<Rightarrow> (s', q)
        | (Inr _, s') \<Rightarrow> (s', snd (ack_result B st msg_id q))))"

definition recorder_pass :: "'g recorder_env \<Rightarrow> 'q broker \<Rightarrow> codec \<Rightarrow> settings \<Rightarrow> string \<Rightarrow> bool
    \<Rightarrow> ('g, 'q) rworld \<Rightarrow> ('g, 'q) rworld" where
  "recorder_pass V B C st consumer reap_due = (\<lambda>(s, q).
     case read_results B C st consumer 8 2000 q of
       (Inl e, q') \<Rightarrow> (s, q')
     | (Inr results, q') \<Rightarrow>
         (case fold (handle_result V B st) results (s, q') of (s1, q1) \<Rightarrow>
            if reap_due
            then (snd (reap_stale_batches V (set_recorder_batch_timeout st) s1), q1)
            else (s1, q1)))"

end
