(* ===== verification/Sql.thy ===== *)
theory Sql
  imports Tables "HOL-Library.Option_ord" "HOL-Library.List_Lexorder" "HOL-Library.Char_ord"
begin

text \<open>
  The few things the web handlers ask of SQL: \<open>ILIKE\<close> with its wildcards and its escape character,
  \<open>ORDER BY\<close> on a key (stable here; SQL leaves the order of ties open; strings compare by the codes of
  their characters, as under the C collation) and \<open>LIMIT\<close>/\<open>OFFSET\<close>.
\<close>

section \<open>LIKE\<close>

definition backslash :: char where "backslash = CHR 0x5C"

fun like :: "string \<Rightarrow> string \<Rightarrow> bool" where
  "like [] s = (s = [])"
| "like (p # ps) [] = (p = CHR ''%'' \<and> like ps [])"
| "like (p # ps) (c # cs) =
     (if p = CHR ''%'' then like ps (c # cs) \<or> like (p # ps) cs
      else if p = CHR ''_'' then like ps cs
      else if p = backslash then (case ps of [] \<Rightarrow> False | e # es \<Rightarrow> e = c \<and> like es cs)
      else p = c \<and> like ps cs)"

definition ilike :: "string \<Rightarrow> string \<Rightarrow> bool" where
  "ilike pat s = like (py_lower pat) (py_lower s)"

text \<open>\<open>f"%{q}%"\<close>.\<close>

definition wrapped :: "string \<Rightarrow> string" where
  "wrapped q = ''%'' @ q @ ''%''"

definition ilike_opt :: "string \<Rightarrow> string option \<Rightarrow> bool" where
  "ilike_opt pat s = (case s of None \<Rightarrow> False | Some t \<Rightarrow> ilike pat t)"

definition like_plain :: "char \<Rightarrow> bool" where
  "like_plain c \<longleftrightarrow> c \<noteq> CHR ''%'' \<and> c \<noteq> CHR ''_'' \<and> c \<noteq> backslash"

lemma like_percent_end: "like ''%'' s"
  by (induction s) auto

lemma like_plain_prefix:
  "list_all like_plain p \<Longrightarrow> like (p @ ''%'') s \<longleftrightarrow> startswith s p"
proof (induction p arbitrary: s)
  case Nil
  then show ?case by (simp add: like_percent_end startswith_def)
next
  case (Cons c p)
  then show ?case
    by (cases s) (auto simp: like_plain_def startswith_def)
qed

lemma like_percent_start: "like (CHR ''%'' # p) s \<longleftrightarrow> (\<exists>a b. s = a @ b \<and> like p b)"
proof (induction s)
  case Nil
  then show ?case by simp
next
  case (Cons c cs)
  show ?case
  proof
    assume "like (CHR ''%'' # p) (c # cs)"
    then consider "like p (c # cs)" | "like (CHR ''%'' # p) cs" by auto
    then show "\<exists>a b. c # cs = a @ b \<and> like p b"
    proof cases
      case 1
      then have "c # cs = [] @ (c # cs) \<and> like p (c # cs)" by simp
      then show ?thesis by blast
    next
      case 2
      with Cons obtain a b where "cs = a @ b" "like p b" by blast
      then have "c # cs = (c # a) @ b \<and> like p b" by simp
      then show ?thesis by blast
    qed
  next
    assume "\<exists>a b. c # cs = a @ b \<and> like p b"
    then obtain a b where ab: "c # cs = a @ b" "like p b" by blast
    show "like (CHR ''%'' # p) (c # cs)"
    proof (cases a)
      case Nil
      with ab have "like p (c # cs)" by simp
      then show ?thesis by simp
    next
      case (Cons d a')
      with ab have "\<exists>a b. cs = a @ b \<and> like p b" by auto
      with Cons.IH show ?thesis by simp
    qed
  qed
qed

text \<open>A wrapped pattern without wildcards is substring search.\<close>

lemma like_wrapped: "list_all like_plain q \<Longrightarrow> like (wrapped q) s \<longleftrightarrow> contains q s"
  by (auto simp: wrapped_def like_percent_start like_plain_prefix contains_iff startswith_iff)

section \<open>Ordering and paging\<close>

text \<open>
  \<open>ORDER BY ts DESC\<close> sorts by this key: a null comes first, as PostgreSQL puts it, and a later time
  before an earlier one.
\<close>

definition desc_key :: "datetime option \<Rightarrow> int option" where
  "desc_key t = map_option uminus t"

definition page_of :: "nat \<Rightarrow> nat \<Rightarrow> 'a list \<Rightarrow> 'a list" where
  "page_of offset limit xs = take limit (drop offset xs)"

lemma desc_key_le: "desc_key (Some a) \<le> desc_key (Some b) \<longleftrightarrow> b \<le> a"
  by (simp add: desc_key_def)

lemma desc_key_None: "desc_key None \<le> desc_key t"
  by (cases t) (simp_all add: desc_key_def)

text \<open>Consecutive pages cut the list into consecutive pieces.\<close>

lemma concat_pages:
  "concat (map (\<lambda>i. page_of (i * n) n xs) [0..<k]) = take (k * n) xs"
proof (induction k)
  case 0
  then show ?case by simp
next
  case (Suc k)
  have "take (n + k * n) xs = take (k * n) xs @ take n (drop (k * n) xs)"
    by (metis add.commute take_add)
  with Suc show ?case by (simp add: page_of_def)
qed

end
