(* ===== verification/Web.thy ===== *)
theory Web
  imports Sql
begin

text \<open>
  What the web handlers share: the decoded form, \<open>web/helpers.py\<close> and \<open>web/redir.py\<close>. A form is
  the dictionary the framework decodes from the request body; a field that is sent more than once
  holds a list of strings.
\<close>

section \<open>Forms\<close>

datatype formval = FStr string | FList "string list"

type_synonym form = "(string \<times> formval) list"

definition attribute_error :: "string \<Rightarrow> py_exn" where
  "attribute_error name =
     Exn ''AttributeError'' (repr_str ''list'' @ '' object has no attribute '' @ repr_str name)"

text \<open>\<open>data[k]\<close> used as a string: a \<open>KeyError\<close> when missing.\<close>

definition form_item :: "form \<Rightarrow> string \<Rightarrow> formval result" where
  "form_item data k = (case map_of data k of None \<Rightarrow> Inl (KeyError (repr_str k)) | Some v \<Rightarrow> Inr v)"

text \<open>\<open>data[k].strip()\<close>.\<close>

definition item_strip :: "form \<Rightarrow> string \<Rightarrow> string result" where
  "item_strip data k =
     bind_result (form_item data k) (\<lambda>v. case v of
       FStr s \<Rightarrow> Inr (strip s) | FList _ \<Rightarrow> Inl (attribute_error ''strip''))"

text \<open>\<open>data.get(k, "").strip()\<close>.\<close>

definition get_strip :: "form \<Rightarrow> string \<Rightarrow> string result" where
  "get_strip data k =
     (case map_of data k of
        None \<Rightarrow> Inr []
      | Some (FStr s) \<Rightarrow> Inr (strip s)
      | Some (FList _) \<Rightarrow> Inl (attribute_error ''strip''))"

text \<open>\<open>data.get(k, "").strip() or None\<close>.\<close>

definition get_strip_or_none :: "form \<Rightarrow> string \<Rightarrow> string option result" where
  "get_strip_or_none data k =
     bind_result (get_strip data k) (\<lambda>s. Inr (if s = [] then None else Some s))"

text \<open>The truth of \<open>data.get(k)\<close>, and \<open>data.get(k) == s\<close>.\<close>

definition form_truthy :: "form \<Rightarrow> string \<Rightarrow> bool" where
  "form_truthy data k =
     (case map_of data k of None \<Rightarrow> False | Some (FStr s) \<Rightarrow> s \<noteq> [] | Some (FList xs) \<Rightarrow> xs \<noteq> [])"

definition form_is :: "form \<Rightarrow> string \<Rightarrow> string \<Rightarrow> bool" where
  "form_is data k s \<longleftrightarrow> map_of data k = Some (FStr s)"

text \<open>\<open>int(data[k]) if data.get(k) else None\<close>.\<close>

definition form_int :: "formval \<Rightarrow> int result" where
  "form_int v = (case v of FStr s \<Rightarrow> to_int s
     | FList _ \<Rightarrow> Inl (Exn ''TypeError'' (''int() argument must be a string, a bytes-like object or a real number, not '' @ repr_str ''list'')))"

definition opt_int :: "form \<Rightarrow> string \<Rightarrow> int option result" where
  "opt_int data k =
     (if form_truthy data k
      then bind_result (form_int (the (map_of data k))) (\<lambda>n. Inr (Some n))
      else Inr None)"

text \<open>\<open>data.get(k) or None\<close> for a field stored as it is.\<close>

definition raw_or_none :: "form \<Rightarrow> string \<Rightarrow> string option result" where
  "raw_or_none data k =
     (if form_truthy data k
      then (case the (map_of data k) of
              FStr s \<Rightarrow> Inr (Some s)
            | FList _ \<Rightarrow> Inl (Exn ''ProgrammingError'' ''cannot adapt type list''))
      else Inr None)"

text \<open>\<open>data[k]\<close> stored as it is, and \<open>int(data.get(k) or dflt)\<close>.\<close>

definition raw_item :: "form \<Rightarrow> string \<Rightarrow> string result" where
  "raw_item data k =
     bind_result (form_item data k) (\<lambda>v. case v of
       FStr s \<Rightarrow> Inr s | FList _ \<Rightarrow> Inl (Exn ''ProgrammingError'' ''cannot adapt type list''))"

definition int_or :: "form \<Rightarrow> string \<Rightarrow> int \<Rightarrow> int result" where
  "int_or data k dflt = (if form_truthy data k then form_int (the (map_of data k)) else Inr dflt)"

text \<open>\<open>Enum(data[k]) if data.get(k) else None\<close>.\<close>

definition form_enum :: "(string \<Rightarrow> 'e result) \<Rightarrow> formval \<Rightarrow> 'e result" where
  "form_enum of_str v = (case v of FStr s \<Rightarrow> of_str s
     | FList xs \<Rightarrow> Inl (ValueError (py_repr (PList (map PStr xs)) @ '' is not a valid member'')))"

definition opt_form_enum :: "(string \<Rightarrow> 'e result) \<Rightarrow> form \<Rightarrow> string \<Rightarrow> 'e option result" where
  "opt_form_enum of_str data k =
     (if form_truthy data k
      then bind_result (form_enum of_str (the (map_of data k))) (\<lambda>e. Inr (Some e))
      else Inr None)"

text \<open>The commit of a row whose unique name is taken.\<close>

definition integrity_error :: py_exn where
  "integrity_error = Exn ''IntegrityError'' ''duplicate key value violates unique constraint''"

text \<open>
  A handler that edits the database: a redirect, or an exception that leaves the session without a
  commit, hence the database unchanged.
\<close>

type_synonym edit_result = "string result \<times> db"

definition committed :: "string \<Rightarrow> db \<Rightarrow> db result \<Rightarrow> edit_result" where
  "committed path d r = (case r of Inl e \<Rightarrow> (Inl e, d) | Inr d' \<Rightarrow> (Inr path, d'))"

definition unique_name :: "string list \<Rightarrow> string \<Rightarrow> unit result" where
  "unique_name taken name = (if name \<in> set taken then Inl integrity_error else Inr ())"

section \<open>Helpers\<close>

text \<open>\<open>parse_ids\<close>.\<close>

definition form_values :: "form \<Rightarrow> string \<Rightarrow> string list" where
  "form_values data k =
     (case map_of data k of None \<Rightarrow> [] | Some (FStr s) \<Rightarrow> [s] | Some (FList xs) \<Rightarrow> xs)"

definition parse_ids :: "form \<Rightarrow> string \<Rightarrow> int list result" where
  "parse_ids data k = traverse to_int (filter (\<lambda>s. s \<noteq> []) (form_values data k))"

fun somes :: "'a option list \<Rightarrow> 'a list" where
  "somes [] = []"
| "somes (None # xs) = somes xs"
| "somes (Some x # xs) = x # somes xs"

lemma set_somes: "x \<in> set (somes xs) \<longleftrightarrow> Some x \<in> set xs"
  by (induction xs rule: somes.induct) auto

definition worker_pools :: "db \<Rightarrow> string list" where
  "worker_pools d =
     sort (remdups (somes (map dev_worker_pool (db_devices d))
                    @ somes (map grp_worker_pool (db_groups d))))"

lemma worker_pools_sorted: "sorted (worker_pools d) \<and> distinct (worker_pools d)"
  by (simp add: worker_pools_def)

lemma worker_pools_member:
  "p \<in> set (worker_pools d) \<longleftrightarrow>
     (\<exists>v \<in> set (db_devices d). dev_worker_pool v = Some p)
     \<or> (\<exists>g \<in> set (db_groups d). grp_worker_pool g = Some p)"
  by (auto simp: worker_pools_def set_somes image_iff) (metis)+

text \<open>\<open>redir(path)\<close>: the location sent to the browser.\<close>

definition redir :: "settings \<Rightarrow> string \<Rightarrow> string" where
  "redir st path = rstrip_char (CHR ''/'') (set_root_path st) @ path"

end
