(* ===== verification/Runs.thy ===== *)
theory Runs
  imports Recorder Web
begin

text \<open>
  \<open>web/routes/runs.py\<close>: the list of batches and its filters, the page of a batch, the display of
  parsed data, and the two handlers that close runs from the web: cancelling a batch and purging
  the queue.
\<close>

section \<open>Closing runs from the web\<close>

definition cancel_run :: "datetime \<Rightarrow> run \<Rightarrow> run" where
  "cancel_run now r = r\<lparr>run_status := Cancelled, run_finished_at := Some now\<rparr>"

definition counted :: "run_batch \<Rightarrow> bool" where
  "counted b \<longleftrightarrow> bat_succeeded b + bat_failed b \<ge> bat_total b"

definition finish_if_counted :: "int \<Rightarrow> datetime \<Rightarrow> db \<Rightarrow> db" where
  "finish_if_counted b now d = upd_batch b
     (\<lambda>x. if bat_finished_at x = None \<and> counted x then x\<lparr>bat_finished_at := Some now\<rparr> else x) d"

definition cancel_batch :: "int \<Rightarrow> datetime \<Rightarrow> db \<Rightarrow> db" where
  "cancel_batch b now d =
     (case get_batch b d of
        None \<Rightarrow> d
      | Some x \<Rightarrow>
          if bat_finished_at x = None
          then finish_if_counted b now (close_open_runs b (cancel_run now) d)
          else d)"

text \<open>The handler: the redirect and the database it commits.\<close>

definition cancel_batch_handler :: "settings \<Rightarrow> int \<Rightarrow> datetime \<Rightarrow> db \<Rightarrow> string \<times> db" where
  "cancel_batch_handler st b now d =
     (redir st (''/runs/batches/'' @ show_int b), cancel_batch b now d)"

text \<open>\<open>batch_cancelled\<close>: how many of the purged runs belong to each batch.\<close>

fun count_cancelled :: "run list \<Rightarrow> (int \<times> int) list \<Rightarrow> (int \<times> int) list" where
  "count_cancelled [] counts = counts"
| "count_cancelled (r # rs) counts =
     count_cancelled rs
       (if or_int (run_batch_id r) 0 = 0 then counts
        else let b = the (run_batch_id r) in
             dict_set b ((case map_of counts b of None \<Rightarrow> 0 | Some n \<Rightarrow> n) + 1) counts)"

definition purged_open :: "int list \<Rightarrow> run \<Rightarrow> bool" where
  "purged_open ids r \<longleftrightarrow> run_id r \<in> set ids \<and> open_status (run_status r)"

definition count_purged :: "datetime \<Rightarrow> int \<times> int \<Rightarrow> db \<Rightarrow> db" where
  "count_purged now = (\<lambda>(b, n) d.
     finish_if_counted b now (upd_batch b (\<lambda>x. x\<lparr>bat_failed := bat_failed x + n\<rparr>) d))"

definition purge_runs :: "datetime \<Rightarrow> int list \<Rightarrow> db \<Rightarrow> db" where
  "purge_runs now ids d =
     (let d1 = d\<lparr>db_runs := map (\<lambda>r. if purged_open ids r then cancel_run now r else r) (db_runs d)\<rparr>;
          counts = count_cancelled (filter (purged_open ids) (db_runs d)) []
      in fold (count_purged now) counts d1)"

fun purge_streams :: "'q broker \<Rightarrow> codec \<Rightarrow> string \<Rightarrow> string list \<Rightarrow> ('q, (string \<times> int) list) eff" where
  "purge_streams B C grp [] = ret []"
| "purge_streams B C grp (s # ss) =
     seq (purge_undelivered B C s grp) (\<lambda>p. seq (purge_streams B C grp ss) (\<lambda>ps. ret (p @ ps)))"

text \<open>An exception of the broker leaves the handler before the database is touched.\<close>

definition purge_queue :: "'q broker \<Rightarrow> codec \<Rightarrow> settings \<Rightarrow> datetime \<Rightarrow> (db \<times> 'q, string) eff" where
  "purge_queue B C st now = (\<lambda>(d, q).
     case seq (job_stream_names B st) (purge_streams B C (set_job_consumer_group st)) q of
       (Inl e, q') \<Rightarrow> (Inl e, (d, q'))
     | (Inr purged, q') \<Rightarrow>
         (Inr (redir st ''/runs''),
          (if purged = [] then d else purge_runs now (map snd purged) d, q')))"

section \<open>Listing batches\<close>

definition batch_matches :: "string \<Rightarrow> string \<Rightarrow> string \<Rightarrow> run_batch \<Rightarrow> bool" where
  "batch_matches q kind status b \<longleftrightarrow>
     (q \<noteq> [] \<longrightarrow> ilike (wrapped q) (bat_schedule_name b))
     \<and> (kind \<noteq> [] \<longrightarrow> bat_kind b = kind)
     \<and> (if status = ''running'' then bat_succeeded b + bat_failed b < bat_total b
        else if status = ''failed'' then bat_failed b > 0
        else if status = ''success'' then bat_succeeded b = bat_total b \<and> bat_failed b = 0
        else if status = ''complete'' then bat_succeeded b + bat_failed b \<ge> bat_total b
        else True)"

definition list_batches :: "string \<Rightarrow> string \<Rightarrow> string \<Rightarrow> db \<Rightarrow> run_batch list" where
  "list_batches q kind status d =
     take 200 (filter (batch_matches q kind status)
       (sort_key (desc_key \<circ> bat_started_at) (db_batches d)))"

section \<open>One batch and one run\<close>

text \<open>
  \<open>_changed_run_ids\<close>: the runs whose file is among the paths of the commit; \<open>changed_files\<close> may
  raise, which counts as no path.
\<close>

definition backup_path :: "db \<Rightarrow> device \<Rightarrow> string" where
  "backup_path d dev =
     file_path (case device_groups d dev of [] \<Rightarrow> ''ungrouped'' | g # _ \<Rightarrow> grp_name g) (dev_name dev)"

definition changed_run_ids :: "(string \<Rightarrow> string list result) \<Rightarrow> db \<Rightarrow> run list \<Rightarrow> string \<Rightarrow> int list" where
  "changed_run_ids changed_files d rs commit_sha =
     (case changed_files commit_sha of
        Inl e \<Rightarrow> []
      | Inr paths \<Rightarrow>
          map run_id (filter (\<lambda>r. case get_device (run_device_id r) d of
              None \<Rightarrow> False | Some dev \<Rightarrow> backup_path d dev \<in> set paths) rs))"

definition view_batch :: "(string \<Rightarrow> string list result) \<Rightarrow> int \<Rightarrow> db
    \<Rightarrow> run_batch option \<times> run list \<times> int list" where
  "view_batch changed_files b d =
     (let batch = get_batch b d;
          rs = sort_key run_device_id (batch_runs d b);
          changed = (case batch of
              None \<Rightarrow> []
            | Some x \<Rightarrow>
                if truthy (bat_commit_sha x) \<and> bat_kind x = ''backup''
                then changed_run_ids changed_files d rs (the (bat_commit_sha x)) else [])
      in (batch, rs, changed))"

datatype display =
    Rendered string
  | Render_error string
  | Table "string list" "pyval list"
  | Json string

definition headers_of :: "pyval list \<Rightarrow> string list" where
  "headers_of rs = (case rs of PDict d # _ \<Rightarrow> map fst d | _ \<Rightarrow> [])"

text \<open>
  \<open>_parsed_display\<close>; \<open>render\<close> is the sandboxed template engine, \<open>dumps\<close> is \<open>json.dumps(..., indent=2)\<close>.
\<close>

definition parsed_display :: "(string \<Rightarrow> pyval \<Rightarrow> pyval list \<Rightarrow> string list \<Rightarrow> string result)
    \<Rightarrow> (pyval \<Rightarrow> string) \<Rightarrow> pyval option \<Rightarrow> string option \<Rightarrow> display option" where
  "parsed_display render dumps data jinja2_template =
     (case data of
        None \<Rightarrow> None
      | Some v \<Rightarrow>
          if truthy jinja2_template then
            (let rs = (case v of PList xs \<Rightarrow> xs | _ \<Rightarrow> [v]) in
             case render (the jinja2_template) v rs (headers_of rs) of
               Inr html \<Rightarrow> Some (Rendered html)
             | Inl e \<Rightarrow> Some (Render_error (exn_class e @ '': '' @ exn_msg e)))
          else (case v of
              PList (PDict d # rs) \<Rightarrow> Some (Table (map fst d) (PDict d # rs))
            | _ \<Rightarrow> Some (Json (dumps v))))"

definition view_run :: "(string \<Rightarrow> pyval \<Rightarrow> pyval list \<Rightarrow> string list \<Rightarrow> string result)
    \<Rightarrow> (pyval \<Rightarrow> string) \<Rightarrow> int \<Rightarrow> db \<Rightarrow> run option \<times> display option" where
  "view_run render dumps rid d =
     (let r = get_run rid d;
          template = Option.bind r (\<lambda>x. Option.bind (follow (run_parser_template_id x) get_parser d)
                       pt_jinja2_template)
      in (r, parsed_display render dumps (Option.bind r run_parsed_data) template))"

end
