(* ===== verification/Credentials.thy ===== *)
theory Credentials
  imports Tables
begin

text \<open>
  \<open>credentials/*.py\<close>: resolving a credential row into secret material. Fernet with the JSON payload
  inside it and the Vault client are parameters. Every resolver fetches a dictionary of secrets and
  builds the material from it in the same way; the locale \<open>credential_source\<close> is that contract
  (the abstract class \<open>CredentialResolver\<close>), interpreted for the two providers that are wired.
\<close>

section \<open>Resolvers\<close>

text \<open>A secret payload: the string entries of the stored or remote dictionary.\<close>

type_synonym secret = "(string \<times> string) list"

text \<open>
  \<open>box_seal\<close> is \<open>encrypt(json.dumps(payload))\<close>, \<open>box_open\<close> is \<open>json.loads(decrypt(blob))\<close>,
  \<open>vault_read\<close> the KV v2 read of a mount and a path.
\<close>

record secret_store =
  box_seal :: "secret \<Rightarrow> string"
  box_open :: "string \<Rightarrow> secret result"
  vault_read :: "string \<Rightarrow> string \<Rightarrow> secret result"

definition material_of :: "secret \<Rightarrow> string option \<Rightarrow> credential_material" where
  "material_of data username = \<lparr>
     mat_username = or_str (map_of data ''username'') (or_str username []),
     mat_password = map_of data ''password'',
     mat_enable_password = map_of data ''enable_password'',
     mat_private_key = map_of data ''private_key'',
     mat_private_key_passphrase = map_of data ''private_key_passphrase''\<rparr>"

definition local_encrypt :: "secret_store \<Rightarrow> secret \<Rightarrow> string" where
  "local_encrypt S payload = box_seal S payload"

definition local_resolve ::
    "secret_store \<Rightarrow> string option \<Rightarrow> string option \<Rightarrow> string option \<Rightarrow> credential_material result" where
  "local_resolve S ref encrypted_payload username =
     (if \<not> truthy encrypted_payload
      then Inl (ValueError ''local credential is missing encrypted_payload'')
      else bind_result (box_open S (the encrypted_payload)) (\<lambda>data. Inr (material_of data username)))"

definition vault_resolve ::
    "secret_store \<Rightarrow> string option \<Rightarrow> string option \<Rightarrow> string option \<Rightarrow> credential_material result" where
  "vault_resolve S ref encrypted_payload username =
     (if \<not> truthy ref \<or> CHR ''/'' \<notin> set (the ref)
      then Inl (ValueError ''vault credential requires ref in 'mount/path' form'')
      else case split_once CHR ''/'' (the ref) of (mount, path) \<Rightarrow>
        bind_result (vault_read S mount path) (\<lambda>data. Inr (material_of data username)))"

definition bitwarden_resolve ::
    "string option \<Rightarrow> string option \<Rightarrow> string option \<Rightarrow> credential_material result" where
  "bitwarden_resolve ref encrypted_payload username =
     Inl (Exn ''NotImplementedError'' ''Bitwarden provider not yet implemented'')"

definition resolver_for :: "secret_store \<Rightarrow> credential_provider
    \<Rightarrow> string option \<Rightarrow> string option \<Rightarrow> string option \<Rightarrow> credential_material result" where
  "resolver_for S provider =
     (case provider of
        Prov_local \<Rightarrow> local_resolve S
      | Prov_vault \<Rightarrow> vault_resolve S
      | Prov_bitwarden \<Rightarrow> bitwarden_resolve)"

definition resolve_credential :: "secret_store \<Rightarrow> credential \<Rightarrow> credential_material result" where
  "resolve_credential S c =
     resolver_for S (cred_provider c) (cred_ref c) (cred_encrypted_payload c) (cred_username c)"

section \<open>The contract of a resolver\<close>

locale credential_source =
  fixes fetch :: "string option \<Rightarrow> string option \<Rightarrow> secret result"
    and resolve :: "string option \<Rightarrow> string option \<Rightarrow> string option \<Rightarrow> credential_material result"
  assumes resolve_fetch:
    "resolve ref payload user = bind_result (fetch ref payload) (\<lambda>data. Inr (material_of data user))"
begin

lemma resolve_fails_iff: "(\<exists>e. resolve ref payload user = Inl e) \<longleftrightarrow> (\<exists>e. fetch ref payload = Inl e)"
  by (cases "fetch ref payload") (simp_all add: resolve_fetch)

lemma resolve_user_irrelevant:
  "resolve ref payload user = Inr m \<Longrightarrow> resolve ref payload user' = Inr m' \<Longrightarrow>
   mat_password m = mat_password m' \<and> mat_private_key m = mat_private_key m'"
  by (auto simp: resolve_fetch bind_result_Inr_iff material_of_def)

lemma secret_username_wins:
  assumes "fetch ref payload = Inr data" and "truthy (map_of data ''username'')"
    and "resolve ref payload user = Inr m"
  shows "mat_username m = the (map_of data ''username'')"
  using assms by (cases "map_of data ''username''") (auto simp: resolve_fetch material_of_def)

lemma row_username_fallback:
  assumes "fetch ref payload = Inr data" and "\<not> truthy (map_of data ''username'')"
    and "resolve ref payload user = Inr m"
  shows "mat_username m = or_str user []"
  using assms by (cases "map_of data ''username''") (auto simp: resolve_fetch material_of_def)

end

definition local_fetch :: "secret_store \<Rightarrow> string option \<Rightarrow> string option \<Rightarrow> secret result" where
  "local_fetch S ref payload =
     (if \<not> truthy payload then Inl (ValueError ''local credential is missing encrypted_payload'')
      else box_open S (the payload))"

definition vault_fetch :: "secret_store \<Rightarrow> string option \<Rightarrow> string option \<Rightarrow> secret result" where
  "vault_fetch S ref payload =
     (if \<not> truthy ref \<or> CHR ''/'' \<notin> set (the ref)
      then Inl (ValueError ''vault credential requires ref in 'mount/path' form'')
      else vault_read S (fst (split_once CHR ''/'' (the ref))) (snd (split_once CHR ''/'' (the ref))))"

interpretation local_src: credential_source "local_fetch S" "local_resolve S" for S
  by unfold_locales (simp add: local_fetch_def local_resolve_def)

interpretation vault_src: credential_source "vault_fetch S" "vault_resolve S" for S
  by unfold_locales (simp add: vault_fetch_def vault_resolve_def split: prod.splits)

lemma split_once_join:
  assumes "sep \<in> set s"
  shows "fst (split_once sep s) @ [sep] @ snd (split_once sep s) = s
    \<and> sep \<notin> set (fst (split_once sep s))"
proof -
  have ne: "dropWhile (\<lambda>c. c \<noteq> sep) s \<noteq> []"
    using assms by (simp add: dropWhile_eq_Nil_conv)
  then have "hd (dropWhile (\<lambda>c. c \<noteq> sep) s) = sep"
    using hd_dropWhile [of "\<lambda>c. c \<noteq> sep" s] by simp
  with ne have "dropWhile (\<lambda>c. c \<noteq> sep) s = [sep] @ tl (dropWhile (\<lambda>c. c \<noteq> sep) s)"
    by (cases "dropWhile (\<lambda>c. c \<noteq> sep) s") auto
  then have "takeWhile (\<lambda>c. c \<noteq> sep) s @ [sep] @ tl (dropWhile (\<lambda>c. c \<noteq> sep) s) = s"
    by (metis takeWhile_dropWhile_id)
  moreover have "sep \<notin> set (takeWhile (\<lambda>c. c \<noteq> sep) s)"
    by (auto dest: set_takeWhileD)
  ultimately show ?thesis by (simp add: split_once_def)
qed

end
