(* ===== verification/Dispatch.thy ===== *)
theory Dispatch
  imports Queue Credentials
begin

text \<open>
  \<open>dispatch.py\<close>: firing a job. The state is the session's database and the Redis server; a raised
  exception leaves both as they are at that point, the caller decides about the transaction.
\<close>

section \<open>Building one spec\<close>

definition effective_credential ::
    "db \<Rightarrow> device \<Rightarrow> device_group option \<Rightarrow> credential option \<Rightarrow> credential option" where
  "effective_credential d dev g default_cred =
     or_else (device_credential d dev)
       (or_else (case g of None \<Rightarrow> None | Some g' \<Rightarrow> group_default_credential d g') default_cred)"

definition effective_pool :: "device \<Rightarrow> device_group option \<Rightarrow> string option" where
  "effective_pool dev g =
     (if truthy (dev_worker_pool dev) then dev_worker_pool dev
      else or_none (case g of None \<Rightarrow> None | Some g' \<Rightarrow> grp_worker_pool g'))"

definition command_lines :: "string option \<Rightarrow> string list" where
  "command_lines s = filter (\<lambda>c. c \<noteq> []) (map strip (splitlines (or_str s [])))"

text \<open>\<open>_spec_for\<close>: \<open>Inr None\<close> is "no credential", \<open>Inl\<close> an exception of the resolver.\<close>

definition spec_for :: "secret_store \<Rightarrow> db \<Rightarrow> device \<Rightarrow> job \<Rightarrow> int \<Rightarrow> int option
    \<Rightarrow> device_group option \<Rightarrow> credential option \<Rightarrow> job_spec option result" where
  "spec_for S d dev j rid schedule_id g default_cred =
     (case effective_credential d dev g default_cred of
        None \<Rightarrow> Inr None
      | Some cred \<Rightarrow>
          bind_result (resolve_credential S cred) (\<lambda>material.
            let parser = job_parser_template d j;
                custom_yaml = map_option plat_yaml_body (device_custom_platform d dev)
            in Inr (Some \<lparr>
              sp_run_id = rid,
              sp_schedule_id = schedule_id,
              sp_device_id = dev_id dev,
              sp_device_name = dev_name dev,
              sp_hostname = dev_hostname dev,
              sp_port = dev_port dev,
              sp_kind = job_kind_value (job_kind j),
              sp_job_id = job_id j,
              sp_driver_kind =
                (case dev_driver_kind dev of None \<Rightarrow> ''cli'' | Some k \<Rightarrow> driver_kind_value k),
              sp_platform = (if truthy custom_yaml then None else dev_platform dev),
              sp_custom_platform_yaml = custom_yaml,
              sp_transport = map_option transport_value (dev_transport dev),
              sp_commands = command_lines (job_commands j),
              sp_rpc = job_rpc j,
              sp_parser_template_id = map_option pt_id parser,
              sp_parser_type = map_option (parser_type_value \<circ> pt_type) parser,
              sp_parser_body = map_option pt_body parser,
              sp_cve_vendor = job_cve_vendor j,
              sp_cve_product = job_cve_product j,
              sp_connect_timeout = dev_connect_timeout dev,
              sp_command_timeout = dev_command_timeout dev,
              sp_worker_pool = effective_pool dev g,
              sp_credential = \<lparr>ref_provider = provider_value (cred_provider cred),
                ref_credential_id = cred_id cred, ref_ref = cred_ref cred\<rparr>,
              sp_credential_material = Some material\<rparr>)))"

section \<open>Selecting devices\<close>

type_synonym target = "device \<times> device_group option"

definition target_key :: "target \<Rightarrow> int" where
  "target_key t = dev_id (fst t)"

definition target_ok :: "target \<Rightarrow> bool" where
  "target_ok t = dev_enabled (fst t)"

text \<open>The two loops of \<open>fire_job\<close>: the groups first, then the directly listed devices.\<close>

definition device_group_pairs :: "db \<Rightarrow> job \<Rightarrow> target list" where
  "device_group_pairs d j =
     snd (collect target_key target_ok (map (\<lambda>dv. (dv, None)) (job_devices d j))
       (fold (\<lambda>g. collect target_key target_ok (map (\<lambda>dv. (dv, Some g)) (group_devices d g)))
          (job_groups d j) ({}, [])))"

definition candidates :: "db \<Rightarrow> job \<Rightarrow> target list" where
  "candidates d j =
     concat (map (\<lambda>g. map (\<lambda>dv. (dv, Some g)) (group_devices d g)) (job_groups d j))
     @ map (\<lambda>dv. (dv, None)) (job_devices d j)"

lemma fold_collect:
  "fold (\<lambda>g. collect key ok (h g)) gs st = collect key ok (concat (map h gs)) st"
  by (induction gs arbitrary: st) (simp_all add: collect_append)

lemma device_group_pairs_collect:
  "device_group_pairs d j = snd (collect target_key target_ok (candidates d j) ({}, []))"
  by (simp add: device_group_pairs_def candidates_def fold_collect collect_append)

lemma selected_devices:
  "dev_id ` fst ` set (device_group_pairs d j)
    = dev_id ` {v. dev_enabled v \<and> (v \<in> set (job_devices d j) \<or> v \<in> (\<Union>g \<in> set (job_groups d j). set (group_devices d g)))}"
proof -
  have keys: "target_key ` A = dev_id ` fst ` A" for A
    by (simp add: target_key_def [abs_def] image_image)
  have "dev_id ` fst ` set (device_group_pairs d j) = dev_id ` fst ` {t \<in> set (candidates d j). target_ok t}"
    unfolding keys [symmetric] device_group_pairs_collect by (rule collector.gather_keys)
  also have "fst ` {t \<in> set (candidates d j). target_ok t} = {v. dev_enabled v
      \<and> (v \<in> set (job_devices d j) \<or> v \<in> (\<Union>g \<in> set (job_groups d j). set (group_devices d g)))}"
    by (force simp: candidates_def target_ok_def)
  finally show ?thesis .
qed

section \<open>Capacity\<close>

fun count_streams :: "settings \<Rightarrow> target list \<Rightarrow> (string \<times> int) list \<Rightarrow> (string \<times> int) list" where
  "count_streams st [] counts = counts"
| "count_streams st ((dev, g) # ts) counts =
     (let stream = job_stream_for st (effective_pool dev g);
          n = (case map_of counts stream of None \<Rightarrow> 0 | Some k \<Rightarrow> k)
      in count_streams st ts (dict_set stream (n + 1) counts))"

definition high_water :: "settings \<Rightarrow> int result" where
  "high_water st = f_to_int (f_mult (f_of_int (set_stream_max_len st)) (set_stream_high_water_ratio st))"

definition capacity_message :: "string \<Rightarrow> int \<Rightarrow> int \<Rightarrow> int \<Rightarrow> int \<Rightarrow> string" where
  "capacity_message stream undelivered n hw max_len =
     ''job stream '' @ repr_str stream @ '' at capacity: '' @ show_int undelivered
     @ '' undelivered + '' @ show_int n @ '' incoming exceeds high-water mark ''
     @ show_int hw @ ''/'' @ show_int max_len @ ''; retry when workers catch up''"

text \<open>
  The warning before the loop is left: the module neither defines nor imports a name \<open>log\<close>, so the
  look-up of \<open>log.warning\<close> raises.
\<close>

definition log_warning :: "('q, unit) eff" where
  "log_warning = raise (Exn ''NameError'' ''name 'log' is not defined'')"

fun check_capacity :: "'q broker \<Rightarrow> settings \<Rightarrow> int \<Rightarrow> (string \<times> int) list \<Rightarrow> ('q, string option) eff" where
  "check_capacity B st hw [] = ret None"
| "check_capacity B st hw ((stream, n) # rest) =
     seq (job_stream_pressure B st stream) (\<lambda>(undelivered, max_len).
       if undelivered + n > hw
       then seq log_warning (\<lambda>_. ret (Some (capacity_message stream undelivered n hw max_len)))
       else check_capacity B st hw rest)"

section \<open>Rows of a firing\<close>

definition new_batch :: "int \<Rightarrow> job \<Rightarrow> int option \<Rightarrow> string option \<Rightarrow> nat \<Rightarrow> datetime \<Rightarrow> run_batch" where
  "new_batch bid j schedule_id schedule_name n now = \<lparr>
     bat_id = bid, bat_schedule_id = schedule_id,
     bat_schedule_name = or_str schedule_name (job_name j),
     bat_kind = job_kind_value (job_kind j),
     bat_total = int n, bat_succeeded = 0, bat_failed = 0,
     bat_started_at = Some now, bat_finished_at = None, bat_commit_sha = None,
     bat_created_at = now\<rparr>"

definition new_run :: "datetime \<Rightarrow> int \<Rightarrow> job \<Rightarrow> int option \<Rightarrow> int \<Rightarrow> int \<Rightarrow> run" where
  "new_run now rid j schedule_id bid devid = \<lparr>
     run_id = rid, run_schedule_id = schedule_id, run_batch_id = Some bid,
     run_device_id = devid, run_kind = job_kind_value (job_kind j), run_status = Pending,
     run_started_at = None, run_finished_at = None, run_commit_sha = None,
     run_payload_sha256 = None, run_bytes_captured = None, run_error = None,
     run_parsed_data = None, run_parse_error = None, run_parser_template_id = None,
     run_job_id = None, run_created_at = now\<rparr>"

text \<open>The loop that adds one pending run per target; the flush numbers them in this order.\<close>

fun number_targets :: "int \<Rightarrow> target list \<Rightarrow> (device \<times> device_group option \<times> int) list" where
  "number_targets k [] = []"
| "number_targets k ((dev, g) # ts) = (dev, g, k) # number_targets (k + 1) ts"

definition create_rows :: "job \<Rightarrow> int option \<Rightarrow> string option \<Rightarrow> datetime \<Rightarrow> target list \<Rightarrow> db
    \<Rightarrow> int \<times> (device \<times> device_group option \<times> int) list \<times> db" where
  "create_rows j schedule_id schedule_name now ts d =
     (let bid = seq_batch d;
          pairs = number_targets (seq_run d) ts
      in (bid, pairs,
          d\<lparr>db_batches := db_batches d @ [new_batch bid j schedule_id schedule_name (length ts) now],
            db_runs := db_runs d @ map (\<lambda>(dev, g, rid). new_run now rid j schedule_id bid (dev_id dev)) pairs,
            seq_batch := bid + 1,
            seq_run := seq_run d + int (length ts)\<rparr>))"

text \<open>Closing one run as failed and counting it in the batch.\<close>

definition fail_run :: "int \<Rightarrow> string \<Rightarrow> datetime \<Rightarrow> int \<Rightarrow> db \<Rightarrow> db" where
  "fail_run rid err now bid d =
     upd_batch bid (\<lambda>b. b\<lparr>bat_failed := bat_failed b + 1\<rparr>)
       (upd_run rid (\<lambda>r. r\<lparr>run_status := Failed, run_error := Some err, run_finished_at := Some now\<rparr>) d)"

definition finish_batch :: "int \<Rightarrow> datetime \<Rightarrow> db \<Rightarrow> db" where
  "finish_batch bid now d = upd_batch bid (\<lambda>b. b\<lparr>bat_finished_at := Some now\<rparr>) d"

section \<open>Publishing\<close>

type_synonym 'q world = "db \<times> 'q"

definition on_broker :: "('q, 'a) eff \<Rightarrow> ('q world, 'a) eff" where
  "on_broker m = (\<lambda>(d, q). case m q of (r, q') \<Rightarrow> (r, (d, q')))"

definition on_db :: "(db \<Rightarrow> db) \<Rightarrow> ('q world, unit) eff" where
  "on_db f = (\<lambda>(d, q). (Inr (), (f d, q)))"

fun publish_all :: "'q broker \<Rightarrow> codec \<Rightarrow> secret_store \<Rightarrow> settings \<Rightarrow> job \<Rightarrow> int option
    \<Rightarrow> credential option \<Rightarrow> datetime \<Rightarrow> int
    \<Rightarrow> (device \<times> device_group option \<times> int) list \<Rightarrow> ('q world, unit) eff" where
  "publish_all B C S st j schedule_id default_cred now bid [] = ret ()"
| "publish_all B C S st j schedule_id default_cred now bid ((dev, g, rid) # rest) =
     (\<lambda>(d, q).
        case spec_for S d dev j rid schedule_id g default_cred of
          Inl e \<Rightarrow> (Inl e, (d, q))
        | Inr None \<Rightarrow>
            seq (on_db (fail_run rid ''no credential available'' now bid))
              (\<lambda>_. publish_all B C S st j schedule_id default_cred now bid rest) (d, q)
        | Inr (Some spec) \<Rightarrow>
            seq (on_broker (publish_job B C st spec))
              (\<lambda>_. publish_all B C S st j schedule_id default_cred now bid rest) (d, q))"

text \<open>
  \<open>fire_job\<close>. The result is the id of the new batch. The pre-flight check and the creation of the
  rows come before anything is published; with a capacity error every run would be closed at once
  (a branch the check never reaches, see \<open>log_warning\<close>).
\<close>

definition default_credential :: "db \<Rightarrow> credential option" where
  "default_credential d = find cred_is_default (db_credentials d)"

definition reject_all :: "string \<Rightarrow> datetime \<Rightarrow> int
    \<Rightarrow> (device \<times> device_group option \<times> int) list \<Rightarrow> db \<Rightarrow> db" where
  "reject_all err now bid pairs d =
     finish_batch bid now (fold (\<lambda>(dev, g, rid). fail_run rid err now bid) pairs d)"

definition fire_job :: "'q broker \<Rightarrow> codec \<Rightarrow> secret_store \<Rightarrow> settings \<Rightarrow> datetime \<Rightarrow> job
    \<Rightarrow> int option \<Rightarrow> string option \<Rightarrow> ('q world, int) eff" where
  "fire_job B C S st now j schedule_id schedule_name = (\<lambda>(d, q).
     let default_cred = default_credential d;
         targets = device_group_pairs d j
     in seq (\<lambda>w. (high_water st, w)) (\<lambda>hw.
        seq (on_broker (check_capacity B st hw (count_streams st targets []))) (\<lambda>capacity_error.
        (\<lambda>(d, q).
          case create_rows j schedule_id schedule_name now targets d of (bid, pairs, d1) \<Rightarrow>
            case capacity_error of
              Some err \<Rightarrow> (Inr bid, (reject_all err now bid pairs d1, q))
            | None \<Rightarrow>
                seq (publish_all B C S st j schedule_id default_cred now bid pairs)
                  (\<lambda>_. ret bid) (d1, q))))
        (d, q))"

end
