(* ===== verification/Accounting.thy ===== *)
theory Accounting
  imports Runs Dispatch
begin

text \<open>
  The books of a firing: every batch counts its runs. The invariant \<open>acct_ok\<close> says that the three
  counters of each batch are the numbers of its runs in the matching states and that a finished
  batch has no open run. The locale \<open>settling\<close> is the contract of the operations that close runs
  (the recorder, the dispatcher's rejections, the web handlers, the reaper): they close open runs
  only and count each in its batch. It is interpreted on all of them. \<open>ledger\<close> is the abstract
  state: the runs with their states, and the batches that are done; there are no counters in it.
\<close>

section \<open>The invariant\<close>

definition lost :: "run_status \<Rightarrow> bool" where
  "lost s \<longleftrightarrow> s \<in> {Failed, Timeout, Cancelled}"

lemma lost_simps [simp, status_simps]:
  "lost Failed" "lost Timeout" "lost Cancelled" "\<not> lost Pending" "\<not> lost Running" "\<not> lost Success"
  by (simp_all add: lost_def)

lemma status_cases: "open_status s \<or> s = Success \<or> lost s"
  by (cases s) simp_all

definition tally :: "db \<Rightarrow> int \<Rightarrow> (run_status \<Rightarrow> bool) \<Rightarrow> int" where
  "tally d b P = count_rows (\<lambda>r. run_batch_id r = Some b \<and> P (run_status r)) (db_runs d)"

definition batch_ok :: "db \<Rightarrow> run_batch \<Rightarrow> bool" where
  "batch_ok d x \<longleftrightarrow>
     bat_total x = tally d (bat_id x) (\<lambda>_. True)
     \<and> bat_succeeded x = tally d (bat_id x) (\<lambda>s. s = Success)
     \<and> bat_failed x = tally d (bat_id x) lost
     \<and> (bat_finished_at x \<noteq> None \<longrightarrow> tally d (bat_id x) open_status = 0)"

definition keys_ok :: "db \<Rightarrow> bool" where
  "keys_ok d \<longleftrightarrow>
     distinct (map run_id (db_runs d)) \<and> distinct (map bat_id (db_batches d))
     \<and> list_all (\<lambda>r. run_id r < seq_run d) (db_runs d)
     \<and> list_all (\<lambda>x. 0 < bat_id x \<and> bat_id x < seq_batch d) (db_batches d) \<and> 0 < seq_batch d
     \<and> list_all (\<lambda>r. case run_batch_id r of None \<Rightarrow> True | Some b \<Rightarrow> b < seq_batch d) (db_runs d)"

definition acct_ok :: "db \<Rightarrow> bool" where
  "acct_ok d \<longleftrightarrow> keys_ok d \<and> list_all (batch_ok d) (db_batches d)"

lemma tally_split:
  "tally d b (\<lambda>_. True) = tally d b open_status + tally d b (\<lambda>s. s = Success) + tally d b lost"
proof -
  have "count_rows (\<lambda>r. run_batch_id r = Some b \<and> True) rs
      = count_rows (\<lambda>r. run_batch_id r = Some b \<and> open_status (run_status r)) rs
        + count_rows (\<lambda>r. run_batch_id r = Some b \<and> run_status r = Success) rs
        + count_rows (\<lambda>r. run_batch_id r = Some b \<and> lost (run_status r)) rs" for rs
  proof (induction rs)
    case Nil
    then show ?case by simp
  next
    case (Cons r rs)
    then show ?case by (cases "run_status r") simp_all
  qed
  then show ?thesis by (simp add: tally_def)
qed

lemma tally_nonneg [simp]: "0 \<le> tally d b P"
  by (simp add: tally_def)

lemma batch_ok_open:
  "batch_ok d x \<Longrightarrow> tally d (bat_id x) open_status = bat_total x - bat_succeeded x - bat_failed x"
  using tally_split [of d "bat_id x"] by (simp add: batch_ok_def)

lemma batch_ok_bound: "batch_ok d x \<Longrightarrow> bat_succeeded x + bat_failed x \<le> bat_total x"
  using batch_ok_open [of d x] tally_nonneg [of d "bat_id x" open_status] by simp

lemma acct_ok_member: "acct_ok d \<Longrightarrow> x \<in> set (db_batches d) \<Longrightarrow> batch_ok d x"
  by (simp add: acct_ok_def list_all_iff)

lemma acct_ok_get: "acct_ok d \<Longrightarrow> get_batch b d = Some x \<Longrightarrow> batch_ok d x \<and> bat_id x = b"
  using batch_tab.get_Some by (blast intro: acct_ok_member)

section \<open>The part of the state that matters\<close>

definition run_view :: "run \<Rightarrow> int \<times> int option \<times> run_status" where
  "run_view r = (run_id r, run_batch_id r, run_status r)"

definition batch_view :: "run_batch \<Rightarrow> int \<times> int \<times> int \<times> int \<times> bool" where
  "batch_view x = (bat_id x, bat_total x, bat_succeeded x, bat_failed x, bat_finished_at x \<noteq> None)"

definition same_ledger :: "db \<Rightarrow> db \<Rightarrow> bool" where
  "same_ledger d d' \<longleftrightarrow>
     map run_view (db_runs d) = map run_view (db_runs d')
     \<and> map batch_view (db_batches d) = map batch_view (db_batches d')
     \<and> seq_run d = seq_run d' \<and> seq_batch d = seq_batch d'"

lemma same_ledger_refl [simp, intro]: "same_ledger d d"
  by (simp add: same_ledger_def)

lemma same_ledger_sym: "same_ledger d d' \<Longrightarrow> same_ledger d' d"
  by (simp add: same_ledger_def)

lemma same_ledger_trans [trans]: "same_ledger d d' \<Longrightarrow> same_ledger d' d'' \<Longrightarrow> same_ledger d d''"
  by (simp add: same_ledger_def)

lemma tally_views:
  "tally d b P = count_rows (\<lambda>v. fst (snd v) = Some b \<and> P (snd (snd v))) (map run_view (db_runs d))"
  by (simp add: tally_def count_rows_map comp_def run_view_def)

lemma tally_same: "same_ledger d d' \<Longrightarrow> tally d b P = tally d' b P"
  by (simp add: tally_views same_ledger_def)

lemma list_all_views:
  assumes "map v xs = map v ys" and "\<And>x y. v x = v y \<Longrightarrow> P x = Q y"
  shows "list_all P xs = list_all Q ys"
  using assms(1)
proof (induction xs arbitrary: ys)
  case Nil
  then show ?case by simp
next
  case (Cons x xs)
  then obtain y ys' where ys: "ys = y # ys'" and v: "v x = v y" "map v xs = map v ys'"
    by (cases ys) auto
  from v show ?case
    unfolding ys by (simp add: assms(2) [OF v(1)] Cons.IH)
qed

lemma acct_ok_same:
  assumes same: "same_ledger d d'"
  shows "acct_ok d = acct_ok d'"
proof -
  have runs: "map run_view (db_runs d) = map run_view (db_runs d')"
    and bats: "map batch_view (db_batches d) = map batch_view (db_batches d')"
    and seqs: "seq_run d = seq_run d'" "seq_batch d = seq_batch d'"
    using same by (simp_all add: same_ledger_def)
  have ids: "map run_id (db_runs d) = map run_id (db_runs d')"
    using arg_cong [OF runs, of "map fst"] by (simp add: run_view_def comp_def)
  have bids: "map bat_id (db_batches d) = map bat_id (db_batches d')"
    using arg_cong [OF bats, of "map fst"] by (simp add: batch_view_def comp_def)
  have "list_all (batch_ok d) (db_batches d) = list_all (batch_ok d') (db_batches d')"
    by (rule list_all_views [OF bats]) (simp add: batch_ok_def batch_view_def tally_same [OF same])
  moreover have "list_all (\<lambda>r. run_id r < seq_run d) (db_runs d)
      = list_all (\<lambda>r. run_id r < seq_run d') (db_runs d')"
    by (rule list_all_views [OF runs]) (simp add: run_view_def seqs)
  moreover have "list_all (\<lambda>x. 0 < bat_id x \<and> bat_id x < seq_batch d) (db_batches d)
      = list_all (\<lambda>x. 0 < bat_id x \<and> bat_id x < seq_batch d') (db_batches d')"
    by (rule list_all_views [OF bats]) (simp add: batch_view_def seqs)
  moreover have "list_all (\<lambda>r. case run_batch_id r of None \<Rightarrow> True | Some b \<Rightarrow> b < seq_batch d) (db_runs d)
      = list_all (\<lambda>r. case run_batch_id r of None \<Rightarrow> True | Some b \<Rightarrow> b < seq_batch d') (db_runs d')"
    by (rule list_all_views [OF runs]) (simp add: run_view_def seqs split: option.split)
  ultimately show ?thesis by (simp only: acct_ok_def keys_ok_def ids bids seqs)
qed

lemma same_upd_run: "(\<And>r. run_view (f r) = run_view r) \<Longrightarrow> same_ledger d (upd_run k f d)"
  by (simp add: same_ledger_def upd_run_def upd_row_def)

lemma same_upd_batch: "(\<And>x. batch_view (f x) = batch_view x) \<Longrightarrow> same_ledger d (upd_batch k f d)"
  by (simp add: same_ledger_def upd_batch_def upd_row_def)

lemma same_upd_device [simp]: "same_ledger d (upd_device k f d)"
  by (simp add: same_ledger_def upd_device_def)

lemma same_stamp_runs: "(\<And>r. run_view (f r) = run_view r) \<Longrightarrow> same_ledger d (stamp_runs b f d)"
  by (simp add: same_ledger_def stamp_runs_def)

section \<open>Settling runs\<close>

definition bump :: "run_status \<Rightarrow> int \<Rightarrow> run_batch \<Rightarrow> run_batch" where
  "bump s n x =
     (if s = Success then x\<lparr>bat_succeeded := bat_succeeded x + n\<rparr>
      else x\<lparr>bat_failed := bat_failed x + n\<rparr>)"

definition selected :: "(run \<Rightarrow> bool) \<Rightarrow> int \<Rightarrow> db \<Rightarrow> int" where
  "selected sel b d = count_rows (\<lambda>r. sel r \<and> run_batch_id r = Some b) (db_runs d)"

definition settle :: "(run \<Rightarrow> bool) \<Rightarrow> run_status \<Rightarrow> db \<Rightarrow> db" where
  "settle sel s d =
     d\<lparr>db_runs := map (\<lambda>r. if sel r then r\<lparr>run_status := s\<rparr> else r) (db_runs d),
       db_batches := map (\<lambda>x. bump s (selected sel (bat_id x) d) x) (db_batches d)\<rparr>"

lemma selected_nonneg [simp]: "0 \<le> selected sel b d"
  by (simp add: selected_def)

lemma bump_simps [simp]:
  "bat_id (bump s n x) = bat_id x"
  "bat_total (bump s n x) = bat_total x"
  "bat_finished_at (bump s n x) = bat_finished_at x"
  "bump s 0 x = x"
  by (simp_all add: bump_def)

lemma tally_settle:
  "tally (settle sel s d) b P = tally d b P
     - count_rows (\<lambda>r. (sel r \<and> run_batch_id r = Some b) \<and> P (run_status r)) (db_runs d)
     + (if P s then selected sel b d else 0)"
proof -
  have "count_rows (\<lambda>r. run_batch_id r = Some b \<and> P (run_status r))
        (map (\<lambda>r. if sel r then r\<lparr>run_status := s\<rparr> else r) rs)
      = count_rows (\<lambda>r. run_batch_id r = Some b \<and> P (run_status r)) rs
        - count_rows (\<lambda>r. (sel r \<and> run_batch_id r = Some b) \<and> P (run_status r)) rs
        + (if P s then count_rows (\<lambda>r. sel r \<and> run_batch_id r = Some b) rs else 0)" for rs
    by (induction rs) auto
  then show ?thesis by (simp add: tally_def settle_def selected_def)
qed

lemma tally_settle_open:
  assumes "\<And>r. r \<in> set (db_runs d) \<Longrightarrow> sel r \<Longrightarrow> open_status (run_status r)" and "\<not> open_status s"
  shows "tally (settle sel s d) b open_status = tally d b open_status - selected sel b d"
    and "tally (settle sel s d) b (\<lambda>t. t = Success)
      = tally d b (\<lambda>t. t = Success) + (if s = Success then selected sel b d else 0)"
    and "tally (settle sel s d) b lost = tally d b lost + (if s = Success then 0 else selected sel b d)"
proof -
  have o: "count_rows (\<lambda>r. (sel r \<and> run_batch_id r = Some b) \<and> open_status (run_status r)) (db_runs d)
      = selected sel b d"
    unfolding selected_def by (rule count_rows_cong) (use assms(1) in auto)
  have z: "count_rows (\<lambda>r. (sel r \<and> run_batch_id r = Some b) \<and> run_status r = Success) (db_runs d) = 0"
    unfolding count_rows_eq_0_iff using assms(1) by fastforce
  have l: "count_rows (\<lambda>r. (sel r \<and> run_batch_id r = Some b) \<and> lost (run_status r)) (db_runs d) = 0"
    unfolding count_rows_eq_0_iff lost_def using assms(1) by fastforce
  show "tally (settle sel s d) b open_status = tally d b open_status - selected sel b d"
    and "tally (settle sel s d) b (\<lambda>t. t = Success)
      = tally d b (\<lambda>t. t = Success) + (if s = Success then selected sel b d else 0)"
    and "tally (settle sel s d) b lost = tally d b lost + (if s = Success then 0 else selected sel b d)"
    using assms(2) status_cases [of s] unfolding tally_settle o z l by auto
qed

lemma selected_le_open:
  assumes "\<And>r. r \<in> set (db_runs d) \<Longrightarrow> sel r \<Longrightarrow> open_status (run_status r)"
  shows "selected sel b d \<le> tally d b open_status"
  unfolding selected_def tally_def by (rule count_rows_mono) (use assms in auto)

lemma keys_ok_settle: "keys_ok d \<Longrightarrow> keys_ok (settle sel s d)"
  by (simp add: keys_ok_def settle_def list.pred_map comp_def if_distrib [of run_id]
      if_distrib [of run_batch_id] cong: if_cong option.case_cong)

lemma acct_ok_settle:
  assumes ok: "acct_ok d"
    and sel: "\<And>r. r \<in> set (db_runs d) \<Longrightarrow> sel r \<Longrightarrow> open_status (run_status r)" and s: "\<not> open_status s"
  shows "acct_ok (settle sel s d)"
proof -
  have "batch_ok (settle sel s d) (bump s (selected sel (bat_id x) d) x)"
    if x: "batch_ok d x" for x
  proof -
    let ?e = "settle sel s d" and ?n = "selected sel (bat_id x) d"
    have tot: "tally (settle sel t d) (bat_id x) (\<lambda>_. True) = tally d (bat_id x) (\<lambda>_. True)" for t
      by (simp add: tally_settle selected_def)
    moreover have "bat_finished_at x \<noteq> None \<longrightarrow> tally ?e (bat_id x) open_status = 0"
      using x selected_le_open [of d sel "bat_id x", OF sel] tally_nonneg [of ?e "bat_id x" open_status]
      by (auto simp: batch_ok_def tally_settle_open [OF sel s] intro: antisym)
    ultimately show ?thesis
      using x by (simp add: batch_ok_def bump_def tot tally_settle_open [OF sel s])
  qed
  with ok show ?thesis
    by (simp add: acct_ok_def keys_ok_settle) (simp add: settle_def list_all_iff)
qed

text \<open>
  The contract of an operation that closes runs: seen through the ledger it settles the runs it
  selects, it selects open runs only, and the state it gives them is a closed one.
\<close>

locale settling =
  fixes enabled :: "'a \<Rightarrow> db \<Rightarrow> bool"
    and step :: "'a \<Rightarrow> db \<Rightarrow> db"
    and sel :: "'a \<Rightarrow> db \<Rightarrow> run \<Rightarrow> bool"
    and out :: "'a \<Rightarrow> run_status"
  assumes settles: "keys_ok d \<Longrightarrow> enabled a d \<Longrightarrow> same_ledger (settle (sel a d) (out a) d) (step a d)"
    and opens: "keys_ok d \<Longrightarrow> enabled a d \<Longrightarrow> r \<in> set (db_runs d) \<Longrightarrow> sel a d r \<Longrightarrow> open_status (run_status r)"
    and closes: "\<not> open_status (out a)"
begin

lemma step_ok:
  assumes "acct_ok d" and "enabled a d"
  shows "acct_ok (step a d)"
proof -
  from assms(1) have keys: "keys_ok d" by (simp add: acct_ok_def)
  have "acct_ok (settle (sel a d) (out a) d)"
    by (rule acct_ok_settle [OF assms(1) opens [OF keys assms(2)] closes])
  then show ?thesis using acct_ok_same [OF settles [OF keys assms(2)]] by simp
qed

lemma step_open:
  "keys_ok d \<Longrightarrow> enabled a d \<Longrightarrow>
   tally (step a d) b open_status = tally d b open_status - selected (sel a d) b d"
  by (simp add: tally_same [OF settles, symmetric] tally_settle_open(1) [OF opens closes])

text \<open>A run that is closed keeps its state.\<close>

lemma closed_stays:
  assumes "keys_ok d" and "enabled a d" and "r \<in> set (db_runs d)" and "\<not> open_status (run_status r)"
  shows "run_view r \<in> run_view ` set (db_runs (step a d))"
proof -
  have "\<not> sel a d r" using assms opens by blast
  then have "run_view r \<in> set (map run_view (db_runs (settle (sel a d) (out a) d)))"
    using assms(3) by (force simp: settle_def)
  then show ?thesis
    using settles [OF assms(1,2)] by (metis same_ledger_def set_map)
qed

end

section \<open>The operations that settle\<close>

text \<open>One run, and its batch when that row exists.\<close>

definition batch_of :: "db \<Rightarrow> int \<Rightarrow> int option" where
  "batch_of d k = Option.bind (get_run k d) (\<lambda>r.
     Option.bind (run_batch_id r) (\<lambda>b. map_option bat_id (get_batch b d)))"

definition run_open :: "int \<Rightarrow> db \<Rightarrow> bool" where
  "run_open k d = (case get_run k d of None \<Rightarrow> False | Some r \<Rightarrow> open_status (run_status r))"

lemma selected_one:
  assumes "keys_ok d" and "get_run k d = Some r"
  shows "selected (\<lambda>r. run_id r = k) b d = (if run_batch_id r = Some b then 1 else 0)"
proof -
  have "distinct (map run_id rs) \<Longrightarrow> get_row run_id k rs = Some r \<Longrightarrow>
      count_rows (\<lambda>r. run_id r = k \<and> run_batch_id r = Some b) rs
      = (if run_batch_id r = Some b then 1 else 0)" for rs
  proof (induction rs)
    case Nil
    then show ?case by (simp add: get_row_def)
  next
    case (Cons a rs)
    show ?case
    proof (cases "run_id a = k")
      case True
      with Cons.prems have "count_rows (\<lambda>r. run_id r = k \<and> run_batch_id r = Some b) rs = 0"
        by (auto simp: count_rows_eq_0_iff image_iff)
      with True Cons.prems show ?thesis by (auto simp: get_row_def)
    next
      case False
      with Cons show ?thesis by (simp add: get_row_def)
    qed
  qed
  with assms show ?thesis by (simp add: selected_def keys_ok_def get_run_def)
qed

lemma batch_of_Some:
  assumes "get_run k d = Some r" and "x \<in> set (db_batches d)"
  shows "batch_of d k = Some (bat_id x) \<longleftrightarrow> run_batch_id r = Some (bat_id x)"
proof -
  have "get_batch (bat_id x) d \<noteq> None"
    using assms(2) by (simp add: get_batch_def get_row_None_iff)
  then show ?thesis
    using assms(1) by (auto simp: batch_of_def bind_eq_Some_conv dest: batch_tab.get_Some)
qed

lemma settle_one:
  assumes keys: "keys_ok d" and r: "get_run k d = Some r"
    and f: "\<And>x. run_view (f x) = run_view (x\<lparr>run_status := s\<rparr>)"
    and g: "\<And>x. batch_view (g x) = batch_view (bump s 1 x)"
  shows "same_ledger (settle (\<lambda>r. run_id r = k) s d) (bump_batch (batch_of d k) g (upd_run k f d))"
proof -
  let ?d' = "bump_batch (batch_of d k) g (upd_run k f d)"
  have "db_runs ?d' = upd_row run_id k f (db_runs d)"
    by (simp add: bump_batch_def upd_run_def split: option.split)
  then have runs: "map run_view (db_runs ?d')
      = map run_view (map (\<lambda>r. if run_id r = k then r\<lparr>run_status := s\<rparr> else r) (db_runs d))"
    by (simp add: upd_row_def f)
  have "map batch_view (db_batches ?d')
      = map batch_view (map (\<lambda>x. bump s (selected (\<lambda>r. run_id r = k) (bat_id x) d) x) (db_batches d))"
  proof (cases "batch_of d k")
    case None
    then have "selected (\<lambda>r. run_id r = k) (bat_id x) d = 0" if "x \<in> set (db_batches d)" for x
      using batch_of_Some [OF r that] by (simp add: selected_one [OF keys r])
    with None show ?thesis by (simp add: bump_batch_def)
  next
    case (Some b)
    then have "batch_view (if bat_id x = b then g x else x)
        = batch_view (bump s (selected (\<lambda>r. run_id r = k) (bat_id x) d) x)"
      if "x \<in> set (db_batches d)" for x
      using batch_of_Some [OF r that]
      by (cases "run_batch_id r = Some (bat_id x)") (simp_all add: selected_one [OF keys r] g)
    then show ?thesis
      unfolding Some bump_batch_def upd_batch_def upd_row_def upd_run_frame
      by (simp add: comp_def)
  qed
  with runs show ?thesis
    by (simp add: same_ledger_def settle_def bump_batch_def upd_run_def upd_batch_def split: option.split)
qed

definition result_status :: "job_result \<Rightarrow> run_status" where
  "result_status res = (if jr_success res then Success else Failed)"

lemma close_run_bump:
  "close_run fromiso res bo d = bump_batch bo (bump (result_status res) 1)
     (upd_run (jr_run_id res) (\<lambda>r. (note_times fromiso res r)\<lparr>run_status := result_status res\<rparr>) d)"
  by (simp add: close_run_def result_status_def bump_def [abs_def])

interpretation recorded: settling
  "\<lambda>(fromiso, res) d. run_open (jr_run_id res) d"
  "\<lambda>(fromiso, res) d. close_run fromiso res (batch_of d (jr_run_id res)) d"
  "\<lambda>(fromiso, res) d r. run_id r = jr_run_id res"
  "\<lambda>(fromiso, res). result_status res"
proof (unfold_locales, goal_cases)
  case (1 d a)
  obtain fromiso res where a: "a = (fromiso, res)" by (cases a)
  from 1 a obtain r where "get_run (jr_run_id res) d = Some r"
    by (auto simp: run_open_def split: option.splits)
  from settle_one [OF 1(1) this] show ?case
    by (simp add: a close_run_bump run_view_def note_times_def)
next
  case (2 d a r)
  then show ?case
    using run_tab.get_member [of d r]
    by (auto simp: run_open_def keys_ok_def split: option.splits)
next
  case (3 a)
  then show ?case by (simp add: result_status_def split: prod.split)
qed

interpretation rejected: settling
  "\<lambda>(rid, err, now, bid) d. run_open rid d \<and> batch_of d rid = Some bid"
  "\<lambda>(rid, err, now, bid) d. fail_run rid err now bid d"
  "\<lambda>(rid, err, now, bid) d r. run_id r = rid"
  "\<lambda>_. Failed"
proof (unfold_locales, goal_cases)
  case (1 d a)
  obtain rid err now bid where a: "a = (rid, err, now, bid)" by (cases a)
  from 1 a obtain r where r: "get_run rid d = Some r" and b: "batch_of d rid = Some bid"
    by (auto simp: run_open_def split: option.splits)
  have "same_ledger (settle (\<lambda>r. run_id r = rid) Failed d)
      (bump_batch (batch_of d rid) (bump Failed 1)
        (upd_run rid (\<lambda>r. r\<lparr>run_status := Failed, run_error := Some err, run_finished_at := Some now\<rparr>) d))"
    by (rule settle_one [OF 1(1) r]) (simp_all add: run_view_def)
  then show ?case by (simp add: a b fail_run_def bump_batch_def bump_def [abs_def])
next
  case (2 d a r)
  then show ?case
    using run_tab.get_member [of d r]
    by (auto simp: run_open_def keys_ok_def split: option.splits)
next
  case (3 a)
  then show ?case by simp
qed

lemma selected_open_run:
  "selected (open_run b) i d = (if i = b then count_rows (open_run b) (db_runs d) else 0)"
  by (auto simp: selected_def open_run_def count_rows_eq_0_iff intro: count_rows_cong)

lemma settle_open_runs:
  assumes f: "\<And>r. run_view (f r) = run_view (r\<lparr>run_status := s\<rparr>)" and s: "s \<noteq> Success"
  shows "same_ledger (settle (open_run b) s d) (close_open_runs b f d)"
  using s
  by (simp add: same_ledger_def settle_def close_open_runs_def upd_batch_def upd_row_def f
      selected_open_run bump_def if_distrib [of run_view] if_distrib [of batch_view] comp_def
      batch_view_def cong: if_cong)

interpretation timed_out: settling
  "\<lambda>(b, now) d. True"
  "\<lambda>(b, now) d. close_open_runs b (timeout_run now) d"
  "\<lambda>(b, now) d. open_run b"
  "\<lambda>_. Failed"
  by unfold_locales
    (auto simp: open_run_def run_view_def timeout_run_def intro!: settle_open_runs)

interpretation cancelled: settling
  "\<lambda>(b, now) d. True"
  "\<lambda>(b, now) d. close_open_runs b (cancel_run now) d"
  "\<lambda>(b, now) d. open_run b"
  "\<lambda>_. Cancelled"
  by unfold_locales
    (auto simp: open_run_def run_view_def cancel_run_def intro!: settle_open_runs)

section \<open>Finishing a batch\<close>

lemma acct_ok_finish:
  assumes ok: "acct_ok d" and bats: "db_batches d' = map g (db_batches d)"
    and rest: "db_runs d' = db_runs d" "seq_run d' = seq_run d" "seq_batch d' = seq_batch d"
    and g: "\<And>x. x \<in> set (db_batches d) \<Longrightarrow>
      bat_id (g x) = bat_id x \<and> bat_total (g x) = bat_total x
      \<and> bat_succeeded (g x) = bat_succeeded x \<and> bat_failed (g x) = bat_failed x
      \<and> (bat_finished_at (g x) \<noteq> None \<longrightarrow>
           bat_finished_at x \<noteq> None \<or> tally d (bat_id x) open_status = 0)"
  shows "acct_ok d'"
proof -
  have tal: "tally d' b P = tally d b P" for b P by (simp add: tally_def rest)
  have ids: "map bat_id (map g (db_batches d)) = map bat_id (db_batches d)"
    and less: "list_all (\<lambda>x. 0 < bat_id x \<and> bat_id x < n) (map g (db_batches d))
      = list_all (\<lambda>x. 0 < bat_id x \<and> bat_id x < n) (db_batches d)" for n
    using g by (simp_all add: list_all_iff)
  from ok have "keys_ok d'"
    unfolding acct_ok_def keys_ok_def bats rest ids less by simp
  moreover have "batch_ok d' (g x)" if "x \<in> set (db_batches d)" for x
    using g [OF that] acct_ok_member [OF ok that] by (auto simp: batch_ok_def tal)
  ultimately show ?thesis by (simp add: acct_ok_def bats list_all_iff)
qed

lemma counted_open:
  "batch_ok d x \<Longrightarrow> counted x \<Longrightarrow> tally d (bat_id x) open_status = 0"
  using batch_ok_open [of d x] tally_nonneg [of d "bat_id x" open_status]
  by (simp add: counted_def)

lemma acct_ok_finish_if_counted: "acct_ok d \<Longrightarrow> acct_ok (finish_if_counted b now d)"
  by (rule acct_ok_finish [where g = "\<lambda>x. if bat_id x = b then
        (if bat_finished_at x = None \<and> counted x then x\<lparr>bat_finished_at := Some now\<rparr> else x) else x"])
    (auto simp: finish_if_counted_def upd_batch_def upd_row_def dest: acct_ok_member counted_open)

lemma acct_ok_upd_finished:
  assumes "acct_ok d" and "\<And>x. bat_id x = b \<Longrightarrow> x \<in> set (db_batches d) \<Longrightarrow> tally d b open_status = 0"
  shows "acct_ok (upd_batch b (\<lambda>x. x\<lparr>bat_finished_at := t\<rparr>) d) \<or> t = None"
  using assms
  by (auto simp: upd_batch_def upd_row_def
      intro!: acct_ok_finish [OF assms(1), where g = "\<lambda>x. if bat_id x = b then x\<lparr>bat_finished_at := t\<rparr> else x"]
      split: if_splits)

lemma acct_ok_cancel_batch: "acct_ok d \<Longrightarrow> acct_ok (cancel_batch b now d)"
  using cancelled.step_ok [of d "(b, now)"]
  by (auto simp: cancel_batch_def intro: acct_ok_finish_if_counted split: option.split)

text \<open>The reaper marks the batch finished before it closes the runs; the order does not matter.\<close>

lemma close_open_runs_finish:
  "close_open_runs b f (upd_batch b (\<lambda>x. x\<lparr>bat_finished_at := t\<rparr>) d)
    = upd_batch b (\<lambda>x. x\<lparr>bat_finished_at := t\<rparr>) (close_open_runs b f d)"
  by (simp add: close_open_runs_def upd_batch_def upd_row_def comp_def)

lemma tally_open_run: "tally d b open_status = count_rows (open_run b) (db_runs d)"
  by (simp add: tally_def open_run_def [abs_def])

lemma tally_timed_out: "keys_ok d \<Longrightarrow> tally (close_open_runs b (timeout_run now) d) b open_status = 0"
  using timed_out.step_open [of d "(b, now)" b]
  by (simp add: selected_open_run tally_open_run)

lemma acct_ok_reap:
  assumes "acct_ok d"
  shows "acct_ok (close_open_runs b (timeout_run now) (upd_batch b (\<lambda>x. x\<lparr>bat_finished_at := Some now\<rparr>) d))"
proof -
  from assms have keys: "keys_ok d" by (simp add: acct_ok_def)
  have "acct_ok (close_open_runs b (timeout_run now) d)"
    using timed_out.step_ok [OF assms, of "(b, now)"] by simp
  then show ?thesis
    unfolding close_open_runs_finish
    using acct_ok_upd_finished [of "close_open_runs b (timeout_run now) d" b "Some now"]
    by (simp add: tally_timed_out [OF keys])
qed

section \<open>Purging\<close>

lemma count_rows_filter: "count_rows P (filter Q rs) = count_rows (\<lambda>r. Q r \<and> P r) rs"
  by (induction rs) auto

lemma distinct_count_cancelled:
  "distinct (map fst cs) \<Longrightarrow> distinct (map fst (count_cancelled rs cs))"
  by (induction rs cs rule: count_cancelled.induct) (simp_all add: Let_def distinct_dict_set)

lemma map_of_count_cancelled:
  assumes "b \<noteq> 0"
  shows "map_of (count_cancelled rs cs) b =
    (let c = count_rows (\<lambda>r. run_batch_id r = Some b) rs in
     if c = 0 then map_of cs b else Some ((case map_of cs b of None \<Rightarrow> 0 | Some n \<Rightarrow> n) + c))"
proof (induction rs cs rule: count_cancelled.induct)
  case (1 counts)
  then show ?case by simp
next
  case (2 r rs counts)
  have c: "0 \<le> count_rows (\<lambda>r. run_batch_id r = Some b) rs" by simp
  show ?case
  proof (cases "run_batch_id r = Some b")
    case True
    with 2 assms have "map_of (count_cancelled (r # rs) counts) b
        = Some ((case map_of counts b of None \<Rightarrow> 0 | Some n \<Rightarrow> n)
            + (1 + count_rows (\<lambda>r. run_batch_id r = Some b) rs))"
      by (auto simp: Let_def split: option.splits)
    moreover have "1 + count_rows (\<lambda>r. run_batch_id r = Some b) rs \<noteq> 0" using c by linarith
    ultimately show ?thesis using True by (simp add: Let_def)
  next
    case False
    with 2 assms show ?thesis
      by (cases "run_batch_id r") (auto simp: Let_def)
  qed
qed

definition fin :: "datetime \<Rightarrow> run_batch \<Rightarrow> run_batch" where
  "fin now x = (if bat_finished_at x = None \<and> counted x then x\<lparr>bat_finished_at := Some now\<rparr> else x)"

lemma bat_id_fin [simp]: "bat_id (fin now x) = bat_id x"
  by (simp add: fin_def)

lemma count_purged_fin:
  "count_purged now (b, n) d
    = d\<lparr>db_batches := map (\<lambda>x. if bat_id x = b then fin now (bump Cancelled n x) else x) (db_batches d)\<rparr>"
  by (simp add: count_purged_def finish_if_counted_def upd_batch_def upd_row_def bump_def fin_def comp_def)

lemma fold_count_purged:
  assumes "distinct (map fst cs)"
  shows "fold (count_purged now) cs d
    = d\<lparr>db_batches := map (\<lambda>x. case map_of cs (bat_id x) of
          None \<Rightarrow> x | Some n \<Rightarrow> fin now (bump Cancelled n x)) (db_batches d)\<rparr>"
  using assms
proof (induction cs arbitrary: d)
  case Nil
  then show ?case by simp
next
  case (Cons c cs)
  obtain b n where c: "c = (b, n)" by (cases c)
  with Cons.prems have "map_of cs b = None" by (simp add: map_of_eq_None_iff image_iff)
  then show ?case
    using Cons by (simp add: c count_purged_fin comp_def cong: option.case_cong)
qed

text \<open>The runs of each batch that are purged are counted in it, and a batch that is full is finished.\<close>

lemma purge_runs_batches:
  assumes "acct_ok d"
  shows "db_batches (purge_runs now ids d)
    = map (\<lambda>x. if selected (purged_open ids) (bat_id x) d = 0 then x else fin now x)
        (db_batches (settle (purged_open ids) Cancelled d))"
proof -
  let ?sel = "purged_open ids"
  let ?cs = "count_cancelled (filter ?sel (db_runs d)) []"
  have pos: "bat_id x \<noteq> 0" if "x \<in> set (db_batches d)" for x
    using assms that by (auto simp: acct_ok_def keys_ok_def list_all_iff)
  have cs: "map_of ?cs b = (if selected ?sel b d = 0 then None else Some (selected ?sel b d))"
    if "b \<noteq> 0" for b
    using that by (simp add: map_of_count_cancelled Let_def count_rows_filter selected_def)
  have dist: "distinct (map fst ?cs)" by (simp add: distinct_count_cancelled)
  show ?thesis
    unfolding purge_runs_def Let_def fold_count_purged [OF dist]
    by (auto simp: settle_def comp_def cs pos)
qed

lemma purge_runs_runs:
  "db_runs (purge_runs now ids d)
    = map (\<lambda>r. if purged_open ids r then cancel_run now r else r) (db_runs d)
   \<and> seq_run (purge_runs now ids d) = seq_run d \<and> seq_batch (purge_runs now ids d) = seq_batch d"
proof -
  have dist: "distinct (map fst (count_cancelled (filter (purged_open ids) (db_runs d)) []))"
    by (simp add: distinct_count_cancelled)
  show ?thesis unfolding purge_runs_def Let_def fold_count_purged [OF dist] by simp
qed

lemma acct_ok_purge_runs:
  assumes ok: "acct_ok d"
  shows "acct_ok (purge_runs now ids d)"
proof -
  let ?e = "settle (purged_open ids) Cancelled d"
  let ?g = "\<lambda>x. if selected (purged_open ids) (bat_id x) d = 0 then x else fin now x"
  have e: "acct_ok ?e"
    by (rule acct_ok_settle [OF ok]) (simp_all add: purged_open_def)
  have fin: "acct_ok (?e\<lparr>db_batches := map ?g (db_batches ?e)\<rparr>)"
    by (rule acct_ok_finish [OF e, where g = ?g])
      (auto simp: fin_def dest: acct_ok_member [OF e] counted_open)
  have "same_ledger (?e\<lparr>db_batches := map ?g (db_batches ?e)\<rparr>) (purge_runs now ids d)"
    unfolding same_ledger_def purge_runs_batches [OF ok]
    by (simp add: purge_runs_runs settle_def run_view_def cancel_run_def)
  with fin show ?thesis by (simp add: acct_ok_same)
qed

section \<open>A new batch\<close>

lemma number_targets_ids:
  "map (\<lambda>(dev, g, rid). rid) (number_targets k ts) = map (\<lambda>i. k + int i) [0..<length ts]"
proof (induction k ts rule: number_targets.induct)
  case (1 k)
  then show ?case by simp
next
  case (2 k dev g ts)
  have "map (\<lambda>i. k + 1 + int i) [0..<length ts] = map (\<lambda>i. k + int i) [1..<Suc (length ts)]"
    by (simp add: map_Suc_upt [symmetric] comp_def algebra_simps del: upt_Suc)
  with 2 show ?case by (simp add: upt_conv_Cons del: upt_Suc)
qed

lemma length_number_targets [simp]: "length (number_targets k ts) = length ts"
  by (induction k ts rule: number_targets.induct) simp_all

lemma tally_absent:
  "keys_ok d \<Longrightarrow> seq_batch d \<le> b \<Longrightarrow> tally d b P = 0"
  by (fastforce simp: tally_def count_rows_eq_0_iff keys_ok_def list_all_iff)

lemma acct_ok_create_rows:
  assumes ok: "acct_ok d" and c: "create_rows j sid sname now ts d = (bid, pairs, d')"
  shows "acct_ok d'"
proof -
  let ?new = "map (\<lambda>(dev, g, rid). new_run now rid j sid bid (dev_id dev)) pairs"
  from c have pairs: "pairs = number_targets (seq_run d) ts" and bid: "bid = seq_batch d"
    and runs: "db_runs d' = db_runs d @ ?new"
    and bats: "db_batches d' = db_batches d @ [new_batch bid j sid sname (length ts) now]"
    and seqs: "seq_run d' = seq_run d + int (length ts)" "seq_batch d' = bid + 1"
    by (auto simp: create_rows_def Let_def)
  have keys: "keys_ok d" using ok by (simp add: acct_ok_def)
  have ids: "map run_id ?new = map (\<lambda>i. seq_run d + int i) [0..<length ts]"
  proof -
    have "map run_id ?new = map (\<lambda>(dev, g, rid). rid) pairs"
      by (simp add: comp_def new_run_def case_prod_unfold)
    then show ?thesis by (simp add: pairs number_targets_ids)
  qed
  have new: "run_batch_id r = Some bid \<and> run_status r = Pending" if "r \<in> set ?new" for r
    using that by (auto simp: new_run_def)
  have lt: "run_id r < seq_run d + int (length ts) \<and> seq_run d \<le> run_id r" if "r \<in> set ?new" for r
  proof -
    from that have "run_id r \<in> set (map run_id ?new)" by (simp only: set_map imageI)
    then show ?thesis unfolding ids by auto
  qed
  have "run_id ` set (db_runs d) \<inter> run_id ` set ?new = {}"
    using keys lt by (fastforce simp only: keys_ok_def list_all_iff)
  moreover have "distinct (map run_id ?new)" unfolding ids by (simp add: distinct_map inj_on_def)
  ultimately have "distinct (map run_id (db_runs d'))"
    using keys unfolding runs map_append distinct_append by (simp only: keys_ok_def set_map)
  moreover have "distinct (map bat_id (db_batches d'))"
    using keys by (auto simp: keys_ok_def bats bid new_batch_def list_all_iff)
  moreover have "list_all (\<lambda>r. run_id r < seq_run d') (db_runs d')"
    unfolding runs seqs list_all_append using keys lt
    by (fastforce simp only: keys_ok_def list_all_iff)
  moreover have "list_all (\<lambda>x. 0 < bat_id x \<and> bat_id x < seq_batch d') (db_batches d')"
    using keys by (auto simp: keys_ok_def bats seqs bid list_all_iff new_batch_def)
  moreover have "list_all (\<lambda>r. case run_batch_id r of None \<Rightarrow> True | Some b \<Rightarrow> b < seq_batch d') (db_runs d')"
  proof -
    have "list_all (\<lambda>r. case run_batch_id r of None \<Rightarrow> True | Some b \<Rightarrow> b < bid + 1) (db_runs d)"
      using keys by (auto simp: keys_ok_def list_all_iff bid split: option.splits)
    moreover have "list_all (\<lambda>r. case run_batch_id r of None \<Rightarrow> True | Some b \<Rightarrow> b < bid + 1) ?new"
      unfolding list_all_iff using new by simp
    ultimately show ?thesis by (simp only: runs seqs list_all_append)
  qed
  ultimately have "keys_ok d'"
    using keys by (simp add: keys_ok_def seqs bid)
  moreover have tal: "tally d' b P = tally d b P + (if b = bid \<and> P Pending then int (length ts) else 0)" for b P
  proof -
    have "count_rows (\<lambda>r. run_batch_id r = Some b \<and> P (run_status r)) ?new
        = count_rows (\<lambda>r. b = bid \<and> P Pending) ?new"
      by (rule count_rows_cong) (use new in auto)
    also have "\<dots> = (if b = bid \<and> P Pending then int (length ts) else 0)"
      by (simp add: count_rows_def pairs)
    finally show ?thesis by (simp add: tally_def runs)
  qed
  moreover have "batch_ok d' x" if "x \<in> set (db_batches d)" for x
  proof -
    have "bat_id x \<noteq> bid" using keys that by (auto simp: keys_ok_def list_all_iff bid)
    then show ?thesis using acct_ok_member [OF ok that] by (simp add: batch_ok_def tal)
  qed
  moreover have "batch_ok d' (new_batch bid j sid sname (length ts) now)"
    by (simp add: batch_ok_def tal new_batch_def tally_absent [OF keys] bid)
  ultimately show ?thesis by (simp add: acct_ok_def bats list_all_iff)
qed

end
