(* ===== verification/Lifecycle.thy ===== *)
theory Lifecycle
  imports Accounting
begin

text \<open>
  Whole operations and the accounting invariant: \<open>fire_job\<close>, \<open>persist\<close>, the reaper; then the step
  relation of the running system, in which the processes interleave in any order, and the invariant
  of its reachable states.
\<close>

section \<open>Firing\<close>

text \<open>The runs of a firing that still wait to be published or rejected.\<close>

definition waiting :: "int \<Rightarrow> int list \<Rightarrow> db \<Rightarrow> bool" where
  "waiting bid rids d \<longleftrightarrow>
     distinct rids \<and> list_all (\<lambda>rid. run_open rid d \<and> batch_of d rid = Some bid) rids"

definition pair_ids :: "(device \<times> device_group option \<times> int) list \<Rightarrow> int list" where
  "pair_ids pairs = map (\<lambda>(dev, g, rid). rid) pairs"

lemma pair_ids_simps [simp]:
  "pair_ids [] = []" "pair_ids ((dev, g, rid) # ps) = rid # pair_ids ps"
  by (simp_all add: pair_ids_def)

lemma get_run_fail_run:
  "get_run k (fail_run rid err now bid d) =
     (if k = rid then map_option (\<lambda>r. r\<lparr>run_status := Failed, run_error := Some err, run_finished_at := Some now\<rparr>)
        (get_run rid d) else get_run k d)"
  by (simp add: fail_run_def run_tab.get_upd)

lemma get_batch_fail_run:
  "get_batch b (fail_run rid err now bid d) =
     (if b = bid then map_option (\<lambda>x. x\<lparr>bat_failed := bat_failed x + 1\<rparr>) (get_batch bid d)
      else get_batch b d)"
  by (simp add: fail_run_def batch_tab.get_upd)

lemma batch_of_fail_run [simp]: "batch_of (fail_run rid err now bid d) k = batch_of d k"
proof -
  have "map_option bat_id (get_batch b (fail_run rid err now bid d)) = map_option bat_id (get_batch b d)" for b
    by (simp add: get_batch_fail_run option.map_comp comp_def)
  then show ?thesis
    by (cases "k = rid"; cases "get_run k d") (simp_all add: batch_of_def get_run_fail_run)
qed

lemma waiting_Cons:
  "waiting bid (rid # rids) d \<longleftrightarrow>
     run_open rid d \<and> batch_of d rid = Some bid \<and> rid \<notin> set rids \<and> waiting bid rids d"
  by (auto simp: waiting_def)

lemma waiting_fail_run:
  "rid \<notin> set rids \<Longrightarrow> waiting bid rids d \<Longrightarrow> waiting bid rids (fail_run rid err now bid d)"
  by (auto simp: waiting_def run_open_def get_run_fail_run list_all_iff)

lemma acct_ok_fail_run:
  "acct_ok d \<Longrightarrow> run_open rid d \<Longrightarrow> batch_of d rid = Some bid \<Longrightarrow> acct_ok (fail_run rid err now bid d)"
  using rejected.step_ok [of d "(rid, err, now, bid)"] by simp

lemma get_row_append: "get_row key k (xs @ ys) = (case get_row key k xs of None \<Rightarrow> get_row key k ys | Some r \<Rightarrow> Some r)"
  by (simp add: get_row_def find_append split: option.split)

lemma waiting_create_rows:
  assumes ok: "acct_ok d" and c: "create_rows j sid sname now ts d = (bid, pairs, d')"
  shows "waiting bid (pair_ids pairs) d'"
proof -
  have ok': "keys_ok d'" using acct_ok_create_rows [OF ok c] by (simp add: acct_ok_def)
  from c have pairs: "pairs = number_targets (seq_run d) ts" and bid: "bid = seq_batch d"
    and runs: "db_runs d' = db_runs d @ map (\<lambda>(dev, g, rid). new_run now rid j sid bid (dev_id dev)) pairs"
    and bats: "db_batches d' = db_batches d @ [new_batch bid j sid sname (length ts) now]"
    by (auto simp: create_rows_def Let_def)
  have "get_batch bid d = None"
    using ok by (fastforce simp: get_batch_def get_row_None_iff acct_ok_def keys_ok_def list_all_iff bid)
  then have b: "map_option bat_id (get_batch bid d') = Some bid"
    by (simp add: get_batch_def bats get_row_append) (simp add: get_row_def new_batch_def)
  have "run_open rid d' \<and> batch_of d' rid = Some bid" if "(dev, g, rid) \<in> set pairs" for dev g rid
  proof -
    let ?r = "new_run now rid j sid bid (dev_id dev)"
    have "?r \<in> set (db_runs d')" using that by (force simp: runs)
    then have "get_run (run_id ?r) d' = Some ?r"
      using ok' by (intro run_tab.get_member) (simp add: keys_ok_def)
    then have "get_run rid d' = Some ?r" by (simp add: new_run_def)
    then show ?thesis using b by (simp add: run_open_def batch_of_def new_run_def)
  qed
  moreover have "distinct (pair_ids pairs)"
    unfolding pair_ids_def pairs number_targets_ids by (simp add: distinct_map inj_on_def)
  ultimately show ?thesis by (auto simp: waiting_def list_all_iff pair_ids_def)
qed

text \<open>
  Publishing changes the database only where it rejects a run for want of a credential; what those
  rejections keep is kept by the loop.
\<close>

lemma publish_all_keeps:
  assumes "acct_ok d" and "waiting bid (pair_ids pairs) d" and "P d"
    and rej: "\<And>d rid. acct_ok d \<Longrightarrow> run_open rid d \<Longrightarrow> batch_of d rid = Some bid \<Longrightarrow> P d \<Longrightarrow>
      P (fail_run rid ''no credential available'' now bid d)"
    and "publish_all B C S st j sid cred now bid pairs (d, q) = (r, (d', q'))"
  shows "acct_ok d' \<and> P d'"
  using assms(1-3,5)
proof (induction pairs arbitrary: d q)
  case Nil
  then show ?case by simp
next
  case (Cons p pairs)
  obtain dev g rid where p: "p = (dev, g, rid)" by (cases p)
  from Cons.prems(2) have w: "run_open rid d" "batch_of d rid = Some bid" "rid \<notin> set (pair_ids pairs)"
    "waiting bid (pair_ids pairs) d"
    by (simp_all add: p waiting_Cons)
  show ?case
  proof (cases "spec_for S d dev j rid sid g cred")
    case (Inl e)
    with Cons.prems show ?thesis by (simp add: p)
  next
    case (Inr so)
    show ?thesis
    proof (cases so)
      case None
      with Inr Cons.prems(4)
      have "publish_all B C S st j sid cred now bid pairs
          (fail_run rid ''no credential available'' now bid d, q) = (r, (d', q'))"
        by (simp add: p seq_def on_db_def)
      from Cons.IH [OF acct_ok_fail_run [OF Cons.prems(1) w(1,2)] waiting_fail_run [OF w(3,4)]
          rej [OF Cons.prems(1) w(1,2) Cons.prems(3)] this]
      show ?thesis .
    next
      case (Some spec)
      with Inr Cons.prems(4) consider
        "d' = d" | q1 where "publish_all B C S st j sid cred now bid pairs (d, q1) = (r, (d', q'))"
        by (auto simp: p seq_def on_broker_def split: prod.splits sum.splits)
      then show ?thesis
        using Cons.IH [OF Cons.prems(1) w(4) Cons.prems(3)] Cons.prems(1,3) by cases auto
    qed
  qed
qed

lemmas acct_ok_publish_all = publish_all_keeps [where P = "\<lambda>_. True", simplified]

text \<open>Rejecting everything: each run is failed and counted, nothing of the batch stays open.\<close>

lemma fold_fail_run:
  assumes "acct_ok d" and "waiting bid (pair_ids pairs) d"
  shows "acct_ok (fold (\<lambda>(dev, g, rid). fail_run rid err now bid) pairs d)
    \<and> tally (fold (\<lambda>(dev, g, rid). fail_run rid err now bid) pairs d) bid open_status
      = tally d bid open_status - int (length pairs)"
  using assms
proof (induction pairs arbitrary: d)
  case Nil
  then show ?case by simp
next
  case (Cons p pairs)
  obtain dev g rid where p: "p = (dev, g, rid)" by (cases p)
  from Cons.prems(2) have w: "run_open rid d" "batch_of d rid = Some bid" "rid \<notin> set (pair_ids pairs)"
    "waiting bid (pair_ids pairs) d"
    by (simp_all add: p waiting_Cons)
  have keys: "keys_ok d" using Cons.prems(1) by (simp add: acct_ok_def)
  obtain r where r: "get_run rid d = Some r" "run_batch_id r = Some bid"
    using w(1,2) by (auto simp: run_open_def batch_of_def bind_eq_Some_conv split: option.splits
        dest: batch_tab.get_Some)
  have "tally (fail_run rid err now bid d) bid open_status = tally d bid open_status - 1"
    using rejected.step_open [of d "(rid, err, now, bid)" bid] keys w(1,2)
      selected_one [OF keys r(1)] r(2)
    by simp
  then show ?case
    using Cons.IH [OF acct_ok_fail_run [OF Cons.prems(1) w(1,2)] waiting_fail_run [OF w(3,4)]]
    by (simp add: p)
qed

lemma tally_create_rows:
  assumes ok: "acct_ok d" and c: "create_rows j sid sname now ts d = (bid, pairs, d')"
  shows "tally d' bid open_status = int (length pairs)"
proof -
  have ok': "acct_ok d'" by (rule acct_ok_create_rows [OF ok c])
  from c have new: "new_batch bid j sid sname (length ts) now \<in> set (db_batches d')"
    and len: "length pairs = length ts"
    by (auto simp: create_rows_def Let_def)
  show ?thesis
    using batch_ok_open [OF acct_ok_member [OF ok' new]] by (simp add: new_batch_def len)
qed

lemma acct_ok_reject_all:
  assumes ok: "acct_ok d" and c: "create_rows j sid sname now ts d = (bid, pairs, d')"
  shows "acct_ok (reject_all err now bid pairs d')"
    and "tally (reject_all err now bid pairs d') bid open_status = 0"
proof -
  let ?e = "fold (\<lambda>(dev, g, rid). fail_run rid err now bid) pairs d'"
  have e: "acct_ok ?e \<and> tally ?e bid open_status = 0"
    using fold_fail_run [OF acct_ok_create_rows [OF ok c] waiting_create_rows [OF ok c], of err now]
    by (simp add: tally_create_rows [OF ok c])
  then show "acct_ok (reject_all err now bid pairs d')"
    using acct_ok_upd_finished [of ?e bid "Some now"] by (simp add: reject_all_def finish_batch_def)
  show "tally (reject_all err now bid pairs d') bid open_status = 0"
    using e by (simp add: reject_all_def finish_batch_def tally_def)
qed

lemma acct_ok_fire_job:
  assumes ok: "acct_ok d" and f: "fire_job B C S st now j sid sname (d, q) = (r, (d', q'))"
  shows "acct_ok d'"
proof -
  obtain bid pairs d1 where c: "create_rows j sid sname now (device_group_pairs d j) d = (bid, pairs, d1)"
    by (metis prod.exhaust)
  consider "d' = d" | err where "d' = reject_all err now bid pairs d1"
    | q1 r1 where "publish_all B C S st j sid (default_credential d) now bid pairs (d1, q1) = (r1, (d', q'))"
    using f by (auto simp: fire_job_def Let_def seq_def on_broker_def c
        split: prod.splits sum.splits option.splits)
  then show ?thesis
  proof cases
    case 1
    with ok show ?thesis by simp
  next
    case 2
    then show ?thesis using acct_ok_reject_all(1) [OF ok c] by simp
  next
    case 3
    then show ?thesis
      by (rule acct_ok_publish_all [OF acct_ok_create_rows [OF ok c] waiting_create_rows [OF ok c]])
  qed
qed

section \<open>Persisting\<close>

text \<open>
  A computation whose every outcome, exceptional or not, relates the database before to the one
  after. \<open>keeps_ledger\<close> is that for the same ledger.
\<close>

definition carries :: "(db \<Rightarrow> db \<Rightarrow> bool) \<Rightarrow> ('g rstate, 'a) eff \<Rightarrow> bool" where
  "carries R m \<longleftrightarrow> (\<forall>s r s'. m s = (r, s') \<longrightarrow> R (rec_db s) (rec_db s'))"

lemma carriesD: "carries R m \<Longrightarrow> m s = (r, s') \<Longrightarrow> R (rec_db s) (rec_db s')"
  by (auto simp: carries_def)

lemma carries_mono: "carries R m \<Longrightarrow> (\<And>d d'. R d d' \<Longrightarrow> Q d d') \<Longrightarrow> carries Q m"
  by (auto simp: carries_def)

lemma carries_seq:
  assumes "carries R m" and "\<And>x. carries R (f x)"
    and trans: "\<And>a b c. R a b \<Longrightarrow> R b c \<Longrightarrow> R a c"
  shows "carries R (seq m f)"
  unfolding carries_def
proof (intro allI impI)
  fix s r s'
  assume run: "seq m f s = (r, s')"
  obtain y s1 where m: "m s = (y, s1)" by (cases "m s")
  have 1: "R (rec_db s) (rec_db s1)" by (rule carriesD [OF assms(1) m])
  show "R (rec_db s) (rec_db s')"
  proof (cases y)
    case (Inl e)
    with run m 1 show ?thesis by (simp add: seq_def)
  next
    case (Inr x)
    with run m have "f x s1 = (r, s')" by (simp add: seq_def)
    from trans [OF 1 carriesD [OF assms(2) this]] show ?thesis .
  qed
qed

lemma carries_modify_db: "(\<And>d. R d (f d)) \<Longrightarrow> carries R (modify_db f)"
  by (simp add: carries_def modify_db_def)

text \<open>
  What the steps of the recorder share: a relation that stays and composes is carried by a computation
  if the parts carry it; of a commit, of the closing of a batch and of a reaper pass only what they
  write themselves is left to show.
\<close>

locale db_relation =
  fixes R :: "db \<Rightarrow> db \<Rightarrow> bool"
  assumes stays: "R d d"
    and composes: "R a b \<Longrightarrow> R b c \<Longrightarrow> R a c"
begin

lemma ret_carries: "carries R (ret x)"
  by (simp add: carries_def stays)

lemma seq_carries: "carries R m \<Longrightarrow> (\<And>x. carries R (f x)) \<Longrightarrow> carries R (seq m f)"
  by (rule carries_seq) (auto intro: composes)

lemma store_carries: "carries R (on_store m)"
  by (auto simp: carries_def on_store_def stays split: prod.splits)

lemma modify_carries: "(\<And>d. R d (f d)) \<Longrightarrow> carries R (modify_db f)"
  by (rule carries_modify_db)

lemma modify_r_carries: "(\<And>d d'. f d = Inr d' \<Longrightarrow> R d d') \<Longrightarrow> carries R (modify_db_r f)"
  by (auto simp: carries_def modify_db_r_def stays split: sum.splits)

lemma session_carries: "carries R m \<Longrightarrow> carries R (session_scope m)"
  by (auto simp: carries_def session_scope_def stays split: prod.splits sum.splits)

lemma storing_carries:
  assumes "\<And>d c. R d (upd_run (jr_run_id res) (\<lambda>r. r\<lparr>run_commit_sha := c\<rparr>) d)"
  shows "carries R (store_backup V res batch grp content)"
proof (cases batch)
  case None
  show ?thesis
    unfolding None store_backup_def option.case case_prod_unfold
    by (intro seq_carries store_carries modify_carries ret_carries assms)
next
  case (Some b)
  then show ?thesis by (auto simp: carries_def store_backup_def stays split: prod.splits)
qed

lemma commit_carries:
  fixes V :: "'g recorder_env"
  assumes "\<And>c d. R d (stamp_runs k (\<lambda>r. mark r c) (upd_batch k (\<lambda>x. x\<lparr>bat_commit_sha := Some c\<rparr>) d))"
  shows "carries R (commit_staged V k message mark)"
proof -
  have "carries R (case sha of None \<Rightarrow> ret () | Some c \<Rightarrow> modify_db (\<lambda>d. stamp_runs k (\<lambda>r. mark r c)
      (upd_batch k (\<lambda>x. x\<lparr>bat_commit_sha := Some c\<rparr>) d)))" for sha
    by (cases sha) (auto intro!: ret_carries modify_carries assms simp del: eff_simps)
  from seq_carries [OF store_carries this] have
    "carries R (seq (on_store m) (\<lambda>sha. case sha of None \<Rightarrow> ret () | Some c \<Rightarrow> modify_db (\<lambda>d.
      stamp_runs k (\<lambda>r. mark r c) (upd_batch k (\<lambda>x. x\<lparr>bat_commit_sha := Some c\<rparr>) d))))" for m .
  from carriesD [OF this, of _ "s\<lparr>rec_staged := dict_del k (rec_staged s)\<rparr>" for s]
  show ?thesis
    by (auto simp: carries_def commit_staged_def Let_def stays split: if_splits)
qed

lemma closing_carries:
  assumes "\<And>t d. R d (upd_batch k (\<lambda>x. x\<lparr>bat_finished_at := t\<rparr>) d)"
    and "\<And>c d. R d (stamp_runs k (\<lambda>r. r\<lparr>run_commit_sha := Some c\<rparr>) (upd_batch k (\<lambda>x. x\<lparr>bat_commit_sha := Some c\<rparr>) d))"
    and "\<And>d d'. auto_evaluate_compliance V k d = Inr d' \<Longrightarrow> R d d'"
  shows "carries R (close_if_done V res k)"
proof -
  have "carries R (if b then modify_db_r (auto_evaluate_compliance V k) else ret ())" for b
    by (auto intro!: ret_carries modify_r_carries assms(3) simp del: eff_simps)
  then have rest: "carries R (seq (modify_db (upd_batch k (\<lambda>x. x\<lparr>bat_finished_at := t\<rparr>))) (\<lambda>_.
      seq (commit_staged V k msg (\<lambda>r c. r\<lparr>run_commit_sha := Some c\<rparr>)) (\<lambda>_.
        if b then modify_db_r (auto_evaluate_compliance V k) else ret ())))" for t msg b
    by (intro seq_carries modify_carries commit_carries assms)
  show ?thesis
    unfolding carries_def close_if_done_def Let_def
    using carriesD [OF rest] by (auto simp: stays split: option.splits if_splits)
qed

lemma reaping_carries:
  assumes "\<And>b. carries R (reap_batch V b)"
  shows "carries R (reap_stale_batches V t)"
proof -
  have "carries R (reap_all V bs)" for bs
  proof (induction bs)
    case Nil
    show ?case unfolding reap_all.simps by (rule ret_carries)
  next
    case (Cons b bs)
    show ?case unfolding reap_all.simps by (rule seq_carries [OF assms Cons])
  qed
  then have "carries R (\<lambda>s. reap_all V (filter (stale (env_now V) t) (db_batches (rec_db s))) s)"
    by (fastforce simp: carries_def)
  then show ?thesis unfolding reap_stale_batches_def by (rule session_carries)
qed

end

abbreviation keeps_ledger :: "('g rstate, 'a) eff \<Rightarrow> bool" where
  "keeps_ledger \<equiv> carries same_ledger"

named_theorems ledger_intros \<open>computations that keep the ledger\<close>

interpretation ledger: db_relation same_ledger
  by unfold_locales (auto intro: same_ledger_trans)

lemmas [ledger_intros] = ledger.ret_carries ledger.seq_carries ledger.store_carries ledger.modify_carries
  ledger.modify_r_carries

lemma same_ledger_fields [simp]:
  "same_ledger d (d\<lparr>db_configs := x1\<rparr>)"
  "same_ledger d (d\<lparr>db_compliance_results := x2\<rparr>)"
  "same_ledger d (d\<lparr>db_cve_scans := x3, db_cve_results := x4, seq_scan := x5\<rparr>)"
  by (simp_all add: same_ledger_def)

lemma same_note_backup: "same_ledger d (note_backup fromiso res b rel content digest d)"
proof -
  let ?d1 = "upd_run (jr_run_id res) (\<lambda>r. r\<lparr>run_payload_sha256 := Some digest,
      run_bytes_captured := Some (utf8_len content)\<rparr>) d"
  let ?d2 = "upd_device (jr_device_id res) (\<lambda>dv. dv\<lparr>dev_latest_backup_path := Some rel,
      dev_latest_backup_at := parse_iso fromiso (Some (jr_finished_at res))\<rparr>) ?d1"
  have "same_ledger d ?d1" by (rule same_upd_run) (simp add: run_view_def)
  also have "same_ledger ?d1 ?d2" by (rule same_upd_device)
  also have "same_ledger ?d2 (note_backup fromiso res b rel content digest d)"
    unfolding note_backup_def Let_def by (rule same_ledger_fields(1))
  finally show ?thesis .
qed

lemma same_record_cve_scan:
  "record_cve_scan fromiso now res d = Inr d' \<Longrightarrow> same_ledger d d'"
  by (auto simp: record_cve_scan_def Let_def bind_result_Inr_iff run_view_def
      intro!: same_ledger_trans [OF same_ledger_fields(3) same_upd_run])

lemma same_record_collect: "record_collect res d = Inr d' \<Longrightarrow> same_ledger d d'"
  by (auto simp: record_collect_def bind_result_Inr_iff run_view_def note_collect_def intro!: same_upd_run)

lemma same_upsert_compliance_results: "same_ledger d (upsert_compliance_results rs d)"
  by (simp add: upsert_compliance_results_def)

lemma same_evaluate_policies:
  "evaluate_policies E re now devs ps d = Inr d' \<Longrightarrow> same_ledger d d'"
proof (induction ps arbitrary: d)
  case Nil
  then show ?case by simp
next
  case (Cons p ps)
  then show ?case
    by (auto simp: Let_def bind_result_Inr_iff split: if_splits
        intro: same_ledger_trans [OF same_upsert_compliance_results])
qed

lemma same_auto_evaluate:
  "auto_evaluate_compliance V b d = Inr d' \<Longrightarrow> same_ledger d d'"
  by (auto simp: auto_evaluate_compliance_def Let_def split: if_splits intro: same_evaluate_policies)

lemma keeps_store_backup [ledger_intros]: "keeps_ledger (store_backup V res batch grp content)"
  by (rule ledger.storing_carries, rule same_upd_run) (simp add: run_view_def)

lemma keeps_record_payload [ledger_intros]: "keeps_ledger (record_payload V res batch batch_id)"
proof -
  have "keeps_ledger (record_backup V res batch batch_id content)" for content
    unfolding record_backup_def Let_def
    by (simp only: carries_def, intro allI impI, erule carriesD [rotated])
      (intro ledger_intros, auto simp: bind_result_Inr_iff intro: same_note_backup)
  moreover have "keeps_ledger (modify_db_r (record_collect res))"
    by (intro ledger_intros same_record_collect)
  moreover have "keeps_ledger (modify_db_r (record_cve_scan (env_fromiso V) (env_now V) res))"
    by (intro ledger_intros same_record_cve_scan)
  ultimately show ?thesis using ledger.ret_carries [of "()"] unfolding record_payload_def
    by (auto simp del: eff_simps)
qed

lemma keeps_commit_staged [ledger_intros]:
  "(\<And>r c. run_view (mark r c) = run_view r) \<Longrightarrow> keeps_ledger (commit_staged V b message mark)"
  by (rule ledger.commit_carries, rule same_ledger_trans [OF same_upd_batch same_stamp_runs])
    (simp_all add: batch_view_def)

text \<open>Closing a batch keeps the books.\<close>

abbreviation keeps_books :: "('g rstate, 'a) eff \<Rightarrow> bool" where
  "keeps_books \<equiv> carries (\<lambda>d d'. acct_ok d \<longrightarrow> acct_ok d')"

interpretation books: db_relation "\<lambda>d d'. acct_ok d \<longrightarrow> acct_ok d'"
  by unfold_locales auto

lemma keeps_booksD: "keeps_books m \<Longrightarrow> m s = (r, s') \<Longrightarrow> acct_ok (rec_db s) \<Longrightarrow> acct_ok (rec_db s')"
  by (auto simp: carries_def)

lemma keeps_books_ledger: "keeps_ledger m \<Longrightarrow> keeps_books m"
  by (erule carries_mono) (simp add: acct_ok_same)

lemma keeps_books_close_if_done: "keeps_books (close_if_done V res b)"
  unfolding carries_def
proof (intro allI impI)
  fix s r s'
  assume run: "close_if_done V res b s = (r, s')" and ok: "acct_ok (rec_db s)"
  show "acct_ok (rec_db s')"
  proof (cases "get_batch b (rec_db s)")
    case None
    with run ok show ?thesis by (simp add: close_if_done_def)
  next
    case (Some batch)
    let ?t = "case parse_iso (env_fromiso V) (Some (jr_finished_at res)) of None \<Rightarrow> env_now V | Some t \<Rightarrow> t"
    let ?mark = "upd_batch b (\<lambda>x. x\<lparr>bat_finished_at := Some ?t\<rparr>)"
    let ?rest = "seq (commit_staged V b (batch_message batch) (\<lambda>r c. r\<lparr>run_commit_sha := Some c\<rparr>))
      (\<lambda>_. if bat_kind batch = ''backup'' then modify_db_r (auto_evaluate_compliance V b) else ret ())"
    show ?thesis
    proof (cases "bat_finished_at batch = None \<and> counted batch")
      case False
      with run ok Some show ?thesis by (auto simp: close_if_done_def counted_def)
    next
      case True
      have "tally (rec_db s) b open_status = 0"
        using counted_open [of "rec_db s" batch] acct_ok_get [OF ok Some] True by simp
      then have ok': "acct_ok (?mark (rec_db s))"
        using acct_ok_upd_finished [OF ok, of b "Some ?t"] by simp
      have "keeps_ledger ?rest"
        by (intro ledger_intros, simp add: run_view_def)
          (auto intro!: ledger_intros same_auto_evaluate)
      moreover have "?rest (s\<lparr>rec_db := ?mark (rec_db s)\<rparr>) = (r, s')"
        using run Some True by (simp add: close_if_done_def counted_def Let_def seq_def modify_db_def)
      ultimately show ?thesis
        using keeps_booksD [OF keeps_books_ledger] ok' by fastforce
    qed
  qed
qed

text \<open>A result is answerable when its run is unknown, cancelled or still open.\<close>

definition answerable :: "job_result \<Rightarrow> db \<Rightarrow> bool" where
  "answerable res d \<longleftrightarrow>
     (case get_run (jr_run_id res) d of
        None \<Rightarrow> True | Some r \<Rightarrow> run_status r = Cancelled \<or> open_status (run_status r))"

lemma acct_ok_persist:
  assumes ok: "acct_ok (rec_db s)" and a: "answerable res (rec_db s)" and run: "persist V res s = (r, s')"
  shows "acct_ok (rec_db s')"
proof -
  obtain r1 s1 where body: "persist_body V res s = (r1, s1)" by (cases "persist_body V res s")
  with run have "rec_db s' = rec_db s \<or> rec_db s' = rec_db s1"
    by (auto simp: persist_def session_scope_def split: sum.splits)
  moreover have "acct_ok (rec_db s1)"
  proof (cases "get_run (jr_run_id res) (rec_db s)")
    case None
    with body ok show ?thesis by (simp add: persist_body_def)
  next
    case (Some x)
    show ?thesis
    proof (cases "run_status x = Cancelled")
      case True
      with Some body ok show ?thesis by (simp add: persist_body_def Let_def)
    next
      case False
      let ?b = "batch_of (rec_db s) (jr_run_id res)"
      let ?d1 = "close_run (env_fromiso V) res ?b (rec_db s)"
      have b: "Option.bind (run_batch_id x) (\<lambda>b. map_option bat_id (get_batch b (rec_db s))) = ?b"
        by (simp add: batch_of_def Some)
      have "run_open (jr_run_id res) (rec_db s)"
        using a False by (simp add: answerable_def run_open_def Some)
      then have ok1: "acct_ok ?d1"
        using recorded.step_ok [OF ok, of "(env_fromiso V, res)"] by simp
      let ?rest = "seq (record_payload V res ?b (run_batch_id x))
        (\<lambda>_. case ?b of None \<Rightarrow> ret () | Some b \<Rightarrow> close_if_done V res b)"
      have "keeps_books ?rest"
        by (intro books.seq_carries keeps_books_ledger [OF keeps_record_payload])
          (simp add: keeps_books_close_if_done keeps_books_ledger ledger_intros split: option.split)
      moreover have "?rest (s\<lparr>rec_db := ?d1\<rparr>) = (r1, s1)"
        using body Some False b by (simp add: persist_body_def Let_def seq_def modify_db_def)
      ultimately show ?thesis using keeps_booksD ok1 by fastforce
    qed
  qed
  ultimately show ?thesis using ok by auto
qed

lemma keeps_books_reap_batch: "keeps_books (reap_batch V batch)"
  unfolding reap_batch_def Let_def
proof (rule books.seq_carries, goal_cases)
  case 1
  show ?case
    by (rule keeps_books_ledger [OF keeps_commit_staged]) (simp add: run_view_def)
next
  case (2 x)
  show ?case by (auto simp: carries_def modify_db_def intro: acct_ok_reap)
qed

lemma acct_ok_reap_stale:
  "acct_ok (rec_db s) \<Longrightarrow> reap_stale_batches V t s = (r, s') \<Longrightarrow> acct_ok (rec_db s')"
  using keeps_booksD [OF books.reaping_carries [OF keeps_books_reap_batch]] by blast

end
