(* ===== verification/Scheduler.thy ===== *)
theory Scheduler
  imports Lifecycle
begin

text \<open>
  \<open>scheduler/runner.py\<close>: one pass over the schedules and the leader's loop. \<open>croniter\<close> and the time
  zone database are parameters: \<open>zone_known\<close> says whether \<open>ZoneInfo(name)\<close> succeeds, \<open>cron_next\<close> is
  the next instant of a cron expression in a zone, or the exception of a bad expression.
\<close>

section \<open>The next instant\<close>

record cron_lib =
  zone_known :: "string \<Rightarrow> bool"
  cron_next :: "string \<Rightarrow> string \<Rightarrow> datetime \<Rightarrow> datetime result"

definition next_fire :: "cron_lib \<Rightarrow> string \<Rightarrow> string \<Rightarrow> datetime \<Rightarrow> datetime result" where
  "next_fire L cron tz_name base =
     cron_next L cron (if zone_known L tz_name then tz_name else ''UTC'') base"

section \<open>One pass\<close>

definition set_next :: "datetime \<Rightarrow> schedule \<Rightarrow> schedule" where
  "set_next t s = s\<lparr>sch_next_run_at := Some t\<rparr>"

definition mark_run :: "datetime \<Rightarrow> datetime \<Rightarrow> schedule \<Rightarrow> schedule" where
  "mark_run now t s = s\<lparr>sch_last_run_at := Some now, sch_next_run_at := Some t\<rparr>"

definition mark_skipped :: "datetime \<Rightarrow> datetime \<Rightarrow> schedule \<Rightarrow> schedule" where
  "mark_skipped now t s = mark_run now t (s\<lparr>sch_skip_next_run := False\<rparr>)"

text \<open>\<open>batch.total - batch.failed\<close> of the batch just created.\<close>

definition fired_of :: "db \<Rightarrow> int \<Rightarrow> int" where
  "fired_of d bid = (case get_batch bid d of None \<Rightarrow> 0 | Some b \<Rightarrow> bat_total b - bat_failed b)"

text \<open>
  Firing with the exception caught and logged; the session goes on with what the call left. The
  value is the number of jobs queued.
\<close>

definition try_fire :: "'q broker \<Rightarrow> codec \<Rightarrow> secret_store \<Rightarrow> settings \<Rightarrow> datetime \<Rightarrow> job \<Rightarrow> schedule
    \<Rightarrow> ('q world, int) eff" where
  "try_fire B C S st now j sched = (\<lambda>w.
     case fire_job B C S st now j (Some (sch_id sched)) (Some (sch_name sched)) w of
       (Inl e, w') \<Rightarrow> (Inr 0, w')
     | (Inr bid, w') \<Rightarrow> (Inr (fired_of (fst w') bid), w'))"

definition fire_schedule :: "cron_lib \<Rightarrow> 'q broker \<Rightarrow> codec \<Rightarrow> secret_store \<Rightarrow> settings \<Rightarrow> datetime
    \<Rightarrow> schedule \<Rightarrow> ('q world, int) eff" where
  "fire_schedule L B C S st now sched = (\<lambda>(d, q).
     case sch_next_run_at sched of
       None \<Rightarrow>
         (case next_fire L (sch_cron sched) (sch_timezone sched) now of
            Inl e \<Rightarrow> (Inl e, (d, q))
          | Inr t \<Rightarrow> (Inr 0, (upd_schedule (sch_id sched) (set_next t) d, q)))
     | Some planned \<Rightarrow>
         if planned > now then (Inr 0, (d, q))
         else
           (case next_fire L (sch_cron sched) (sch_timezone sched) now of
              Inl e \<Rightarrow> (Inl e, (d, q))
            | Inr t \<Rightarrow>
                if sch_skip_next_run sched
                then (Inr 0, (upd_schedule (sch_id sched) (mark_skipped now t) d, q))
                else
                  (case schedule_job d sched of
                     None \<Rightarrow> (Inr 0, (upd_schedule (sch_id sched) (mark_run now t) d, q))
                   | Some j \<Rightarrow>
                       seq (try_fire B C S st now j sched) (\<lambda>n.
                         seq (on_db (upd_schedule (sch_id sched) (mark_run now t))) (\<lambda>_. ret n))
                         (d, q))))"

fun fire_each :: "cron_lib \<Rightarrow> 'q broker \<Rightarrow> codec \<Rightarrow> secret_store \<Rightarrow> settings \<Rightarrow> datetime
    \<Rightarrow> schedule list \<Rightarrow> ('q world, int) eff" where
  "fire_each L B C S st now [] = ret 0"
| "fire_each L B C S st now (s # ss) =
     seq (fire_schedule L B C S st now s) (\<lambda>n.
       seq (fire_each L B C S st now ss) (\<lambda>m. ret (n + m)))"

definition fire_due :: "cron_lib \<Rightarrow> 'q broker \<Rightarrow> codec \<Rightarrow> secret_store \<Rightarrow> settings \<Rightarrow> datetime
    \<Rightarrow> ('q world, int) eff" where
  "fire_due L B C S st now = (\<lambda>(d, q).
     fire_each L B C S st now (filter sch_enabled (db_schedules d)) (d, q))"

text \<open>
  One turn of the loop of \<open>run_scheduler\<close>: without the lock it tries to get it (\<open>granted\<close> is the
  server's answer); an exception of the pass is logged and what it did is committed.
\<close>

definition scheduler_turn :: "cron_lib \<Rightarrow> 'q broker \<Rightarrow> codec \<Rightarrow> secret_store \<Rightarrow> settings \<Rightarrow> datetime
    \<Rightarrow> bool \<Rightarrow> bool \<times> 'q world \<Rightarrow> bool \<times> 'q world" where
  "scheduler_turn L B C S st now granted = (\<lambda>(have_lock, w).
     if \<not> have_lock \<and> \<not> granted then (False, w)
     else (True, snd (fire_due L B C S st now w)))"

section \<open>What a pass does to the schedules\<close>

text \<open>The reference: the new row of a schedule, \<open>t\<close> being its next instant.\<close>

definition advanced :: "datetime \<Rightarrow> datetime \<Rightarrow> schedule \<Rightarrow> schedule" where
  "advanced now t s =
     (case sch_next_run_at s of
        None \<Rightarrow> set_next t s
      | Some planned \<Rightarrow> if planned > now then s else mark_skipped now t s)"

definition due :: "datetime \<Rightarrow> schedule \<Rightarrow> bool" where
  "due now s \<longleftrightarrow> sch_enabled s \<and> (case sch_next_run_at s of None \<Rightarrow> False | Some planned \<Rightarrow> planned \<le> now)"

lemma sched_frames [simp]:
  "db_schedules (upd_run k f d) = db_schedules d"
  "db_schedules (upd_batch k g d) = db_schedules d"
  "db_schedules (fail_run rid err now bid d) = db_schedules d"
  by (simp_all add: upd_run_def upd_batch_def fail_run_def)

lemma sched_publish_all:
  "publish_all B C S st j sid cred now bid pairs (d, q) = (r, (d', q')) \<Longrightarrow> db_schedules d' = db_schedules d"
proof (induction pairs arbitrary: d q)
  case Nil
  then show ?case by simp
next
  case (Cons p pairs)
  obtain dev g rid where p: "p = (dev, g, rid)" by (cases p)
  show ?case
    using Cons
    by (auto simp: p seq_def on_db_def on_broker_def split: sum.splits option.splits prod.splits)
qed

lemma sched_fold_fail_run:
  "db_schedules (fold (\<lambda>(dev, g, rid). fail_run rid err now bid) pairs d) = db_schedules d"
  by (induction pairs arbitrary: d) (simp_all add: case_prod_unfold)

lemma sched_fire_job:
  "fire_job B C S st now j sid sname (d, q) = (r, (d', q')) \<Longrightarrow> db_schedules d' = db_schedules d"
  by (auto simp: fire_job_def Let_def seq_def on_broker_def create_rows_def reject_all_def
      finish_batch_def sched_fold_fail_run
      split: prod.splits sum.splits option.splits dest!: sched_publish_all)

definition the_next :: "cron_lib \<Rightarrow> datetime \<Rightarrow> schedule \<Rightarrow> datetime" where
  "the_next L now s =
     (case next_fire L (sch_cron s) (sch_timezone s) now of Inr t \<Rightarrow> t | Inl _ \<Rightarrow> 0)"

lemma sched_upd_schedule: "db_schedules (upd_schedule k f d) = upd_row sch_id k f (db_schedules d)"
  by (simp add: upd_schedule_def)

lemma sch_id_advanced [simp]: "sch_id (advanced now t s) = sch_id s"
  by (simp add: advanced_def set_next_def mark_skipped_def mark_run_def split: option.split)

lemma upd_row_eq:
  assumes "distinct (map key rs)" and "r \<in> set rs" and "f r = g r"
  shows "upd_row key (key r) f rs = upd_row key (key r) g rs"
proof -
  have "x = r" if "x \<in> set rs" "key x = key r" for x
    using assms(1,2) that by (meson distinct_map inj_onD)
  then show ?thesis using assms(3) by (auto simp: upd_row_def)
qed

lemma fire_schedule_advances:
  assumes dist: "distinct (map sch_id (db_schedules d))" and s: "s \<in> set (db_schedules d)"
    and f: "fire_schedule L B C S st now s (d, q) = (Inr n, (d', q'))"
  shows "db_schedules d' = upd_row sch_id (sch_id s) (advanced now (the_next L now s)) (db_schedules d)"
proof (cases "sch_next_run_at s")
  case None
  with f show ?thesis
    by (auto simp: fire_schedule_def the_next_def advanced_def sched_upd_schedule
        intro!: upd_row_eq [OF dist s] split: sum.splits)
next
  case (Some planned)
  show ?thesis
  proof (cases "planned > now")
    case True
    with f Some have "d' = d" by (simp add: fire_schedule_def)
    moreover have "upd_row sch_id (sch_id s) (advanced now (the_next L now s)) (db_schedules d)
        = upd_row sch_id (sch_id s) (\<lambda>x. x) (db_schedules d)"
      by (rule upd_row_eq [OF dist s]) (simp add: advanced_def Some True)
    ultimately show ?thesis by (simp add: upd_row_def)
  next
    case False
    with f Some obtain t where t: "next_fire L (sch_cron s) (sch_timezone s) now = Inr t"
      by (auto simp: fire_schedule_def split: sum.splits)
    have adv: "advanced now (the_next L now s) s = mark_skipped now t s"
      using Some False t by (simp add: advanced_def the_next_def)
    show ?thesis
    proof (cases "sch_skip_next_run s")
      case True
      with f Some False t show ?thesis
        by (auto simp: fire_schedule_def sched_upd_schedule adv intro!: upd_row_eq [OF dist s])
    next
      case noskip: False
      then have same: "mark_run now t s = mark_skipped now t s"
        by (cases s) (simp add: mark_skipped_def mark_run_def)
      have "db_schedules d' = upd_row sch_id (sch_id s) (mark_run now t) (db_schedules d)"
        using f Some False t noskip
        by (auto simp: fire_schedule_def sched_upd_schedule seq_def on_db_def try_fire_def
            dest!: sched_fire_job split: option.splits prod.splits sum.splits)
      then show ?thesis using upd_row_eq [OF dist s] adv same by metis
    qed
  qed
qed

lemma fire_each_advances:
  assumes "distinct (map sch_id (db_schedules d))" and "set ss \<subseteq> set (db_schedules d)"
    and "distinct (map sch_id ss)" and "fire_each L B C S st now ss (d, q) = (Inr n, (d', q'))"
  shows "db_schedules d' = map (\<lambda>x. if sch_id x \<in> sch_id ` set ss
      then advanced now (the_next L now x) x else x) (db_schedules d)"
  using assms
proof (induction ss arbitrary: d q n)
  case Nil
  then show ?case by simp
next
  case (Cons s ss)
  from Cons.prems(4) obtain n1 d1 q1 n2
    where one: "fire_schedule L B C S st now s (d, q) = (Inr n1, (d1, q1))"
      and rest: "fire_each L B C S st now ss (d1, q1) = (Inr n2, (d', q'))"
    by (auto simp: seq_Inr_iff)
  let ?adv = "\<lambda>x. advanced now (the_next L now x) x"
  have "db_schedules d1 = upd_row sch_id (sch_id s) (advanced now (the_next L now s)) (db_schedules d)"
    using fire_schedule_advances [OF _ _ one] Cons.prems by simp
  also have "\<dots> = upd_row sch_id (sch_id s) ?adv (db_schedules d)"
    by (rule upd_row_eq) (use Cons.prems in simp_all)
  finally have d1: "db_schedules d1 = upd_row sch_id (sch_id s) ?adv (db_schedules d)" .
  have "map sch_id (db_schedules d1) = map sch_id (db_schedules d)"
    by (simp add: d1 upd_row_def)
  moreover have "set ss \<subseteq> set (db_schedules d1)"
  proof
    fix x
    assume x: "x \<in> set ss"
    with Cons.prems(3) have "sch_id x \<noteq> sch_id s" by (auto simp: image_iff)
    moreover from x Cons.prems(2) have "x \<in> set (db_schedules d)" by auto
    ultimately show "x \<in> set (db_schedules d1)"
      unfolding d1 upd_row_def set_map by (intro image_eqI [of _ _ x]) simp_all
  qed
  ultimately have "db_schedules d' = map (\<lambda>x. if sch_id x \<in> sch_id ` set ss then ?adv x else x) (db_schedules d1)"
    using Cons.IH [OF _ _ _ rest] Cons.prems(1,3) by simp
  also have "\<dots> = map (\<lambda>x. if sch_id x \<in> sch_id ` set (s # ss) then ?adv x else x) (db_schedules d)"
    using Cons.prems(3) by (auto simp: d1 upd_row_def)
  finally show ?case .
qed

text \<open>A schedule that is not due at \<open>now\<close> is left alone and nothing is queued for it.\<close>

lemma fire_schedule_idle:
  "sch_next_run_at s = Some planned \<Longrightarrow> now < planned \<Longrightarrow>
   fire_schedule L B C S st now s (d, q) = (Inr 0, (d, q))"
  by (simp add: fire_schedule_def)

lemma fire_each_idle:
  "(\<And>s. s \<in> set ss \<Longrightarrow> \<exists>planned. sch_next_run_at s = Some planned \<and> now < planned) \<Longrightarrow>
   fire_each L B C S st now ss (d, q) = (Inr 0, (d, q))"
proof (induction ss)
  case Nil
  then show ?case by simp
next
  case (Cons s ss)
  then obtain planned where "sch_next_run_at s = Some planned" "now < planned" by auto
  with Cons show ?case by (simp add: seq_def fire_schedule_idle)
qed

lemma advanced_later:
  "now < t \<Longrightarrow> \<exists>planned. sch_next_run_at (advanced now t s) = Some planned \<and> now < planned"
  by (simp add: advanced_def set_next_def mark_skipped_def mark_run_def split: option.split)

end
