(* ===== verification/Cve.thy ===== *)
theory Cve
  imports Web
begin

text \<open>
  \<open>cve/base.py\<close>, \<open>cve/nvd.py\<close> and \<open>cve/__init__.py\<close>: reading the answer of the NVD service. The HTTP request is a
  parameter (\<open>fetch\<close>: the decoded body, or the exception of the request), and so is \<open>repr\<close> of a float
  (\<open>rf\<close>), because a float is kept as its text. Every access to the answer is the Python one: a value
  of the wrong type raises.
\<close>

section \<open>Access to dynamic values\<close>

definition type_name :: "pyval \<Rightarrow> string" where
  "type_name v = (case v of PNone \<Rightarrow> ''NoneType'' | PBool _ \<Rightarrow> ''bool'' | PInt _ \<Rightarrow> ''int''
     | PFloat _ \<Rightarrow> ''float'' | PStr _ \<Rightarrow> ''str'' | PList _ \<Rightarrow> ''list'' | PDict _ \<Rightarrow> ''dict'')"

text \<open>\<open>v.get(k, dflt)\<close>.\<close>

definition py_get :: "pyval \<Rightarrow> string \<Rightarrow> pyval \<Rightarrow> pyval result" where
  "py_get v k dflt =
     (case v of
        PDict d \<Rightarrow> Inr (case map_of d k of None \<Rightarrow> dflt | Some x \<Rightarrow> x)
      | _ \<Rightarrow> Inl (Exn ''AttributeError'' (repr_str (type_name v) @ '' object has no attribute '' @ repr_str ''get'')))"

text \<open>\<open>v[k]\<close> with a string key.\<close>

definition py_item :: "pyval \<Rightarrow> string \<Rightarrow> pyval result" where
  "py_item v k =
     (case v of
        PDict d \<Rightarrow> (case map_of d k of None \<Rightarrow> Inl (KeyError (repr_str k)) | Some x \<Rightarrow> Inr x)
      | _ \<Rightarrow> Inl (Exn ''TypeError'' (repr_str (type_name v) @ '' object is not subscriptable by a string'')))"

text \<open>\<open>v[0]\<close> of a value that is not empty.\<close>

definition py_first :: "pyval \<Rightarrow> pyval result" where
  "py_first v =
     (case v of
        PList (x # xs) \<Rightarrow> Inr x
      | PStr (c # cs) \<Rightarrow> Inr (PStr [c])
      | PDict d \<Rightarrow> Inl (KeyError ''0'')
      | _ \<Rightarrow> Inl (Exn ''TypeError'' (repr_str (type_name v) @ '' object is not subscriptable'')))"

text \<open>The values a loop over \<open>v\<close> sees.\<close>

definition py_iter :: "pyval \<Rightarrow> pyval list result" where
  "py_iter v =
     (case v of
        PList xs \<Rightarrow> Inr xs
      | PStr s \<Rightarrow> Inr (map (\<lambda>c. PStr [c]) s)
      | PDict d \<Rightarrow> Inr (map (PStr \<circ> fst) d)
      | _ \<Rightarrow> Inl (Exn ''TypeError'' (repr_str (type_name v) @ '' object is not iterable'')))"

section \<open>Severity\<close>

definition to_float :: "(pyfloat \<Rightarrow> string) \<Rightarrow> pyval \<Rightarrow> pyval result" where
  "to_float rf v = bind_result (val_float v) (\<lambda>x. Inr (PFloat (rf x)))"

fun severity_from :: "(pyfloat \<Rightarrow> string) \<Rightarrow> pyval \<Rightarrow> string list \<Rightarrow> (pyval \<times> pyval) result" where
  "severity_from rf metrics [] = Inr (PNone, PNone)"
| "severity_from rf metrics (key # keys) =
     bind_result (py_get metrics key (PList [])) (\<lambda>entries.
       if py_truth entries then
         bind_result (py_first entries) (\<lambda>e.
         bind_result (py_get e ''cvssData'' (PDict [])) (\<lambda>cvss.
         bind_result (py_get cvss ''baseScore'' PNone) (\<lambda>score.
         bind_result (py_get cvss ''baseSeverity'' PNone) (\<lambda>severity.
         bind_result (if score = PNone then Inr PNone else to_float rf score) (\<lambda>x.
           Inr (x, severity))))))
       else severity_from rf metrics keys)"

definition metric_keys :: "string list" where
  "metric_keys = [''cvssMetricV31'', ''cvssMetricV30'', ''cvssMetricV2'']"

definition extract_severity :: "(pyfloat \<Rightarrow> string) \<Rightarrow> pyval \<Rightarrow> (pyval \<times> pyval) result" where
  "extract_severity rf cve_node =
     bind_result (py_get cve_node ''metrics'' (PDict [])) (\<lambda>m. severity_from rf m metric_keys)"

section \<open>Entries\<close>

text \<open>The dataclass \<open>CveEntry\<close>; Python checks no types, so a field is what the service sent.\<close>

record nvd_entry =
  ce_cve_id :: pyval
  ce_cvss_v3_score :: pyval
  ce_severity :: pyval
  ce_summary :: pyval
  ce_published_at :: pyval
  ce_url :: pyval

definition as_dict :: "nvd_entry \<Rightarrow> row" where
  "as_dict e = [(''cve_id'', ce_cve_id e), (''cvss_v3_score'', ce_cvss_v3_score e), (''severity'', ce_severity e),
     (''summary'', ce_summary e), (''published_at'', ce_published_at e), (''url'', ce_url e)]"

text \<open>\<open>next((d["value"] for d in descriptions if d.get("lang") == "en"), None)\<close>.\<close>

fun english_summary :: "pyval list \<Rightarrow> pyval result" where
  "english_summary [] = Inr PNone"
| "english_summary (d # ds) =
     bind_result (py_get d ''lang'' PNone) (\<lambda>l.
       if l = PStr ''en'' then py_item d ''value'' else english_summary ds)"

definition nvd_detail :: "pyval \<Rightarrow> string" where
  "nvd_detail cve_id = ''https://nvd.nist.gov/vuln/detail/'' @ py_str cve_id"

definition cve_entry :: "(pyfloat \<Rightarrow> string) \<Rightarrow> pyval \<Rightarrow> nvd_entry result" where
  "cve_entry rf vuln =
     bind_result (py_get vuln ''cve'' (PDict [])) (\<lambda>cve.
     bind_result (py_get cve ''id'' (PStr [])) (\<lambda>cve_id.
     bind_result (extract_severity rf cve) (\<lambda>(score, severity).
     bind_result (py_get cve ''descriptions'' (PList [])) (\<lambda>descs.
     bind_result (py_iter descs) (\<lambda>ds.
     bind_result (english_summary ds) (\<lambda>summary.
     bind_result (py_get cve ''references'' (PList [])) (\<lambda>refs.
     bind_result
       (if py_truth refs then bind_result (py_first refs) (\<lambda>r. py_item r ''url'')
        else Inr (PStr (nvd_detail cve_id))) (\<lambda>url.
     bind_result (py_get cve ''published'' PNone) (\<lambda>published.
       Inr \<lparr>ce_cve_id = cve_id, ce_cvss_v3_score = score, ce_severity = severity,
            ce_summary = summary, ce_published_at = published, ce_url = url\<rparr>)))))))))"

text \<open>\<open>NvdCveClient.query_cpe\<close>: a failed request is no entry, an answer of the wrong shape raises.\<close>

definition nvd_query_cpe :: "(pyfloat \<Rightarrow> string) \<Rightarrow> (string \<Rightarrow> pyval result) \<Rightarrow> string \<Rightarrow> nvd_entry list result" where
  "nvd_query_cpe rf fetch cpe =
     (case fetch cpe of
        Inl e \<Rightarrow> Inr []
      | Inr body \<Rightarrow>
          bind_result (py_get body ''vulnerabilities'' (PList [])) (\<lambda>v.
          bind_result (py_iter v) (\<lambda>vulns. traverse (cve_entry rf) vulns)))"

text \<open>The function the worker calls (\<open>cve/__init__.py\<close>): the entries as dictionaries.\<close>

definition query_cpe :: "(pyfloat \<Rightarrow> string) \<Rightarrow> (string \<Rightarrow> pyval result) \<Rightarrow> string \<Rightarrow> row list result" where
  "query_cpe rf fetch cpe = bind_result (nvd_query_cpe rf fetch cpe) (\<lambda>es. Inr (map as_dict es))"

section \<open>Lemmas\<close>

text \<open>The first metric generation that has entries decides.\<close>

lemma severity_from_skip:
  "py_get metrics key (PList []) = Inr entries \<Longrightarrow> \<not> py_truth entries \<Longrightarrow>
   severity_from rf metrics (key # keys) = severity_from rf metrics keys"
  by simp

lemma as_dict_keys:
  "map fst (as_dict e) = [''cve_id'', ''cvss_v3_score'', ''severity'', ''summary'', ''published_at'', ''url'']"
  by (simp add: as_dict_def)

end
