(* ===== verification/Worker.thy ===== *)
theory Worker
  imports Cve Parsers Queue GitStore
begin

text \<open>
  \<open>worker/scrapli_runner.py\<close> and \<open>worker/runner.py\<close>: running a spec against a device and answering
  it. The scrapli library, the temporary files and the clock are a parameter: operations over an
  opaque state \<open>'w\<close>; a driver is an opaque handle \<open>'h\<close>. The text clean-up is the code's own.
\<close>

section \<open>Cleaning the device output\<close>

definition ESC :: char where "ESC = CHR 0x1B"

definition in_range :: "nat \<Rightarrow> nat \<Rightarrow> char \<Rightarrow> bool" where
  "in_range lo hi c \<longleftrightarrow> lo \<le> cp c \<and> cp c \<le> hi"

text \<open>
  \<open>_ANSI_ESCAPE\<close> after the escape character: one character of \<open>[@-Z\-_]\<close>, or a bracket with
  parameter bytes, intermediate bytes and a final byte. The three classes are disjoint, so the
  greedy match never backtracks.
\<close>

definition csi_rest :: "string \<Rightarrow> string option" where
  "csi_rest s =
     (case dropWhile (in_range 32 47) (dropWhile (in_range 48 63) s) of
        [] \<Rightarrow> None
      | c # cs \<Rightarrow> if in_range 64 126 c then Some cs else None)"

definition escape_rest :: "string \<Rightarrow> string option" where
  "escape_rest s =
     (case s of
        [] \<Rightarrow> None
      | c # cs \<Rightarrow>
          if in_range 64 90 c \<or> in_range 92 95 c then Some cs
          else if c = CHR ''['' then csi_rest cs
          else None)"

lemma csi_rest_shorter: "csi_rest s = Some r \<Longrightarrow> length r < length s"
proof -
  assume r: "csi_rest s = Some r"
  let ?t = "dropWhile (in_range 32 47) (dropWhile (in_range 48 63) s)"
  from r obtain c where "?t = c # r" by (auto simp: csi_rest_def split: list.splits if_splits)
  then have "length r < length ?t" by simp
  also have "length ?t \<le> length s" by (meson le_trans length_dropWhile_le)
  finally show ?thesis .
qed

lemma escape_rest_shorter: "escape_rest s = Some r \<Longrightarrow> length r < length s"
  by (auto simp: escape_rest_def dest!: csi_rest_shorter split: list.splits if_splits)

function strip_ansi :: "string \<Rightarrow> string" where
  "strip_ansi [] = []"
| "strip_ansi (c # cs) =
     (case (if c = ESC then escape_rest cs else None) of
        Some rest \<Rightarrow> strip_ansi rest
      | None \<Rightarrow> c # strip_ansi cs)"
  by pat_completeness auto
termination
  by (relation "measure length") (auto dest!: escape_rest_shorter split: if_splits)

text \<open>\<open>while lines and not lines[-1]: lines.pop()\<close>.\<close>

definition drop_blank_end :: "string list \<Rightarrow> string list" where
  "drop_blank_end ls = rev (dropWhile (\<lambda>l. l = []) (rev ls))"

definition normalize_config :: "string \<Rightarrow> string" where
  "normalize_config t =
     join [LF] (drop_blank_end (map rstrip (splitlines
       (py_replace [CR] [LF] (py_replace [CR, LF] [LF] (strip_ansi t))))))"

definition strip_echo :: "string \<Rightarrow> string \<Rightarrow> string" where
  "strip_echo t cmd =
     (case splitlines t of
        [] \<Rightarrow> t
      | l # ls \<Rightarrow> if strip l = strip cmd then join [LF] ls else t)"

section \<open>The device library\<close>

record cli_config =
  cli_host :: string
  cli_port :: int
  cli_definition :: string
  cli_username :: string
  cli_password :: string
  cli_private_key :: "string option"
  cli_passphrase :: "string option"
  cli_enable :: "string option"
  cli_telnet :: bool
  cli_connect_timeout :: int
  cli_operation_timeout :: int

record netconf_config =
  nc_host :: string
  nc_port :: int
  nc_username :: string
  nc_password :: string
  nc_connect_timeout :: int
  nc_operation_timeout :: int

record reply =
  rp_result :: string
  rp_failed :: bool

record ('w, 'h) device_lib =
  cli_new :: "cli_config \<Rightarrow> ('w, 'h) eff"
  cli_open :: "'h \<Rightarrow> ('w, unit) eff"
  cli_send :: "'h \<Rightarrow> bool \<Rightarrow> string \<Rightarrow> ('w, reply) eff"
  cli_close :: "'h \<Rightarrow> ('w, unit) eff"
  netconf_new :: "netconf_config \<Rightarrow> ('w, 'h) eff"
  netconf_open :: "'h \<Rightarrow> ('w, unit) eff"
  netconf_rpc :: "'h \<Rightarrow> string \<Rightarrow> ('w, reply) eff"
  netconf_close :: "'h \<Rightarrow> ('w, unit) eff"
  temp_file :: "string \<Rightarrow> ('w, string) eff"
  unlink :: "string \<Rightarrow> ('w, unit) eff"
  bundled_definition :: "string \<Rightarrow> string option"
  now_iso :: "'w \<Rightarrow> string"
  perf_ms :: "'w \<Rightarrow> int"
  traceback :: "py_exn \<Rightarrow> string"
  repr_float :: "pyfloat \<Rightarrow> string"
  nvd_fetch :: "string \<Rightarrow> pyval result"
  validation_text :: "pyval option \<Rightarrow> string"

definition is_os_error :: "py_exn \<Rightarrow> bool" where
  "is_os_error e \<longleftrightarrow> exn_class e \<in> set [''OSError'', ''FileNotFoundError'', ''PermissionError'',
     ''IsADirectoryError'', ''NotADirectoryError'', ''FileExistsError'', ''TimeoutError'']"

definition error_text :: "(py_exn \<Rightarrow> string) \<Rightarrow> py_exn \<Rightarrow> string" where
  "error_text tb e = exn_class e @ '': '' @ exn_msg e @ [LF, LF] @ tb e"

text \<open>
  \<open>JobResult(...)\<close> is validated: \<open>parsed\<close> is a list of dictionaries, a dictionary or missing, another
  shape (what TTP may return) raises.
\<close>

definition is_dict :: "pyval \<Rightarrow> bool" where
  "is_dict v = (case v of PDict _ \<Rightarrow> True | _ \<Rightarrow> False)"

definition valid_parsed :: "pyval option \<Rightarrow> bool" where
  "valid_parsed v =
     (case v of
        None \<Rightarrow> True
      | Some (PList xs) \<Rightarrow> list_all is_dict xs
      | Some x \<Rightarrow> x = PNone \<or> is_dict x)"

definition checked :: "('w, 'h) device_lib \<Rightarrow> job_result \<Rightarrow> job_result result" where
  "checked D res =
     (if valid_parsed (jr_parsed res) then Inr res
      else Inl (Exn ''ValidationError'' (validation_text D (jr_parsed res))))"

section \<open>Building the driver\<close>

definition cli_config_of :: "settings \<Rightarrow> job_spec \<Rightarrow> credential_material \<Rightarrow> string \<Rightarrow> cli_config" where
  "cli_config_of st spec cred definition = \<lparr>
     cli_host = sp_hostname spec,
     cli_port = or_int (sp_port spec) (if sp_transport spec = Some ''telnet'' then 23 else 22),
     cli_definition = definition,
     cli_username = mat_username cred,
     cli_password = or_str (mat_password cred) [],
     cli_private_key = or_none (mat_private_key cred),
     cli_passphrase = or_none (mat_private_key_passphrase cred),
     cli_enable = or_none (mat_enable_password cred),
     cli_telnet = (sp_transport spec = Some ''telnet''),
     cli_connect_timeout = or_int (sp_connect_timeout spec) (set_worker_connect_timeout st),
     cli_operation_timeout = or_int (sp_command_timeout spec) (set_worker_command_timeout st)\<rparr>"

text \<open>The value is the driver and the path of the temporary definition, if one was written.\<close>

definition build_cli_driver :: "('w, 'h) device_lib \<Rightarrow> settings \<Rightarrow> job_spec \<Rightarrow> credential_material
    \<Rightarrow> ('w, 'h \<times> string option) eff" where
  "build_cli_driver D st spec cred =
     (let platform_name = py_lower (or_str (sp_platform spec) []) in
      if truthy (sp_custom_platform_yaml spec) then
        seq (temp_file D (the (sp_custom_platform_yaml spec))) (\<lambda>path.
        seq (cli_new D (cli_config_of st spec cred path)) (\<lambda>h. ret (h, Some path)))
      else if platform_name \<noteq> [] then
        seq (cli_new D (cli_config_of st spec cred
               (case bundled_definition D platform_name of None \<Rightarrow> platform_name | Some p \<Rightarrow> p)))
          (\<lambda>h. ret (h, None))
      else raise (ValueError ''device has no platform or custom_platform_yaml configured''))"

text \<open>\<open>with suppress(OSError): if temp_path: os.unlink(temp_path); temp_path = None\<close>.\<close>

definition drop_temp :: "('w, 'h) device_lib \<Rightarrow> string option \<Rightarrow> ('w, string option) eff" where
  "drop_temp D temp =
     (if truthy temp
      then catch (seq (unlink D (the temp)) (\<lambda>_. ret None))
             (\<lambda>e. if is_os_error e then ret temp else raise e)
      else ret temp)"

section \<open>Running commands\<close>

text \<open>
  The loop over the commands: the results collected so far are kept also when a command raises.
\<close>

fun run_commands :: "('w, 'h) device_lib \<Rightarrow> 'h \<Rightarrow> bool \<Rightarrow> string list \<Rightarrow> command_result list
    \<Rightarrow> 'w \<Rightarrow> (py_exn option \<times> command_result list) \<times> 'w" where
  "run_commands D h backup [] acc w = ((None, acc), w)"
| "run_commands D h backup (cmd # cmds) acc w =
     (case cli_send D h backup cmd w of
        (Inl e, w') \<Rightarrow> ((Some e, acc), w')
      | (Inr resp, w') \<Rightarrow>
          run_commands D h backup cmds
            (acc @ [\<lparr>cr_command = cmd,
                     cr_output = (if backup then strip_echo (normalize_config (rp_result resp)) cmd
                                  else rp_result resp),
                     cr_elapsed_ms = perf_ms D w' - perf_ms D w,
                     cr_failed = rp_failed resp\<rparr>]) w')"

text \<open>
  The \<open>try\<close>/\<open>except\<close>/\<open>finally\<close> around a CLI session. The value is the error text, if any, and the
  results; an exception of the final unlink that is no \<open>OSError\<close> leaves the function.
\<close>

definition cli_session :: "('w, 'h) device_lib \<Rightarrow> 'h \<Rightarrow> string option \<Rightarrow> bool \<Rightarrow> string list
    \<Rightarrow> ('w, string option \<times> command_result list) eff" where
  "cli_session D h temp backup cmds = (\<lambda>w.
     let (err, temp', results, w1) =
       (case cli_open D h w of
          (Inl e, w1) \<Rightarrow> (Some e, temp, [], w1)
        | (Inr _, w1) \<Rightarrow>
            (case drop_temp D temp w1 of
               (Inl e, w2) \<Rightarrow> (Some e, temp, [], w2)
             | (Inr temp', w2) \<Rightarrow>
                 (case run_commands D h backup cmds [] w2 of
                    ((Some e, results), w3) \<Rightarrow> (Some e, temp', results, w3)
                  | ((None, results), w3) \<Rightarrow>
                      (case cli_close D h w3 of
                         (Inl e, w4) \<Rightarrow> (Some e, temp', results, w4)
                       | (Inr _, w4) \<Rightarrow> (None, temp', results, w4)))))
     in case drop_temp D temp' w1 of
          (Inl e, w') \<Rightarrow> (Inl e, w')
        | (Inr _, w') \<Rightarrow> (Inr (map_option (error_text (traceback D)) err, results), w'))"

definition any_failed :: "command_result list \<Rightarrow> bool" where
  "any_failed rs = list_ex cr_failed rs"

definition joined_output :: "command_result list \<Rightarrow> string" where
  "joined_output rs = join [LF] (map cr_output rs)"

definition run_cli :: "('w, 'h) device_lib \<Rightarrow> engines \<Rightarrow> settings \<Rightarrow> job_spec \<Rightarrow> credential_material
    \<Rightarrow> ('w, job_result) eff" where
  "run_cli D E st spec cred = (\<lambda>w0.
     let started = now_iso D w0; backup = (sp_kind spec = ''backup'') in
     seq (build_cli_driver D st spec cred) (\<lambda>(h, temp).
     seq (cli_session D h temp backup (sp_commands spec)) (\<lambda>(error, results). (\<lambda>w.
       let chunks = (if backup then map cr_output results else []);
           (parsed, parse_error) =
             (if sp_kind spec = ''collect'' \<and> truthy (sp_parser_type spec) \<and> results \<noteq> []
              then (case parse E (sp_parser_type spec) (sp_parser_body spec) (joined_output results) of
                      Inr v \<Rightarrow> (v, None)
                    | Inl e \<Rightarrow> (None, Some (error_text (traceback D) e)))
              else (None, None))
       in (checked D \<lparr>jr_run_id = sp_run_id spec, jr_device_id = sp_device_id spec,
             jr_device_name = sp_device_name spec, jr_kind = sp_kind spec,
             jr_success = (error = None \<and> \<not> any_failed results), jr_error = error,
             jr_started_at = started, jr_finished_at = now_iso D w,
             jr_config_text = (if chunks \<noteq> [] then Some (join [LF] chunks) else None),
             jr_command_results = results, jr_parsed = parsed, jr_parse_error = parse_error,
             jr_parser_template_id = sp_parser_template_id spec, jr_job_id = Some (sp_job_id spec),
             jr_cve_entries = [], jr_cpe = None\<rparr>, w)))) w0)"

section \<open>NETCONF\<close>

definition netconf_config_of :: "settings \<Rightarrow> job_spec \<Rightarrow> credential_material \<Rightarrow> netconf_config" where
  "netconf_config_of st spec cred = \<lparr>
     nc_host = sp_hostname spec, nc_port = or_int (sp_port spec) 830,
     nc_username = mat_username cred, nc_password = or_str (mat_password cred) [],
     nc_connect_timeout = or_int (sp_connect_timeout spec) (set_worker_connect_timeout st),
     nc_operation_timeout = or_int (sp_command_timeout spec) (set_worker_command_timeout st)\<rparr>"

text \<open>The session: the text once the reply was read, and the exception that ended it, if any.\<close>

definition netconf_session :: "('w, 'h) device_lib \<Rightarrow> settings \<Rightarrow> job_spec \<Rightarrow> credential_material
    \<Rightarrow> 'w \<Rightarrow> (py_exn option \<times> string option) \<times> 'w" where
  "netconf_session D st spec cred = (\<lambda>w.
     case seq (netconf_new D (netconf_config_of st spec cred)) (\<lambda>h.
          seq (netconf_open D h) (\<lambda>_.
          if \<not> truthy (sp_rpc spec) then raise (ValueError ''netconf profile is missing rpc'')
          else seq (netconf_rpc D h (the (sp_rpc spec))) (\<lambda>resp. ret (h, rp_result resp)))) w of
       (Inl e, w') \<Rightarrow> ((Some e, None), w')
     | (Inr (h, t), w') \<Rightarrow>
         (case netconf_close D h w' of
            (Inl e, w'') \<Rightarrow> ((Some e, Some (normalize_config t)), w'')
          | (Inr _, w'') \<Rightarrow> ((None, Some (normalize_config t)), w'')))"

definition run_netconf :: "('w, 'h) device_lib \<Rightarrow> engines \<Rightarrow> settings \<Rightarrow> job_spec \<Rightarrow> credential_material
    \<Rightarrow> ('w, job_result) eff" where
  "run_netconf D E st spec cred = (\<lambda>w.
     case netconf_session D st spec cred w of
       ((exn, raw_xml), w') \<Rightarrow>
         let error = map_option (error_text (traceback D)) exn;
             parsed = (if truthy raw_xml \<and> truthy (sp_parser_type spec)
                       then (case parse E (sp_parser_type spec) (sp_parser_body spec) (the raw_xml) of
                               Inr v \<Rightarrow> v | Inl e \<Rightarrow> None)
                       else None)
         in (checked D \<lparr>jr_run_id = sp_run_id spec, jr_device_id = sp_device_id spec,
               jr_device_name = sp_device_name spec, jr_kind = sp_kind spec,
               jr_success = (error = None), jr_error = error,
               jr_started_at = now_iso D w, jr_finished_at = now_iso D w',
               jr_config_text = (if sp_kind spec = ''backup'' then raw_xml else None),
               jr_command_results = [], jr_parsed = parsed, jr_parse_error = None,
               jr_parser_template_id = sp_parser_template_id spec, jr_job_id = Some (sp_job_id spec),
               jr_cve_entries = [], jr_cpe = None\<rparr>, w'))"

section \<open>CVE scans\<close>

definition cpe_of :: "string \<Rightarrow> string \<Rightarrow> pyval \<Rightarrow> string" where
  "cpe_of vendor product_name version =
     ''cpe:2.3:o:'' @ vendor @ '':'' @ product_name @ '':'' @ py_str version @ '':*:*:*:*:*:*:*''"

definition row_version :: "pyval \<Rightarrow> pyval" where
  "row_version v = (case v of
     PDict d \<Rightarrow> (case map_of d ''version'' of None \<Rightarrow> PNone | Some x \<Rightarrow> x) | _ \<Rightarrow> PNone)"

text \<open>The loop over the parsed rows: a failing query is logged, the others go on.\<close>

fun query_rows :: "(string \<Rightarrow> row list result) \<Rightarrow> string \<Rightarrow> string \<Rightarrow> pyval list
    \<Rightarrow> row list \<Rightarrow> string option \<Rightarrow> row list \<times> string option" where
  "query_rows query vendor prod_name [] entries first_cpe = (entries, first_cpe)"
| "query_rows query vendor prod_name (r # rs) entries first_cpe =
     (let version = row_version r in
      if \<not> py_truth version then query_rows query vendor prod_name rs entries first_cpe
      else let cpe = cpe_of vendor prod_name version in
        query_rows query vendor prod_name rs
          (case query cpe of Inr es \<Rightarrow> entries @ es | Inl e \<Rightarrow> entries)
          (or_else first_cpe (Some cpe)))"

definition run_cve_scan :: "('w, 'h) device_lib \<Rightarrow> engines \<Rightarrow> settings \<Rightarrow> job_spec \<Rightarrow> credential_material
    \<Rightarrow> ('w, job_result) eff" where
  "run_cve_scan D E st spec cred = (\<lambda>w0.
     let started = now_iso D w0 in
     seq (build_cli_driver D st spec cred) (\<lambda>(h, temp).
     seq (cli_session D h temp False (sp_commands spec)) (\<lambda>(error, results). (\<lambda>w.
       let parsed =
             (if truthy (sp_parser_type spec) \<and> results \<noteq> []
              then (case parse E (sp_parser_type spec) (sp_parser_body spec) (joined_output results) of
                      Inr v \<Rightarrow> v | Inl e \<Rightarrow> None)
              else None);
           (entries, first_cpe) =
             (case parsed of
                Some v \<Rightarrow>
                  if error = None \<and> py_truth v \<and> truthy (sp_cve_vendor spec) \<and> truthy (sp_cve_product spec)
                  then query_rows (query_cpe (repr_float D) (nvd_fetch D))
                         (the (sp_cve_vendor spec)) (the (sp_cve_product spec))
                         (case v of PList xs \<Rightarrow> xs | _ \<Rightarrow> [v]) [] None
                  else ([], None)
              | None \<Rightarrow> ([], None))
       in (checked D \<lparr>jr_run_id = sp_run_id spec, jr_device_id = sp_device_id spec,
             jr_device_name = sp_device_name spec, jr_kind = sp_kind spec,
             jr_success = (error = None \<and> \<not> any_failed results), jr_error = error,
             jr_started_at = started, jr_finished_at = now_iso D w,
             jr_config_text = None,
             jr_command_results = results, jr_parsed = parsed, jr_parse_error = None,
             jr_parser_template_id = None, jr_job_id = None,
             jr_cve_entries = entries, jr_cpe = first_cpe\<rparr>, w)))) w0)"

section \<open>One job\<close>

definition execute :: "('w, 'h) device_lib \<Rightarrow> engines \<Rightarrow> settings \<Rightarrow> job_spec \<Rightarrow> credential_material
    \<Rightarrow> ('w, job_result) eff" where
  "execute D E st spec cred =
     (if sp_driver_kind spec = ''cli'' then
        (if sp_kind spec = ''cve_scan'' then run_cve_scan D E st spec cred
         else run_cli D E st spec cred)
      else if sp_driver_kind spec = ''netconf'' then run_netconf D E st spec cred
      else raise (ValueError (''unknown driver kind: '' @ repr_str (sp_driver_kind spec))))"

definition failed_result :: "job_spec \<Rightarrow> string \<Rightarrow> string \<Rightarrow> job_result" where
  "failed_result spec err now = \<lparr>
     jr_run_id = sp_run_id spec, jr_device_id = sp_device_id spec,
     jr_device_name = sp_device_name spec, jr_kind = sp_kind spec,
     jr_success = False, jr_error = Some err, jr_started_at = now, jr_finished_at = now,
     jr_config_text = None, jr_command_results = [], jr_parsed = None, jr_parse_error = None,
     jr_parser_template_id = None, jr_job_id = None, jr_cve_entries = [], jr_cpe = None\<rparr>"

definition missing_material :: string where
  "missing_material =
     ''job spec has no embedded credential_material; re-dispatch from an updated server''"

text \<open>The result \<open>_handle\<close> publishes: whatever happens on the device, there is one.\<close>

definition answer :: "('w, 'h) device_lib \<Rightarrow> engines \<Rightarrow> settings \<Rightarrow> job_spec \<Rightarrow> 'w \<Rightarrow> job_result \<times> 'w" where
  "answer D E st spec w =
     (case sp_credential_material spec of
        None \<Rightarrow> (failed_result spec missing_material (now_iso D w), w)
      | Some material \<Rightarrow>
          (case execute D E st spec material w of
             (Inr res, w') \<Rightarrow> (res, w')
           | (Inl e, w') \<Rightarrow> (failed_result spec (error_text (traceback D) e) (now_iso D w'), w')))"

definition handle :: "('w, 'h) device_lib \<Rightarrow> engines \<Rightarrow> 'q broker \<Rightarrow> codec \<Rightarrow> settings
    \<Rightarrow> string \<times> job_spec \<Rightarrow> ('w \<times> 'q, unit) eff" where
  "handle D E B C st m = (\<lambda>(w, q).
     case answer D E st (snd m) w of (res, w') \<Rightarrow>
       (case seq (publish_result B C st res) (\<lambda>_. ack_job B st (fst m)) q of
          (r, q') \<Rightarrow> (r, (w', q'))))"

section \<open>The pool\<close>

text \<open>
  One turn of \<open>run_worker\<close>. The pool's futures are identified by the message they carry; \<open>finished\<close>
  says which of them are done when the turn looks. The value is the new set of pending futures,
  in order of submission.
\<close>

definition worker_turn :: "'q broker \<Rightarrow> codec \<Rightarrow> settings \<Rightarrow> string \<Rightarrow> (string \<Rightarrow> bool)
    \<Rightarrow> (string \<times> job_spec) list \<times> 'q \<Rightarrow> (string \<times> job_spec) list \<times> 'q" where
  "worker_turn B C st consumer finished = (\<lambda>(pending, q).
     let pending' = filter (\<lambda>m. \<not> finished (fst m)) pending;
         slots = set_worker_concurrency st - int (length pending')
     in if slots \<le> 0 then (pending', q)
        else case read_jobs B C st consumer slots 2000 q of
               (Inl e, q') \<Rightarrow> (pending', q')
             | (Inr jobs, q') \<Rightarrow> (pending' @ jobs, q'))"

section \<open>Lemmas\<close>

lemma seq_Inr_obtain:
  assumes "seq m f s = (Inr y, t)"
  obtains x s' where "m s = (Inr x, s')" and "f x s' = (Inr y, t)"
  using assms by (auto simp: seq_Inr_iff)

definition answers :: "job_spec \<Rightarrow> job_result \<Rightarrow> bool" where
  "answers spec res \<longleftrightarrow>
     jr_run_id res = sp_run_id spec \<and> jr_device_id res = sp_device_id spec
     \<and> jr_device_name res = sp_device_name spec \<and> jr_kind res = sp_kind spec
     \<and> (jr_success res \<longrightarrow> jr_error res = None \<and> \<not> any_failed (jr_command_results res))"

lemma checked_Inr: "checked D res = Inr r \<longleftrightarrow> r = res \<and> valid_parsed (jr_parsed res)"
  by (auto simp: checked_def)

lemma run_cli_answers: "run_cli D E st spec cred w = (Inr res, w') \<Longrightarrow> answers spec res"
  by (auto simp: run_cli_def Let_def answers_def checked_Inr elim!: seq_Inr_obtain split: prod.splits)

lemma run_netconf_answers: "run_netconf D E st spec cred w = (Inr res, w') \<Longrightarrow> answers spec res"
  by (auto simp: run_netconf_def Let_def answers_def checked_Inr any_failed_def split: prod.splits)

lemma run_cve_scan_answers: "run_cve_scan D E st spec cred w = (Inr res, w') \<Longrightarrow> answers spec res"
  by (auto simp: run_cve_scan_def Let_def answers_def checked_Inr elim!: seq_Inr_obtain split: prod.splits)

lemma execute_answers: "execute D E st spec cred w = (Inr res, w') \<Longrightarrow> answers spec res"
  by (auto simp: execute_def run_cli_answers run_netconf_answers run_cve_scan_answers split: if_splits)

lemma answer_answers: "answer D E st spec w = (res, w') \<Longrightarrow> answers spec res"
proof -
  assume a: "answer D E st spec w = (res, w')"
  have f: "answers spec (failed_result spec err now)" for err now
    by (simp add: failed_result_def answers_def)
  show ?thesis
  proof (cases "sp_credential_material spec")
    case None
    with a f show ?thesis by (auto simp: answer_def)
  next
    case (Some m)
    obtain r w1 where "execute D E st spec m w = (r, w1)" by (metis prod.exhaust)
    with a Some f show ?thesis
      using execute_answers by (cases r) (fastforce simp: answer_def)+
  qed
qed

text \<open>The clean-up leaves no carriage return and is stable.\<close>

lemma set_drop_blank_end: "set (drop_blank_end ls) \<subseteq> set ls"
  by (auto simp: drop_blank_end_def dest: set_dropWhileD)

lemma normalized_lines:
  assumes "l \<in> set (drop_blank_end (map rstrip (splitlines t)))" and "c \<in> set l"
  shows "\<not> is_break c"
proof -
  from assms(1) obtain k where "k \<in> set (splitlines t)" "l = rstrip k"
    using set_drop_blank_end by fastforce
  with assms(2) show ?thesis
    using set_rstrip_subset splitlines_no_break by blast
qed

lemma normalize_no_CR: "CR \<notin> set (normalize_config t)"
proof
  assume "CR \<in> set (normalize_config t)"
  then obtain l where "l \<in> set (drop_blank_end (map rstrip (splitlines
       (py_replace [CR] [LF] (py_replace [CR, LF] [LF] (strip_ansi t))))))" "CR \<in> set l"
    using set_unlines unfolding normalize_config_def by fastforce
  from normalized_lines [OF this] show False by simp
qed

lemma strip_echo_no_CR: "CR \<notin> set t \<Longrightarrow> CR \<notin> set (strip_echo t cmd)"
proof -
  assume t: "CR \<notin> set t"
  show ?thesis
  proof (cases "splitlines t")
    case Nil
    with t show ?thesis by (simp add: strip_echo_def)
  next
    case (Cons l ls)
    have "c \<noteq> CR" if "m \<in> set ls" "c \<in> set m" for m c
    proof -
      have "\<not> is_break c"
        by (rule splitlines_no_break [of m t c]) (use that Cons in simp_all)
      then show ?thesis by auto
    qed
    then have "CR \<notin> set (join [LF] ls)" using set_unlines by fastforce
    with t Cons show ?thesis by (simp add: strip_echo_def)
  qed
qed

lemma run_commands_no_CR:
  assumes "run_commands D h True cmds acc w = ((e, rs), w')"
    and "list_all (\<lambda>r. CR \<notin> set (cr_output r)) acc"
  shows "list_all (\<lambda>r. CR \<notin> set (cr_output r)) rs"
  using assms
proof (induction cmds arbitrary: acc w)
  case Nil
  then show ?case by simp
next
  case (Cons cmd cmds)
  show ?case
  proof (cases "cli_send D h True cmd w")
    case (Pair r w1)
    then show ?thesis
      using Cons by (cases r) (auto simp: strip_echo_no_CR normalize_no_CR)
  qed
qed

lemma cli_session_no_CR:
  assumes "cli_session D h temp True cmds w = (Inr (err, rs), w')"
  shows "list_all (\<lambda>r. CR \<notin> set (cr_output r)) rs"
  using assms
  by (auto simp: cli_session_def Let_def split: prod.splits sum.splits option.splits
      dest: run_commands_no_CR)

lemma run_cli_config_no_CR:
  assumes "run_cli D E st spec cred w = (Inr res, w')" and "sp_kind spec = ''backup''"
    and "jr_config_text res = Some t"
  shows "CR \<notin> set t"
proof -
  from assms(1) obtain h temp w1 error results w2
    where s: "cli_session D h temp (sp_kind spec = ''backup'') (sp_commands spec) w1 = (Inr (error, results), w2)"
      and t: "jr_config_text res = (if (if sp_kind spec = ''backup'' then map cr_output results else []) \<noteq> []
        then Some (join [LF] (if sp_kind spec = ''backup'' then map cr_output results else [])) else None)"
    by (auto simp: run_cli_def Let_def checked_Inr elim!: seq_Inr_obtain split: prod.splits)
  from s have "list_all (\<lambda>r. CR \<notin> set (cr_output r)) results"
    using assms(2) by (auto intro: cli_session_no_CR)
  moreover have "t = join [LF] (map cr_output results)"
    using t assms(2,3) by (auto split: if_splits)
  ultimately show ?thesis using set_unlines by (fastforce simp: list_all_iff)
qed

lemma run_netconf_config_no_CR:
  "run_netconf D E st spec cred w = (Inr res, w') \<Longrightarrow> jr_config_text res = Some t \<Longrightarrow> CR \<notin> set t"
  by (auto simp: run_netconf_def netconf_session_def Let_def checked_Inr normalize_no_CR
      split: prod.splits sum.splits if_splits)

lemma answer_config_no_CR:
  assumes "answer D E st spec w = (res, w')" and "jr_kind res = ''backup''" and "jr_config_text res = Some t"
  shows "CR \<notin> set t"
proof -
  have kind: "sp_kind spec = ''backup''"
    using answer_answers [OF assms(1)] assms(2) by (simp add: answers_def)
  from assms obtain material where "execute D E st spec material w = (Inr res, w')"
    by (auto simp: answer_def failed_result_def split: option.splits prod.splits sum.splits)
  then have "run_cli D E st spec material w = (Inr res, w')
      \<or> run_netconf D E st spec material w = (Inr res, w')"
    using kind by (auto simp: execute_def split: if_splits)
  then show ?thesis
    using run_cli_config_no_CR [OF _ kind assms(3)] run_netconf_config_no_CR [OF _ assms(3)] by metis
qed

text \<open>Without escape characters the clean-up is idempotent.\<close>

lemma strip_ansi_id: "ESC \<notin> set s \<Longrightarrow> strip_ansi s = s"
proof (induction s)
  case Nil
  then show ?case by simp
next
  case (Cons c s)
  then have "c \<noteq> ESC" by auto
  with Cons show ?case by simp
qed

lemma drop_blank_end_last: "drop_blank_end ls = [] \<or> last (drop_blank_end ls) \<noteq> []"
proof (cases "dropWhile (\<lambda>l. l = []) (rev ls)")
  case Nil
  then show ?thesis by (simp add: drop_blank_end_def)
next
  case (Cons a as)
  then have "a \<noteq> []" by (simp add: dropWhile_eq_Cons_conv)
  with Cons show ?thesis by (simp add: drop_blank_end_def)
qed

lemma drop_blank_end_id: "ls = [] \<or> last ls \<noteq> [] \<Longrightarrow> drop_blank_end ls = ls"
  by (cases ls rule: rev_cases) (simp_all add: drop_blank_end_def)

lemma normalize_idem:
  assumes "ESC \<notin> set (normalize_config t)"
  shows "normalize_config (normalize_config t) = normalize_config t"
proof -
  let ?ks = "splitlines (py_replace [CR] [LF] (py_replace [CR, LF] [LF] (strip_ansi t)))"
  define ls where "ls = drop_blank_end (map rstrip ?ks)"
  have n: "normalize_config t = join [LF] ls" by (simp add: normalize_config_def ls_def)
  have nobreak: "\<forall>l \<in> set ls. \<forall>c \<in> set l. \<not> is_break c"
    using normalized_lines by (simp add: ls_def)
  have lines: "splitlines (join [LF] ls) = ls"
  proof (cases "ls = []")
    case False
    then show ?thesis
      using splitlines_unlines [OF nobreak] drop_blank_end_last [of "map rstrip ?ks"] by (simp add: ls_def)
  qed simp
  have "rstrip l = l" if "l \<in> set ls" for l
    using that set_drop_blank_end by (fastforce simp: ls_def)
  then have strips: "map rstrip ls = ls" by (simp add: map_idI)
  have un: "py_replace [CR] [LF] (py_replace [CR, LF] [LF] (join [LF] ls)) = join [LF] ls"
    using universal_newlines_id [OF normalize_no_CR [of t]] by (simp add: n universal_newlines_def)
  have esc: "ESC \<notin> set (join [LF] ls)" using assms unfolding n .
  have "normalize_config (join [LF] ls) = join [LF] (drop_blank_end ls)"
    unfolding normalize_config_def [of "join [LF] ls"] strip_ansi_id [OF esc] un lines strips ..
  also have "drop_blank_end ls = ls"
    by (rule drop_blank_end_id) (use drop_blank_end_last in \<open>simp add: ls_def\<close>)
  finally show ?thesis by (simp add: n)
qed

end
