(* ===== verification/Kiroku_System.thy ===== *)
theory Kiroku_System
  imports Scheduler Worker
begin

text \<open>
  The running system: scheduler, web handlers and recorder act on one database, one backup store and
  one Redis server, in any order. A step is one transaction of one process. The environment of a
  step (clock, results that arrive, answers of the servers) is arbitrary. The invariant of the
  reachable states is the accounting of the batches.
\<close>

section \<open>Steps\<close>

text \<open>
  \<open>Fire\<close> is a firing that is committed (also a failing one: the scheduler catches the exception and
  its session commits), \<open>Fire_lost\<close> one whose transaction is rolled back (a web request that raises).
  \<open>Record\<close> needs the result to be the first answer of its run. \<open>Edit\<close> stands for the pages that edit
  the inventory without deleting devices (which would delete their runs): they change neither runs
  nor batches.
\<close>

inductive system_step :: "('g, 'q) rworld \<Rightarrow> ('g, 'q) rworld \<Rightarrow> bool" where
  Fire: "fire_job B C S st now j sid sname (rec_db s, q) = (r, (d', q')) \<Longrightarrow>
    system_step (s, q) (s\<lparr>rec_db := d'\<rparr>, q')"
| Fire_lost: "fire_job B C S st now j sid sname (rec_db s, q) = (Inl e, (d', q')) \<Longrightarrow>
    system_step (s, q) (s, q')"
| Record: "answerable res (rec_db s) \<Longrightarrow> persist V res s = (r, s') \<Longrightarrow> system_step (s, q) (s', q)"
| Reap: "reap_stale_batches V timeout_s s = (r, s') \<Longrightarrow> system_step (s, q) (s', q)"
| Cancel: "system_step (s, q) (s\<lparr>rec_db := cancel_batch b now (rec_db s)\<rparr>, q)"
| Purge: "purge_queue B C st now (rec_db s, q) = (r, (d', q')) \<Longrightarrow>
    system_step (s, q) (s\<lparr>rec_db := d'\<rparr>, q')"
| Edit: "same_ledger (rec_db s) d' \<Longrightarrow> system_step (s, q) (s\<lparr>rec_db := d'\<rparr>, q')"

inductive_cases system_stepE: "system_step (s, q) (s', q')"

inductive reachable :: "('g, 'q) rworld \<Rightarrow> ('g, 'q) rworld \<Rightarrow> bool" for w0 where
  start: "reachable w0 w0"
| step: "reachable w0 w \<Longrightarrow> system_step w w' \<Longrightarrow> reachable w0 w'"

inductive_simps reachable_simps: "reachable w0 w"

section \<open>The invariant\<close>

lemma acct_ok_purge_queue:
  assumes "acct_ok d" and "purge_queue B C st now (d, q) = (r, (d', q'))"
  shows "acct_ok d'"
  using assms acct_ok_purge_runs [OF assms(1)]
  by (auto simp: purge_queue_def split: prod.splits sum.splits if_splits)

lemma step_acct_ok:
  "system_step w w' \<Longrightarrow> acct_ok (rec_db (fst w)) \<Longrightarrow> acct_ok (rec_db (fst w'))"
proof (induction rule: system_step.induct)
  case (Fire B C S st now j sid sname s q r d' q')
  then show ?case using acct_ok_fire_job by fastforce
next
  case (Record res s V r s' q)
  then show ?case using acct_ok_persist by fastforce
next
  case (Reap V timeout_s s r s' q)
  then show ?case using acct_ok_reap_stale by fastforce
next
  case (Cancel s q b now)
  then show ?case by (simp add: acct_ok_cancel_batch)
next
  case (Purge B C st now s q r d' q')
  then show ?case using acct_ok_purge_queue by fastforce
next
  case (Edit s d' q q')
  then show ?case using acct_ok_same by fastforce
qed simp

lemma reachable_acct_ok:
  "reachable w0 w \<Longrightarrow> acct_ok (rec_db (fst w0)) \<Longrightarrow> acct_ok (rec_db (fst w))"
  by (induction rule: reachable.induct) (simp_all add: step_acct_ok)

section \<open>Closed runs\<close>

text \<open>A closed run is not reopened: its state is final along every step that settles runs.\<close>

definition closed_runs :: "db \<Rightarrow> (int \<times> int option \<times> run_status) set" where
  "closed_runs d = run_view ` {r \<in> set (db_runs d). \<not> open_status (run_status r)}"

lemma closed_runs_views:
  "closed_runs d = {v \<in> set (map run_view (db_runs d)). \<not> open_status (snd (snd v))}"
  by (auto simp: closed_runs_def run_view_def)

lemma closed_runs_same: "same_ledger d d' \<Longrightarrow> closed_runs d = closed_runs d'"
  by (simp add: closed_runs_views same_ledger_def)

end
