(* ===== verification/Progress.thy ===== *)
theory Progress
  imports Kiroku_System
begin

text \<open>
  The abstract life of the runs: the list of the runs with their batches and states. Along any step
  of the system the list only grows, and an entry changes at most once, from an open state to a
  closed one. \<open>progress\<close> is that relation; every operation that settles runs implements it.
\<close>

section \<open>The abstract steps\<close>

type_synonym life = "(int \<times> int option \<times> run_status) list"

definition life_of :: "db \<Rightarrow> life" where
  "life_of d = map run_view (db_runs d)"

definition entry_step :: "int \<times> int option \<times> run_status \<Rightarrow> int \<times> int option \<times> run_status \<Rightarrow> bool" where
  "entry_step v w \<longleftrightarrow> fst v = fst w \<and> fst (snd v) = fst (snd w)
     \<and> (snd (snd w) = snd (snd v) \<or> open_status (snd (snd v)) \<and> \<not> open_status (snd (snd w)))"

definition life_step :: "life \<Rightarrow> life \<Rightarrow> bool" where
  "life_step L M \<longleftrightarrow> length L \<le> length M \<and> (\<forall>i < length L. entry_step (L ! i) (M ! i))"

definition progress :: "db \<Rightarrow> db \<Rightarrow> bool" where
  "progress d d' \<longleftrightarrow> life_step (life_of d) (life_of d')"

lemma entry_step_refl [simp]: "entry_step v v"
  by (simp add: entry_step_def)

lemma entry_step_trans: "entry_step u v \<Longrightarrow> entry_step v w \<Longrightarrow> entry_step u w"
  by (auto simp: entry_step_def)

lemma life_step_trans: "life_step L M \<Longrightarrow> life_step M N \<Longrightarrow> life_step L N"
  unfolding life_step_def by (meson entry_step_trans order_less_le_trans order_trans)

lemma progress_refl [simp, intro]: "progress d d"
  by (simp add: progress_def life_step_def)

lemma progress_trans [trans]: "progress d d' \<Longrightarrow> progress d' d'' \<Longrightarrow> progress d d''"
  unfolding progress_def by (rule life_step_trans)

lemma progress_same: "same_ledger d d' \<Longrightarrow> progress d d'"
  by (simp add: progress_def life_of_def same_ledger_def life_step_def)

lemma progress_runs: "db_runs d' = db_runs d \<Longrightarrow> progress d d'"
  by (simp add: progress_def life_of_def life_step_def)

lemma progress_map:
  "db_runs d' = map f (db_runs d) \<Longrightarrow>
   (\<And>r. r \<in> set (db_runs d) \<Longrightarrow> entry_step (run_view r) (run_view (f r))) \<Longrightarrow> progress d d'"
  by (simp add: progress_def life_of_def life_step_def)

lemma progress_append: "db_runs d' = db_runs d @ rs \<Longrightarrow> progress d d'"
  by (simp add: progress_def life_of_def life_step_def nth_append)

text \<open>What a closed entry keeps.\<close>

lemma progress_closed:
  assumes "progress d d'" and "v \<in> closed_runs d"
  shows "v \<in> closed_runs d'"
proof -
  from assms(2) obtain i where i: "i < length (life_of d)" "life_of d ! i = v"
    and c: "\<not> open_status (snd (snd v))"
    by (auto simp: closed_runs_views life_of_def in_set_conv_nth)
  with assms(1) have "life_of d' ! i = v" and "i < length (life_of d')"
    by (auto simp: progress_def life_step_def entry_step_def prod_eq_iff)
  then have "v \<in> set (life_of d')" using nth_mem by metis
  with c show ?thesis by (simp add: closed_runs_views life_of_def)
qed

section \<open>The operations\<close>

context settling
begin

lemma step_progress:
  assumes "keys_ok d" and "enabled a d"
  shows "progress d (step a d)"
proof -
  have "progress d (settle (sel a d) (out a) d)"
    by (rule progress_map [where f = "\<lambda>r. if sel a d r then r\<lparr>run_status := out a\<rparr> else r"])
      (use opens [OF assms] closes in \<open>auto simp: settle_def entry_step_def run_view_def\<close>)
  also have "progress (settle (sel a d) (out a) d) (step a d)"
    by (rule progress_same [OF settles [OF assms]])
  finally show ?thesis .
qed

end

lemma progress_fail_run:
  "acct_ok d \<Longrightarrow> run_open rid d \<Longrightarrow> batch_of d rid = Some bid \<Longrightarrow> progress d (fail_run rid err now bid d)"
  using rejected.step_progress [of d "(rid, err, now, bid)"] by (simp add: acct_ok_def)

lemma progress_fold_fail_run:
  assumes "acct_ok d" and "waiting bid (pair_ids pairs) d"
  shows "progress d (fold (\<lambda>(dev, g, rid). fail_run rid err now bid) pairs d)"
  using assms
proof (induction pairs arbitrary: d)
  case Nil
  then show ?case by simp
next
  case (Cons p pairs)
  obtain dev g rid where p: "p = (dev, g, rid)" by (cases p)
  from Cons.prems(2) have w: "run_open rid d" "batch_of d rid = Some bid" "rid \<notin> set (pair_ids pairs)"
    "waiting bid (pair_ids pairs) d"
    by (simp_all add: p waiting_Cons)
  show ?case
    using progress_trans [OF progress_fail_run [OF Cons.prems(1) w(1,2)]
        Cons.IH [OF acct_ok_fail_run [OF Cons.prems(1) w(1,2)] waiting_fail_run [OF w(3,4)]]]
    by (simp add: p)
qed

lemma progress_create_rows: "create_rows j sid sname now ts d = (bid, pairs, d') \<Longrightarrow> progress d d'"
  by (rule progress_append [of _ _ "map (\<lambda>(dev, g, rid). new_run now rid j sid bid (dev_id dev)) pairs"])
    (auto simp: create_rows_def Let_def)

lemma progress_fire_job:
  assumes ok: "acct_ok d" and f: "fire_job B C S st now j sid sname (d, q) = (r, (d', q'))"
  shows "progress d d'"
proof -
  obtain bid pairs d1 where c: "create_rows j sid sname now (device_group_pairs d j) d = (bid, pairs, d1)"
    by (metis prod.exhaust)
  note ok1 = acct_ok_create_rows [OF ok c] and w = waiting_create_rows [OF ok c]
  have 1: "progress d d1" by (rule progress_create_rows [OF c])
  consider "d' = d" | err where "d' = reject_all err now bid pairs d1"
    | q1 r1 where "publish_all B C S st j sid (default_credential d) now bid pairs (d1, q1) = (r1, (d', q'))"
    using f by (auto simp: fire_job_def Let_def seq_def on_broker_def c
        split: prod.splits sum.splits option.splits)
  then have "progress d1 d' \<or> d' = d"
  proof cases
    case 2
    have "progress d1 (fold (\<lambda>(dev, g, rid). fail_run rid err now bid) pairs d1)"
      by (rule progress_fold_fail_run [OF ok1 w])
    also have "progress \<dots> (reject_all err now bid pairs d1)"
      by (rule progress_runs) (simp add: reject_all_def finish_batch_def)
    finally show ?thesis by (simp add: 2)
  next
    case 3
    show ?thesis
      using publish_all_keeps [OF ok1 w, of "progress d1", OF progress_refl _ 3] progress_fail_run
        progress_trans by blast
  qed simp
  then show ?thesis using 1 progress_trans by blast
qed

lemma progress_close_open_runs:
  "(\<And>r. entry_step (run_view r) (run_view (f r)) \<or> \<not> open_run b r) \<Longrightarrow> progress d (close_open_runs b f d)"
  by (rule progress_map [where f = "\<lambda>r. if open_run b r then f r else r"])
    (auto simp: close_open_runs_def)

lemma progress_cancel_batch: "progress d (cancel_batch b now d)"
proof -
  have "progress d (close_open_runs b (cancel_run now) d)"
    by (rule progress_close_open_runs) (auto simp: entry_step_def open_run_def run_view_def cancel_run_def)
  moreover have "progress e (finish_if_counted b now e)" for e
    by (rule progress_runs) (simp add: finish_if_counted_def)
  ultimately show ?thesis
    using progress_trans by (auto simp: cancel_batch_def split: option.split)
qed

lemma runs_fold_count_purged: "db_runs (fold (count_purged now) cs d) = db_runs d"
  by (induction cs arbitrary: d) (simp_all add: count_purged_def finish_if_counted_def split: prod.split)

lemma progress_purge_runs: "progress d (purge_runs now ids d)"
  by (rule progress_map [where f = "\<lambda>r. if purged_open ids r then cancel_run now r else r"])
    (auto simp: purge_runs_def Let_def runs_fold_count_purged entry_step_def purged_open_def
      run_view_def cancel_run_def)

lemma progress_purge_queue:
  "purge_queue B C st now (d, q) = (r, (d', q')) \<Longrightarrow> progress d d'"
  by (auto simp: purge_queue_def progress_purge_runs split: prod.splits sum.splits if_splits)

lemma carries_progress_ledger: "keeps_ledger m \<Longrightarrow> carries progress m"
  by (erule carries_mono) (rule progress_same)

interpretation lives: db_relation progress
  by unfold_locales (auto intro: progress_trans)

lemma carries_reap_batch: "carries progress (reap_batch V batch)"
  unfolding reap_batch_def Let_def
proof (rule lives.seq_carries, goal_cases)
  case 1
  show ?case by (rule carries_progress_ledger [OF keeps_commit_staged]) (simp add: run_view_def)
next
  case (2 x)
  have "progress d (upd_batch b g d)" for d b g by (rule progress_runs) simp
  moreover have "progress d (close_open_runs b (timeout_run now) d)" for d b now
    by (rule progress_close_open_runs) (auto simp: entry_step_def open_run_def run_view_def timeout_run_def)
  ultimately show ?case using progress_trans by (intro carries_modify_db) blast
qed

lemma progress_reap_stale: "reap_stale_batches V t s = (r, s') \<Longrightarrow> progress (rec_db s) (rec_db s')"
  by (rule carriesD [OF lives.reaping_carries [OF carries_reap_batch]])

text \<open>Closing a batch changes no run and no counter: it only marks the batch finished.\<close>

definition count_view :: "run_batch \<Rightarrow> int \<times> int \<times> int \<times> int" where
  "count_view x = (bat_id x, bat_total x, bat_succeeded x, bat_failed x)"

definition same_counts :: "db \<Rightarrow> db \<Rightarrow> bool" where
  "same_counts d d' \<longleftrightarrow>
     life_of d = life_of d' \<and> map count_view (db_batches d) = map count_view (db_batches d')"

lemma same_counts_trans: "same_counts d d' \<Longrightarrow> same_counts d' d'' \<Longrightarrow> same_counts d d''"
  by (simp add: same_counts_def)

lemma same_counts_ledger:
  assumes "same_ledger d d'"
  shows "same_counts d d'"
proof -
  let ?f = "\<lambda>(i, t, k, f, b). (i, t, k, f)"
  have "map count_view xs = map ?f (map batch_view xs)" for xs
    by (simp add: count_view_def batch_view_def)
  then show ?thesis using assms by (simp only: same_counts_def same_ledger_def life_of_def)
qed

lemma same_counts_finish: "same_counts d (upd_batch b (\<lambda>x. x\<lparr>bat_finished_at := t\<rparr>) d)"
  by (simp add: same_counts_def life_of_def upd_batch_def upd_row_def count_view_def)

lemma same_counts_progress: "same_counts d d' \<Longrightarrow> progress d d'"
  by (simp add: same_counts_def progress_def life_step_def)

lemma carries_counts_ledger: "keeps_ledger m \<Longrightarrow> carries same_counts m"
  by (erule carries_mono) (rule same_counts_ledger)

interpretation counts: db_relation same_counts
  by unfold_locales (auto simp: same_counts_def)

lemma carries_close_if_done: "carries same_counts (close_if_done V res b)"
proof (rule counts.closing_carries)
  show "same_counts d (stamp_runs b (\<lambda>r. r\<lparr>run_commit_sha := Some c\<rparr>)
      (upd_batch b (\<lambda>x. x\<lparr>bat_commit_sha := Some c\<rparr>) d))" for c d
    by (rule same_counts_ledger, rule same_ledger_trans [OF same_upd_batch same_stamp_runs])
      (simp_all add: batch_view_def run_view_def)
qed (auto intro: same_counts_finish same_counts_ledger same_auto_evaluate)

text \<open>Persisting: what follows the closing of the run leaves the life of the runs alone.\<close>

definition after_close :: "'g recorder_env \<Rightarrow> job_result \<Rightarrow> int option \<Rightarrow> int option
    \<Rightarrow> ('g rstate, unit) eff" where
  "after_close V res batch batch_id = seq (record_payload V res batch batch_id)
     (\<lambda>_. case batch of None \<Rightarrow> ret () | Some b \<Rightarrow> close_if_done V res b)"

lemma persist_body_closing:
  assumes "get_run (jr_run_id res) (rec_db s) = Some x" and "run_status x \<noteq> Cancelled"
  shows "persist_body V res s = after_close V res (batch_of (rec_db s) (jr_run_id res)) (run_batch_id x)
    (s\<lparr>rec_db := close_run (env_fromiso V) res (batch_of (rec_db s) (jr_run_id res)) (rec_db s)\<rparr>)"
  by (simp add: assms persist_body_def after_close_def Let_def seq_def modify_db_def batch_of_def)

lemma run_openE:
  assumes "run_open k d"
  obtains x where "get_run k d = Some x" and "run_status x \<noteq> Cancelled" and "open_status (run_status x)"
proof -
  from assms obtain x where "get_run k d = Some x" "open_status (run_status x)"
    by (auto simp: run_open_def split: option.splits)
  then show ?thesis by (intro that [of x]) auto
qed

lemma carries_after_close: "carries same_counts (after_close V res batch batch_id)"
  unfolding after_close_def
  by (intro counts.seq_carries carries_counts_ledger [OF keeps_record_payload])
    (simp add: carries_close_if_done carries_counts_ledger ledger_intros split: option.split)

text \<open>A result that is persisted is counted: the books after it are those after closing the run.\<close>

lemma persist_counts:
  assumes "get_run (jr_run_id res) (rec_db s) = Some x" and "run_status x \<noteq> Cancelled"
    and "persist V res s = (Inr (), s')"
  shows "same_counts (close_run (env_fromiso V) res (batch_of (rec_db s) (jr_run_id res)) (rec_db s)) (rec_db s')"
proof -
  have "persist_body V res s = (Inr (), s')"
    using assms(3) by (auto simp: persist_def session_scope_def split: prod.splits sum.splits)
  then show ?thesis
    using carriesD [OF carries_after_close] persist_body_closing [OF assms(1,2)] by fastforce
qed

lemma life_close_run:
  "life_of (close_run fromiso res bo d) = map (\<lambda>(i, b, st).
     (i, b, if i = jr_run_id res then result_status res else st)) (life_of d)"
proof -
  have "db_runs (bump_batch bo g e) = db_runs e" for g e
    by (simp add: bump_batch_def split: option.split)
  then have "db_runs (close_run fromiso res bo d) = map (\<lambda>r. if run_id r = jr_run_id res
      then (note_times fromiso res r)\<lparr>run_status := result_status res\<rparr> else r) (db_runs d)"
    by (simp add: close_run_bump upd_run_def upd_row_def)
  then show ?thesis by (auto simp: life_of_def run_view_def note_times_def)
qed

lemma batches_close_run:
  "db_batches (close_run fromiso res bo d) = map (\<lambda>x.
     if bo = Some (bat_id x) then bump (result_status res) 1 x else x) (db_batches d)"
proof (cases bo)
  case None
  then show ?thesis by (simp add: close_run_bump bump_batch_def)
next
  case (Some b)
  then show ?thesis
    by (auto simp: close_run_bump bump_batch_def upd_batch_def upd_row_def)
qed

lemma persist_raises: "persist V res s = (Inl e, s') \<Longrightarrow> rec_db s' = rec_db s"
  by (auto simp: persist_def session_scope_def split: prod.splits sum.splits)

lemma progress_persist:
  assumes ok: "acct_ok (rec_db s)" and a: "answerable res (rec_db s)" and run: "persist V res s = (r, s')"
  shows "progress (rec_db s) (rec_db s')"
proof (cases r)
  case (Inl e)
  with run show ?thesis using persist_raises by fastforce
next
  case (Inr u)
  show ?thesis
  proof (cases "run_open (jr_run_id res) (rec_db s)")
    case True
    then obtain x where x: "get_run (jr_run_id res) (rec_db s) = Some x" "run_status x \<noteq> Cancelled"
      by (rule run_openE)
    have "progress (rec_db s) (close_run (env_fromiso V) res (batch_of (rec_db s) (jr_run_id res)) (rec_db s))"
      using recorded.step_progress [of "rec_db s" "(env_fromiso V, res)"] ok True by (simp add: acct_ok_def)
    also have "progress \<dots> (rec_db s')"
      using same_counts_progress [OF persist_counts [OF x]] run Inr by simp
    finally show ?thesis .
  next
    case False
    with a run have "s' = s"
      by (auto simp: answerable_def run_open_def persist_def session_scope_def persist_body_def Let_def
          split: option.splits if_splits)
    then show ?thesis by simp
  qed
qed

section \<open>The system\<close>

lemma step_progress_system:
  "system_step w w' \<Longrightarrow> acct_ok (rec_db (fst w)) \<Longrightarrow> progress (rec_db (fst w)) (rec_db (fst w'))"
proof (induction rule: system_step.induct)
  case (Fire B C S st now j sid sname s q r d' q')
  then show ?case using progress_fire_job by fastforce
next
  case (Record res s V r s' q)
  then show ?case using progress_persist by fastforce
next
  case (Reap V timeout_s s r s' q)
  then show ?case using progress_reap_stale by fastforce
next
  case (Cancel s q b now)
  then show ?case by (simp add: progress_cancel_batch)
next
  case (Purge B C st now s q r d' q')
  then show ?case using progress_purge_queue by fastforce
next
  case (Edit s d' q q')
  then show ?case by (simp add: progress_same)
qed simp

lemma reachable_progress:
  "reachable w0 w \<Longrightarrow> acct_ok (rec_db (fst w0)) \<Longrightarrow> progress (rec_db (fst w0)) (rec_db (fst w))"
proof (induction rule: reachable.induct)
  case start
  then show ?case by simp
next
  case (step w w')
  then show ?case
    using progress_trans step_progress_system reachable_acct_ok by blast
qed

section \<open>When a batch is finished\<close>

lemma get_row_views:
  assumes "map v xs = map v ys" and key: "\<And>x y. v x = v y \<Longrightarrow> key x = key y"
  shows "map_option v (get_row key k xs) = map_option v (get_row key k ys)"
  using assms(1)
proof (induction xs arbitrary: ys)
  case Nil
  then show ?case by simp
next
  case (Cons x xs)
  then obtain y ys' where ys: "ys = y # ys'" and v: "v x = v y" "map v xs = map v ys'"
    by (cases ys) auto
  show ?case
    using v(1) key [OF v(1)] Cons.IH [OF v(2)] by (simp add: ys get_row_def)
qed

lemma get_batch_same:
  "same_ledger d d' \<Longrightarrow> map_option batch_view (get_batch b d) = map_option batch_view (get_batch b d')"
  unfolding get_batch_def by (rule get_row_views) (simp_all add: same_ledger_def batch_view_def)

definition batch_done :: "int \<Rightarrow> db \<Rightarrow> bool" where
  "batch_done b d = (case get_batch b d of None \<Rightarrow> False | Some x \<Rightarrow> bat_finished_at x \<noteq> None)"

lemma batch_done_same: "same_ledger d d' \<Longrightarrow> batch_done b d = batch_done b d'"
  using get_batch_same [of d d' b]
  by (auto simp: batch_done_def batch_view_def split: option.splits)

lemma batch_done_open:
  assumes "acct_ok d" and "tally d b open_status \<noteq> 0"
  shows "\<not> batch_done b d"
proof (cases "get_batch b d")
  case None
  then show ?thesis by (simp add: batch_done_def)
next
  case (Some x)
  with assms(2) acct_ok_get [OF assms(1) Some] show ?thesis
    by (auto simp: batch_done_def batch_ok_def)
qed

lemma close_if_done_done:
  assumes run: "close_if_done V res b s = (Inr (), s')" and ok: "acct_ok (rec_db s)"
    and b: "get_batch b (rec_db s) = Some x"
  shows "batch_done b (rec_db s') \<longleftrightarrow> batch_done b (rec_db s) \<or> tally (rec_db s) b open_status = 0"
proof -
  have counted: "counted x \<longleftrightarrow> tally (rec_db s) b open_status = 0"
    using batch_ok_open [of "rec_db s" x] acct_ok_get [OF ok b] tally_nonneg [of "rec_db s" b open_status]
    by (auto simp: counted_def)
  show ?thesis
  proof (cases "bat_finished_at x = None \<and> counted x")
    case False
    with run b counted show ?thesis
      by (auto simp: close_if_done_def counted_def batch_done_def)
  next
    case True
    let ?t = "case parse_iso (env_fromiso V) (Some (jr_finished_at res)) of None \<Rightarrow> env_now V | Some t \<Rightarrow> t"
    let ?d = "upd_batch b (\<lambda>x. x\<lparr>bat_finished_at := Some ?t\<rparr>) (rec_db s)"
    let ?rest = "seq (commit_staged V b (batch_message x) (\<lambda>r c. r\<lparr>run_commit_sha := Some c\<rparr>))
      (\<lambda>_. if bat_kind x = ''backup'' then modify_db_r (auto_evaluate_compliance V b) else ret ())"
    have "keeps_ledger ?rest"
      by (intro ledger_intros, simp add: run_view_def)
        (auto intro!: ledger_intros same_auto_evaluate simp del: eff_simps)
    moreover have "?rest (s\<lparr>rec_db := ?d\<rparr>) = (Inr (), s')"
      using run b True by (simp add: close_if_done_def counted_def Let_def seq_def modify_db_def)
    ultimately have "same_ledger ?d (rec_db s')" using carriesD by fastforce
    moreover have "batch_done b ?d" using b by (simp add: batch_done_def batch_tab.get_upd)
    ultimately show ?thesis using True counted by (simp add: batch_done_same)
  qed
qed

lemma get_batch_close_run:
  "get_batch b (close_run fromiso res (Some b) d)
    = map_option (bump (result_status res) 1) (get_batch b d)"
  by (simp add: close_run_bump bump_batch_def batch_tab.get_upd)

lemma persist_done:
  assumes ok: "acct_ok (rec_db s)" and open_run: "run_open (jr_run_id res) (rec_db s)"
    and b: "batch_of (rec_db s) (jr_run_id res) = Some b" and run: "persist V res s = (Inr (), s')"
  shows "batch_done b (rec_db s') \<longleftrightarrow> tally (rec_db s) b open_status = 1"
proof -
  obtain x where x: "get_run (jr_run_id res) (rec_db s) = Some x" "run_status x \<noteq> Cancelled"
    using open_run by (rule run_openE)
  obtain y where y: "get_batch b (rec_db s) = Some y" and xb: "run_batch_id x = Some b"
    using b x by (auto simp: batch_of_def bind_eq_Some_conv dest: batch_tab.get_Some)
  let ?d1 = "close_run (env_fromiso V) res (Some b) (rec_db s)"
  have keys: "keys_ok (rec_db s)" using ok by (simp add: acct_ok_def)
  have ok1: "acct_ok ?d1"
    using recorded.step_ok [OF ok, of "(env_fromiso V, res)"] open_run b by simp
  have "tally ?d1 b open_status = tally (rec_db s) b open_status - 1"
    using recorded.step_open [OF keys, of "(env_fromiso V, res)" b] open_run b
    by (simp add: selected_one [OF keys x(1)] xb)
  moreover from this have "tally (rec_db s) b open_status \<noteq> 0"
    using tally_nonneg [of ?d1 b open_status] by linarith
  moreover obtain s2 where pay: "record_payload V res (Some b) (run_batch_id x) (s\<lparr>rec_db := ?d1\<rparr>) = (Inr (), s2)"
    and fin: "close_if_done V res b s2 = (Inr (), s')"
    using run persist_body_closing [OF x]
    by (auto simp: persist_def session_scope_def after_close_def b seq_def split: prod.splits sum.splits)
  moreover have same: "same_ledger ?d1 (rec_db s2)"
    using carriesD [OF keeps_record_payload pay] by simp
  moreover have "batch_done b ?d1 = batch_done b (rec_db s)"
    by (simp add: batch_done_def get_batch_close_run split: option.split)
  moreover have "acct_ok (rec_db s2)" using ok1 acct_ok_same [OF same] by simp
  moreover obtain z where "get_batch b (rec_db s2) = Some z"
    using get_batch_same [OF same, of b] y
    by (cases "get_batch b (rec_db s2)") (auto simp: get_batch_close_run)
  ultimately show ?thesis
    using close_if_done_done [OF fin, of z] batch_done_same [OF same, of b] tally_same [OF same]
      batch_done_open [OF ok]
    by simp
qed

section \<open>The reaper\<close>

text \<open>The abstract effect: the open runs of the given batches become failed.\<close>

definition expire :: "int list \<Rightarrow> int \<times> int option \<times> run_status \<Rightarrow> int \<times> int option \<times> run_status" where
  "expire bs = (\<lambda>(i, b, st).
     if open_status st \<and> b \<in> Some ` set bs then (i, b, Failed) else (i, b, st))"

lemma expire_Nil [simp]: "expire [] v = v"
  by (simp add: expire_def split: prod.split)

lemma expire_Cons: "expire bs (expire [b] v) = expire (b # bs) v"
  by (auto simp: expire_def split: prod.split)

lemma life_close_open_runs:
  "life_of (close_open_runs b (timeout_run now) d) = map (expire [b]) (life_of d)"
  by (auto simp: life_of_def close_open_runs_def run_view_def expire_def open_run_def timeout_run_def)

lemma get_batch_runs [simp]: "get_batch c (d\<lparr>db_runs := rs\<rparr>) = get_batch c d"
  by (simp add: get_batch_def)

lemma get_close_open_runs:
  "get_batch c (close_open_runs b f d) = map_option
     (\<lambda>x. if c = b then x\<lparr>bat_failed := bat_failed x + count_rows (open_run b) (db_runs d)\<rparr> else x)
     (get_batch c d)"
  by (simp add: close_open_runs_def batch_tab.get_upd option.map_ident)

lemma batch_done_close_open_runs [simp]: "batch_done c (close_open_runs b f d) = batch_done c d"
  by (simp add: batch_done_def get_close_open_runs split: option.split)

lemma batch_done_finish:
  "batch_done c (upd_batch b (\<lambda>x. x\<lparr>bat_finished_at := Some t\<rparr>) d)
    = (batch_done c d \<or> c = b \<and> get_batch c d \<noteq> None)"
  by (auto simp: batch_done_def batch_tab.get_upd split: option.split)

lemma reap_batch_effect:
  assumes "reap_batch V x s = (Inr (), s')"
  shows "life_of (rec_db s') = map (expire [bat_id x]) (life_of (rec_db s))
    \<and> batch_done c (rec_db s')
      = (batch_done c (rec_db s) \<or> c = bat_id x \<and> get_batch c (rec_db s) \<noteq> None)
    \<and> (get_batch c (rec_db s') = None) = (get_batch c (rec_db s) = None)"
proof -
  let ?m = "commit_staged V (bat_id x) (reap_message x ((env_now V - bat_created_at x) div 1000000))
    (\<lambda>r c. r\<lparr>run_commit_sha := or_else (run_commit_sha r) (Some c)\<rparr>)"
  obtain s1 where m: "?m s = (Inr (), s1)" and s': "rec_db s' = close_open_runs (bat_id x)
      (timeout_run (env_now V)) (upd_batch (bat_id x) (\<lambda>x. x\<lparr>bat_finished_at := Some (env_now V)\<rparr>) (rec_db s1))"
    using assms by (auto simp: reap_batch_def Let_def seq_def modify_db_def split: prod.splits sum.splits)
  have "keeps_ledger ?m" by (rule keeps_commit_staged) (simp add: run_view_def)
  from carriesD [OF this m] have same: "same_ledger (rec_db s) (rec_db s1)" .
  have "life_of (rec_db s1) = life_of (rec_db s)" using same by (simp add: same_ledger_def life_of_def)
  moreover have "life_of (upd_batch b f d) = life_of d" for b f d by (simp add: life_of_def)
  moreover have none: "get_batch c (rec_db s1) = None \<longleftrightarrow> get_batch c (rec_db s) = None"
    using get_batch_same [OF same, of c] by (metis map_option_is_None)
  ultimately show ?thesis
    using batch_done_same [OF same, of c]
    by (cases "c = bat_id x")
      (simp_all add: s' life_close_open_runs batch_done_finish get_close_open_runs batch_tab.get_upd)
qed

lemma reap_all_effect:
  assumes "reap_all V xs s = (Inr (), s')"
  shows "life_of (rec_db s') = map (expire (map bat_id xs)) (life_of (rec_db s))
    \<and> batch_done c (rec_db s')
      = (batch_done c (rec_db s) \<or> c \<in> bat_id ` set xs \<and> get_batch c (rec_db s) \<noteq> None)"
  using assms
proof (induction xs arbitrary: s)
  case Nil
  then show ?case by (simp add: map_idI)
next
  case (Cons x xs)
  then obtain s1 where x: "reap_batch V x s = (Inr (), s1)" and xs: "reap_all V xs s1 = (Inr (), s')"
    by (auto simp: seq_def split: prod.splits sum.splits)
  show ?case
    using reap_batch_effect [OF x, of c] Cons.IH [OF xs]
    by (auto simp: expire_Cons comp_def)
qed

end
