(* ===== verification/Leader.thy ===== *)
theory Leader
  imports Scheduler
begin

text \<open>
  The leader election of \<open>run_scheduler\<close>: several replicas of the scheduler run the same loop, and the
  one that holds a PostgreSQL advisory lock fires the schedules. The lock belongs to the database
  connection on which it was taken. The server is a parameter: a record of the two queries the code
  sends and of the end of a connection, with an observation of who holds what; \<open>advisory\<close> states the
  documented behaviour.
\<close>

section \<open>The lock server\<close>

record 'l lock_server =
  pg_try_lock :: "int \<Rightarrow> int \<Rightarrow> 'l \<Rightarrow> bool \<times> 'l"
  pg_unlock :: "int \<Rightarrow> int \<Rightarrow> 'l \<Rightarrow> 'l"
  pg_disconnect :: "int \<Rightarrow> 'l \<Rightarrow> 'l"
  pg_holds :: "'l \<Rightarrow> int \<Rightarrow> int \<Rightarrow> bool"

text \<open>
  \<open>pg_try_lock c k\<close> asks on connection \<open>c\<close> for the lock \<open>k\<close>. It is granted exactly if no other
  connection holds the lock, and then \<open>c\<close> holds it. Releasing and disconnecting take nothing from
  another connection, and a closed connection holds nothing.
\<close>

definition advisory :: "'l lock_server \<Rightarrow> bool" where
  "advisory P \<longleftrightarrow>
     (\<forall>c k l. fst (pg_try_lock P c k l) \<longleftrightarrow> (\<forall>c'. pg_holds P l k c' \<longrightarrow> c' = c))
     \<and> (\<forall>c k l c'. pg_holds P (snd (pg_try_lock P c k l)) k c'
          \<longleftrightarrow> pg_holds P l k c' \<or> c' = c \<and> fst (pg_try_lock P c k l))
     \<and> (\<forall>c k l c'. c' \<noteq> c \<longrightarrow> pg_holds P (pg_unlock P c k l) k c' = pg_holds P l k c')
     \<and> (\<forall>c k l c'. pg_holds P (pg_disconnect P c l) k c' \<longleftrightarrow> pg_holds P l k c' \<and> c' \<noteq> c)"

lemma advisoryD:
  assumes "advisory P"
  shows advisory_try: "fst (pg_try_lock P c k l) \<longleftrightarrow> (\<forall>c'. pg_holds P l k c' \<longrightarrow> c' = c)"
    and advisory_held: "pg_holds P (snd (pg_try_lock P c k l)) k c'
      \<longleftrightarrow> pg_holds P l k c' \<or> c' = c \<and> fst (pg_try_lock P c k l)"
    and advisory_unlock: "c' \<noteq> c \<Longrightarrow> pg_holds P (pg_unlock P c k l) k c' = pg_holds P l k c'"
    and advisory_disconnect: "pg_holds P (pg_disconnect P c l) k c' \<longleftrightarrow> pg_holds P l k c' \<and> c' \<noteq> c"
  using assms [unfolded advisory_def, THEN conjunct1]
    assms [unfolded advisory_def, THEN conjunct2, THEN conjunct1]
    assms [unfolded advisory_def, THEN conjunct2, THEN conjunct2, THEN conjunct1]
    assms [unfolded advisory_def, THEN conjunct2, THEN conjunct2, THEN conjunct2]
  by simp_all

section \<open>One replica\<close>

text \<open>\<open>_try_acquire_lock\<close> and \<open>_release_lock\<close> on the connection of the session.\<close>

definition try_acquire_lock :: "'l lock_server \<Rightarrow> settings \<Rightarrow> int \<Rightarrow> 'l \<Rightarrow> bool \<times> 'l" where
  "try_acquire_lock P st c = pg_try_lock P c (set_scheduler_advisory_lock_id st)"

definition release_lock :: "'l lock_server \<Rightarrow> settings \<Rightarrow> int \<Rightarrow> 'l \<Rightarrow> 'l" where
  "release_lock P st c = pg_unlock P c (set_scheduler_advisory_lock_id st)"

text \<open>What happens before the loop; an exception of the broker ends the process.\<close>

definition scheduler_start :: "'q broker \<Rightarrow> settings \<Rightarrow> ('q, unit) eff" where
  "scheduler_start B st =
     seq (ensure_consumer_group B (set_job_stream st) (set_job_consumer_group st)) (\<lambda>_.
       ensure_consumer_group B (set_result_stream st) (set_result_consumer_group st))"

text \<open>
  One iteration of the loop on connection \<open>c\<close>: the lock is asked for only while \<open>have_lock\<close> is false,
  and never checked again afterwards.
\<close>

definition scheduler_iteration :: "'l lock_server \<Rightarrow> cron_lib \<Rightarrow> 'q broker \<Rightarrow> codec \<Rightarrow> secret_store \<Rightarrow> settings
    \<Rightarrow> datetime \<Rightarrow> int \<Rightarrow> bool \<times> 'l \<times> 'q world \<Rightarrow> bool \<times> 'l \<times> 'q world" where
  "scheduler_iteration P L B C S st now c = (\<lambda>(have_lock, l, w).
     let (granted, l') = (if have_lock then (True, l) else try_acquire_lock P st c l);
         (have', w') = scheduler_turn L B C S st now granted (have_lock, w)
     in (have', l', w'))"

text \<open>After the loop.\<close>

definition scheduler_stop :: "'l lock_server \<Rightarrow> settings \<Rightarrow> int \<Rightarrow> bool \<times> 'l \<Rightarrow> bool \<times> 'l" where
  "scheduler_stop P st c = (\<lambda>(have_lock, l). (False, if have_lock then release_lock P st c l else l))"

section \<open>The replicas together\<close>

text \<open>
  A replica is identified by a number; \<open>cl_conn\<close> is the connection its pool hands out, \<open>cl_live\<close> says
  whether the process is in its loop. Between the turns of the schedulers the other processes change
  the database and the streams in any way (\<open>Others\<close>). A connection may be lost (\<open>Reconnect\<close>): the
  server forgets its locks and the pool, which tests a connection before use, hands out a new one.
\<close>

record ('l, 'q) cluster =
  cl_live :: "nat \<Rightarrow> bool"
  cl_have :: "nat \<Rightarrow> bool"
  cl_conn :: "nat \<Rightarrow> int"
  cl_locks :: 'l
  cl_world :: "'q world"

datatype 'w event = Turn nat datetime | Shutdown nat | Others 'w | Reconnect nat int

inductive cluster_step :: "'l lock_server \<Rightarrow> cron_lib \<Rightarrow> 'q broker \<Rightarrow> codec \<Rightarrow> secret_store \<Rightarrow> settings
    \<Rightarrow> ('l, 'q) cluster \<Rightarrow> 'q world event \<Rightarrow> ('l, 'q) cluster \<Rightarrow> bool"
  for P L B C S st where
  turn: "cl_live s i \<Longrightarrow>
    scheduler_iteration P L B C S st now (cl_conn s i) (cl_have s i, cl_locks s, cl_world s) = (h, l, w) \<Longrightarrow>
    cluster_step P L B C S st s (Turn i now)
      (s\<lparr>cl_have := (cl_have s)(i := h), cl_locks := l, cl_world := w\<rparr>)"
| shutdown: "cl_live s i \<Longrightarrow>
    scheduler_stop P st (cl_conn s i) (cl_have s i, cl_locks s) = (h, l) \<Longrightarrow>
    cluster_step P L B C S st s (Shutdown i)
      (s\<lparr>cl_live := (cl_live s)(i := False), cl_have := (cl_have s)(i := h), cl_locks := l\<rparr>)"
| others: "cluster_step P L B C S st s (Others w) (s\<lparr>cl_world := w\<rparr>)"
| reconnect: "c \<notin> range (cl_conn s) \<Longrightarrow>
    cluster_step P L B C S st s (Reconnect i c)
      (s\<lparr>cl_conn := (cl_conn s)(i := c), cl_locks := pg_disconnect P (cl_conn s i) (cl_locks s)\<rparr>)"

inductive_cases cluster_turnE: "cluster_step P L B C S st s (Turn i now) s'"
inductive_cases cluster_shutdownE: "cluster_step P L B C S st s (Shutdown i) s'"
inductive_simps cluster_others: "cluster_step P L B C S st s (Others w) s'"
inductive_simps cluster_reconnect: "cluster_step P L B C S st s (Reconnect i c) s'"

inductive cluster_run :: "'l lock_server \<Rightarrow> cron_lib \<Rightarrow> 'q broker \<Rightarrow> codec \<Rightarrow> secret_store \<Rightarrow> settings
    \<Rightarrow> ('l, 'q) cluster \<Rightarrow> 'q world event list \<Rightarrow> ('l, 'q) cluster \<Rightarrow> bool"
  for P L B C S st where
  none: "cluster_run P L B C S st s [] s"
| more: "cluster_step P L B C S st s e s' \<Longrightarrow> cluster_run P L B C S st s' es s'' \<Longrightarrow>
    cluster_run P L B C S st s (e # es) s''"

inductive_simps cluster_run_simps:
  "cluster_run P L B C S st s [] s'"
  "cluster_run P L B C S st s (e # es) s'"

fun keeps_connection :: "'w event \<Rightarrow> bool" where
  "keeps_connection (Reconnect i c) = False"
| "keeps_connection e = True"

text \<open>The state before any replica has tried: no replica thinks it leads.\<close>

definition cluster_init :: "('l, 'q) cluster \<Rightarrow> bool" where
  "cluster_init s \<longleftrightarrow> inj (cl_conn s) \<and> (\<forall>i. \<not> cl_have s i)"

section \<open>The invariant\<close>

text \<open>
  A replica that thinks it leads holds the lock, and a lock has one holder (so far as the replicas
  are concerned: another program that takes the same lock only keeps them from firing).
\<close>

definition leader_ok :: "'l lock_server \<Rightarrow> settings \<Rightarrow> ('l, 'q) cluster \<Rightarrow> bool" where
  "leader_ok P st s \<longleftrightarrow> inj (cl_conn s)
     \<and> (\<forall>i. cl_have s i \<longrightarrow> pg_holds P (cl_locks s) (set_scheduler_advisory_lock_id st) (cl_conn s i))
     \<and> (\<forall>i j. cl_have s i \<and> cl_have s j \<longrightarrow> i = j)"

lemma scheduler_iteration_cases:
  assumes "scheduler_iteration P L B C S st now c (have, l, w) = (h, l', w')"
  shows "have \<and> h \<and> l' = l
    \<or> \<not> have \<and> h = fst (try_acquire_lock P st c l) \<and> l' = snd (try_acquire_lock P st c l) \<and> (\<not> h \<longrightarrow> w' = w)"
  using assms
  by (auto simp: scheduler_iteration_def scheduler_turn_def Let_def split: if_splits prod.splits)

lemma leader_ok_init: "cluster_init s \<Longrightarrow> leader_ok P st s"
  by (simp add: cluster_init_def leader_ok_def)

lemma leader_ok_step:
  assumes adv: "advisory P" and step: "cluster_step P L B C S st s e s'"
    and keep: "keeps_connection e" and ok: "leader_ok P st s"
  shows "leader_ok P st s'"
  using step keep
proof cases
  case (turn i now h l w)
  let ?k = "set_scheduler_advisory_lock_id st"
  from scheduler_iteration_cases [OF turn(4)] show ?thesis
  proof
    assume "cl_have s i \<and> h \<and> l = cl_locks s"
    with ok show ?thesis by (auto simp: leader_ok_def turn(2) fun_upd_idem)
  next
    assume a: "\<not> cl_have s i \<and> h = fst (try_acquire_lock P st (cl_conn s i) (cl_locks s))
      \<and> l = snd (try_acquire_lock P st (cl_conn s i) (cl_locks s)) \<and> (\<not> h \<longrightarrow> w = cl_world s)"
    then have h: "h \<longleftrightarrow> (\<forall>c. pg_holds P (cl_locks s) ?k c \<longrightarrow> c = cl_conn s i)"
      by (simp add: try_acquire_lock_def advisory_try [OF adv])
    have alone: "\<not> cl_have s j" if h for j
    proof
      assume "cl_have s j"
      with ok have "pg_holds P (cl_locks s) ?k (cl_conn s j)" by (simp add: leader_ok_def)
      with h that have "cl_conn s j = cl_conn s i" by simp
      with ok \<open>cl_have s j\<close> a show False by (simp add: leader_ok_def inj_eq)
    qed
    have held: "pg_holds P l ?k c \<longleftrightarrow> pg_holds P (cl_locks s) ?k c \<or> c = cl_conn s i \<and> h" for c
      using a by (simp add: try_acquire_lock_def advisory_held [OF adv])
    show ?thesis
    proof (cases h)
      case True
      then show ?thesis using ok alone held by (simp add: leader_ok_def turn(2))
    next
      case False
      then show ?thesis using ok held by (simp add: leader_ok_def turn(2))
    qed
  qed
next
  case (shutdown i h l)
  have "pg_holds P l (set_scheduler_advisory_lock_id st) (cl_conn s j)"
    if "cl_have s j" "j \<noteq> i" for j
    using shutdown(4) ok that advisory_unlock [OF adv]
    by (auto simp: scheduler_stop_def release_lock_def leader_ok_def inj_eq split: if_splits)
  with shutdown ok show ?thesis by (auto simp: leader_ok_def scheduler_stop_def)
qed (use ok in \<open>auto simp: leader_ok_def\<close>)

lemma leader_ok_run:
  assumes "advisory P" and "cluster_run P L B C S st s es s'" and "list_all keeps_connection es"
    and "leader_ok P st s"
  shows "leader_ok P st s'"
  using assms(2,3,4)
  by (induction rule: cluster_run.induct) (auto intro: leader_ok_step [OF assms(1)])

section \<open>A lost connection\<close>

text \<open>
  The leader's connection is lost: the server frees the lock, the replica goes on as leader without
  it, and the next replica that asks gets it. Both fire.
\<close>

lemma scheduler_iteration_leads:
  "scheduler_iteration P L B C S st now c (True, l, w) = (True, l, snd (fire_due L B C S st now w))"
  by (simp add: scheduler_iteration_def scheduler_turn_def)

lemma scheduler_iteration_granted:
  "fst (try_acquire_lock P st c l) \<Longrightarrow> scheduler_iteration P L B C S st now c (have, l, w)
     = (True, if have then l else snd (try_acquire_lock P st c l), snd (fire_due L B C S st now w))"
  by (cases "try_acquire_lock P st c l") (simp add: scheduler_iteration_def scheduler_turn_def)

lemma lost_connection_two_leaders:
  assumes adv: "advisory P" and live: "cl_live s i" "cl_live s j" and lead: "cl_have s i" "i \<noteq> j"
    and only: "\<And>c. pg_holds P (cl_locks s) (set_scheduler_advisory_lock_id st) c \<Longrightarrow> c = cl_conn s i"
    and fresh: "c \<notin> range (cl_conn s)"
  shows "\<exists>s'. cluster_run P L B C S st s [Reconnect i c, Turn j now, Turn i now'] s'
    \<and> cl_have s' i \<and> cl_have s' j
    \<and> cl_world s' = snd (fire_due L B C S st now' (snd (fire_due L B C S st now (cl_world s))))"
proof -
  let ?l1 = "pg_disconnect P (cl_conn s i) (cl_locks s)"
  let ?s1 = "s\<lparr>cl_conn := (cl_conn s)(i := c), cl_locks := ?l1\<rparr>"
  define l2 where "l2 = (if cl_have s j then ?l1 else snd (try_acquire_lock P st (cl_conn s j) ?l1))"
  let ?s2 = "?s1\<lparr>cl_have := (cl_have s)(j := True), cl_locks := l2, cl_world := snd (fire_due L B C S st now (cl_world s))\<rparr>"
  let ?s3 = "?s2\<lparr>cl_have := (cl_have ?s2)(i := True), cl_locks := l2,
    cl_world := snd (fire_due L B C S st now' (cl_world ?s2))\<rparr>"
  have r: "cluster_step P L B C S st s (Reconnect i c) ?s1" by (rule reconnect [OF fresh])
  have "\<not> pg_holds P ?l1 (set_scheduler_advisory_lock_id st) c'" for c'
    using only advisory_disconnect [OF adv] by blast
  then have "fst (try_acquire_lock P st (cl_conn s j) ?l1)"
    by (simp add: try_acquire_lock_def advisory_try [OF adv])
  then have "scheduler_iteration P L B C S st now (cl_conn ?s1 j) (cl_have ?s1 j, cl_locks ?s1, cl_world ?s1)
      = (True, l2, snd (fire_due L B C S st now (cl_world s)))"
    using lead(2) by (simp add: scheduler_iteration_granted l2_def)
  from turn [OF _ this] live(2) have t: "cluster_step P L B C S st ?s1 (Turn j now) ?s2" by simp
  have "scheduler_iteration P L B C S st now' (cl_conn ?s2 i) (cl_have ?s2 i, cl_locks ?s2, cl_world ?s2)
      = (True, l2, snd (fire_due L B C S st now' (cl_world ?s2)))"
    using lead by (simp add: scheduler_iteration_leads)
  from turn [OF _ this] live(1) have u: "cluster_step P L B C S st ?s2 (Turn i now') ?s3" by simp
  show ?thesis
    by (intro exI [of _ ?s3] conjI cluster_run.more [OF r] cluster_run.more [OF t]
        cluster_run.more [OF u] cluster_run.none) (use lead in simp_all)
qed

end
