(* ===== verification/Search.thy ===== *)
theory Search
  imports Web
begin

text \<open>
  \<open>web/routes/search.py\<close>: the context blocks around matching lines and the three search modes.
  Regular expressions (Python's and PostgreSQL's), full-text matching and its headline are
  parameters; the escaping of the pattern of an exact search is the code's own.
\<close>

section \<open>Context blocks\<close>

text \<open>\<open>range(lo, hi)\<close>.\<close>

definition py_range :: "int \<Rightarrow> int \<Rightarrow> int list" where
  "py_range lo hi = [lo..hi - 1]"

definition window :: "int \<Rightarrow> int \<Rightarrow> int \<Rightarrow> int list" where
  "window context n i = py_range (max 0 (i - context)) (min n (i + context + 1))"

text \<open>The set \<open>hits\<close>, collected line by line; kept as the list of what was added.\<close>

fun collect_hits :: "(string \<Rightarrow> bool) \<Rightarrow> int \<Rightarrow> int \<Rightarrow> int \<Rightarrow> string list \<Rightarrow> int list" where
  "collect_hits is_hit context n i [] = []"
| "collect_hits is_hit context n i (l # ls) =
     (if is_hit l then window context n i else []) @ collect_hits is_hit context n (i + 1) ls"

definition sorted_hits :: "(string \<Rightarrow> bool) \<Rightarrow> int \<Rightarrow> string list \<Rightarrow> int list" where
  "sorted_hits is_hit context ls =
     sort (remdups (collect_hits is_hit context (int (length ls)) 0 ls))"

text \<open>The loop that cuts the sorted indices into blocks.\<close>

fun cut_blocks :: "int list \<Rightarrow> int list list \<Rightarrow> int list \<Rightarrow> int list list" where
  "cut_blocks block blocks [] = (if block \<noteq> [] then blocks @ [block] else blocks)"
| "cut_blocks block blocks (i # is) =
     (if block \<noteq> [] \<and> i > last block + 1
      then cut_blocks [i] (blocks @ [block]) is
      else cut_blocks (block @ [i]) blocks is)"

record shown_line =
  sl_num :: int
  sl_text :: string
  sl_hit :: bool

record block =
  blk_start :: int
  blk_lines :: "shown_line list"

definition show_line :: "(string \<Rightarrow> bool) \<Rightarrow> string list \<Rightarrow> int \<Rightarrow> shown_line" where
  "show_line is_hit ls j = \<lparr>sl_num = j + 1, sl_text = ls ! nat j, sl_hit = is_hit (ls ! nat j)\<rparr>"

definition show_block :: "(string \<Rightarrow> bool) \<Rightarrow> string list \<Rightarrow> int list \<Rightarrow> block" where
  "show_block is_hit ls b = \<lparr>blk_start = hd b + 1, blk_lines = map (show_line is_hit ls) b\<rparr>"

definition term_hit :: "string list \<Rightarrow> string \<Rightarrow> bool" where
  "term_hit terms line = list_ex (\<lambda>t. contains (py_lower t) (py_lower line)) terms"

text \<open>\<open>regex\<close> is the search function of a compiled pattern.\<close>

definition extract_context :: "string \<Rightarrow> string list \<Rightarrow> (string \<Rightarrow> bool) option \<Rightarrow> int \<Rightarrow> block list" where
  "extract_context content terms regex context =
     (if content = [] \<or> (terms = [] \<and> regex = None) then []
      else
        let ls = splitlines content;
            is_hit = (case regex of Some search \<Rightarrow> search | None \<Rightarrow> term_hit terms)
        in map (show_block is_hit ls) (cut_blocks [] [] (sorted_hits is_hit context ls)))"

section \<open>Searching\<close>

text \<open>The escaping of \<open>ILIKE\<close>'s metacharacters, backslashes first.\<close>

definition ilike_escape :: "string \<Rightarrow> string" where
  "ilike_escape q =
     py_replace ''_'' (backslash # ''_'') (py_replace ''%'' (backslash # ''%'')
       (py_replace [backslash] [backslash, backslash] q))"

record found =
  fd_device_id :: int
  fd_device_name :: string
  fd_group_name :: "string option"
  fd_captured_at :: "datetime option"
  fd_headline :: "string option"
  fd_blocks :: "block list"

text \<open>\<open>string_agg(dg.name, ', ' ORDER BY dg.name)\<close>, null without a group.\<close>

definition group_names :: "db \<Rightarrow> device \<Rightarrow> string option" where
  "group_names d dev =
     (case device_groups d dev of [] \<Rightarrow> None | gs \<Rightarrow> Some (join '', '' (sort (map grp_name gs))))"

definition in_group :: "db \<Rightarrow> int \<Rightarrow> int \<Rightarrow> bool" where
  "in_group d gid devid \<longleftrightarrow> gid = 0 \<or> (devid, gid) \<in> set (db_memberships d)"

fun join_devices :: "db \<Rightarrow> device_config list \<Rightarrow> (device_config \<times> device) list" where
  "join_devices d [] = []"
| "join_devices d (c # cs) =
     (case get_device (cfg_device_id c) d of
        None \<Rightarrow> join_devices d cs | Some dev \<Rightarrow> (c, dev) # join_devices d cs)"

definition PAGE_SIZE :: nat where "PAGE_SIZE = 50"

text \<open>The query shared by the modes: 51 rows at most, one more than a page.\<close>

definition config_rows :: "db \<Rightarrow> (string \<Rightarrow> bool) \<Rightarrow> int \<Rightarrow> nat \<Rightarrow> (device_config \<times> device) list" where
  "config_rows d cond gid offset =
     page_of offset (PAGE_SIZE + 1)
       (sort_key (\<lambda>(c, dev). desc_key (cfg_captured_at c))
         (filter (\<lambda>(c, dev). (case cfg_content c of None \<Rightarrow> False | Some t \<Rightarrow> cond t)
              \<and> in_group d gid (dev_id dev))
           (join_devices d (db_configs d))))"

definition found_row :: "db \<Rightarrow> (string \<Rightarrow> string option) \<Rightarrow> (string \<Rightarrow> block list)
    \<Rightarrow> device_config \<times> device \<Rightarrow> found" where
  "found_row d headline blocks = (\<lambda>(c, dev). \<lparr>
     fd_device_id = cfg_device_id c, fd_device_name = dev_name dev,
     fd_group_name = group_names d dev, fd_captured_at = cfg_captured_at c,
     fd_headline = headline (or_str (cfg_content c) []),
     fd_blocks = blocks (or_str (cfg_content c) [])\<rparr>)"

text \<open>
  \<open>re_compile\<close> takes the case flag and the pattern, \<open>pg_regex\<close> is PostgreSQL's matcher, \<open>fts\<close> and
  \<open>ts_headline\<close> its text search on the query.
\<close>

record search_engine =
  re_compile :: "bool \<Rightarrow> string \<Rightarrow> (string \<Rightarrow> bool) result"
  pg_regex :: "bool \<Rightarrow> string \<Rightarrow> (string \<Rightarrow> bool) result"
  fts :: "string \<Rightarrow> string \<Rightarrow> bool"
  ts_headline :: "string \<Rightarrow> string \<Rightarrow> string"

record search_page =
  pg_results :: "found list"
  pg_error :: "string option"
  pg_number :: int
  pg_has_next :: bool

definition first_line :: "string \<Rightarrow> string result" where
  "first_line s = (case splitlines s of
     [] \<Rightarrow> Inl (Exn ''IndexError'' ''list index out of range'') | l # ls \<Rightarrow> Inr l)"

text \<open>\<open>int(group_id) if group_id.isdigit() else 0\<close>: a superscript digit passes the test and then raises.\<close>

definition group_param :: "string \<Rightarrow> int result" where
  "group_param group_id = (if py_isdigit group_id then to_int group_id else Inr 0)"

definition page_result :: "int \<Rightarrow> (device_config \<times> device) list
    \<Rightarrow> (device_config \<times> device \<Rightarrow> found) \<Rightarrow> search_page" where
  "page_result n rs f = \<lparr>pg_results = map f (take PAGE_SIZE rs), pg_error = None,
     pg_number = n, pg_has_next = (length rs > PAGE_SIZE)\<rparr>"

definition error_page :: "int \<Rightarrow> string option \<Rightarrow> search_page" where
  "error_page n err = \<lparr>pg_results = [], pg_error = err, pg_number = n, pg_has_next = False\<rparr>"

definition search_configs :: "search_engine \<Rightarrow> db \<Rightarrow> string \<Rightarrow> string \<Rightarrow> string \<Rightarrow> bool \<Rightarrow> int \<Rightarrow> int
    \<Rightarrow> search_page result" where
  "search_configs X d q0 group_id mode case_sensitive context page0 =
     (let n = max 1 page0;
          offset = nat (n - 1) * PAGE_SIZE;
          q = strip q0
      in if q = [] then Inr (error_page n None)
         else bind_result (group_param group_id) (\<lambda>gid.
         if mode = ''regex'' then
           (case re_compile X case_sensitive q of
              Inl e \<Rightarrow> Inr (error_page n (Some (''Invalid regular expression: '' @ exn_msg e)))
            | Inr search \<Rightarrow>
                (case pg_regex X case_sensitive q of
                   Inl e \<Rightarrow> bind_result (first_line (exn_msg e))
                     (\<lambda>l. Inr (error_page n (Some (''PostgreSQL regex error: '' @ l))))
                 | Inr cond \<Rightarrow> Inr (page_result n (config_rows d cond gid offset)
                     (found_row d (\<lambda>_. None) (\<lambda>t. extract_context t [] (Some search) context)))))
         else if mode = ''exact'' then
           Inr (page_result n (config_rows d (ilike (wrapped (ilike_escape q))) gid offset)
             (found_row d (\<lambda>_. None) (\<lambda>t. extract_context t [q] None context)))
         else
           Inr (page_result n (config_rows d (fts X q) gid offset)
             (found_row d (\<lambda>t. Some (ts_headline X q t)) (\<lambda>t. extract_context t (split_ws q) None context)))))"

section \<open>Lemmas: the escaping\<close>

fun esc :: "string \<Rightarrow> string" where
  "esc [] = []"
| "esc (c # cs) = (if like_plain c then [c] else [backslash, c]) @ esc cs"

lemma py_replace_one: "py_replace [a] b s = concat (map (\<lambda>c. if c = a then b else [c]) s)"
  by (induction s) (auto simp: startswith_def)

lemma ilike_escape_esc: "ilike_escape q = esc q"
proof -
  have "backslash \<noteq> CHR ''%''" "backslash \<noteq> CHR ''_''" by (simp_all add: backslash_def)
  then show ?thesis
    unfolding ilike_escape_def py_replace_one by (induction q) (auto simp: like_plain_def)
qed

lemma like_esc_prefix: "like (esc p @ ''%'') s \<longleftrightarrow> startswith s p"
proof (induction p arbitrary: s)
  case Nil
  then show ?case by (simp add: like_percent_end startswith_def)
next
  case (Cons c p)
  have b: "backslash \<noteq> CHR ''%''" "backslash \<noteq> CHR ''_''" by (simp_all add: backslash_def)
  show ?case
  proof (cases "like_plain c")
    case True
    with Cons show ?thesis by (cases s) (auto simp: like_plain_def startswith_def)
  next
    case False
    with Cons b show ?thesis by (cases s) (auto simp: startswith_def)
  qed
qed

text \<open>An escaped pattern between two wildcards is substring search, whatever the text.\<close>

lemma like_escaped: "like (wrapped (esc q)) s \<longleftrightarrow> contains q s"
  by (auto simp: wrapped_def like_percent_start like_esc_prefix contains_iff startswith_iff)

lemma cp_char_of: "n < 256 \<Longrightarrow> cp (char_of n) = n"
  by simp

lemma lower_plain: "like_plain (lower_char c) = like_plain c" and lower_special: "\<not> like_plain c \<Longrightarrow> lower_char c = c"
proof -
  have special: "\<not> like_plain x \<longleftrightarrow> cp x \<in> {37, 95, 92}" for x
  proof -
    have "x = CHR ''%'' \<longleftrightarrow> cp x = 37" "x = CHR ''_'' \<longleftrightarrow> cp x = 95" "x = CHR 0x5C \<longleftrightarrow> cp x = 92"
      unfolding of_char_eq_iff [where 'a = nat, symmetric] by simp_all
    then show ?thesis by (auto simp: like_plain_def backslash_def)
  qed
  show "\<not> like_plain c \<Longrightarrow> lower_char c = c"
    by (auto simp: special lower_char_def is_upper_def)
  show "like_plain (lower_char c) = like_plain c"
  proof (cases "is_upper c")
    case True
    then have "65 \<le> cp c" "cp c \<le> 222" "cp c \<le> 90 \<or> 192 \<le> cp c" by (auto simp: is_upper_def)
    moreover have "cp (lower_char c) = cp c + 32"
      using True \<open>cp c \<le> 222\<close> by (simp add: lower_char_def)
    ultimately show ?thesis using special [of c] special [of "lower_char c"] by auto
  next
    case False
    then show ?thesis by (simp add: lower_char_def)
  qed
qed

lemma lower_backslash: "lower_char backslash = backslash"
  by (rule lower_special) (simp add: like_plain_def)

lemma lower_esc: "py_lower (esc q) = esc (py_lower q)"
  by (induction q) (auto simp: py_lower_def lower_plain lower_special lower_backslash)

lemma lower_wrapped: "py_lower (wrapped q) = wrapped (py_lower q)"
  by (simp add: wrapped_def py_lower_def lower_char_def is_upper_def)

text \<open>The exact mode finds the configurations that contain the text, upper and lower case alike.\<close>

lemma ilike_exact: "ilike (wrapped (ilike_escape q)) s \<longleftrightarrow> contains (py_lower q) (py_lower s)"
  by (simp add: ilike_def ilike_escape_esc lower_wrapped lower_esc like_escaped)

section \<open>Lemmas: the blocks\<close>

text \<open>The reference: the lines near a hit.\<close>

definition near :: "(string \<Rightarrow> bool) \<Rightarrow> int \<Rightarrow> string list \<Rightarrow> int \<Rightarrow> bool" where
  "near is_hit context ls i \<longleftrightarrow>
     list_ex (\<lambda>k. is_hit (ls ! k) \<and> int k - context \<le> i \<and> i \<le> int k + context) [0..<length ls]"

lemma set_collect_hits:
  "i \<in> set (collect_hits is_hit context n s ls)
    \<longleftrightarrow> (\<exists>k < length ls. is_hit (ls ! k) \<and> i \<in> set (window context n (s + int k)))"
proof (induction ls arbitrary: s)
  case Nil
  then show ?case by simp
next
  case (Cons l ls)
  have "(\<exists>k < Suc (length ls). is_hit ((l # ls) ! k) \<and> i \<in> set (window context n (s + int k)))
      \<longleftrightarrow> (is_hit l \<and> i \<in> set (window context n s))
        \<or> (\<exists>k < length ls. is_hit (ls ! k) \<and> i \<in> set (window context n (s + 1 + int k)))"
    unfolding Ex_less_Suc2 by (simp add: algebra_simps)
  with Cons show ?case by auto
qed

lemma sorted_hits_near:
  "sorted_hits is_hit context ls = filter (near is_hit context ls) [0..int (length ls) - 1]"
proof (rule sorted_distinct_set_unique)
  show "sorted (filter (near is_hit context ls) [0..int (length ls) - 1])"
    by (rule sorted_wrt_filter) simp
  show "set (sorted_hits is_hit context ls) = set (filter (near is_hit context ls) [0..int (length ls) - 1])"
    by (auto simp: sorted_hits_def set_collect_hits window_def py_range_def near_def list_ex_iff Bex_def)
qed (simp_all add: sorted_hits_def)

definition consecutive :: "int list \<Rightarrow> bool" where
  "consecutive b \<longleftrightarrow> b \<noteq> [] \<and> b = [hd b..last b]"

definition apart :: "int list \<Rightarrow> int list \<Rightarrow> bool" where
  "apart x y \<longleftrightarrow> last x + 1 < hd y"

lemma concat_cut_blocks: "concat (cut_blocks b bs is) = concat bs @ b @ is"
  by (induction b bs "is" rule: cut_blocks.induct) auto

lemma consecutive_single: "consecutive [i]"
  by (simp add: consecutive_def)

lemma consecutive_snoc:
  assumes "consecutive b" and "i = last b + 1"
  shows "consecutive (b @ [i])"
proof -
  have ne: "b \<noteq> []" and b: "b = [hd b..last b]" using assms(1) by (simp_all add: consecutive_def)
  have "hd b \<le> last b" using ne b by (metis atLeastatMost_empty_iff2 hd_in_set order.refl set_empty set_upto atLeastAtMost_iff)
  then have "[hd b..i] = [hd b..last b] @ [i]"
    using upto_rec2 [of "hd b" i] by (simp add: assms(2))
  with ne b show ?thesis by (simp add: consecutive_def)
qed

lemma successively_snoc:
  "successively P (xs @ [x, y]) \<longleftrightarrow> successively P (xs @ [x]) \<and> P x y"
  by (auto simp: successively_append_iff)

lemma cut_blocks_shape:
  assumes "list_all consecutive bs" and "b = [] \<longrightarrow> bs = []" and "b \<noteq> [] \<longrightarrow> consecutive b"
    and "b \<noteq> [] \<longrightarrow> successively apart (bs @ [b])" and "sorted_wrt (<) (b @ is)"
  shows "list_all consecutive (cut_blocks b bs is) \<and> successively apart (cut_blocks b bs is)"
  using assms
proof (induction b bs "is" rule: cut_blocks.induct)
  case (1 b bs)
  then show ?case by auto
next
  case (2 b bs i "is")
  show ?case
  proof (cases "b \<noteq> [] \<and> i > last b + 1")
    case True
    then have "successively apart ((bs @ [b]) @ [[i]])"
      using 2 by (simp add: successively_snoc apart_def)
    with True 2 show ?thesis
      by (auto simp: consecutive_single sorted_wrt_append)
  next
    case False
    show ?thesis
    proof (cases "b = []")
      case True
      with 2 False show ?thesis by (auto simp: consecutive_single)
    next
      case ne: False
      have "last b < i" using 2(7) ne by (simp add: sorted_wrt_append)
      with False ne have i: "i = last b + 1" by simp
      have "consecutive (b @ [i])" by (rule consecutive_snoc) (use 2(5) ne i in simp_all)
      moreover have "successively apart (bs @ [b @ [i]])"
        using 2(6) ne by (auto simp: successively_append_iff apart_def)
      ultimately show ?thesis using False 2 ne by auto
    qed
  qed
qed

lemma extract_context_blocks:
  assumes "content \<noteq> []" and "terms \<noteq> [] \<or> regex \<noteq> None"
  shows "extract_context content terms regex context =
    map (show_block (case regex of Some search \<Rightarrow> search | None \<Rightarrow> term_hit terms) (splitlines content))
      (cut_blocks [] [] (filter (near (case regex of Some search \<Rightarrow> search | None \<Rightarrow> term_hit terms)
         context (splitlines content)) [0..int (length (splitlines content)) - 1]))"
  using assms by (auto simp: extract_context_def sorted_hits_near Let_def)

end
