(* ===== verification/Auth.thy ===== *)
theory Auth
  imports Web
begin

text \<open>
  \<open>web/auth.py\<close>, \<open>web/routes/auth.py\<close> and the middleware of \<open>web/app.py\<close>: who a request is, what
  the guards let through, and how a session comes to carry a user. The session is the cookie's
  dictionary. The HTTP calls to the identity provider, its URL construction and the JWT check are
  parameters.
\<close>

section \<open>Users and sessions\<close>

record user =
  usr_sub :: pyval
  usr_username :: pyval
  usr_email :: pyval
  usr_role :: string

definition is_admin :: "user \<Rightarrow> bool" where
  "is_admin u \<longleftrightarrow> usr_role u = ''admin''"

definition is_operator :: "user \<Rightarrow> bool" where
  "is_operator u \<longleftrightarrow> usr_role u \<in> {''admin'', ''operator''}"

definition session_get :: "row \<Rightarrow> string \<Rightarrow> pyval \<Rightarrow> pyval" where
  "session_get s k dflt = (case map_of s k of None \<Rightarrow> dflt | Some v \<Rightarrow> v)"

definition known_role :: "pyval \<Rightarrow> string" where
  "known_role v = (if v = PStr ''admin'' then ''admin'' else ''operator'')"

definition authenticate_request :: "row \<Rightarrow> user option" where
  "authenticate_request session =
     (let sub = session_get session ''user_sub'' PNone in
      if \<not> py_truth sub then None
      else Some \<lparr>usr_sub = sub,
                 usr_username = session_get session ''user_name'' (PStr []),
                 usr_email = session_get session ''user_email'' (PStr []),
                 usr_role = known_role (session_get session ''user_role'' (PStr ''operator''))\<rparr>)"

section \<open>Middleware and guards\<close>

text \<open>The middleware stack is empty without authentication and skips two path prefixes.\<close>

definition excluded_path :: "string \<Rightarrow> bool" where
  "excluded_path path \<longleftrightarrow> startswith path ''/static'' \<or> startswith path ''/auth''"

definition connection_user :: "settings \<Rightarrow> string \<Rightarrow> row \<Rightarrow> user option" where
  "connection_user st path session =
     (if set_auth_provider st = ''none'' \<or> excluded_path path then None
      else authenticate_request session)"

definition not_authorized :: py_exn where
  "not_authorized = Exn ''NotAuthorizedException'' ''Unauthorized''"

definition require_authenticated :: "settings \<Rightarrow> user option \<Rightarrow> unit result" where
  "require_authenticated st u =
     (if set_auth_provider st = ''none'' then Inr ()
      else if u = None then Inl not_authorized
      else Inr ())"

definition require_admin :: "settings \<Rightarrow> user option \<Rightarrow> unit result" where
  "require_admin st u =
     (if set_auth_provider st = ''none'' then Inr ()
      else case u of
        None \<Rightarrow> Inl not_authorized
      | Some usr \<Rightarrow> if \<not> is_admin usr then Inl not_authorized else Inr ())"

datatype response = Redirect string | Unauthorized_json

definition auth_exception_handler :: "settings \<Rightarrow> string \<Rightarrow> response" where
  "auth_exception_handler st accept =
     (if contains ''text/html'' accept then Redirect (redir st ''/auth/login'')
      else Unauthorized_json)"

text \<open>A request to a handler: the guards of its router and its own, in order, then the body.\<close>

fun run_guards :: "(user option \<Rightarrow> unit result) list \<Rightarrow> user option \<Rightarrow> unit result" where
  "run_guards [] u = Inr ()"
| "run_guards (g # gs) u = bind_result (g u) (\<lambda>_. run_guards gs u)"

definition guarded :: "settings \<Rightarrow> (user option \<Rightarrow> unit result) list \<Rightarrow> string \<Rightarrow> string \<Rightarrow> row
    \<Rightarrow> (user option \<Rightarrow> 's \<Rightarrow> 'a \<times> 's) \<Rightarrow> 's \<Rightarrow> (response + 'a) \<times> 's" where
  "guarded st gs path accept session body s =
     (let u = connection_user st path session in
      case run_guards gs u of
        Inl e \<Rightarrow> (Inl (auth_exception_handler st accept), s)
      | Inr _ \<Rightarrow> (case body u s of (x, s') \<Rightarrow> (Inr x, s')))"

lemma run_guards_Inr_iff:
  "run_guards gs u = Inr () \<longleftrightarrow> (\<forall>g \<in> set gs. g u = Inr ())"
  by (induction gs) (auto simp: bind_result_Inr_iff)

lemma require_admin_iff:
  "require_admin st u = Inr () \<longleftrightarrow>
     set_auth_provider st = ''none'' \<or> (\<exists>usr. u = Some usr \<and> is_admin usr)"
  by (auto simp: require_admin_def split: option.splits)

lemma require_authenticated_iff:
  "require_authenticated st u = Inr () \<longleftrightarrow> set_auth_provider st = ''none'' \<or> u \<noteq> None"
  by (simp add: require_authenticated_def)

section \<open>Login\<close>

definition redirect_uri :: "settings \<Rightarrow> string" where
  "redirect_uri st = rstrip_char (CHR ''/'') (set_base_url st) @ ''/auth/callback''"

text \<open>\<open>_extract_roles\<close>: the dotted path through the claims.\<close>

fun walk_claims :: "pyval \<Rightarrow> string list \<Rightarrow> pyval option" where
  "walk_claims node [] = Some node"
| "walk_claims (PDict d) (k # ks) =
     walk_claims (case map_of d k of None \<Rightarrow> PDict [] | Some v \<Rightarrow> v) ks"
| "walk_claims node (k # ks) = None"

definition extract_roles :: "row \<Rightarrow> string \<Rightarrow> pyval list" where
  "extract_roles claims claim_path =
     (case walk_claims (PDict claims) (split_on CHR ''.'' claim_path) of
        Some (PList xs) \<Rightarrow> xs | _ \<Rightarrow> [])"

text \<open>The identity provider as the code calls it.\<close>

record oidc =
  oidc_discover :: "row result"
  oidc_state :: string
  oidc_authorize_url :: "pyval \<Rightarrow> string \<Rightarrow> string \<Rightarrow> string"
  oidc_prepare_token :: "pyval \<Rightarrow> string \<Rightarrow> string \<Rightarrow> string result"
  oidc_exchange :: "pyval \<Rightarrow> string \<Rightarrow> pyval \<Rightarrow> (row \<times> pyval) result"
  oidc_decode :: "pyval \<Rightarrow> pyval \<Rightarrow> row result"

datatype auth_page =
    Discovery_failed string
  | Provider_error string
  | Invalid_state
  | Exchange_failed string
  | No_id_token
  | Invalid_jwt string
  | No_role
  | Dev_login

type_synonym auth_response = "auth_page + string"

definition dict_item :: "row \<Rightarrow> string \<Rightarrow> pyval result" where
  "dict_item d k = (case map_of d k of None \<Rightarrow> Inl (KeyError (repr_str k)) | Some v \<Rightarrow> Inr v)"

definition login :: "settings \<Rightarrow> oidc \<Rightarrow> (row, auth_response) eff" where
  "login st I = (\<lambda>session.
     if set_auth_provider st = ''none'' then (Inr (Inr (redir st ''/'')), session)
     else if set_auth_provider st = ''dev'' then (Inr (Inr (redir st ''/auth/dev-login'')), session)
     else case oidc_discover I of
       Inl e \<Rightarrow> (Inr (Inl (Discovery_failed (exn_msg e))), session)
     | Inr cfg \<Rightarrow>
         let s1 = dict_set ''oidc_state'' (PStr (oidc_state I)) session in
         (case dict_item cfg ''authorization_endpoint'' of
            Inl e \<Rightarrow> (Inl e, session)
          | Inr ep \<Rightarrow>
              (case dict_item cfg ''token_endpoint'' of
                 Inl e \<Rightarrow> (Inl e, s1)
               | Inr tok \<Rightarrow>
                   let s2 = dict_set ''oidc_token_endpoint'' tok s1 in
                   (case dict_item cfg ''jwks_uri'' of
                      Inl e \<Rightarrow> (Inl e, s2)
                    | Inr jw \<Rightarrow>
                        (Inr (Inr (oidc_authorize_url I ep (redirect_uri st) (oidc_state I))),
                         dict_set ''oidc_jwks_uri'' jw s2)))))"

definition role_of :: "settings \<Rightarrow> pyval list \<Rightarrow> string option" where
  "role_of st roles =
     (if PStr (set_oidc_admin_role st) \<in> set roles then Some ''admin''
      else if PStr (set_oidc_operator_role st) \<in> set roles then Some ''operator''
      else None)"

definition set_user :: "pyval \<Rightarrow> pyval \<Rightarrow> pyval \<Rightarrow> string \<Rightarrow> row \<Rightarrow> row" where
  "set_user sub name email role s =
     dict_set ''user_role'' (PStr role) (dict_set ''user_email'' email
       (dict_set ''user_name'' name (dict_set ''user_sub'' sub s)))"

definition claims_name :: "row \<Rightarrow> pyval" where
  "claims_name claims =
     (let n = session_get claims ''name'' PNone in
      if py_truth n then n else session_get claims ''preferred_username'' (PStr []))"

definition sign_in :: "row \<Rightarrow> string \<Rightarrow> row \<Rightarrow> row" where
  "sign_in claims role s =
     dict_del ''oidc_jwks_uri'' (dict_del ''oidc_token_endpoint'' (dict_del ''oidc_state''
       (set_user (session_get claims ''sub'' (PStr [])) (claims_name claims)
          (session_get claims ''email'' (PStr [])) role s)))"

definition callback :: "settings \<Rightarrow> oidc \<Rightarrow> string \<Rightarrow> string \<Rightarrow> string \<Rightarrow> (row, auth_response) eff" where
  "callback st I code error oauth_state = (\<lambda>session.
     if error \<noteq> [] then (Inr (Inl (Provider_error error)), session)
     else if oauth_state = [] \<or> PStr oauth_state \<noteq> session_get session ''oidc_state'' PNone
     then (Inr (Inl Invalid_state), session)
     else
       let token_endpoint = session_get session ''oidc_token_endpoint'' (PStr []);
           jwks_uri = session_get session ''oidc_jwks_uri'' (PStr [])
       in case oidc_prepare_token I token_endpoint (redirect_uri st) code of
         Inl e \<Rightarrow> (Inl e, session)
       | Inr body \<Rightarrow>
         (case oidc_exchange I token_endpoint body jwks_uri of
            Inl e \<Rightarrow> (Inr (Inl (Exchange_failed (exn_msg e))), session)
          | Inr (tokens, jwks) \<Rightarrow>
              let id_token = session_get tokens ''id_token'' PNone in
              if \<not> py_truth id_token then (Inr (Inl No_id_token), session)
              else case oidc_decode I id_token jwks of
                Inl e \<Rightarrow> (Inr (Inl (Invalid_jwt (exn_msg e))), session)
              | Inr claims \<Rightarrow>
                  (case role_of st (extract_roles claims (set_oidc_role_claim st)) of
                     None \<Rightarrow> (Inr (Inl No_role), session)
                   | Some role \<Rightarrow> (Inr (Inr (redir st ''/'')), sign_in claims role session))))"

definition logout :: "settings \<Rightarrow> (row, auth_response) eff" where
  "logout st = (\<lambda>session. (Inr (Inr (redir st ''/auth/login'')), []))"

definition dev_login_form :: "settings \<Rightarrow> (row, auth_response) eff" where
  "dev_login_form st =
     (if set_auth_provider st \<noteq> ''dev'' then ret (Inr (redir st ''/'')) else ret (Inl Dev_login))"

text \<open>\<open>str.capitalize\<close> on ASCII.\<close>

definition capitalize :: "string \<Rightarrow> string" where
  "capitalize s =
     (case s of
        [] \<Rightarrow> []
      | c # cs \<Rightarrow> (if 97 \<le> cp c \<and> cp c \<le> 122 then char_of (cp c - 32) else c) # py_lower cs)"

definition dev_login_submit :: "settings \<Rightarrow> form \<Rightarrow> (row, auth_response) eff" where
  "dev_login_submit st data = (\<lambda>session.
     if set_auth_provider st \<noteq> ''dev'' then (Inr (Inr (redir st ''/'')), session)
     else
       let role = (case map_of data ''role'' of
                     Some (FStr r) \<Rightarrow> if r \<in> {''admin'', ''operator''} then r else ''operator''
                   | _ \<Rightarrow> ''operator'')
       in (Inr (Inr (redir st ''/'')),
           set_user (PStr (''dev-'' @ role)) (PStr (''Dev '' @ capitalize role))
             (PStr (role @ ''@dev.local'')) role session))"

section \<open>Lemmas\<close>

definition session_role :: "row \<Rightarrow> string option" where
  "session_role session = map_option usr_role (authenticate_request session)"

lemma session_get_dict_set [simp]:
  "session_get (dict_set k v s) k' dflt = (if k = k' then v else session_get s k' dflt)"
  by (simp add: session_get_def)

lemma session_get_dict_del [simp]:
  "session_get (dict_del k s) k' dflt = (if k = k' then dflt else session_get s k' dflt)"
  by (simp add: session_get_def)

lemma session_role_sign_in:
  "session_role (sign_in claims role s) =
     (if py_truth (session_get claims ''sub'' (PStr [])) then Some (known_role (PStr role)) else None)"
  by (simp add: session_role_def authenticate_request_def sign_in_def set_user_def)

lemma session_role_oidc [simp]:
  "session_role (dict_set ''oidc_state'' v s) = session_role s"
  "session_role (dict_set ''oidc_token_endpoint'' v s) = session_role s"
  "session_role (dict_set ''oidc_jwks_uri'' v s) = session_role s"
  by (simp_all add: session_role_def authenticate_request_def Let_def)

lemma authenticate_role:
  "authenticate_request session = Some u \<Longrightarrow> is_operator u"
  by (auto simp: authenticate_request_def is_operator_def known_role_def Let_def split: if_splits)

end
