(* ===== verification/Csv.thy ===== *)
theory Csv
  imports Models
begin

text \<open>
  Python's \<open>csv.DictReader(io.StringIO(raw))\<close> in the default dialect, as the import uses it: the
  character automaton of the reader, the records, and the rows keyed by the header. The limit on
  the length of a field is left out.
\<close>

section \<open>Lines of a text buffer\<close>

fun io_lines :: "string \<Rightarrow> string list" where
  "io_lines [] = []"
| "io_lines (c # cs) =
     (if c = LF then [LF] # io_lines cs
      else (case io_lines cs of [] \<Rightarrow> [[c]] | l # ls \<Rightarrow> (c # l) # ls))"

section \<open>The automaton\<close>

datatype csv_mode = Start_record | Start_field | In_field | In_quoted | Quote_in_quoted | Eat_newline

record csv_state =
  cs_mode :: csv_mode
  cs_field :: string
  cs_fields :: "string list"

definition csv_start :: csv_state where
  "csv_start = \<lparr>cs_mode = Start_record, cs_field = [], cs_fields = []\<rparr>"

definition save_field :: "csv_mode \<Rightarrow> csv_state \<Rightarrow> csv_state" where
  "save_field m s = \<lparr>cs_mode = m, cs_field = [], cs_fields = cs_fields s @ [cs_field s]\<rparr>"

definition add_char :: "csv_mode \<Rightarrow> char \<Rightarrow> csv_state \<Rightarrow> csv_state" where
  "add_char m c s = s\<lparr>cs_mode := m, cs_field := cs_field s @ [c]\<rparr>"

abbreviation quote_char :: char where "quote_char \<equiv> CHR 0x22"

definition newline :: "char \<Rightarrow> bool" where
  "newline c \<longleftrightarrow> c = LF \<or> c = CR"

definition start_field :: "char \<Rightarrow> csv_state \<Rightarrow> csv_state" where
  "start_field c s =
     (if newline c then save_field Eat_newline s
      else if c = quote_char then s\<lparr>cs_mode := In_quoted\<rparr>
      else if c = CHR '','' then save_field Start_field s
      else add_char In_field c s)"

definition csv_error :: py_exn where
  "csv_error = Exn ''Error''
     ''new-line character seen in unquoted field - do you need to open the file with newline=''"

definition csv_char :: "char \<Rightarrow> csv_state \<Rightarrow> csv_state result" where
  "csv_char c s =
     (case cs_mode s of
        Start_record \<Rightarrow> Inr (if newline c then s\<lparr>cs_mode := Eat_newline\<rparr> else start_field c s)
      | Start_field \<Rightarrow> Inr (start_field c s)
      | In_field \<Rightarrow>
          Inr (if newline c then save_field Eat_newline s
               else if c = CHR '','' then save_field Start_field s
               else add_char In_field c s)
      | In_quoted \<Rightarrow>
          Inr (if c = quote_char then s\<lparr>cs_mode := Quote_in_quoted\<rparr> else add_char In_quoted c s)
      | Quote_in_quoted \<Rightarrow>
          Inr (if c = quote_char then add_char In_quoted c s
               else if c = CHR '','' then save_field Start_field s
               else if newline c then save_field Eat_newline s
               else add_char In_field c s)
      | Eat_newline \<Rightarrow> (if newline c then Inr s else Inl csv_error))"

text \<open>The end of a line, which the reader feeds after its characters.\<close>

definition csv_eol :: "csv_state \<Rightarrow> csv_state" where
  "csv_eol s =
     (case cs_mode s of
        Start_record \<Rightarrow> s
      | In_quoted \<Rightarrow> s
      | Eat_newline \<Rightarrow> s\<lparr>cs_mode := Start_record\<rparr>
      | _ \<Rightarrow> save_field Start_record s)"

fun csv_line :: "string \<Rightarrow> csv_state \<Rightarrow> csv_state result" where
  "csv_line [] s = Inr (csv_eol s)"
| "csv_line (c # cs) s = bind_result (csv_char c s) (csv_line cs)"

text \<open>One record: its fields and the lines that are left; \<open>None\<close> at the end of the input.\<close>

fun csv_record :: "string list \<Rightarrow> csv_state \<Rightarrow> (string list \<times> string list) option result" where
  "csv_record [] s =
     Inr (if cs_field s \<noteq> [] \<or> cs_mode s = In_quoted
          then Some (cs_fields s @ [cs_field s], []) else None)"
| "csv_record (l # ls) s =
     bind_result (csv_line l s) (\<lambda>s'.
       if cs_mode s' = Start_record then Inr (Some (cs_fields s', ls)) else csv_record ls s')"

lemma csv_record_rest:
  "csv_record ls s = Inr (Some (fs, rest)) \<Longrightarrow> length rest \<le> length ls \<and> (ls \<noteq> [] \<longrightarrow> length rest < length ls)"
proof (induction ls s rule: csv_record.induct)
  case (1 s)
  then show ?case by (auto split: if_splits)
next
  case (2 l ls s)
  then show ?case by (fastforce simp: bind_result_Inr_iff split: if_splits)
qed

lemma csv_record_less: "csv_record ls csv_start = Inr (Some (fs, rest)) \<Longrightarrow> length rest < length ls"
  using csv_record_rest [of ls csv_start fs rest] by (cases ls) (auto simp: csv_start_def)

text \<open>All records; an exception ends the iteration.\<close>

function csv_records :: "string list \<Rightarrow> string list list result" where
  "csv_records ls =
     (case csv_record ls csv_start of
        Inl e \<Rightarrow> Inl e
      | Inr None \<Rightarrow> Inr []
      | Inr (Some (fs, rest)) \<Rightarrow> bind_result (csv_records rest) (\<lambda>rs. Inr (fs # rs)))"
  by pat_completeness auto
termination
  by (relation "measure length") (auto dest: csv_record_less [OF sym] csv_record_less)

declare csv_records.simps [simp del]

section \<open>Rows keyed by the header\<close>

type_synonym csv_row = "(string \<times> string option) list"

text \<open>\<open>dict(zip(fieldnames, row))\<close>, the missing cells being \<open>None\<close>; surplus cells are not read.\<close>

fun csv_cells :: "string list \<Rightarrow> string list \<Rightarrow> csv_row \<Rightarrow> csv_row" where
  "csv_cells [] cells acc = acc"
| "csv_cells (f # fs) [] acc = csv_cells fs [] (dict_set f None acc)"
| "csv_cells (f # fs) (c # cs) acc = csv_cells fs cs (dict_set f (Some c) acc)"

text \<open>The header, missing for an empty input, and the rows; blank lines are skipped.\<close>

definition csv_dict_reader :: "string \<Rightarrow> (string list option \<times> csv_row list result) result" where
  "csv_dict_reader raw =
     (case csv_record (io_lines raw) csv_start of
        Inl e \<Rightarrow> Inl e
      | Inr None \<Rightarrow> Inr (None, Inr [])
      | Inr (Some (hdr, rest)) \<Rightarrow>
          Inr (Some hdr,
            bind_result (csv_records rest) (\<lambda>rs.
              Inr (map (\<lambda>r. csv_cells hdr r []) (filter (\<lambda>r. r \<noteq> []) rs)))))"

lemma csv_cells_keys: "set (map fst (csv_cells fs cs acc)) = set fs \<union> set (map fst acc)"
  by (induction fs cs acc rule: csv_cells.induct) (auto simp: keys_dict_set)

end
