(* ===== verification/Import.thy ===== *)
theory Import
  imports Csv Web
begin

text \<open>
  \<open>web/import_devices.py\<close>: the bulk import. Rows are checked one after the other against the
  inventory; rows for known names change the device in the session, the others collect new devices,
  and the transaction is committed only when no row failed. The commit fails on a device that is put
  into a group twice, the membership table being keyed by device and group.
\<close>

section \<open>Headers and cells\<close>

definition required_columns :: "string list" where
  "required_columns = [''name'', ''hostname'', ''group'']"

definition header_key :: "string \<Rightarrow> string" where
  "header_key original =
     (let key = py_lower (strip original) in
      if key = ''credential'' then ''credentials'' else key)"

text \<open>\<open>_normalize_headers\<close>: a later column with the same key wins.\<close>

definition normalize_headers :: "string list option \<Rightarrow> (string \<times> string) list" where
  "normalize_headers fieldnames =
     (case fieldnames of
        None \<Rightarrow> []
      | Some fs \<Rightarrow> fold (\<lambda>original m. dict_set (header_key original) original m) fs [])"

text \<open>\<open>(row.get(headers.get(k, "")) or "").strip()\<close>: an absent column reads the unnamed one.\<close>

definition cell :: "(string \<times> string) list \<Rightarrow> csv_row \<Rightarrow> string \<Rightarrow> string" where
  "cell headers r k =
     (let column = (case map_of headers k of None \<Rightarrow> [] | Some c \<Rightarrow> c)
      in strip (case map_of r column of Some (Some v) \<Rightarrow> v | _ \<Rightarrow> []))"

text \<open>\<open>_parse_bool\<close>: a blank cell is no change.\<close>

definition parse_bool :: "string \<Rightarrow> bool option result" where
  "parse_bool value =
     (let v = py_lower (strip value) in
      if strip value = [] then Inr None
      else if v \<in> set [''1'', ''true'', ''yes'', ''y'', ''t''] then Inr (Some True)
      else if v \<in> set [''0'', ''false'', ''no'', ''n'', ''f''] then Inr (Some False)
      else Inl (ValueError (''invalid boolean: '' @ repr_str value)))"

section \<open>One row\<close>

record row_result =
  rr_line :: int
  rr_name :: string
  rr_ok :: bool
  rr_message :: string
  rr_action :: string

record checked_row =
  ir_name :: string
  ir_hostname :: string
  ir_port :: "int option"
  ir_groups :: "device_group list"
  ir_credential :: "credential option"
  ir_platform :: string
  ir_transport :: "transport_protocol option"
  ir_driver_kind :: "driver_kind option"
  ir_enabled :: "bool option"

definition group_cells :: "string \<Rightarrow> string list" where
  "group_cells s = filter (\<lambda>n. n \<noteq> []) (map strip (split_on CHR '','' s))"

definition find_group :: "db \<Rightarrow> string \<Rightarrow> device_group result" where
  "find_group d gname =
     (case find (\<lambda>g. grp_name g = gname) (db_groups d) of
        None \<Rightarrow> Inl (ValueError (''unknown group: '' @ repr_str gname)) | Some g \<Rightarrow> Inr g)"

definition find_credential :: "db \<Rightarrow> string \<Rightarrow> credential option result" where
  "find_credential d cname =
     (if cname = [] then Inr None
      else case find (\<lambda>c. cred_name c = cname) (db_credentials d) of
        None \<Rightarrow> Inl (ValueError (''unknown credential: '' @ repr_str cname)) | Some c \<Rightarrow> Inr (Some c))"

definition opt_enum :: "(string \<Rightarrow> 'e result) \<Rightarrow> string \<Rightarrow> 'e option result" where
  "opt_enum of_str s = (if s = [] then Inr None else bind_result (of_str s) (\<lambda>e. Inr (Some e)))"

text \<open>The checks of a row, in the order of the code; \<open>d\<close> is the inventory read before the rows.\<close>

definition check_row :: "db \<Rightarrow> string list \<Rightarrow> (string \<Rightarrow> string) \<Rightarrow> checked_row result" where
  "check_row d seen get =
     (let name = get ''name''; hostname = get ''hostname'';
          port_raw = get ''port''; names = group_cells (get ''group'')
      in if name = [] then Inl (ValueError ''name is required'')
      else if name \<in> set seen then Inl (ValueError (''duplicate name in file: '' @ repr_str name))
      else if hostname = [] then Inl (ValueError ''hostname is required'')
      else
        bind_result (opt_enum to_int port_raw) (\<lambda>port.
        if names = [] then Inl (ValueError ''at least one group is required'')
        else
        bind_result (traverse (find_group d) names) (\<lambda>groups.
        bind_result (find_credential d (get ''credentials'')) (\<lambda>credential.
        bind_result (opt_enum transport_of (get ''transport'')) (\<lambda>transport.
        bind_result (opt_enum driver_kind_of (get ''driver_kind'')) (\<lambda>driver_kind.
        bind_result (parse_bool (get ''enabled'')) (\<lambda>enabled.
          Inr \<lparr>ir_name = name, ir_hostname = hostname, ir_port = port, ir_groups = groups,
               ir_credential = credential, ir_platform = get ''platform'',
               ir_transport = transport, ir_driver_kind = driver_kind, ir_enabled = enabled\<rparr>)))))))"

definition keep_or :: "string \<Rightarrow> string option \<Rightarrow> string option" where
  "keep_or s old = (if s = [] then old else Some s)"

definition update_device_row :: "(string \<Rightarrow> string) \<Rightarrow> checked_row \<Rightarrow> device \<Rightarrow> device" where
  "update_device_row get r v = v\<lparr>
     dev_hostname := ir_hostname r,
     dev_port := or_else (ir_port r) (dev_port v),
     dev_description := keep_or (get ''description'') (dev_description v),
     dev_make := keep_or (get ''make'') (dev_make v),
     dev_model := keep_or (get ''model'') (dev_model v),
     dev_role := keep_or (get ''role'') (dev_role v),
     dev_platform := keep_or (ir_platform r) (dev_platform v),
     dev_transport := or_else (ir_transport r) (dev_transport v),
     dev_driver_kind := or_else (ir_driver_kind r) (dev_driver_kind v),
     dev_credential_id := or_else (map_option cred_id (ir_credential r)) (dev_credential_id v),
     dev_enabled := (case ir_enabled r of None \<Rightarrow> dev_enabled v | Some b \<Rightarrow> b),
     dev_worker_pool := keep_or (get ''worker_pool'') (dev_worker_pool v)\<rparr>"

definition new_device_row :: "(string \<Rightarrow> string) \<Rightarrow> checked_row \<Rightarrow> device" where
  "new_device_row get r = \<lparr>
     dev_id = 0, dev_name = ir_name r, dev_hostname = ir_hostname r, dev_port = ir_port r,
     dev_description = keep_or (get ''description'') None,
     dev_platform = keep_or (ir_platform r) None, dev_custom_platform_id = None,
     dev_transport = ir_transport r, dev_driver_kind = ir_driver_kind r,
     dev_connect_timeout = None, dev_command_timeout = None,
     dev_credential_id = map_option cred_id (ir_credential r),
     dev_make = keep_or (get ''make'') None, dev_model = keep_or (get ''model'') None,
     dev_role = keep_or (get ''role'') None,
     dev_enabled = (case ir_enabled r of None \<Rightarrow> True | Some b \<Rightarrow> b),
     dev_worker_pool = keep_or (get ''worker_pool'') None,
     dev_latest_backup_path = None, dev_latest_backup_at = None\<rparr>"

section \<open>The loop\<close>

record import_state =
  im_db :: db
  im_new :: "(device \<times> int list) list"
  im_seen :: "string list"
  im_results :: "row_result list"
  im_updates :: nat

definition new_memberships :: "db \<Rightarrow> int \<Rightarrow> device_group list \<Rightarrow> (int \<times> int) list" where
  "new_memberships d devid gs =
     map (\<lambda>g. (devid, grp_id g)) (filter (\<lambda>g. (devid, grp_id g) \<notin> set (db_memberships d)) gs)"

definition row_result_of :: "int \<Rightarrow> string \<Rightarrow> bool \<Rightarrow> string \<Rightarrow> bool \<Rightarrow> row_result" where
  "row_result_of idx name ok msg is_update = \<lparr>rr_line = idx, rr_name = name, rr_ok = ok,
     rr_message = msg, rr_action = (if is_update then ''update'' else ''create'')\<rparr>"

text \<open>\<open>d0\<close> is the inventory as it was read; the session's state is in \<open>im_db\<close>.\<close>

definition import_row :: "db \<Rightarrow> (string \<times> string) list \<Rightarrow> int \<Rightarrow> csv_row \<Rightarrow> import_state \<Rightarrow> import_state" where
  "import_row d0 headers idx r s =
     (let get = cell headers r;
          name = get ''name'';
          known = find (\<lambda>v. dev_name v = name) (db_devices d0)
      in case check_row d0 (im_seen s) get of
           Inl e \<Rightarrow> s\<lparr>im_results := im_results s @ [row_result_of idx name False (exn_msg e) (known \<noteq> None)]\<rparr>
         | Inr row \<Rightarrow>
             (case known of
                Some v \<Rightarrow>
                  s\<lparr>im_db := (upd_device (dev_id v) (update_device_row get row) (im_db s))
                      \<lparr>db_memberships := db_memberships (im_db s)
                         @ new_memberships (im_db s) (dev_id v) (ir_groups row)\<rparr>,
                    im_seen := name # im_seen s,
                    im_results := im_results s @ [row_result_of idx name True ''will be updated'' True],
                    im_updates := im_updates s + 1\<rparr>
              | None \<Rightarrow>
                  s\<lparr>im_new := im_new s @ [(new_device_row get row, map grp_id (ir_groups row))],
                    im_seen := name # im_seen s,
                    im_results := im_results s @ [row_result_of idx name True ''will be created'' False]\<rparr>))"

fun import_rows :: "db \<Rightarrow> (string \<times> string) list \<Rightarrow> int \<Rightarrow> csv_row list \<Rightarrow> import_state \<Rightarrow> import_state" where
  "import_rows d0 headers idx [] s = s"
| "import_rows d0 headers idx (r # rs) s =
     import_rows d0 headers (idx + 1) rs (import_row d0 headers idx r s)"

text \<open>Adding the new devices: the flush numbers them and writes their memberships.\<close>

fun add_devices :: "(device \<times> int list) list \<Rightarrow> db \<Rightarrow> db" where
  "add_devices [] d = d"
| "add_devices ((v, gids) # new) d =
     add_devices new
       (d\<lparr>db_devices := db_devices d @ [v\<lparr>dev_id := seq_device d\<rparr>],
          db_memberships := db_memberships d @ map (\<lambda>g. (seq_device d, g)) gids,
          seq_device := seq_device d + 1\<rparr>)"

definition done_message :: "row_result \<Rightarrow> row_result" where
  "done_message r = (if rr_ok r then r\<lparr>rr_message := rr_action r\<rparr> else r)"

text \<open>
  The value is the report with the two counts, and the database after the request: unchanged unless
  the transaction was committed.
\<close>

definition import_csv :: "string \<Rightarrow> db \<Rightarrow> (row_result list \<times> nat \<times> nat) result \<times> db" where
  "import_csv raw d =
     (case csv_dict_reader raw of
        Inl e \<Rightarrow> (Inl e, d)
      | Inr (fieldnames, rows) \<Rightarrow>
          let headers = normalize_headers fieldnames;
              missing = filter (\<lambda>h. map_of headers h = None) required_columns
          in if missing \<noteq> [] then
               (Inr ([\<lparr>rr_line = 1, rr_name = [], rr_ok = False,
                       rr_message = ''missing required column(s): '' @ join '', '' missing,
                       rr_action = ''create''\<rparr>], 0, 0), d)
             else case rows of
               Inl e \<Rightarrow> (Inl e, d)
             | Inr rs \<Rightarrow>
                 let s = import_rows d headers 2 rs
                       \<lparr>im_db = d, im_new = [], im_seen = [], im_results = [], im_updates = 0\<rparr>
                 in if list_ex (\<lambda>r. \<not> rr_ok r) (im_results s) then (Inr (im_results s, 0, 0), d)
                    else let d' = add_devices (im_new s) (im_db s) in
                      if distinct (db_memberships d')
                      then (Inr (map done_message (im_results s), length (im_new s), im_updates s), d')
                      else (Inl integrity_error, d))"

record import_report =
  rep_results :: "row_result list"
  rep_created :: nat
  rep_updated :: nat
  rep_error :: "string option"

text \<open>\<open>import_submit\<close>: an uploaded text, decoded, comes before the pasted one.\<close>

definition import_submit :: "string option \<Rightarrow> string option \<Rightarrow> db \<Rightarrow> import_report \<times> db" where
  "import_submit upload pasted d =
     (let p = strip (or_str pasted []);
          raw = (case upload of Some t \<Rightarrow> if t \<noteq> [] then t else p | None \<Rightarrow> p)
      in if raw = [] then
           (\<lparr>rep_results = [], rep_created = 0, rep_updated = 0,
             rep_error = Some ''Provide a CSV file or paste CSV text.''\<rparr>, d)
         else case import_csv raw d of
           (Inl e, d') \<Rightarrow> (\<lparr>rep_results = [], rep_created = 0, rep_updated = 0,
               rep_error = Some (exn_class e @ '': '' @ exn_msg e)\<rparr>, d')
         | (Inr (rs, created, updated), d') \<Rightarrow>
             (\<lparr>rep_results = rs, rep_created = created, rep_updated = updated, rep_error = None\<rparr>, d'))"

section \<open>Lemmas\<close>

text \<open>Nothing is committed unless every row is accepted.\<close>

lemma import_csv_atomic:
  assumes "import_csv raw d = (res, d')" and "d' \<noteq> d"
  shows "\<exists>rs created updated. res = Inr (rs, created, updated) \<and> list_all rr_ok rs"
  using assms
  by (auto simp: import_csv_def Let_def list_all_iff list_ex_iff done_message_def
      split: sum.splits prod.splits if_splits)

lemma update_device_row_id [simp]: "dev_id (update_device_row get r v) = dev_id v"
  by (simp add: update_device_row_def)

lemma update_device_row_name [simp]: "dev_name (update_device_row get r v) = dev_name v"
  by (simp add: update_device_row_def)

end
