(* ===== verification/Devices.thy ===== *)
theory Devices
  imports Import Runs "HOL-Library.Product_Lexorder"
begin

text \<open>
  \<open>web/routes/devices.py\<close>: the inventory pages of the devices. Deleting a row follows the foreign
  keys of the schema: \<open>CASCADE\<close> removes the rows that point to it, \<open>SET NULL\<close> clears the pointer.
\<close>

section \<open>Platforms of a device\<close>

definition prefix_of :: "string \<Rightarrow> string \<Rightarrow> string option" where
  "prefix_of p s = (if startswith s p then Some (drop (length p) s) else None)"

definition platform_value :: "device option \<Rightarrow> string" where
  "platform_value dev =
     (case dev of
        None \<Rightarrow> []
      | Some v \<Rightarrow>
          if or_int (dev_custom_platform_id v) 0 \<noteq> 0
          then ''custom:'' @ show_int (the (dev_custom_platform_id v))
          else if truthy (dev_platform v) then ''builtin:'' @ the (dev_platform v)
          else [])"

definition set_platform :: "string option \<Rightarrow> int option \<Rightarrow> device \<Rightarrow> device" where
  "set_platform p c v = v\<lparr>dev_platform := p, dev_custom_platform_id := c\<rparr>"

definition apply_platform_value :: "string \<Rightarrow> device \<Rightarrow> device result" where
  "apply_platform_value pv v =
     (case prefix_of ''builtin:'' pv of
        Some p \<Rightarrow> Inr (set_platform (Some p) None v)
      | None \<Rightarrow>
          (case prefix_of ''custom:'' pv of
             Some c \<Rightarrow> bind_result (to_int c) (\<lambda>n. Inr (set_platform None (Some n) v))
           | None \<Rightarrow> Inr (set_platform None None v)))"

definition apply_platform :: "form \<Rightarrow> device \<Rightarrow> device result" where
  "apply_platform data v =
     (case map_of data ''platform_value'' of
        None \<Rightarrow> apply_platform_value [] v
      | Some (FStr pv) \<Rightarrow> apply_platform_value pv v
      | Some (FList _) \<Rightarrow> Inl (attribute_error ''startswith''))"

section \<open>Forms\<close>

definition blank_device :: device where
  "blank_device = \<lparr>
     dev_id = 0, dev_name = [], dev_hostname = [], dev_port = None, dev_description = None,
     dev_platform = None, dev_custom_platform_id = None, dev_transport = None,
     dev_driver_kind = None, dev_connect_timeout = None, dev_command_timeout = None,
     dev_credential_id = None, dev_make = None, dev_model = None, dev_role = None,
     dev_enabled = True, dev_worker_pool = None,
     dev_latest_backup_path = None, dev_latest_backup_at = None\<rparr>"

text \<open>The fields the form sets, the platform and the groups apart.\<close>

definition apply_device_form :: "form \<Rightarrow> device \<Rightarrow> device result" where
  "apply_device_form data v =
     bind_result (raw_item data ''name'') (\<lambda>name.
     bind_result (raw_item data ''hostname'') (\<lambda>hostname.
     bind_result (opt_int data ''port'') (\<lambda>port.
     bind_result (raw_or_none data ''description'') (\<lambda>description.
     bind_result (raw_or_none data ''make'') (\<lambda>make.
     bind_result (raw_or_none data ''model'') (\<lambda>model.
     bind_result (raw_or_none data ''role'') (\<lambda>role.
     bind_result (opt_int data ''credential_id'') (\<lambda>credential_id.
     bind_result (opt_form_enum transport_of data ''transport'') (\<lambda>transport.
     bind_result (opt_form_enum driver_kind_of data ''driver_kind'') (\<lambda>driver_kind.
     bind_result (opt_int data ''connect_timeout'') (\<lambda>connect_timeout.
     bind_result (opt_int data ''command_timeout'') (\<lambda>command_timeout.
     bind_result (raw_or_none data ''worker_pool'') (\<lambda>worker_pool.
       Inr (v\<lparr>dev_name := name, dev_hostname := hostname, dev_port := port,
              dev_description := description, dev_make := make, dev_model := model,
              dev_role := role, dev_credential_id := credential_id,
              dev_transport := transport, dev_driver_kind := driver_kind,
              dev_connect_timeout := connect_timeout, dev_command_timeout := command_timeout,
              dev_worker_pool := worker_pool,
              dev_enabled := form_truthy data ''enabled''\<rparr>))))))))))))))"

text \<open>\<open>device.groups = ...\<close>: the pairs of the device become those of the existing groups listed.\<close>

definition existing_groups :: "db \<Rightarrow> int list \<Rightarrow> int list" where
  "existing_groups d gids = filter (\<lambda>g. g \<in> set gids) (map grp_id (db_groups d))"

definition set_device_groups :: "int \<Rightarrow> int list \<Rightarrow> db \<Rightarrow> db" where
  "set_device_groups devid gids d =
     (let wanted = existing_groups d gids;
          kept = filter (\<lambda>(v, g). v \<noteq> devid \<or> g \<in> set wanted) (db_memberships d)
      in d\<lparr>db_memberships := kept @ map (\<lambda>g. (devid, g))
             (filter (\<lambda>g. (devid, g) \<notin> set kept) wanted)\<rparr>)"

definition device_refs :: "db \<Rightarrow> device \<Rightarrow> unit result" where
  "device_refs d v =
     bind_result (refers_to (dev_custom_platform_id v) (map plat_id (db_platforms d))) (\<lambda>_.
       refers_to (dev_credential_id v) (map cred_id (db_credentials d)))"

definition create_device :: "settings \<Rightarrow> form \<Rightarrow> db \<Rightarrow> edit_result" where
  "create_device st data d = committed (redir st ''/devices'') d
     (bind_result (parse_ids data ''group_ids'') (\<lambda>gids.
      bind_result (apply_device_form data blank_device) (\<lambda>v.
      bind_result (apply_platform data v) (\<lambda>v.
      bind_result (unique_name (map dev_name (db_devices d)) (dev_name v)) (\<lambda>_.
      bind_result (device_refs d v) (\<lambda>_.
        let k = seq_device d in
        Inr (set_device_groups k gids
          (d\<lparr>db_devices := db_devices d @ [v\<lparr>dev_id := k\<rparr>], seq_device := k + 1\<rparr>))))))))"

definition names_of_others :: "int \<Rightarrow> db \<Rightarrow> string list" where
  "names_of_others k d = map dev_name (filter (\<lambda>v. dev_id v \<noteq> k) (db_devices d))"

definition update_device :: "settings \<Rightarrow> int \<Rightarrow> form \<Rightarrow> db \<Rightarrow> edit_result" where
  "update_device st k data d =
     (case get_device k d of
        None \<Rightarrow> (Inr (redir st ''/devices''), d)
      | Some old \<Rightarrow> committed (redir st ''/devices'') d
          (bind_result (apply_device_form data old) (\<lambda>v.
           bind_result (apply_platform data v) (\<lambda>v.
           bind_result (parse_ids data ''group_ids'') (\<lambda>gids.
           bind_result (unique_name (names_of_others k d) (dev_name v)) (\<lambda>_.
           bind_result (device_refs d v) (\<lambda>_.
             Inr (set_device_groups k gids (upd_device k (\<lambda>_. v) d)))))))))"

section \<open>Deleting\<close>

definition clear_if :: "bool \<Rightarrow> 'a option \<Rightarrow> 'a option" where
  "clear_if b x = (if b then None else x)"

definition delete_devices :: "int list \<Rightarrow> db \<Rightarrow> db" where
  "delete_devices ids d =
     (let dead = (\<lambda>k. k \<in> set ids);
          dead_runs = map run_id (filter (\<lambda>r. dead (run_device_id r)) (db_runs d));
          dead_scans = map scan_id (filter (\<lambda>s. dead (scan_device_id s)) (db_cve_scans d))
      in d\<lparr>db_devices := filter (\<lambda>v. \<not> dead (dev_id v)) (db_devices d),
           db_memberships := filter (\<lambda>(v, g). \<not> dead v) (db_memberships d),
           db_job_devices := filter (\<lambda>(j, v). \<not> dead v) (db_job_devices d),
           db_policy_devices := filter (\<lambda>(p, v). \<not> dead v) (db_policy_devices d),
           db_runs := filter (\<lambda>r. \<not> dead (run_device_id r)) (db_runs d),
           db_configs := filter (\<lambda>c. \<not> dead (cfg_device_id c)) (db_configs d),
           db_cve_scans := map (\<lambda>s. s\<lparr>scan_run_id :=
               clear_if (\<exists>k \<in> set dead_runs. scan_run_id s = Some k) (scan_run_id s)\<rparr>)
             (filter (\<lambda>s. \<not> dead (scan_device_id s)) (db_cve_scans d)),
           db_cve_results := filter (\<lambda>r. cver_scan_id r \<notin> set dead_scans) (db_cve_results d),
           db_compliance_results :=
             filter (\<lambda>r. \<not> dead (cres_device_id r)) (db_compliance_results d)\<rparr>)"

definition delete_device :: "settings \<Rightarrow> int \<Rightarrow> db \<Rightarrow> edit_result" where
  "delete_device st k d =
     (Inr (redir st ''/devices''), if get_device k d = None then d else delete_devices [k] d)"

section \<open>Bulk edits\<close>

text \<open>\<open>data.get(k, "")\<close>, a list standing for a value that equals no string.\<close>

definition bulk_value :: "form \<Rightarrow> string \<Rightarrow> formval" where
  "bulk_value data k = (case map_of data k of None \<Rightarrow> FStr [] | Some v \<Rightarrow> v)"

definition bulk_credential :: "form \<Rightarrow> device \<Rightarrow> device result" where
  "bulk_credential data v =
     (let c = bulk_value data ''bulk_credential_id'' in
      if c = FStr ''NONE'' then Inr (v\<lparr>dev_credential_id := None\<rparr>)
      else if c = FStr [] \<or> c = FList [] then Inr v
      else bind_result (form_int c) (\<lambda>n. Inr (v\<lparr>dev_credential_id := Some n\<rparr>)))"

definition bulk_enabled :: "form \<Rightarrow> device \<Rightarrow> device" where
  "bulk_enabled data v =
     (if bulk_value data ''bulk_enabled'' = FStr ''1'' then v\<lparr>dev_enabled := True\<rparr>
      else if bulk_value data ''bulk_enabled'' = FStr ''0'' then v\<lparr>dev_enabled := False\<rparr>
      else v)"

definition bulk_text :: "form \<Rightarrow> string \<Rightarrow> string option \<Rightarrow> string option result" where
  "bulk_text data k old =
     (if form_truthy data k then raw_or_none data k else Inr old)"

definition bulk_pool :: "form \<Rightarrow> string option \<Rightarrow> string option result" where
  "bulk_pool data old =
     (if map_of data ''bulk_worker_pool'' = None then Inr old else raw_or_none data ''bulk_worker_pool'')"

definition bulk_platform :: "form \<Rightarrow> device \<Rightarrow> device result" where
  "bulk_platform data v =
     (case bulk_value data ''bulk_platform_value'' of
        FStr s \<Rightarrow>
          if s = ''NONE'' then Inr (set_platform None None v)
          else if s \<noteq> [] then apply_platform_value s v
          else Inr v
      | FList xs \<Rightarrow> if xs = [] then Inr v else Inl (attribute_error ''startswith''))"

definition bulk_edit :: "form \<Rightarrow> device \<Rightarrow> device result" where
  "bulk_edit data v =
     bind_result (opt_int data ''bulk_port'') (\<lambda>port.
     bind_result (bulk_credential data (v\<lparr>dev_port := or_else port (dev_port v)\<rparr>)) (\<lambda>v.
     bind_result (bulk_text data ''bulk_make'' (dev_make v)) (\<lambda>make.
     bind_result (bulk_text data ''bulk_model'' (dev_model v)) (\<lambda>model.
     bind_result (bulk_text data ''bulk_role'' (dev_role v)) (\<lambda>role.
     bind_result (bulk_pool data (dev_worker_pool v)) (\<lambda>pool.
     bulk_platform data ((bulk_enabled data v)\<lparr>dev_make := make, dev_model := model,
       dev_role := role, dev_worker_pool := pool\<rparr>)))))))"

text \<open>The group of the form, when it exists; a device that is in it already is not added again.\<close>

definition bulk_group :: "form \<Rightarrow> db \<Rightarrow> int option result" where
  "bulk_group data d =
     bind_result (opt_int data ''bulk_group_id'') (\<lambda>g.
       Inr (Option.bind g (\<lambda>k. map_option grp_id (get_group k d))))"

fun bulk_edit_all :: "form \<Rightarrow> int option \<Rightarrow> device list \<Rightarrow> db \<Rightarrow> db result" where
  "bulk_edit_all data g [] d = Inr d"
| "bulk_edit_all data g (v # vs) d =
     bind_result (bulk_edit data v) (\<lambda>v'.
     bind_result (device_refs d v') (\<lambda>_.
       let d1 = upd_device (dev_id v) (\<lambda>_. v') d;
           d2 = (case g of
                   None \<Rightarrow> d1
                 | Some k \<Rightarrow>
                     if (dev_id v, k) \<in> set (db_memberships d1) then d1
                     else d1\<lparr>db_memberships := db_memberships d1 @ [(dev_id v, k)]\<rparr>)
       in bulk_edit_all data g vs d2))"

definition bulk_devices :: "settings \<Rightarrow> form \<Rightarrow> db \<Rightarrow> edit_result" where
  "bulk_devices st data d = committed (redir st ''/devices'') d
     (bind_result (parse_ids data ''ids'') (\<lambda>ids.
        if ids = [] then Inr d
        else if form_is data ''action'' ''delete'' then Inr (delete_devices ids d)
        else if form_is data ''action'' ''edit'' then
          bind_result (bulk_group data d) (\<lambda>g.
            bulk_edit_all data g (filter (\<lambda>v. dev_id v \<in> set ids) (db_devices d)) d)
        else Inr d))"

section \<open>Listing\<close>

definition PER_PAGE :: nat where "PER_PAGE = 100"

record device_filter =
  df_q :: string
  df_group_id :: string
  df_make :: string
  df_model :: string
  df_role :: string
  df_enabled :: string
  df_platform :: string
  df_backed_up :: string

text \<open>The two filters that hold a number: a text that is none raises.\<close>

definition platform_filter :: "string \<Rightarrow> (device \<Rightarrow> bool) result" where
  "platform_filter p =
     (case prefix_of ''builtin:'' p of
        Some name \<Rightarrow> Inr (\<lambda>v. dev_platform v = Some name)
      | None \<Rightarrow>
          (case prefix_of ''custom:'' p of
             Some c \<Rightarrow> bind_result (to_int c) (\<lambda>n. Inr (\<lambda>v. dev_custom_platform_id v = Some n))
           | None \<Rightarrow> Inr (\<lambda>v. True)))"

definition group_filter :: "db \<Rightarrow> string \<Rightarrow> (device \<Rightarrow> bool) result" where
  "group_filter d g =
     (if g = [] then Inr (\<lambda>v. True)
      else bind_result (to_int g) (\<lambda>n. Inr (\<lambda>v. (dev_id v, n) \<in> set (db_memberships d))))"

definition text_filter :: "device_filter \<Rightarrow> device \<Rightarrow> bool" where
  "text_filter f v \<longleftrightarrow>
     (df_q f \<noteq> [] \<longrightarrow> ilike (wrapped (df_q f)) (dev_name v) \<or> ilike (wrapped (df_q f)) (dev_hostname v))
     \<and> (df_make f \<noteq> [] \<longrightarrow> ilike_opt (wrapped (df_make f)) (dev_make v))
     \<and> (df_model f \<noteq> [] \<longrightarrow> ilike_opt (wrapped (df_model f)) (dev_model v))
     \<and> (df_role f \<noteq> [] \<longrightarrow> ilike_opt (wrapped (df_role f)) (dev_role v))
     \<and> (df_enabled f = ''1'' \<longrightarrow> dev_enabled v) \<and> (df_enabled f = ''0'' \<longrightarrow> \<not> dev_enabled v)
     \<and> (df_backed_up f = ''1'' \<longrightarrow> dev_latest_backup_at v \<noteq> None)
     \<and> (df_backed_up f = ''0'' \<longrightarrow> dev_latest_backup_at v = None)"

record device_page =
  dp_devices :: "device list"
  dp_page :: nat
  dp_total_pages :: nat
  dp_total :: nat

definition page_devices :: "int \<Rightarrow> device list \<Rightarrow> device_page" where
  "page_devices page0 matching =
     (let total = length matching;
          pages = max 1 ((total + PER_PAGE - 1) div PER_PAGE);
          page = min (nat (max 1 page0)) pages
      in \<lparr>dp_devices = page_of ((page - 1) * PER_PAGE) PER_PAGE (sort_key dev_name matching),
          dp_page = page, dp_total_pages = pages, dp_total = total\<rparr>)"

definition list_devices :: "int \<Rightarrow> device_filter \<Rightarrow> db \<Rightarrow> device_page result" where
  "list_devices page0 f d =
     bind_result (group_filter d (df_group_id f)) (\<lambda>in_grp.
     bind_result (if df_platform f = [] then Inr (\<lambda>v. True) else platform_filter (df_platform f)) (\<lambda>on_platform.
       Inr (page_devices page0
         (filter (\<lambda>v. text_filter f v \<and> in_grp v \<and> on_platform v) (db_devices d)))))"

text \<open>\<open>_build_filter_qs\<close>: the non-empty filters, for the links to other pages (before encoding).\<close>

definition filter_params :: "device_filter \<Rightarrow> (string \<times> string) list" where
  "filter_params f = filter (\<lambda>(k, v). v \<noteq> [])
     [(''q'', df_q f), (''group_id'', df_group_id f), (''platform'', df_platform f),
      (''make'', df_make f), (''model'', df_model f), (''role'', df_role f),
      (''enabled'', df_enabled f), (''backed_up'', df_backed_up f)]"

section \<open>Badges, report, detail\<close>

definition severity_rank :: "pyval \<Rightarrow> int" where
  "severity_rank s =
     (case s of
        PStr t \<Rightarrow> (if t = ''CRITICAL'' then 4 else if t = ''HIGH'' then 3
                   else if t = ''MEDIUM'' then 2 else if t = ''LOW'' then 1 else 0)
      | _ \<Rightarrow> 0)"

fun highest_from :: "int \<Rightarrow> pyval \<Rightarrow> cve_result list \<Rightarrow> pyval" where
  "highest_from best_rank best [] = best"
| "highest_from best_rank best (r # rs) =
     (let rank = severity_rank (cver_severity r) in
      if rank > best_rank then highest_from rank (cver_severity r) rs
      else highest_from best_rank best rs)"

definition highest_severity :: "cve_result list \<Rightarrow> pyval" where
  "highest_severity rs = highest_from (- 1) PNone rs"

definition scan_results :: "db \<Rightarrow> cve_scan \<Rightarrow> cve_result list" where
  "scan_results d s = filter (\<lambda>r. cver_scan_id r = scan_id s) (db_cve_results d)"

text \<open>The scan of the greatest id for each device.\<close>

definition latest_scans :: "db \<Rightarrow> cve_scan list" where
  "latest_scans d = filter (\<lambda>s. list_all (\<lambda>t. scan_device_id t = scan_device_id s \<longrightarrow> scan_id t \<le> scan_id s)
     (db_cve_scans d)) (db_cve_scans d)"

definition cve_badges :: "db \<Rightarrow> (int \<times> nat \<times> pyval) list" where
  "cve_badges d = fold (\<lambda>s m. dict_set (scan_device_id s)
     (length (scan_results d s), highest_severity (scan_results d s)) m) (latest_scans d) []"

record report_row =
  rep_make :: "string option"
  rep_model :: "string option"
  rep_total :: nat
  rep_backed_up :: nat

definition nulls_last :: "string option \<Rightarrow> bool \<times> string" where
  "nulls_last s = (case s of None \<Rightarrow> (True, []) | Some t \<Rightarrow> (False, t))"

definition device_report :: "db \<Rightarrow> report_row list" where
  "device_report d =
     map (\<lambda>(mk, md). let vs = filter (\<lambda>v. dev_make v = mk \<and> dev_model v = md) (db_devices d) in
            \<lparr>rep_make = mk, rep_model = md, rep_total = length vs,
             rep_backed_up = length (filter (\<lambda>v. dev_latest_backup_at v \<noteq> None) vs)\<rparr>)
       (sort_key (\<lambda>(mk, md). (nulls_last mk, nulls_last md))
          (remdups (map (\<lambda>v. (dev_make v, dev_model v)) (db_devices d))))"

text \<open>The newest successful run of a job with data, per pinned job of the device page.\<close>

definition data_run :: "int \<Rightarrow> run \<Rightarrow> bool" where
  "data_run j r \<longleftrightarrow> run_job_id r = Some j \<and> run_status r = Success \<and> run_parsed_data r \<noteq> None"

definition latest_data_run :: "db \<Rightarrow> int \<Rightarrow> int \<Rightarrow> run option" where
  "latest_data_run d devid j =
     (case sort_key (desc_key \<circ> run_finished_at)
             (filter (\<lambda>r. run_device_id r = devid \<and> data_run j r) (db_runs d)) of
        [] \<Rightarrow> None | r # _ \<Rightarrow> Some r)"

fun pinned_data :: "(string \<Rightarrow> pyval \<Rightarrow> pyval list \<Rightarrow> string list \<Rightarrow> string result)
    \<Rightarrow> (pyval \<Rightarrow> string) \<Rightarrow> db \<Rightarrow> int \<Rightarrow> job list \<Rightarrow> (job \<times> run \<times> display) list" where
  "pinned_data render dumps d devid [] = []"
| "pinned_data render dumps d devid (j # js) =
     (case latest_data_run d devid (job_id j) of
        None \<Rightarrow> pinned_data render dumps d devid js
      | Some r \<Rightarrow>
          (case parsed_display render dumps (run_parsed_data r)
                  (Option.bind (job_parser_template d j) pt_jinja2_template) of
             None \<Rightarrow> pinned_data render dumps d devid js
           | Some disp \<Rightarrow> (j, r, disp) # pinned_data render dumps d devid js))"

definition show_jobs :: "db \<Rightarrow> job list" where
  "show_jobs d = filter (\<lambda>j. job_show_on_device j \<and> job_kind j = Collect) (db_jobs d)"

section \<open>The configuration pages\<close>

text \<open>\<open>read_file\<close> is the working tree, \<open>read_sha\<close> is \<open>GitStore.read_at\<close>.\<close>

definition view_config :: "(string \<Rightarrow> string option) \<Rightarrow> (string \<Rightarrow> string \<Rightarrow> string option)
    \<Rightarrow> int \<Rightarrow> string option \<Rightarrow> db \<Rightarrow> device option \<times> string option" where
  "view_config read_file read_sha k sha d =
     (let dev = get_device k d in
      (dev, case dev of
         None \<Rightarrow> None
       | Some v \<Rightarrow>
           if \<not> truthy (dev_latest_backup_path v) then None
           else let path = the (dev_latest_backup_path v) in
             if truthy sha then read_sha path (the sha) else read_file path))"

definition search_config_history :: "(string \<Rightarrow> string \<Rightarrow> bool \<Rightarrow> history_match list result)
    \<Rightarrow> int \<Rightarrow> string \<Rightarrow> string \<Rightarrow> db \<Rightarrow> history_match list \<times> string option" where
  "search_config_history search_hist k q regex d =
     (case get_device k d of
        None \<Rightarrow> ([], None)
      | Some v \<Rightarrow>
          if \<not> truthy (dev_latest_backup_path v) \<or> strip q = [] then ([], None)
          else case search_hist (the (dev_latest_backup_path v)) (strip q) (regex = ''1'') of
            Inr ms \<Rightarrow> (ms, None)
          | Inl e \<Rightarrow> ([], Some (''Invalid regex: '' @ exn_msg e)))"

end
