(* ===== verification/Inventory.thy ===== *)
theory Inventory
  imports Devices Credentials
begin

text \<open>
  The pages of the other tables of the inventory: \<open>web/routes/groups.py\<close>, \<open>platforms.py\<close>,
  \<open>parsers.py\<close>, \<open>schedules.py\<close> and \<open>credentials.py\<close>. Every handler that edits answers a redirect and
  the database it commits; deleting follows the foreign keys.
\<close>

section \<open>Groups\<close>

definition apply_group_form :: "form \<Rightarrow> device_group \<Rightarrow> device_group result" where
  "apply_group_form data g =
     bind_result (raw_item data ''name'') (\<lambda>name.
     bind_result (raw_or_none data ''description'') (\<lambda>description.
     bind_result (int_or data ''max_parallel'' 8) (\<lambda>max_parallel.
     bind_result (opt_int data ''default_credential_id'') (\<lambda>cred.
     bind_result (raw_or_none data ''worker_pool'') (\<lambda>pool.
       Inr (g\<lparr>grp_name := name, grp_description := description, grp_max_parallel := max_parallel,
              grp_default_credential_id := cred, grp_worker_pool := pool\<rparr>))))))"

definition blank_group :: device_group where
  "blank_group = \<lparr>grp_id = 0, grp_name = [], grp_description = None,
     grp_default_credential_id = None, grp_max_parallel = 8, grp_worker_pool = None\<rparr>"

definition create_group :: "settings \<Rightarrow> form \<Rightarrow> db \<Rightarrow> edit_result" where
  "create_group st data d = committed (redir st ''/groups'') d
     (bind_result (apply_group_form data blank_group) (\<lambda>g.
      bind_result (unique_name (map grp_name (db_groups d)) (grp_name g)) (\<lambda>_.
      bind_result (refers_to (grp_default_credential_id g) (map cred_id (db_credentials d))) (\<lambda>_.
        Inr (d\<lparr>db_groups := db_groups d @ [g\<lparr>grp_id := seq_group d\<rparr>], seq_group := seq_group d + 1\<rparr>)))))"

definition update_group :: "settings \<Rightarrow> int \<Rightarrow> form \<Rightarrow> db \<Rightarrow> edit_result" where
  "update_group st k data d =
     (case get_group k d of
        None \<Rightarrow> (Inr (redir st ''/groups''), d)
      | Some old \<Rightarrow> committed (redir st ''/groups'') d
          (bind_result (apply_group_form data old) (\<lambda>g.
           bind_result (unique_name (map grp_name (filter (\<lambda>x. grp_id x \<noteq> k) (db_groups d))) (grp_name g)) (\<lambda>_.
           bind_result (refers_to (grp_default_credential_id g) (map cred_id (db_credentials d))) (\<lambda>_.
             Inr (d\<lparr>db_groups := upd_row grp_id k (\<lambda>_. g) (db_groups d)\<rparr>))))))"

definition delete_groups :: "int list \<Rightarrow> db \<Rightarrow> db" where
  "delete_groups ids d = d\<lparr>
     db_groups := filter (\<lambda>g. grp_id g \<notin> set ids) (db_groups d),
     db_memberships := filter (\<lambda>(v, g). g \<notin> set ids) (db_memberships d),
     db_job_device_groups := filter (\<lambda>(j, g). g \<notin> set ids) (db_job_device_groups d),
     db_policy_groups := filter (\<lambda>(p, g). g \<notin> set ids) (db_policy_groups d)\<rparr>"

text \<open>\<open>bulk_*\<close>: only deletion, and only of listed rows.\<close>

definition bulk_delete :: "(int list \<Rightarrow> db \<Rightarrow> db) \<Rightarrow> string \<Rightarrow> form \<Rightarrow> db \<Rightarrow> edit_result" where
  "bulk_delete del path data d = committed path d
     (bind_result (parse_ids data ''ids'') (\<lambda>ids.
        Inr (if ids \<noteq> [] \<and> form_is data ''action'' ''delete'' then del ids d else d)))"

definition bulk_groups :: "settings \<Rightarrow> form \<Rightarrow> db \<Rightarrow> edit_result" where
  "bulk_groups st = bulk_delete delete_groups (redir st ''/groups'')"

definition delete_group :: "settings \<Rightarrow> int \<Rightarrow> db \<Rightarrow> edit_result" where
  "delete_group st k d =
     (Inr (redir st ''/groups''), if get_group k d = None then d else delete_groups [k] d)"

section \<open>Platforms\<close>

definition apply_platform_form :: "form \<Rightarrow> platform \<Rightarrow> platform result" where
  "apply_platform_form data p =
     bind_result (raw_item data ''name'') (\<lambda>name.
     bind_result (raw_or_none data ''description'') (\<lambda>description.
     bind_result (raw_item data ''yaml_body'') (\<lambda>body.
       Inr (p\<lparr>plat_name := name, plat_description := description, plat_yaml_body := body\<rparr>))))"

definition create_platform :: "settings \<Rightarrow> form \<Rightarrow> db \<Rightarrow> edit_result" where
  "create_platform st data d = committed (redir st ''/platforms'') d
     (bind_result (apply_platform_form data \<lparr>plat_id = seq_platform d, plat_name = [],
        plat_description = None, plat_yaml_body = []\<rparr>) (\<lambda>p.
      bind_result (unique_name (map plat_name (db_platforms d)) (plat_name p)) (\<lambda>_.
        Inr (d\<lparr>db_platforms := db_platforms d @ [p], seq_platform := seq_platform d + 1\<rparr>))))"

definition update_platform :: "settings \<Rightarrow> int \<Rightarrow> form \<Rightarrow> db \<Rightarrow> edit_result" where
  "update_platform st k data d =
     (case get_platform k d of
        None \<Rightarrow> (Inr (redir st ''/platforms''), d)
      | Some old \<Rightarrow> committed (redir st ''/platforms'') d
          (bind_result (apply_platform_form data old) (\<lambda>p.
           bind_result (unique_name (map plat_name (filter (\<lambda>x. plat_id x \<noteq> k) (db_platforms d))) (plat_name p)) (\<lambda>_.
             Inr (d\<lparr>db_platforms := upd_row plat_id k (\<lambda>_. p) (db_platforms d)\<rparr>)))))"

definition delete_platforms :: "int list \<Rightarrow> db \<Rightarrow> db" where
  "delete_platforms ids d = d\<lparr>
     db_platforms := filter (\<lambda>p. plat_id p \<notin> set ids) (db_platforms d),
     db_devices := map (\<lambda>v. v\<lparr>dev_custom_platform_id :=
       clear_if (\<exists>k \<in> set ids. dev_custom_platform_id v = Some k) (dev_custom_platform_id v)\<rparr>) (db_devices d)\<rparr>"

definition delete_platform :: "settings \<Rightarrow> int \<Rightarrow> db \<Rightarrow> edit_result" where
  "delete_platform st k d =
     (Inr (redir st ''/platforms''), if get_platform k d = None then d else delete_platforms [k] d)"

section \<open>Parser templates\<close>

definition apply_parser_form :: "form \<Rightarrow> parser_template \<Rightarrow> parser_template result" where
  "apply_parser_form data p =
     bind_result (raw_item data ''name'') (\<lambda>name.
     bind_result (raw_or_none data ''description'') (\<lambda>description.
     bind_result (bind_result (form_item data ''type'') (form_enum parser_type_of)) (\<lambda>ty.
     bind_result (raw_item data ''body'') (\<lambda>body.
     bind_result (raw_or_none data ''jinja2_template'') (\<lambda>jinja2.
     bind_result (raw_or_none data ''aggregate_template'') (\<lambda>agg.
       Inr (p\<lparr>pt_name := name, pt_description := description, pt_type := ty, pt_body := body,
              pt_jinja2_template := jinja2, pt_aggregate_template := agg\<rparr>)))))))"

definition create_parser :: "settings \<Rightarrow> form \<Rightarrow> db \<Rightarrow> edit_result" where
  "create_parser st data d = committed (redir st ''/parsers'') d
     (bind_result (apply_parser_form data \<lparr>pt_id = seq_parser d, pt_name = [], pt_description = None,
        pt_type = Textfsm, pt_body = [], pt_jinja2_template = None, pt_aggregate_template = None\<rparr>) (\<lambda>p.
      bind_result (unique_name (map pt_name (db_parser_templates d)) (pt_name p)) (\<lambda>_.
        Inr (d\<lparr>db_parser_templates := db_parser_templates d @ [p], seq_parser := seq_parser d + 1\<rparr>))))"

text \<open>An unknown id is not caught here, unlike on the other pages: \<open>parser.name = ...\<close> on \<open>None\<close>.\<close>

definition none_attribute :: py_exn where
  "none_attribute = Exn ''AttributeError'' (repr_str ''NoneType'' @ '' object has no attribute '' @ repr_str ''name'')"

definition update_parser :: "settings \<Rightarrow> int \<Rightarrow> form \<Rightarrow> db \<Rightarrow> edit_result" where
  "update_parser st k data d = committed (redir st ''/parsers'') d
     (bind_result (form_item data ''name'') (\<lambda>_.
      case get_parser k d of
        None \<Rightarrow> Inl none_attribute
      | Some old \<Rightarrow>
          bind_result (apply_parser_form data old) (\<lambda>p.
          bind_result (unique_name (map pt_name (filter (\<lambda>x. pt_id x \<noteq> k) (db_parser_templates d))) (pt_name p)) (\<lambda>_.
            Inr (d\<lparr>db_parser_templates := upd_row pt_id k (\<lambda>_. p) (db_parser_templates d)\<rparr>)))))"

definition delete_parsers :: "int list \<Rightarrow> db \<Rightarrow> db" where
  "delete_parsers ids d = d\<lparr>
     db_parser_templates := filter (\<lambda>p. pt_id p \<notin> set ids) (db_parser_templates d),
     db_jobs := map (\<lambda>j. j\<lparr>job_parser_template_id :=
       clear_if (\<exists>k \<in> set ids. job_parser_template_id j = Some k) (job_parser_template_id j)\<rparr>) (db_jobs d),
     db_runs := map (\<lambda>r. r\<lparr>run_parser_template_id :=
       clear_if (\<exists>k \<in> set ids. run_parser_template_id r = Some k) (run_parser_template_id r)\<rparr>) (db_runs d)\<rparr>"

definition bulk_parsers :: "settings \<Rightarrow> form \<Rightarrow> db \<Rightarrow> edit_result" where
  "bulk_parsers st = bulk_delete delete_parsers (redir st ''/parsers'')"

definition delete_parser :: "settings \<Rightarrow> int \<Rightarrow> db \<Rightarrow> edit_result" where
  "delete_parser st k d =
     (Inr (redir st ''/parsers''), if get_parser k d = None then d else delete_parsers [k] d)"

text \<open>The test bed: a JSON body, a parse, its value or its error text.\<close>

definition run_test :: "engines \<Rightarrow> (string \<times> string) list \<Rightarrow> string + pyval option" where
  "run_test E body =
     (let get = (\<lambda>k. case map_of body k of None \<Rightarrow> [] | Some v \<Rightarrow> v) in
      case parse E (Some (get ''type'')) (Some (get ''template'')) (get ''input'') of
        Inr v \<Rightarrow> Inr v
      | Inl e \<Rightarrow> Inl (exn_class e @ '': '' @ exn_msg e))"

section \<open>Schedules\<close>

definition schedule_zone :: "form \<Rightarrow> string result" where
  "schedule_zone data = bind_result (raw_or_none data ''timezone'') (\<lambda>z. Inr (or_str z ''UTC''))"

definition create_schedule :: "settings \<Rightarrow> form \<Rightarrow> db \<Rightarrow> edit_result" where
  "create_schedule st data d = committed (redir st ''/schedules'') d
     (bind_result (raw_item data ''name'') (\<lambda>name.
      bind_result (raw_or_none data ''description'') (\<lambda>description.
      bind_result (opt_int data ''job_id'') (\<lambda>j.
      bind_result (raw_item data ''cron'') (\<lambda>cron.
      bind_result (schedule_zone data) (\<lambda>zone.
      bind_result (refers_to j (map job_id (db_jobs d))) (\<lambda>_.
        Inr (d\<lparr>db_schedules := db_schedules d @ [\<lparr>sch_id = seq_schedule d, sch_name = name,
                sch_description = description, sch_job_id = j, sch_cron = cron, sch_timezone = zone,
                sch_enabled = form_truthy data ''enabled'', sch_skip_next_run = False,
                sch_last_run_at = None, sch_next_run_at = None\<rparr>],
              seq_schedule := seq_schedule d + 1\<rparr>))))))))"

text \<open>A new expression or zone clears the planned instant, so that the scheduler computes it again.\<close>

definition edit_schedule_row :: "string \<Rightarrow> string option \<Rightarrow> int option \<Rightarrow> string \<Rightarrow> string \<Rightarrow> bool
    \<Rightarrow> schedule \<Rightarrow> schedule" where
  "edit_schedule_row name description j cron zone enabled s = s\<lparr>
     sch_next_run_at :=
       (if sch_cron s \<noteq> cron \<or> sch_timezone s \<noteq> zone then None else sch_next_run_at s),
     sch_name := name, sch_description := description, sch_job_id := j,
     sch_cron := cron, sch_timezone := zone, sch_enabled := enabled\<rparr>"

definition update_schedule :: "settings \<Rightarrow> int \<Rightarrow> form \<Rightarrow> db \<Rightarrow> edit_result" where
  "update_schedule st k data d =
     (case get_schedule k d of
        None \<Rightarrow> (Inr (redir st ''/schedules''), d)
      | Some s \<Rightarrow> committed (redir st ''/schedules'') d
          (bind_result (raw_item data ''cron'') (\<lambda>cron.
           bind_result (schedule_zone data) (\<lambda>zone.
           bind_result (raw_item data ''name'') (\<lambda>name.
           bind_result (raw_or_none data ''description'') (\<lambda>description.
           bind_result (opt_int data ''job_id'') (\<lambda>j.
           bind_result (refers_to j (map job_id (db_jobs d))) (\<lambda>_.
             Inr (upd_schedule k
               (edit_schedule_row name description j cron zone (form_truthy data ''enabled'')) d)))))))))"

definition delete_schedules :: "int list \<Rightarrow> db \<Rightarrow> db" where
  "delete_schedules ids d = d\<lparr>
     db_schedules := filter (\<lambda>s. sch_id s \<notin> set ids) (db_schedules d),
     db_runs := map (\<lambda>r. r\<lparr>run_schedule_id :=
       clear_if (\<exists>k \<in> set ids. run_schedule_id r = Some k) (run_schedule_id r)\<rparr>) (db_runs d),
     db_batches := map (\<lambda>b. b\<lparr>bat_schedule_id :=
       clear_if (\<exists>k \<in> set ids. bat_schedule_id b = Some k) (bat_schedule_id b)\<rparr>) (db_batches d)\<rparr>"

definition bulk_schedules :: "settings \<Rightarrow> form \<Rightarrow> db \<Rightarrow> edit_result" where
  "bulk_schedules st = bulk_delete delete_schedules (redir st ''/schedules'')"

definition delete_schedule :: "settings \<Rightarrow> int \<Rightarrow> db \<Rightarrow> edit_result" where
  "delete_schedule st k d =
     (Inr (redir st ''/schedules''), if get_schedule k d = None then d else delete_schedules [k] d)"

definition skip_next_run :: "settings \<Rightarrow> int \<Rightarrow> db \<Rightarrow> edit_result" where
  "skip_next_run st k d =
     (Inr (redir st ''/schedules''),
      upd_schedule k (\<lambda>s. s\<lparr>sch_skip_next_run := \<not> sch_skip_next_run s\<rparr>) d)"

section \<open>Credentials\<close>

text \<open>
  \<open>_build_payload\<close>: the secrets of a local credential; the values that are missing are left out, an
  empty user name is not.
\<close>

definition opt_entry :: "string \<Rightarrow> string option \<Rightarrow> secret" where
  "opt_entry k v = (case v of None \<Rightarrow> [] | Some s \<Rightarrow> [(k, s)])"

definition form_str :: "form \<Rightarrow> string \<Rightarrow> string option" where
  "form_str data k = (case map_of data k of Some (FStr s) \<Rightarrow> Some s | _ \<Rightarrow> None)"

definition secret_of :: "form \<Rightarrow> secret" where
  "secret_of data =
     opt_entry ''username'' (form_str data ''username'')
     @ opt_entry ''password'' (or_none (form_str data ''password''))
     @ opt_entry ''enable_password'' (or_none (form_str data ''enable_password''))"

definition build_payload :: "secret_store \<Rightarrow> credential_provider \<Rightarrow> form \<Rightarrow> string option" where
  "build_payload S provider data =
     (if provider \<noteq> Prov_local then None else Some (local_encrypt S (secret_of data)))"

definition apply_default :: "int \<Rightarrow> bool \<Rightarrow> db \<Rightarrow> db" where
  "apply_default k is_default d =
     d\<lparr>db_credentials :=
       (if is_default
        then map (\<lambda>c. c\<lparr>cred_is_default := (cred_id c = k)\<rparr>) (db_credentials d)
        else upd_row cred_id k (\<lambda>c. c\<lparr>cred_is_default := False\<rparr>) (db_credentials d))\<rparr>"

definition form_provider :: "form \<Rightarrow> credential_provider result" where
  "form_provider data = bind_result (form_item data ''provider'') (form_enum provider_of)"

definition create_cred :: "secret_store \<Rightarrow> settings \<Rightarrow> form \<Rightarrow> db \<Rightarrow> edit_result" where
  "create_cred S st data d = committed (redir st ''/credentials'') d
     (bind_result (form_provider data) (\<lambda>provider.
      bind_result (raw_item data ''name'') (\<lambda>name.
      bind_result (raw_or_none data ''description'') (\<lambda>description.
      bind_result (raw_or_none data ''ref'') (\<lambda>ref.
      bind_result (raw_or_none data ''username'') (\<lambda>username.
      bind_result (unique_name (map cred_name (db_credentials d)) name) (\<lambda>_.
        let k = seq_credential d in
        Inr (apply_default k (form_truthy data ''is_default'')
          (d\<lparr>db_credentials := db_credentials d @ [\<lparr>cred_id = k, cred_name = name,
                cred_description = description, cred_provider = provider,
                cred_encrypted_payload = build_payload S provider data,
                cred_ref = ref, cred_username = username, cred_is_default = False\<rparr>],
             seq_credential := k + 1\<rparr>)))))))))"

definition update_cred :: "secret_store \<Rightarrow> settings \<Rightarrow> int \<Rightarrow> form \<Rightarrow> db \<Rightarrow> edit_result" where
  "update_cred S st k data d =
     (case get_credential k d of
        None \<Rightarrow> (Inr (redir st ''/credentials''), d)
      | Some c \<Rightarrow> committed (redir st ''/credentials'') d
          (bind_result (form_provider data) (\<lambda>provider.
           bind_result (raw_item data ''name'') (\<lambda>name.
           bind_result (raw_or_none data ''description'') (\<lambda>description.
           bind_result (raw_or_none data ''ref'') (\<lambda>ref.
           bind_result (raw_or_none data ''username'') (\<lambda>username.
           bind_result (unique_name (map cred_name (filter (\<lambda>x. cred_id x \<noteq> k) (db_credentials d))) name) (\<lambda>_.
             let c' = c\<lparr>cred_name := name, cred_description := description, cred_provider := provider,
                        cred_ref := ref, cred_username := username,
                        cred_encrypted_payload :=
                          (if form_truthy data ''password'' \<or> form_truthy data ''enable_password''
                           then build_payload S provider data else cred_encrypted_payload c)\<rparr>
             in Inr (apply_default k (form_truthy data ''is_default'')
                  (d\<lparr>db_credentials := upd_row cred_id k (\<lambda>_. c') (db_credentials d)\<rparr>))))))))))"

definition delete_creds :: "int list \<Rightarrow> db \<Rightarrow> db" where
  "delete_creds ids d = d\<lparr>
     db_credentials := filter (\<lambda>c. cred_id c \<notin> set ids) (db_credentials d),
     db_devices := map (\<lambda>v. v\<lparr>dev_credential_id :=
       clear_if (\<exists>k \<in> set ids. dev_credential_id v = Some k) (dev_credential_id v)\<rparr>) (db_devices d),
     db_groups := map (\<lambda>g. g\<lparr>grp_default_credential_id :=
       clear_if (\<exists>k \<in> set ids. grp_default_credential_id g = Some k) (grp_default_credential_id g)\<rparr>) (db_groups d)\<rparr>"

definition bulk_creds :: "settings \<Rightarrow> form \<Rightarrow> db \<Rightarrow> edit_result" where
  "bulk_creds st = bulk_delete delete_creds (redir st ''/credentials'')"

definition delete_cred :: "settings \<Rightarrow> int \<Rightarrow> db \<Rightarrow> edit_result" where
  "delete_cred st k d =
     (Inr (redir st ''/credentials''), if get_credential k d = None then d else delete_creds [k] d)"

section \<open>Lemmas\<close>

text \<open>At most one credential is the default.\<close>

definition one_default :: "db \<Rightarrow> bool" where
  "one_default d \<longleftrightarrow> count_rows cred_is_default (db_credentials d) \<le> 1"

lemma count_one_key:
  "distinct (map key rs) \<Longrightarrow> count_rows (\<lambda>r. key r = k) rs \<le> 1"
proof (induction rs)
  case Nil
  then show ?case by simp
next
  case (Cons r rs)
  show ?case
  proof (cases "key r = k")
    case True
    with Cons.prems have "count_rows (\<lambda>r. key r = k) rs = 0"
      by (auto simp: count_rows_eq_0_iff image_iff)
    with True show ?thesis by simp
  next
    case False
    with Cons show ?thesis by simp
  qed
qed

lemma one_default_apply:
  assumes "distinct (map cred_id (db_credentials d))" and "\<not> b \<longrightarrow> one_default d"
  shows "one_default (apply_default k b d)"
proof (cases b)
  case True
  then show ?thesis
    using count_one_key [OF assms(1)] by (simp add: one_default_def apply_default_def count_rows_map comp_def)
next
  case False
  have "count_rows cred_is_default (upd_row cred_id k (\<lambda>c. c\<lparr>cred_is_default := False\<rparr>) cs)
      \<le> count_rows cred_is_default cs" for cs
    by (induction cs) (auto simp: upd_row_def)
  from this [of "db_credentials d"] False assms(2) show ?thesis
    by (simp add: one_default_def apply_default_def)
qed

end
