(* ===== verification/Pages.thy ===== *)
theory Pages
  imports Inventory Dispatch Compliance
begin

text \<open>
  The remaining pages: \<open>web/routes/jobs.py\<close> (with the data view over the latest runs),
  \<open>web/routes/compliance.py\<close> (the rebuilding of the checks from the parallel arrays of the form),
  \<open>cve.py\<close>, \<open>dashboard.py\<close>, \<open>docs.py\<close> and \<open>api/devices.py\<close>.
\<close>

section \<open>Jobs\<close>

text \<open>\<open>job.device_groups = ...\<close>: the pairs of one row of a secondary table are replaced.\<close>

definition set_links :: "int \<Rightarrow> int list \<Rightarrow> (int \<times> int) list \<Rightarrow> (int \<times> int) list" where
  "set_links k wanted pairs =
     (let kept = filter (\<lambda>(a, b). a \<noteq> k \<or> b \<in> set wanted) pairs
      in kept @ map (\<lambda>b. (k, b)) (filter (\<lambda>b. (k, b) \<notin> set kept) wanted))"

definition existing_devices :: "db \<Rightarrow> int list \<Rightarrow> int list" where
  "existing_devices d ids = filter (\<lambda>k. k \<in> set ids) (map dev_id (db_devices d))"

definition apply_job_form :: "form \<Rightarrow> job \<Rightarrow> job result" where
  "apply_job_form data j =
     bind_result (raw_item data ''name'') (\<lambda>name.
     bind_result (raw_or_none data ''description'') (\<lambda>description.
     bind_result (bind_result (form_item data ''kind'') (form_enum job_kind_of)) (\<lambda>kind.
     bind_result (raw_or_none data ''commands'') (\<lambda>commands.
     bind_result (raw_or_none data ''rpc'') (\<lambda>rpc.
     bind_result (opt_int data ''parser_template_id'') (\<lambda>parser.
     bind_result (raw_or_none data ''cve_vendor'') (\<lambda>vendor.
     bind_result (raw_or_none data ''cve_product'') (\<lambda>prod_name.
       Inr (j\<lparr>job_name := name, job_description := description, job_kind := kind,
              job_commands := commands, job_rpc := rpc, job_parser_template_id := parser,
              job_cve_vendor := vendor, job_cve_product := prod_name,
              job_show_on_device := form_is data ''show_on_device'' ''1''\<rparr>)))))))))"

definition link_job :: "int \<Rightarrow> int list \<Rightarrow> int list \<Rightarrow> db \<Rightarrow> db" where
  "link_job k gids vids d =
     d\<lparr>db_job_device_groups := set_links k (existing_groups d gids) (db_job_device_groups d),
       db_job_devices := set_links k (existing_devices d vids) (db_job_devices d)\<rparr>"

definition create_job :: "settings \<Rightarrow> form \<Rightarrow> db \<Rightarrow> edit_result" where
  "create_job st data d = committed (redir st ''/jobs'') d
     (bind_result (apply_job_form data \<lparr>job_id = seq_job d, job_name = [], job_description = None,
        job_kind = Backup, job_commands = None, job_rpc = None, job_parser_template_id = None,
        job_cve_vendor = None, job_cve_product = None, job_show_on_device = False\<rparr>) (\<lambda>j.
      bind_result (parse_ids data ''device_group_ids'') (\<lambda>gids.
      bind_result (parse_ids data ''device_ids'') (\<lambda>vids.
      bind_result (unique_name (map job_name (db_jobs d)) (job_name j)) (\<lambda>_.
      bind_result (refers_to (job_parser_template_id j) (map pt_id (db_parser_templates d))) (\<lambda>_.
        Inr (link_job (job_id j) gids vids
          (d\<lparr>db_jobs := db_jobs d @ [j], seq_job := seq_job d + 1\<rparr>))))))))"

definition update_job :: "settings \<Rightarrow> int \<Rightarrow> form \<Rightarrow> db \<Rightarrow> edit_result" where
  "update_job st k data d =
     (case get_job k d of
        None \<Rightarrow> (Inr (redir st ''/jobs''), d)
      | Some old \<Rightarrow> committed (redir st ''/jobs'') d
          (bind_result (apply_job_form data old) (\<lambda>j.
           bind_result (parse_ids data ''device_group_ids'') (\<lambda>gids.
           bind_result (parse_ids data ''device_ids'') (\<lambda>vids.
           bind_result (unique_name (map job_name (filter (\<lambda>x. job_id x \<noteq> k) (db_jobs d))) (job_name j)) (\<lambda>_.
           bind_result (refers_to (job_parser_template_id j) (map pt_id (db_parser_templates d))) (\<lambda>_.
             Inr (link_job k gids vids
               (d\<lparr>db_jobs := upd_row job_id k (\<lambda>_. j) (db_jobs d)\<rparr>)))))))))"

definition delete_jobs :: "int list \<Rightarrow> db \<Rightarrow> db" where
  "delete_jobs ids d = d\<lparr>
     db_jobs := filter (\<lambda>j. job_id j \<notin> set ids) (db_jobs d),
     db_job_device_groups := filter (\<lambda>(j, g). j \<notin> set ids) (db_job_device_groups d),
     db_job_devices := filter (\<lambda>(j, v). j \<notin> set ids) (db_job_devices d),
     db_runs := map (\<lambda>r. r\<lparr>run_job_id :=
       clear_if (\<exists>k \<in> set ids. run_job_id r = Some k) (run_job_id r)\<rparr>) (db_runs d),
     db_schedules := map (\<lambda>s. s\<lparr>sch_job_id :=
       clear_if (\<exists>k \<in> set ids. sch_job_id s = Some k) (sch_job_id s)\<rparr>) (db_schedules d)\<rparr>"

definition bulk_jobs :: "settings \<Rightarrow> form \<Rightarrow> db \<Rightarrow> edit_result" where
  "bulk_jobs st = bulk_delete delete_jobs (redir st ''/jobs'')"

definition delete_job :: "settings \<Rightarrow> int \<Rightarrow> db \<Rightarrow> edit_result" where
  "delete_job st k d =
     (Inr (redir st ''/jobs''), if get_job k d = None then d else delete_jobs [k] d)"

text \<open>Running a job from its page: an exception leaves the transaction uncommitted.\<close>

definition run_job_adhoc :: "'q broker \<Rightarrow> codec \<Rightarrow> secret_store \<Rightarrow> settings \<Rightarrow> datetime \<Rightarrow> int
    \<Rightarrow> ('q world, string) eff" where
  "run_job_adhoc B C S st now k = (\<lambda>(d, q).
     case get_job k d of
       None \<Rightarrow> (Inr (redir st ''/jobs''), (d, q))
     | Some j \<Rightarrow>
         (case fire_job B C S st now j None None (d, q) of
            (Inl e, (d', q')) \<Rightarrow> (Inl e, (d, q'))
          | (Inr bid, w') \<Rightarrow> (Inr (redir st (''/runs/batches/'' @ show_int bid)), w')))"

section \<open>The data of a job\<close>

text \<open>The devices in scope: the listed ones first, then those of the groups, each once, by name.\<close>

definition job_scope :: "db \<Rightarrow> job \<Rightarrow> device list" where
  "job_scope d j =
     sort_key dev_name (snd (collect dev_id (\<lambda>_. True)
       (job_devices d j @ concat (map (group_devices d) (job_groups d j))) ({}, [])))"

fun first_per_device :: "run list \<Rightarrow> (int \<times> run) list \<Rightarrow> (int \<times> run) list" where
  "first_per_device [] m = m"
| "first_per_device (r # rs) m =
     first_per_device rs (if map_of m (run_device_id r) = None then m @ [(run_device_id r, r)] else m)"

definition latest_by_device :: "db \<Rightarrow> int \<Rightarrow> (int \<times> run) list" where
  "latest_by_device d k = first_per_device
     (sort_key (\<lambda>r. (run_device_id r, desc_key (run_finished_at r))) (filter (data_run k) (db_runs d))) []"

definition dict_rows :: "run option \<Rightarrow> row list" where
  "dict_rows r =
     (case Option.bind r run_parsed_data of
        Some (PList xs) \<Rightarrow> concat (map (\<lambda>x. case x of PDict d \<Rightarrow> [d] | _ \<Rightarrow> []) xs)
      | _ \<Rightarrow> [])"

definition device_rows :: "db \<Rightarrow> job \<Rightarrow> (device \<times> run option \<times> row list) list" where
  "device_rows d j =
     (let latest = latest_by_device d (job_id j) in
      map (\<lambda>v. let r = map_of latest (dev_id v) in (v, r, dict_rows r)) (job_scope d j))"

fun add_headers :: "string list \<Rightarrow> string list \<Rightarrow> string list" where
  "add_headers [] hs = hs"
| "add_headers (k # ks) hs = add_headers ks (if k \<in> set hs then hs else hs @ [k])"

definition data_headers :: "(device \<times> run option \<times> row list) list \<Rightarrow> string list" where
  "data_headers items = add_headers (concat (map (\<lambda>(v, r, rs). concat (map (map fst) rs)) items)) []"

text \<open>\<open>{"device": name, **row}\<close>: a \<open>device\<close> column of the row wins, in the first place.\<close>

definition flat_row :: "device \<Rightarrow> row \<Rightarrow> row" where
  "flat_row v r = fold (\<lambda>(k, x) acc. dict_set k x acc) r [(''device'', PStr (dev_name v))]"

definition flat_rows :: "(device \<times> run option \<times> row list) list \<Rightarrow> row list" where
  "flat_rows items = concat (map (\<lambda>(v, r, rs). map (flat_row v) rs) items)"

record job_page =
  jp_items :: "(device \<times> run option \<times> row list) list"
  jp_headers :: "string list"
  jp_html :: "string option"
  jp_error :: "string option"

definition job_data :: "(string \<Rightarrow> row list \<Rightarrow> string list \<Rightarrow> (device \<times> run option \<times> row list) list \<Rightarrow> string result)
    \<Rightarrow> int \<Rightarrow> db \<Rightarrow> job_page option" where
  "job_data render k d =
     (case get_job k d of
        None \<Rightarrow> None
      | Some j \<Rightarrow>
          let items = device_rows d j; hs = data_headers items;
              template = Option.bind (job_parser_template d j) pt_aggregate_template
          in if \<not> truthy template
             then Some \<lparr>jp_items = items, jp_headers = hs, jp_html = None, jp_error = None\<rparr>
             else (case render (the template) (flat_rows items) hs items of
                 Inr html \<Rightarrow> Some \<lparr>jp_items = items, jp_headers = hs, jp_html = Some html, jp_error = None\<rparr>
               | Inl e \<Rightarrow> Some \<lparr>jp_items = items, jp_headers = hs, jp_html = None,
                            jp_error = Some (exn_class e @ '': '' @ exn_msg e)\<rparr>))"

section \<open>Compliance policies\<close>

definition as_list :: "form \<Rightarrow> string \<Rightarrow> string list" where
  "as_list data k = form_values data k"

definition nth_or :: "'a list \<Rightarrow> nat \<Rightarrow> 'a \<Rightarrow> 'a" where
  "nth_or xs i dflt = (if i < length xs then xs ! i else dflt)"

record check_form =
  cf_names :: "string list"
  cf_fields :: "string list"
  cf_operators :: "string list"
  cf_expecteds :: "string list"
  cf_modes :: "string list"
  cf_severities :: "string list"
  cf_descs :: "string list"
  cf_ids :: "string list"

definition check_form_of :: "form \<Rightarrow> check_form" where
  "check_form_of data = \<lparr>
     cf_names = as_list data ''check_name'', cf_fields = as_list data ''check_field'',
     cf_operators = as_list data ''check_operator'', cf_expecteds = as_list data ''check_expected'',
     cf_modes = as_list data ''check_mode'', cf_severities = as_list data ''check_severity'',
     cf_descs = as_list data ''check_description'', cf_ids = as_list data ''check_id''\<rparr>"

definition fill_check :: "check_form \<Rightarrow> nat \<Rightarrow> string \<Rightarrow> compliance_check \<Rightarrow> compliance_check" where
  "fill_check f i name c = c\<lparr>
     chk_name := name,
     chk_field := (if i < length (cf_fields f) then strip (cf_fields f ! i) else []),
     chk_operator := nth_or (cf_operators f) i ''eq'',
     chk_expected := (if i < length (cf_expecteds f) then or_none (Some (cf_expecteds f ! i)) else None),
     chk_mode := nth_or (cf_modes f) i ''any'',
     chk_severity := nth_or (cf_severities f) i ''major'',
     chk_description := (if i < length (cf_descs f) then or_none (Some (cf_descs f ! i)) else None),
     chk_sort_order := int i\<rparr>"

definition blank_check :: "int \<Rightarrow> compliance_check" where
  "blank_check k = \<lparr>chk_id = k, chk_name = [], chk_field = [], chk_operator = [], chk_expected = None,
     chk_mode = [], chk_severity = [], chk_description = None, chk_sort_order = 0\<rparr>"

text \<open>The id of the row in the form: digits only, zero meaning none; a superscript digit raises.\<close>

definition check_id_of :: "check_form \<Rightarrow> nat \<Rightarrow> int option result" where
  "check_id_of f i =
     (let s = nth_or (cf_ids f) i [] in
      if py_isdigit (strip s) then bind_result (to_int s) (\<lambda>n. Inr (Some n)) else Inr None)"

text \<open>
  The loop over the names. The state: the checks of the policy as they are now, the ids kept, the
  next id. \<open>known\<close> are the ids the policy had before.
\<close>

fun rebuild :: "check_form \<Rightarrow> int list \<Rightarrow> nat \<Rightarrow> string list \<Rightarrow> compliance_check list \<times> int list \<times> int
    \<Rightarrow> (compliance_check list \<times> int list \<times> int) result" where
  "rebuild f known i [] st = Inr st"
| "rebuild f known i (name0 # names) (checks, kept, next) =
     (let name = strip name0 in
      if name = [] then rebuild f known (i + 1) names (checks, kept, next)
      else bind_result (check_id_of f i) (\<lambda>cid.
        case cid of
          Some k \<Rightarrow>
            if k \<noteq> 0 \<and> k \<in> set known
            then rebuild f known (i + 1) names (upd_row chk_id k (fill_check f i name) checks, k # kept, next)
            else rebuild f known (i + 1) names
                   (checks @ [fill_check f i name (blank_check next)], kept, next + 1)
        | None \<Rightarrow> rebuild f known (i + 1) names
                   (checks @ [fill_check f i name (blank_check next)], kept, next + 1)))"

text \<open>The checks left after the removal, in the order they are read back.\<close>

definition rebuild_checks :: "check_form \<Rightarrow> compliance_check list \<Rightarrow> int
    \<Rightarrow> (compliance_check list \<times> int) result" where
  "rebuild_checks f old next =
     (let known = map chk_id old in
      bind_result (rebuild f known 0 (cf_names f) (old, [], next)) (\<lambda>(checks, kept, next').
        Inr (sort_key chk_sort_order
               (filter (\<lambda>c. chk_id c \<notin> set known \<or> chk_id c \<in> set kept) checks), next')))"

definition apply_policy_form :: "form \<Rightarrow> compliance_policy \<Rightarrow> int \<Rightarrow> (compliance_policy \<times> int list \<times> int list \<times> int) result" where
  "apply_policy_form data p next =
     bind_result (raw_item data ''name'') (\<lambda>name.
     bind_result (raw_or_none data ''description'') (\<lambda>description.
     bind_result (raw_item data ''parser_type'') (\<lambda>ty.
     bind_result (raw_item data ''parser_body'') (\<lambda>body.
     bind_result (parse_ids data ''device_group_ids'') (\<lambda>gids.
     bind_result (parse_ids data ''device_ids'') (\<lambda>vids.
     bind_result (rebuild_checks (check_form_of data) (pol_checks p) next) (\<lambda>(checks, next').
       Inr (p\<lparr>pol_name := name, pol_description := description, pol_parser_type := ty,
              pol_parser_body := body, pol_enabled := form_is data ''enabled'' ''1'',
              pol_auto_evaluate := form_is data ''auto_evaluate'' ''1'', pol_checks := checks\<rparr>,
            gids, vids, next'))))))))"

definition link_policy :: "int \<Rightarrow> int list \<Rightarrow> int list \<Rightarrow> db \<Rightarrow> db" where
  "link_policy k gids vids d =
     d\<lparr>db_policy_groups := set_links k (existing_groups d gids) (db_policy_groups d),
       db_policy_devices := set_links k (existing_devices d vids) (db_policy_devices d)\<rparr>"

definition policy_path :: "settings \<Rightarrow> int \<Rightarrow> string" where
  "policy_path st k = redir st (''/compliance/'' @ show_int k)"

definition create_policy :: "settings \<Rightarrow> form \<Rightarrow> db \<Rightarrow> edit_result" where
  "create_policy st data d =
     (let k = seq_policy d in
      committed (policy_path st k) d
        (bind_result (apply_policy_form data \<lparr>pol_id = k, pol_name = [], pol_description = None,
            pol_parser_type = [], pol_parser_body = [], pol_enabled = True, pol_auto_evaluate = False,
            pol_checks = []\<rparr> (seq_check d)) (\<lambda>(p, gids, vids, next').
         bind_result (unique_name (map pol_name (db_policies d)) (pol_name p)) (\<lambda>_.
           Inr (link_policy k gids vids
             (d\<lparr>db_policies := db_policies d @ [p], seq_policy := k + 1, seq_check := next'\<rparr>))))))"

definition not_found :: "int \<Rightarrow> py_exn" where
  "not_found k = Exn ''NotFoundException'' (''Policy '' @ show_int k @ '' not found'')"

definition update_policy :: "settings \<Rightarrow> int \<Rightarrow> form \<Rightarrow> db \<Rightarrow> edit_result" where
  "update_policy st k data d =
     (case get_policy k d of
        None \<Rightarrow> (Inl (not_found k), d)
      | Some old \<Rightarrow> committed (policy_path st k) d
          (bind_result (apply_policy_form data old (seq_check d)) (\<lambda>(p, gids, vids, next').
           bind_result (unique_name (map pol_name (filter (\<lambda>x. pol_id x \<noteq> k) (db_policies d))) (pol_name p)) (\<lambda>_.
             Inr (link_policy k gids vids
               (d\<lparr>db_policies := upd_row pol_id k (\<lambda>_. p) (db_policies d), seq_check := next'\<rparr>))))))"

definition run_policy :: "engines \<Rightarrow> (string \<Rightarrow> string \<Rightarrow> bool result) \<Rightarrow> datetime \<Rightarrow> settings \<Rightarrow> int
    \<Rightarrow> db \<Rightarrow> edit_result" where
  "run_policy E re_search now st k d =
     (case get_policy k d of
        None \<Rightarrow> (Inl (not_found k), d)
      | Some p \<Rightarrow> committed (policy_path st k) d (run_policy_now E re_search now p d))"

definition delete_policy :: "settings \<Rightarrow> int \<Rightarrow> db \<Rightarrow> edit_result" where
  "delete_policy st k d =
     (case get_policy k d of
        None \<Rightarrow> (Inl (not_found k), d)
      | Some p \<Rightarrow> (Inr (redir st ''/compliance''),
          d\<lparr>db_policies := filter (\<lambda>x. pol_id x \<noteq> k) (db_policies d),
            db_policy_groups := filter (\<lambda>(a, g). a \<noteq> k) (db_policy_groups d),
            db_policy_devices := filter (\<lambda>(a, v). a \<noteq> k) (db_policy_devices d),
            db_compliance_results :=
              filter (\<lambda>r. cres_policy_id r \<noteq> k) (db_compliance_results d)\<rparr>))"

definition scoped_devices :: "db \<Rightarrow> compliance_policy \<Rightarrow> device list" where
  "scoped_devices d p =
     sort_key dev_name (snd (collect dev_id (\<lambda>_. True)
       (concat (map (group_devices d) (policy_groups d p)) @ policy_devices d p) ({}, [])))"

text \<open>\<open>_last_results\<close>: the four known states first, any other state as it comes, then the sum.\<close>

definition policy_results :: "db \<Rightarrow> compliance_policy \<Rightarrow> compliance_result list" where
  "policy_results d p = filter (\<lambda>r. cres_policy_id r = pol_id p) (db_compliance_results d)"

definition last_results :: "compliance_result list \<Rightarrow> (string \<times> int) list" where
  "last_results rs =
     (let counts = fold (\<lambda>r m. dict_set (cres_status r)
            ((case map_of m (cres_status r) of None \<Rightarrow> 0 | Some n \<Rightarrow> n) + 1) m) rs
            [(''pass'', 0), (''fail'', 0), (''error'', 0), (''skip'', 0)]
      in dict_set ''total'' (sum_list (map snd counts)) counts)"

definition view_policy :: "int \<Rightarrow> db
    \<Rightarrow> (compliance_policy \<times> device list \<times> (int \<times> compliance_result) list \<times> (string \<times> int) list) result" where
  "view_policy k d =
     (case get_policy k d of
        None \<Rightarrow> Inl (not_found k)
      | Some p \<Rightarrow> Inr (p, scoped_devices d p,
          fold (\<lambda>r m. dict_set (cres_device_id r) r m) (policy_results d p) [],
          last_results (policy_results d p)))"

section \<open>Scans, dashboard, documentation, API\<close>

definition list_cve_scans :: "db \<Rightarrow> (cve_scan \<times> string \<times> nat \<times> pyval) list" where
  "list_cve_scans d =
     map (\<lambda>s. (s, (case get_device (scan_device_id s) d of
                     None \<Rightarrow> ''device:'' @ show_int (scan_device_id s) | Some v \<Rightarrow> dev_name v),
               length (scan_results d s), highest_severity (scan_results d s)))
       (take 500 (sort_key (\<lambda>s. - scan_scanned_at s) (db_cve_scans d)))"

record dashboard =
  db_count_groups :: nat
  db_count_devices :: nat
  db_count_schedules :: nat
  db_count_batches :: nat
  db_recent :: "(run_batch \<times> string) list"
  db_failing :: nat

definition dashboard_of :: "db \<Rightarrow> dashboard" where
  "dashboard_of d = \<lparr>
     db_count_groups = length (db_groups d), db_count_devices = length (db_devices d),
     db_count_schedules = length (db_schedules d), db_count_batches = length (db_batches d),
     db_recent =
       map (\<lambda>b. (b, or_str (map_option job_name (follow (bat_schedule_id b)
                 (\<lambda>k d. Option.bind (get_schedule k d) (schedule_job d)) d)) (bat_schedule_name b)))
         (take 20 (sort_key (\<lambda>b. - bat_created_at b) (db_batches d))),
     db_failing = length (filter (\<lambda>b. bat_failed b > 0) (db_batches d))\<rparr>"

text \<open>
  \<open>_SAFE_PAGE\<close>: one or more of \<open>[a-z0-9_-]\<close>; the dollar sign also matches before a final line feed.
\<close>

definition page_char :: "char \<Rightarrow> bool" where
  "page_char c \<longleftrightarrow> (97 \<le> cp c \<and> cp c \<le> 122) \<or> is_digit c \<or> c = CHR ''_'' \<or> c = CHR ''-''"

definition safe_page :: "string \<Rightarrow> bool" where
  "safe_page page \<longleftrightarrow>
     (let body = (if page \<noteq> [] \<and> last page = LF then butlast page else page)
      in body \<noteq> [] \<and> list_all page_char body)"

text \<open>\<open>read_doc\<close> is the file below the documentation directory, \<open>convert\<close> the Markdown converter.\<close>

definition render_doc :: "(string \<Rightarrow> string option) \<Rightarrow> (string \<Rightarrow> string) \<Rightarrow> string \<Rightarrow> string" where
  "render_doc read_doc convert page =
     (case read_doc (page @ ''.md'') of
        None \<Rightarrow> ''<p>Documentation page not found.</p>'' | Some t \<Rightarrow> convert t)"

definition get_doc :: "(string \<Rightarrow> string option) \<Rightarrow> (string \<Rightarrow> string) \<Rightarrow> string \<Rightarrow> string" where
  "get_doc read_doc convert page =
     (if \<not> safe_page page then ''<p>Invalid page name.</p>''
      else ''<div class='' @ [CHR 0x22] @ ''prose'' @ [CHR 0x22] @ ''>''
           @ render_doc read_doc convert page @ ''</div>'')"

record api_report =
  api_ok :: bool
  api_created :: nat
  api_updated :: nat
  api_errors :: nat
  api_rows :: "row_result list"
  api_error :: "string option"

definition api_failure :: "string \<Rightarrow> api_report" where
  "api_failure msg = \<lparr>api_ok = False, api_created = 0, api_updated = 0, api_errors = 1,
     api_rows = [], api_error = Some msg\<rparr>"

text \<open>\<open>multipart\<close> is the decoded upload and the pasted field, absent for another content type.\<close>

definition api_raw :: "(string option \<times> string option) option \<Rightarrow> string \<Rightarrow> string" where
  "api_raw multipart body =
     (case multipart of
        Some (upload, pasted) \<Rightarrow>
          let t = or_str upload [] in if t = [] then strip (or_str pasted []) else t
      | None \<Rightarrow> strip body)"

definition import_devices :: "(string option \<times> string option) option \<Rightarrow> string \<Rightarrow> db \<Rightarrow> api_report \<times> db" where
  "import_devices multipart body d =
     (let raw = api_raw multipart body in
      if raw = [] then
        (api_failure ''No CSV data provided. Send a multipart file field or a raw CSV body.'', d)
      else case import_csv raw d of
        (Inl e, d') \<Rightarrow> (api_failure (exn_class e @ '': '' @ exn_msg e), d')
      | (Inr (rs, created, updated), d') \<Rightarrow>
          let n = length (filter (\<lambda>r. \<not> rr_ok r) rs)
          in (\<lparr>api_ok = (n = 0), api_created = created, api_updated = updated, api_errors = n,
               api_rows = rs, api_error = None\<rparr>, d'))"

end
