(* ===== verification/Views.thy ===== *)
theory Views
  imports Pages
begin

text \<open>
  The pages under \<open>web/routes\<close> that only show: lists, forms and details. A page is the context its
  handler gives to the template, a function of the request and the database; what a handler reads
  from the git repository is a parameter. \<open>changed_files\<close> of \<open>recorder/git_store.py\<close> is here too,
  with the pages of the batches that call it.
\<close>

section \<open>Lists\<close>

definition by_name :: "('r \<Rightarrow> string) \<Rightarrow> 'r list \<Rightarrow> 'r list" where
  "by_name name rows = sort_key name rows"

definition list_groups :: "db \<Rightarrow> device_group list" where
  "list_groups d = by_name grp_name (db_groups d)"

definition list_jobs :: "db \<Rightarrow> job list" where
  "list_jobs d = by_name job_name (db_jobs d)"

definition list_parsers :: "db \<Rightarrow> parser_template list" where
  "list_parsers d = by_name pt_name (db_parser_templates d)"

definition test_bed :: "db \<Rightarrow> parser_template list" where
  "test_bed d = by_name pt_name (db_parser_templates d)"

definition list_platforms :: "db \<Rightarrow> platform list" where
  "list_platforms d = by_name plat_name (db_platforms d)"

definition list_schedules :: "db \<Rightarrow> schedule list" where
  "list_schedules d = by_name sch_name (db_schedules d)"

definition list_creds :: "db \<Rightarrow> credential list" where
  "list_creds d = by_name cred_name (db_credentials d)"

text \<open>\<open>list_policies\<close>: with the counts of the results of each.\<close>

definition list_policies :: "db \<Rightarrow> compliance_policy list \<times> (int \<times> (string \<times> int) list) list" where
  "list_policies d =
     (let ps = by_name pol_name (db_policies d)
      in (ps, map (\<lambda>p. (pol_id p, last_results (policy_results d p))) ps))"

section \<open>Forms\<close>

text \<open>A form shows the row it edits, or no row when it is new or the id is unknown.\<close>

record device_form_options =
  dfo_groups :: "device_group list"
  dfo_credentials :: "credential list"
  dfo_builtin_platforms :: "string list"
  dfo_custom_platforms :: "platform list"
  dfo_transports :: "string list"
  dfo_driver_kinds :: "string list"
  dfo_worker_pools :: "string list"

definition SCRAPLI_PLATFORMS :: "string list" where
  "SCRAPLI_PLATFORMS = [''cisco_iosxe'', ''cisco_iosxr'', ''cisco_nxos'', ''cisco_asa'', ''arista_eos'',
     ''juniper_junos'']"

definition device_form_options :: "db \<Rightarrow> device_form_options" where
  "device_form_options d = \<lparr>
     dfo_groups = list_groups d, dfo_credentials = list_creds d,
     dfo_builtin_platforms = SCRAPLI_PLATFORMS, dfo_custom_platforms = list_platforms d,
     dfo_transports = map transport_value [Tp_ssh, Tp_telnet, Tp_netconf],
     dfo_driver_kinds = map driver_kind_value [Dk_cli, Dk_netconf],
     dfo_worker_pools = worker_pools d\<rparr>"

record device_form =
  dfm_device :: "device option"
  dfm_platform_value :: string
  dfm_connect_timeout :: int
  dfm_command_timeout :: int
  dfm_options :: device_form_options

definition device_form_context :: "settings \<Rightarrow> db \<Rightarrow> device option \<Rightarrow> device_form" where
  "device_form_context st d dev = \<lparr>
     dfm_device = dev, dfm_platform_value = platform_value dev,
     dfm_connect_timeout = set_worker_connect_timeout st,
     dfm_command_timeout = set_worker_command_timeout st,
     dfm_options = device_form_options d\<rparr>"

definition new_device :: "settings \<Rightarrow> db \<Rightarrow> device_form" where
  "new_device st d = device_form_context st d None"

definition edit_device :: "settings \<Rightarrow> int \<Rightarrow> db \<Rightarrow> device_form" where
  "edit_device st k d = device_form_context st d (get_device k d)"

record group_form =
  gfm_group :: "device_group option"
  gfm_credentials :: "credential list"
  gfm_worker_pools :: "string list"

definition group_form_context :: "db \<Rightarrow> device_group option \<Rightarrow> group_form" where
  "group_form_context d g =
     \<lparr>gfm_group = g, gfm_credentials = list_creds d, gfm_worker_pools = worker_pools d\<rparr>"

definition new_group :: "db \<Rightarrow> group_form" where
  "new_group d = group_form_context d None"

definition edit_group :: "int \<Rightarrow> db \<Rightarrow> group_form" where
  "edit_group k d = group_form_context d (get_group k d)"

definition view_group :: "int \<Rightarrow> db \<Rightarrow> device_group option" where
  "view_group k d = get_group k d"

record job_form =
  jfm_job :: "job option"
  jfm_kinds :: "string list"
  jfm_parsers :: "parser_template list"
  jfm_groups :: "device_group list"
  jfm_devices :: "device list"

definition job_form_context :: "db \<Rightarrow> job option \<Rightarrow> job_form" where
  "job_form_context d j = \<lparr>
     jfm_job = j, jfm_kinds = map job_kind_value [Backup, Collect, Cve_scan],
     jfm_parsers = list_parsers d, jfm_groups = list_groups d,
     jfm_devices = by_name dev_name (db_devices d)\<rparr>"

definition new_job :: "db \<Rightarrow> job_form" where
  "new_job d = job_form_context d None"

definition edit_job :: "int \<Rightarrow> db \<Rightarrow> job_form" where
  "edit_job k d = job_form_context d (get_job k d)"

definition schedule_form_context :: "db \<Rightarrow> schedule option \<Rightarrow> schedule option \<times> job list" where
  "schedule_form_context d s = (s, list_jobs d)"

definition new_schedule :: "db \<Rightarrow> schedule option \<times> job list" where
  "new_schedule d = schedule_form_context d None"

definition edit_schedule :: "int \<Rightarrow> db \<Rightarrow> schedule option \<times> job list" where
  "edit_schedule k d = schedule_form_context d (get_schedule k d)"

definition cred_form_context :: "credential option \<Rightarrow> credential option \<times> string list" where
  "cred_form_context c = (c, map provider_value [Prov_local, Prov_vault, Prov_bitwarden])"

definition new_cred :: "credential option \<times> string list" where
  "new_cred = cred_form_context None"

definition edit_cred :: "int \<Rightarrow> db \<Rightarrow> credential option \<times> string list" where
  "edit_cred k d = cred_form_context (get_credential k d)"

definition parser_form_context :: "parser_template option \<Rightarrow> parser_template option \<times> string list" where
  "parser_form_context p = (p, map parser_type_value [Textfsm, Ttp, Xslt])"

definition edit_parser :: "int \<Rightarrow> db \<Rightarrow> parser_template option \<times> string list" where
  "edit_parser k d = parser_form_context (get_parser k d)"

text \<open>The example in the form of a platform has a character above code point 255: it is an argument.\<close>

definition new_platform :: "string \<Rightarrow> platform option \<times> string" where
  "new_platform example_yaml = (None, example_yaml)"

definition edit_platform :: "string \<Rightarrow> int \<Rightarrow> db \<Rightarrow> platform option \<times> string" where
  "edit_platform example_yaml k d = (get_platform k d, example_yaml)"

text \<open>The choices \<open>compliance.py\<close> offers.\<close>

definition OPERATORS :: "string list" where
  "OPERATORS = [''eq'', ''ne'', ''contains'', ''not_contains'', ''regex'', ''gt'', ''lt'', ''ge'', ''le'',
     ''exists'', ''not_exists'']"

definition MODES :: "string list" where
  "MODES = [''any'', ''all'', ''none'']"

definition SEVERITIES :: "string list" where
  "SEVERITIES = [''critical'', ''major'', ''minor'', ''info'']"

definition PARSER_TYPES :: "string list" where
  "PARSER_TYPES = [''textfsm'', ''ttp'', ''parse'']"

record policy_form =
  pfm_policy :: "compliance_policy option"
  pfm_parser_types :: "string list"
  pfm_operators :: "string list"
  pfm_modes :: "string list"
  pfm_severities :: "string list"
  pfm_groups :: "device_group list"
  pfm_devices :: "device list"

definition policy_form_context :: "db \<Rightarrow> compliance_policy option \<Rightarrow> policy_form" where
  "policy_form_context d p = \<lparr>
     pfm_policy = p, pfm_parser_types = PARSER_TYPES, pfm_operators = OPERATORS,
     pfm_modes = MODES, pfm_severities = SEVERITIES,
     pfm_groups = list_groups d, pfm_devices = by_name dev_name (db_devices d)\<rparr>"

definition new_policy_form :: "db \<Rightarrow> policy_form" where
  "new_policy_form d = policy_form_context d None"

definition edit_policy_form :: "int \<Rightarrow> db \<Rightarrow> policy_form result" where
  "edit_policy_form k d =
     (case get_policy k d of
        None \<Rightarrow> Inl (not_found k) | Some p \<Rightarrow> Inr (policy_form_context d (Some p)))"

section \<open>The import template\<close>

text \<open>\<open>CSV_TEMPLATE\<close> of \<open>devices.py\<close>, which the handler serves.\<close>

definition CSV_TEMPLATE :: string where
  "CSV_TEMPLATE =
     ''name,hostname,port,description,make,model,role,group,platform,transport,driver_kind,credentials,enabled,worker_pool'' @ [LF]
     @ ''edge-rtr-01,10.0.0.1,22,Core edge router,Cisco,ASR-9000,edge,core,cisco_iosxe,ssh,cli,core-admin,1,'' @ [LF]"

record download =
  dl_content :: string
  dl_media_type :: string
  dl_disposition :: string

definition import_template :: download where
  "import_template = \<lparr>
     dl_content = CSV_TEMPLATE, dl_media_type = ''text/csv'',
     dl_disposition = ''attachment; filename='' @ [CHR 0x22] @ ''kiroku-devices-template.csv'' @ [CHR 0x22]\<rparr>"

section \<open>The page of a device\<close>

text \<open>\<open>recent_runs\<close>: the last ten runs of the device by their creation.\<close>

definition recent_runs :: "db \<Rightarrow> int \<Rightarrow> run list" where
  "recent_runs d k =
     take 10 (sort_key (\<lambda>r. - run_created_at r) (filter (\<lambda>r. run_device_id r = k) (db_runs d)))"

record device_detail =
  dd_device :: "device option"
  dd_recent_runs :: "run list"
  dd_pinned_data :: "(job \<times> run \<times> display) list"

definition view_device :: "(string \<Rightarrow> pyval \<Rightarrow> pyval list \<Rightarrow> string list \<Rightarrow> string result)
    \<Rightarrow> (pyval \<Rightarrow> string) \<Rightarrow> int \<Rightarrow> db \<Rightarrow> device_detail" where
  "view_device render dumps k d = \<lparr>
     dd_device = get_device k d, dd_recent_runs = recent_runs d k,
     dd_pinned_data = pinned_data render dumps d k (show_jobs d)\<rparr>"

section \<open>The history of a configuration\<close>

text \<open>The path of the file of a device, if it has ever been backed up.\<close>

definition backup_of :: "db \<Rightarrow> int \<Rightarrow> string option" where
  "backup_of d k =
     (case get_device k d of None \<Rightarrow> None | Some v \<Rightarrow> or_none (dev_latest_backup_path v))"

text \<open>\<open>iter_commits\<close> are the commits that touch a path, newest first, at most so many.\<close>

definition view_config_history :: "(string \<Rightarrow> nat \<Rightarrow> commit list) \<Rightarrow> int \<Rightarrow> db
    \<Rightarrow> device option \<times> history_entry list" where
  "view_config_history iter_commits k d =
     (get_device k d, case backup_of d k of None \<Rightarrow> [] | Some path \<Rightarrow> history (iter_commits path 50))"

record diff_page =
  dfp_device :: "device option"
  dfp_rows :: "diff_row list"
  dfp_from :: string
  dfp_to :: string

definition view_config_diff :: "(string list \<Rightarrow> string list \<Rightarrow> string \<Rightarrow> string \<Rightarrow> string list)
    \<Rightarrow> (string \<Rightarrow> commit option) \<Rightarrow> int \<Rightarrow> string \<Rightarrow> string \<Rightarrow> db \<Rightarrow> diff_page" where
  "view_config_diff unified_diff find_commit k from_sha to_sha d = \<lparr>
     dfp_device = get_device k d,
     dfp_rows = (case backup_of d k of
         None \<Rightarrow> [] | Some path \<Rightarrow> diff_commits unified_diff find_commit path from_sha to_sha),
     dfp_from = from_sha, dfp_to = to_sha\<rparr>"

section \<open>Batches\<close>

text \<open>
  \<open>changed_files\<close>: for a commit without a parent every file of its tree, else what differs from the
  first parent, by the new path or else the old one. Whatever raises, the answer is empty.
\<close>

record commit_files =
  cf_parents :: "string list"
  cf_traverse :: "(string \<times> string) list result"
  cf_diff :: "string \<Rightarrow> (string option \<times> string) list result"

definition changed_files :: "(string \<Rightarrow> commit_files result) \<Rightarrow> string \<Rightarrow> string list" where
  "changed_files repo_commit sha =
     (case bind_result (repo_commit sha) (\<lambda>c. case cf_parents c of
          [] \<Rightarrow> bind_result (cf_traverse c) (\<lambda>items. Inr (map snd (filter (\<lambda>(ty, path). ty = ''blob'') items)))
        | p # _ \<Rightarrow> bind_result (cf_diff c p) (\<lambda>ds. Inr (map (\<lambda>(b_path, a_path). or_str b_path a_path) ds)))
      of Inl e \<Rightarrow> [] | Inr paths \<Rightarrow> paths)"

definition batch_live_fragment :: "(string \<Rightarrow> string list result) \<Rightarrow> int \<Rightarrow> db
    \<Rightarrow> run_batch option \<times> run list \<times> int list" where
  "batch_live_fragment changed b d =
     (let batch = get_batch b d;
          rs = sort_key run_device_id (batch_runs d b)
      in (batch, rs, case batch of
            None \<Rightarrow> []
          | Some x \<Rightarrow> if truthy (bat_commit_sha x) \<and> bat_kind x = ''backup''
              then changed_run_ids changed d rs (the (bat_commit_sha x)) else []))"

definition batch_row_fragment :: "int \<Rightarrow> db \<Rightarrow> run_batch option" where
  "batch_row_fragment b d = get_batch b d"

section \<open>Documentation and scans\<close>

text \<open>\<open>_HELP_SHELL.format(content=..., root_path=...)\<close>, line by line.\<close>

definition help_shell :: "string \<Rightarrow> string \<Rightarrow> string" where
  \<open>help_shell content root_path = unlines [
      ''<!doctype html>'',
      ''<html lang="en">'',
      ''<head>'',
      ''  <meta charset="utf-8">'',
      ''  <title>Kiroku Help</title>'',
      ''  <link rel="stylesheet" href="'' @ root_path @ ''/static/pico.min.css">'',
      ''  <link rel="stylesheet" href="'' @ root_path @ ''/static/app.css">'',
      ''  <script>'',
      ''  (function() {'',
      ''    function getCookie(name) {'',
      ''      var row = document.cookie.split('; ').find(function(r) { return r.startsWith(name + '='); });'',
      ''      return row ? row.split('=')[1] : null;'',
      ''    }'',
      ''    var saved = getCookie('kiroku_theme');'',
      ''    var theme = saved || (window.matchMedia('(prefers-color-scheme: dark)').matches ? 'dark' : 'light');'',
      ''    document.documentElement.setAttribute('data-theme', theme);'',
      ''  })();'',
      ''  </script>'',
      ''</head>'',
      ''<body>'',
      ''  <main class="container">'',
      ''    <div class="prose">'',
      content,
      ''    </div>'',
      ''  </main>'',
      ''</body>'',
      ''</html>'']\<close>

definition get_help_page :: "(string \<Rightarrow> string option) \<Rightarrow> (string \<Rightarrow> string) \<Rightarrow> settings \<Rightarrow> string \<Rightarrow> string" where
  "get_help_page read_doc convert st page =
     help_shell (if \<not> safe_page page then ''<p>Invalid page name.</p>'' else render_doc read_doc convert page)
       (set_root_path st)"

section \<open>Lemmas\<close>

text \<open>A list shows every row once, in the order of the names.\<close>

lemma by_name_rows [simp]:
  "set (by_name name rows) = set rows"
  "length (by_name name rows) = length rows"
  "distinct (by_name name rows) = distinct rows"
  by (simp_all add: by_name_def)

lemma sorted_by_name: "sorted (map name (by_name name rows))"
  by (simp add: by_name_def)

lemma by_name_unique:
  assumes "distinct (map name rows)"
  shows "sorted_wrt (<) (map name (by_name name rows))"
proof -
  have "distinct (map name (by_name name rows))" using assms by (simp add: distinct_map)
  then show ?thesis using sorted_by_name strict_sorted_iff by blast
qed

text \<open>What a form offers, its handler accepts.\<close>

lemma offered_choices_accepted:
  "list_all (\<lambda>s. \<exists>t. transport_of s = Inr t) (dfo_transports (device_form_options d))"
  "list_all (\<lambda>s. \<exists>t. driver_kind_of s = Inr t) (dfo_driver_kinds (device_form_options d))"
  "list_all (\<lambda>s. \<exists>t. job_kind_of s = Inr t) (jfm_kinds (job_form_context d j))"
  "list_all (\<lambda>s. \<exists>t. provider_of s = Inr t) (snd (cred_form_context c))"
  "list_all (\<lambda>s. \<exists>t. parser_type_of s = Inr t) (snd (parser_form_context p))"
  by (simp_all add: device_form_options_def job_form_context_def cred_form_context_def
      parser_form_context_def transport_of_def driver_kind_of_def job_kind_of_def provider_of_def
      parser_type_of_def enum_of_def)

text \<open>
  The choice of the platform round-trips: the handlers of the forms leave at most one of the two
  columns set, and then the value the form shows, sent back, changes nothing.
\<close>

definition one_platform :: "device \<Rightarrow> bool" where
  "one_platform v \<longleftrightarrow> (case dev_custom_platform_id v of
     None \<Rightarrow> dev_platform v \<noteq> Some [] | Some n \<Rightarrow> n \<noteq> 0 \<and> dev_platform v = None)"

lemma platform_round_trip:
  assumes "one_platform v"
  shows "apply_platform_value (dfm_platform_value (device_form_context st d (Some v))) v = Inr v"
proof (cases "dev_custom_platform_id v")
  case (Some n)
  with assms show ?thesis
    by (cases v) (simp add: one_platform_def device_form_context_def platform_value_def apply_platform_value_def
        prefix_of_def set_platform_def startswith_def to_int_def py_int_show_int)
next
  case None
  with assms show ?thesis
    by (cases v; cases "dev_platform v") (auto simp: one_platform_def device_form_context_def platform_value_def
        apply_platform_value_def prefix_of_def set_platform_def startswith_def)
qed

text \<open>
  An import sets the built-in platform and leaves the custom one, which every job then still uses.
\<close>

lemma import_keeps_custom_platform:
  "dev_custom_platform_id (update_device_row get r v) = dev_custom_platform_id v"
  "dev_custom_platform_id v = Some n \<Longrightarrow> n \<noteq> 0 \<Longrightarrow>
   platform_value (Some (update_device_row get r v)) = platform_value (Some v)"
  by (simp_all add: update_device_row_def platform_value_def)

text \<open>The page of a batch and its live fragment show the same.\<close>

lemma batch_live_is_view_batch: "batch_live_fragment = view_batch"
  by (intro ext) (simp add: batch_live_fragment_def view_batch_def)

text \<open>The runs on the page of a device: at most ten, its own, the newest first.\<close>

lemma recent_runs_newest:
  "length (recent_runs d k) \<le> 10"
  "r \<in> set (recent_runs d k) \<Longrightarrow> run_device_id r = k"
  "sorted_wrt (\<lambda>r r'. run_created_at r' \<le> run_created_at r) (recent_runs d k)"
proof -
  let ?rs = "sort_key (\<lambda>r. - run_created_at r) (filter (\<lambda>r. run_device_id r = k) (db_runs d))"
  show "length (recent_runs d k) \<le> 10" by (simp add: recent_runs_def)
  show "run_device_id r = k" if "r \<in> set (recent_runs d k)"
    using that by (auto simp: recent_runs_def dest: in_set_takeD)
  have "sorted (map (\<lambda>r. - run_created_at r) ?rs)" by simp
  then have "sorted_wrt (\<lambda>r r'. run_created_at r' \<le> run_created_at r) ?rs"
    by (simp add: sorted_wrt_map)
  then show "sorted_wrt (\<lambda>r r'. run_created_at r' \<le> run_created_at r) (recent_runs d k)"
    unfolding recent_runs_def by (rule sorted_wrt_take)
qed

end
