(* ===== verification/Samples.thy ===== *)
theory Samples
  imports Progress Leader Search Auth Views
begin

text \<open>
  Concrete instances for the witnesses: a small inventory, a Redis server that keeps its streams in
  lists, an encoding, secrets, engines, a repository. They stand for the parameters of the model and
  show that the hypotheses of the properties can hold together.
\<close>

section \<open>A server\<close>

text \<open>The streams, and the number of entries delivered and the last id given, over all streams.\<close>

record server =
  sv_streams :: "(string \<times> entry list) list"
  sv_read :: int
  sv_next :: nat

definition stream_of :: "server \<Rightarrow> string \<Rightarrow> entry list" where
  "stream_of sv s = (case map_of (sv_streams sv) s of None \<Rightarrow> [] | Some es \<Rightarrow> es)"

definition demo_broker :: "server broker" where
  "demo_broker = \<lparr>
     xadd = (\<lambda>s fs n sv. (Inr (show_nat (sv_next sv)),
        sv\<lparr>sv_streams := dict_set s (stream_of sv s @ [(show_nat (sv_next sv), fs)]) (sv_streams sv),
           sv_next := sv_next sv + 1\<rparr>)),
     xlen = (\<lambda>s sv. (Inr (int (length (stream_of sv s))), sv)),
     xinfo_groups = (\<lambda>s sv. (Inr [\<lparr>gi_name = ''workers'', gi_entries_read = Some (sv_read sv),
        gi_last_delivered_id = ''0''\<rparr>], sv)),
     xgroup_create = (\<lambda>s g sv. (Inr (), sv)),
     xreadgroup = (\<lambda>g c s n b sv. (Inr [(s, take (nat n) (stream_of sv s))],
        sv\<lparr>sv_read := sv_read sv + int (length (take (nat n) (stream_of sv s)))\<rparr>)),
     xread = (\<lambda>s i n sv. (Inr [(s, stream_of sv s)], sv)),
     xack = (\<lambda>s g i sv. (Inr (), sv)),
     xdel = (\<lambda>s ids sv. (Inr (),
        sv\<lparr>sv_streams := dict_set s (filter (\<lambda>e. fst e \<notin> set ids) (stream_of sv s)) (sv_streams sv)\<rparr>)),
     scan_iter = (\<lambda>p sv. (Inr (map fst (sv_streams sv)), sv))\<rparr>"

definition empty_server :: server where
  "empty_server = \<lparr>sv_streams = [], sv_read = 0, sv_next = 0\<rparr>"

section \<open>An inventory\<close>

definition demo_device :: "int \<Rightarrow> string \<Rightarrow> device" where
  "demo_device k name = blank_device\<lparr>dev_id := k, dev_name := name, dev_hostname := ''10.0.0.1'',
     dev_platform := Some ''arista_eos''\<rparr>"

definition demo_group :: device_group where
  "demo_group = blank_group\<lparr>grp_id := 1, grp_name := ''core''\<rparr>"

definition demo_credential :: credential where
  "demo_credential = \<lparr>cred_id = 1, cred_name = ''lab'', cred_description = None,
     cred_provider = Prov_local, cred_encrypted_payload = Some ''box'', cred_ref = None,
     cred_username = Some ''ops'', cred_is_default = True\<rparr>"

definition demo_job :: job where
  "demo_job = \<lparr>job_id = 1, job_name = ''nightly'', job_description = None, job_kind = Backup,
     job_commands = Some ''show run'', job_rpc = None, job_parser_template_id = None,
     job_cve_vendor = None, job_cve_product = None, job_show_on_device = False\<rparr>"

definition demo_db :: db where
  "demo_db = empty_db\<lparr>
     db_devices := [demo_device 1 ''r1'', demo_device 2 ''r2''],
     db_groups := [demo_group], db_memberships := [(1, 1), (2, 1)],
     db_credentials := [demo_credential], db_jobs := [demo_job], db_job_device_groups := [(1, 1)],
     seq_device := 3, seq_group := 2, seq_credential := 2, seq_job := 2\<rparr>"

definition demo_secrets :: secret_store where
  "demo_secrets = \<lparr>box_seal = (\<lambda>s. ''box''),
     box_open = (\<lambda>b. Inr [(''username'', ''admin''), (''password'', ''pw'')]),
     vault_read = (\<lambda>m p. Inr [(''username'', ''vault'')])\<rparr>"

definition demo_spec :: job_spec where
  "demo_spec = (case spec_for demo_secrets demo_db (demo_device 1 ''r1'') demo_job 1 None None
       (Some demo_credential) of
     Inr (Some s) \<Rightarrow> s | _ \<Rightarrow> undefined)"

definition demo_result :: "int \<Rightarrow> bool \<Rightarrow> job_result" where
  "demo_result rid ok = \<lparr>jr_run_id = rid, jr_device_id = 1, jr_device_name = ''r1'',
     jr_kind = ''backup'', jr_success = ok, jr_error = None, jr_started_at = [], jr_finished_at = [],
     jr_config_text = Some ''hostname r1'', jr_command_results = [], jr_parsed = None,
     jr_parse_error = None, jr_parser_template_id = None, jr_job_id = None,
     jr_cve_entries = [], jr_cpe = None\<rparr>"

definition demo_codec :: codec where
  "demo_codec = \<lparr>dump_spec = (\<lambda>s. ''spec''), load_spec = (\<lambda>t. Some demo_spec),
     dump_result = (\<lambda>r. ''result''), load_result = (\<lambda>t. Some (demo_result 1 True))\<rparr>"

section \<open>A recorder\<close>

definition demo_engines :: engines where
  "demo_engines = \<lparr>textfsm_run = (\<lambda>t p. Inr ([''version''], [[PStr ''1'']])),
     ttp_run = (\<lambda>t p. Inr (PList [])), xslt_run = (\<lambda>t p. Inr p),
     parse_compile = (\<lambda>t. Inr ((\<lambda>l. None), (\<lambda>l. None)))\<rparr>"

definition demo_git :: "nat git" where
  "demo_git = \<lparr>git_add = (\<lambda>ps n. (Inr (), n)), git_differs = (\<lambda>n. (Inr True, n)),
     git_commit = (\<lambda>m n. (Inr (show_nat n), n + 1))\<rparr>"

definition demo_env :: "nat recorder_env" where
  "demo_env = \<lparr>env_git = demo_git, env_sha = (\<lambda>t. t), env_engines = demo_engines,
     env_re_search = (\<lambda>p t. Inr (contains p t)), env_fromiso = (\<lambda>t. None), env_now = 1000\<rparr>"

definition empty_store :: "nat store" where
  "empty_store = \<lparr>st_files = (\<lambda>p. None), st_git = 0\<rparr>"

definition demo_state :: "db \<Rightarrow> nat rstate" where
  "demo_state d = \<lparr>rec_db = d, rec_store = empty_store, rec_staged = []\<rparr>"

text \<open>The inventory after one firing: one batch, a run for each device.\<close>

definition fired_db :: db where
  "fired_db = snd (snd (create_rows demo_job None None 10 (device_group_pairs demo_db demo_job) demo_db))"

lemma fired_db_runs:
  "db_runs fired_db = [new_run 10 1 demo_job None 1 1, new_run 10 2 demo_job None 1 2]
   \<and> db_batches fired_db = [new_batch 1 demo_job None None 2 10]"
  by code_simp

lemma acct_ok_empty: "acct_ok (d\<lparr>db_runs := [], db_batches := [], seq_run := 1, seq_batch := 1\<rparr>)"
  by (simp add: acct_ok_def keys_ok_def)

lemma acct_ok_demo: "acct_ok demo_db"
  by (simp add: acct_ok_def keys_ok_def demo_db_def empty_db_def)

lemma acct_ok_fired: "acct_ok fired_db"
proof -
  obtain bid pairs d' where c: "create_rows demo_job None None 10 (device_group_pairs demo_db demo_job) demo_db
      = (bid, pairs, d')"
    by (metis prod.exhaust)
  with acct_ok_create_rows [OF acct_ok_demo c] show ?thesis by (simp add: fired_db_def)
qed

end
