(* ===== verification/Settlement.thy ===== *)
theory Settlement
  imports Samples
begin

text \<open>
  How runs are settled: the properties of the recorder, the reaper, the cancelling and purging
  handlers and of the system they form, each with a witness on the sample inventory of \<open>Samples\<close>.
\<close>

section \<open>Sample executions\<close>

text \<open>The first of the two runs of the sample firing is answered, then the second.\<close>

definition first_answer :: "nat rstate" where
  "first_answer = snd (persist demo_env (demo_result 1 True) (demo_state fired_db))"

lemma demo_state_simps [simp]: "rec_db (demo_state d) = d"
  by (simp add: demo_state_def)

lemma fired_open: "run_open 1 fired_db \<and> batch_of fired_db 1 = Some 1"
  by code_simp

lemma first_answer_ok: "persist demo_env (demo_result 1 True) (demo_state fired_db) = (Inr (), first_answer)"
proof -
  have "fst (persist demo_env (demo_result 1 True) (demo_state fired_db)) = Inr ()" by code_simp
  then show ?thesis by (simp add: first_answer_def prod_eq_iff)
qed



section \<open>The books of the system\<close>





section \<open>Persisting a result\<close>

text \<open>What persisting a result for an open run leaves of the runs and the batches.\<close>

lemma persist_effect:
  assumes "keys_ok (rec_db s)" and "run_open (jr_run_id res) (rec_db s)"
    and "persist V res s = (Inr (), s')"
  shows "life_of (rec_db s') = map (\<lambda>(i, b, st). (i, b, if i = jr_run_id res
       then (if jr_success res then Success else Failed) else st)) (life_of (rec_db s))
    \<and> map count_view (db_batches (rec_db s')) = map (\<lambda>x. count_view
       (if batch_of (rec_db s) (jr_run_id res) = Some (bat_id x)
        then (if jr_success res then x\<lparr>bat_succeeded := bat_succeeded x + 1\<rparr>
              else x\<lparr>bat_failed := bat_failed x + 1\<rparr>)
        else x)) (db_batches (rec_db s))"
proof -
  obtain x where x: "get_run (jr_run_id res) (rec_db s) = Some x" "run_status x \<noteq> Cancelled"
    using assms(2) by (rule run_openE)
  have "same_counts (close_run (env_fromiso V) res (batch_of (rec_db s) (jr_run_id res)) (rec_db s)) (rec_db s')"
    by (rule persist_counts [OF x assms(3)])
  then have "life_of (rec_db s') = map (\<lambda>(i, b, st). (i, b, if i = jr_run_id res
       then result_status res else st)) (life_of (rec_db s))"
    and "map count_view (db_batches (rec_db s')) = map (\<lambda>x. count_view
       (if batch_of (rec_db s) (jr_run_id res) = Some (bat_id x)
        then bump (result_status res) 1 x else x)) (db_batches (rec_db s))"
    by (simp_all add: same_counts_def life_close_run batches_close_run comp_def)
  then show ?thesis
    by (cases "jr_success res") (auto simp: result_status_def bump_def)
qed

text \<open>
  C4: A result that is persisted for an open run closes exactly that run, with the state the
  result reports, and counts it once in the batch of the run: no other run and no other counter
  moves, whatever the kind of the job and whatever else is stored.
\<close>

theorem persist_closes_its_run:
  assumes "keys_ok (rec_db s)" and "run_open (jr_run_id res) (rec_db s)"
    and "persist V res s = (Inr (), s')"
  shows "life_of (rec_db s') = map (\<lambda>(i, b, st). (i, b, if i = jr_run_id res
       then (if jr_success res then Success else Failed) else st)) (life_of (rec_db s))
    \<and> map count_view (db_batches (rec_db s')) = map (\<lambda>x. count_view
       (if batch_of (rec_db s) (jr_run_id res) = Some (bat_id x)
        then (if jr_success res then x\<lparr>bat_succeeded := bat_succeeded x + 1\<rparr>
              else x\<lparr>bat_failed := bat_failed x + 1\<rparr>)
        else x)) (db_batches (rec_db s))"
  using persist_effect [OF assms] .

theorem persist_closes_its_run_witness:
  "life_of (rec_db first_answer) = [(1, Some 1, Success), (2, Some 1, Pending)]
   \<and> map count_view (db_batches (rec_db first_answer)) = [(1, 2, 1, 0)]"
proof -
  have k: "keys_ok (rec_db (demo_state fired_db))" using acct_ok_fired by (simp add: acct_ok_def)
  have o: "run_open (jr_run_id (demo_result 1 True)) (rec_db (demo_state fired_db))"
    using fired_open by (simp add: demo_result_def)
  have b: "batch_of fired_db 1 = Some 1" using fired_open ..
  have l: "life_of fired_db = [(1, Some 1, Pending), (2, Some 1, Pending)]"
    by code_simp
  have d: "db_batches fired_db = [new_batch 1 demo_job None None 2 10]" using fired_db_runs ..
  from persist_closes_its_run [OF k o first_answer_ok] show ?thesis
    by (simp add: demo_result_def l d b new_batch_def count_view_def)
qed

text \<open>
  C7: A result for a run the database does not know, or for a cancelled run, changes nothing at all:
  not the database, not the store, not what is staged; and it is acknowledged.
\<close>

theorem cancelled_result_discarded:
  assumes "get_run (jr_run_id res) (rec_db s) = None
      \<or> map_option run_status (get_run (jr_run_id res) (rec_db s)) = Some Cancelled"
  shows "handle_result V B st (m, res) (s, q) = (s, snd (ack_result B st m q))"
  using assms
  by (auto simp: handle_result_def persist_def session_scope_def persist_body_def Let_def
      split: option.splits)

theorem cancelled_result_discarded_witness:
  "handle_result demo_env demo_broker default_settings (''7'', demo_result 1 True)
     (demo_state (cancel_batch 1 50 fired_db), empty_server)
   = (demo_state (cancel_batch 1 50 fired_db), snd (ack_result demo_broker default_settings ''7'' empty_server))"
  by (rule cancelled_result_discarded) code_simp

text \<open>
  A result whose persistence raises leaves the database as it was and is not acknowledged; one
  that is persisted is acknowledged after the database has it.
\<close>

lemma failed_persist_not_acknowledged:
  "case persist V res s of
     (Inl e, s') \<Rightarrow> handle_result V B st (m, res) (s, q) = (s', q) \<and> rec_db s' = rec_db s
   | (Inr u, s') \<Rightarrow> handle_result V B st (m, res) (s, q) = (s', snd (ack_result B st m q))"
  by (auto simp: handle_result_def dest: persist_raises split: prod.split sum.split)



text \<open>
  C10: A result that arrives for a run that is already closed and not cancelled, as after a reaper
  pass, is counted again: in a batch whose runs are all closed the counters then exceed the total.
\<close>

theorem late_result_overcounts:
  assumes "acct_ok (rec_db s)" and "get_run (jr_run_id res) (rec_db s) = Some x"
    and "run_status x \<in> {Success, Failed, Timeout}" and "run_batch_id x = Some b"
    and "get_batch b (rec_db s) = Some y" and "count_rows (open_run b) (db_runs (rec_db s)) = 0"
    and "persist V res s = (Inr (), s')"
  shows "\<exists>z. get_batch b (rec_db s') = Some z \<and> bat_succeeded z + bat_failed z = bat_total z + 1"
proof -
  have x: "run_status x \<noteq> Cancelled" using assms(3) by auto
  have b: "batch_of (rec_db s) (jr_run_id res) = Some b"
    using assms(2,4,5) by (auto simp: batch_of_def dest: batch_tab.get_Some)
  have y: "batch_ok (rec_db s) y \<and> bat_id y = b" by (rule acct_ok_get [OF assms(1,5)])
  then have full: "bat_succeeded y + bat_failed y = bat_total y"
    using batch_ok_open [of "rec_db s" y] assms(6) by (simp add: tally_open_run)
  have "map_option count_view (get_batch b (rec_db s'))
      = map_option count_view (get_batch b (close_run (env_fromiso V) res (Some b) (rec_db s)))"
    unfolding get_batch_def
    by (rule get_row_views)
      (use persist_counts [OF assms(2) x assms(7)] in \<open>simp_all add: same_counts_def b count_view_def\<close>)
  then show ?thesis
    using full by (cases "get_batch b (rec_db s')")
      (auto simp: get_batch_close_run assms(5) count_view_def bump_def split: if_splits)
qed

definition reaped_state :: "nat rstate" where
  "reaped_state = snd (reap_stale_batches (demo_env\<lparr>env_now := 2000000000000\<rparr>) 1800 (demo_state fired_db))"

theorem late_result_overcounts_witness:
  "\<exists>z. get_batch 1 (rec_db (snd (persist demo_env (demo_result 1 True) reaped_state))) = Some z
     \<and> bat_succeeded z + bat_failed z = bat_total z + 1"
proof -
  let ?V = "demo_env\<lparr>env_now := 2000000000000\<rparr>"
  obtain r where r: "reap_stale_batches ?V 1800 (demo_state fired_db) = (r, reaped_state)"
    by (simp add: reaped_state_def prod_eq_iff)
  have ok: "acct_ok (rec_db reaped_state)"
    by (rule acct_ok_reap_stale [OF _ r]) (simp add: acct_ok_fired)
  have run: "map_option (\<lambda>x. (run_status x, run_batch_id x)) (get_run 1 (rec_db reaped_state)) = Some (Failed, Some 1)"
    by code_simp
  then obtain x where x: "get_run 1 (rec_db reaped_state) = Some x" "run_status x = Failed" "run_batch_id x = Some 1"
    by auto
  have "get_batch 1 (rec_db reaped_state) \<noteq> None" by code_simp
  then obtain y where y: "get_batch 1 (rec_db reaped_state) = Some y" by auto
  have o: "count_rows (open_run 1) (db_runs (rec_db reaped_state)) = 0" by code_simp
  have p: "fst (persist demo_env (demo_result 1 True) reaped_state) = Inr ()" by code_simp
  show ?thesis
    by (rule late_result_overcounts [OF ok, of "demo_result 1 True" x 1 y demo_env])
      (use x y o p in \<open>simp_all add: demo_result_def prod_eq_iff\<close>)
qed

section \<open>The reaper, cancelling, purging\<close>










end
