(* ===== verification/Firing.thy ===== *)
theory Firing
  imports Samples
begin

text \<open>
  What firing a job does: the devices it selects, the capacity check, the rows it creates, the specs
  it publishes and the streams they reach.
\<close>

section \<open>Lemmas\<close>

text \<open>Publishing a list of specs, as the reference for the loop that builds and publishes them.\<close>

fun send_all :: "'q broker \<Rightarrow> codec \<Rightarrow> settings \<Rightarrow> job_spec list \<Rightarrow> ('q, unit) eff" where
  "send_all B C st [] = ret ()"
| "send_all B C st (s # ss) = seq (publish_job B C st s) (\<lambda>_. send_all B C st ss)"

definition new_entry :: "int \<Rightarrow> device \<times> device_group option \<times> int \<Rightarrow> job_spec option
    \<Rightarrow> int \<times> int option \<times> run_status" where
  "new_entry bid p so = (snd (snd p), Some bid, if so = None then Failed else Pending)"

definition reject_unresolved :: "datetime \<Rightarrow> int
    \<Rightarrow> ((device \<times> device_group option \<times> int) \<times> job_spec option) list \<Rightarrow> db \<Rightarrow> db" where
  "reject_unresolved now bid = fold (\<lambda>((dev, g, rid), so).
     if so = None then fail_run rid ''no credential available'' now bid else id)"

lemma spec_for_fail_run [simp]:
  "spec_for S (fail_run rid err now bid d) dev j k sid g cred = spec_for S d dev j k sid g cred"
proof -
  let ?e = "fail_run rid err now bid d"
  have "db_credentials ?e = db_credentials d" "db_platforms ?e = db_platforms d"
    "db_parser_templates ?e = db_parser_templates d"
    by (simp_all add: fail_run_def upd_batch_def upd_run_def)
  then have "get_credential i ?e = get_credential i d" "get_platform i ?e = get_platform i d"
    "get_parser i ?e = get_parser i d" for i
    by (simp_all add: get_credential_def get_platform_def get_parser_def)
  then have "device_credential ?e dev = device_credential d dev"
    "group_default_credential ?e g' = group_default_credential d g'"
    "device_custom_platform ?e dev = device_custom_platform d dev"
    "job_parser_template ?e j = job_parser_template d j" for g'
    by (simp_all add: device_credential_def group_default_credential_def device_custom_platform_def
        job_parser_template_def follow_def)
  then show ?thesis by (simp only: spec_for_def effective_credential_def)
qed

lemma publish_one:
  "spec_for S d dev j rid sid g cred = Inr None \<Longrightarrow>
     publish_all B C S st j sid cred now bid ((dev, g, rid) # rest) (d, q)
       = publish_all B C S st j sid cred now bid rest (fail_run rid ''no credential available'' now bid d, q)"
  "spec_for S d dev j rid sid g cred = Inr (Some spec) \<Longrightarrow> publish_job B C st spec q = (Inr i, q1) \<Longrightarrow>
     publish_all B C S st j sid cred now bid ((dev, g, rid) # rest) (d, q)
       = publish_all B C S st j sid cred now bid rest (d, q1)"
  by (simp_all add: seq_def on_db_def on_broker_def)

lemma publish_all_append:
  assumes "list_all2 (\<lambda>(dev, g, rid) so. spec_for S d dev j rid sid g cred = Inr so) ps sos"
    and "send_all B C st (somes sos) q = (Inr (), q')"
  shows "publish_all B C S st j sid cred now bid (ps @ rest) (d, q)
    = publish_all B C S st j sid cred now bid rest (reject_unresolved now bid (zip ps sos) d, q')"
  using assms
proof (induction ps arbitrary: sos d q)
  case Nil
  then show ?case by (simp add: reject_unresolved_def)
next
  case (Cons p ps)
  obtain dev g rid where p: "p = (dev, g, rid)" by (cases p)
  obtain so sos' where sos: "sos = so # sos'" and spec: "spec_for S d dev j rid sid g cred = Inr so"
    and all: "list_all2 (\<lambda>(dev, g, rid) so. spec_for S d dev j rid sid g cred = Inr so) ps sos'"
    using Cons.prems(1) by (auto simp: p list_all2_Cons1)
  show ?case
  proof (cases so)
    case None
    let ?d = "fail_run rid ''no credential available'' now bid d"
    have "publish_all B C S st j sid cred now bid (ps @ rest) (?d, q)
        = publish_all B C S st j sid cred now bid rest (reject_unresolved now bid (zip ps sos') ?d, q')"
      by (rule Cons.IH) (use all Cons.prems(2) None sos in simp_all)
    moreover have "reject_unresolved now bid (zip (p # ps) sos) d = reject_unresolved now bid (zip ps sos') ?d"
      by (simp add: reject_unresolved_def p None sos)
    ultimately show ?thesis
      by (simp only: p append_Cons publish_one(1) [OF spec [unfolded None]])
  next
    case (Some spec')
    then obtain i q1 where pub: "publish_job B C st spec' q = (Inr i, q1)"
      and rest: "send_all B C st (somes sos') q1 = (Inr (), q')"
      using Cons.prems(2) by (auto simp: sos seq_def split: prod.splits sum.splits)
    have "publish_all B C S st j sid cred now bid (ps @ rest) (d, q1)
        = publish_all B C S st j sid cred now bid rest (reject_unresolved now bid (zip ps sos') d, q')"
      by (rule Cons.IH [OF all rest])
    moreover have "reject_unresolved now bid (zip (p # ps) sos) d = reject_unresolved now bid (zip ps sos') d"
      by (simp add: reject_unresolved_def p Some sos)
    ultimately show ?thesis
      by (simp only: p append_Cons publish_one(2) [OF spec [unfolded Some] pub])
  qed
qed

lemma runs_fold_fail:
  "db_runs (reject_unresolved now bid zs d) = map (\<lambda>r. if \<exists>dev g. ((dev, g, run_id r), None) \<in> set zs
     then r\<lparr>run_status := Failed, run_error := Some ''no credential available'', run_finished_at := Some now\<rparr>
     else r) (db_runs d)"
proof (induction zs arbitrary: d)
  case Nil
  then show ?case by (simp add: reject_unresolved_def)
next
  case (Cons z zs)
  obtain dev g rid so where z: "z = ((dev, g, rid), so)" by (cases z) auto
  have "db_runs (fail_run rid err now bid d) = map (\<lambda>r. if run_id r = rid
      then r\<lparr>run_status := Failed, run_error := Some err, run_finished_at := Some now\<rparr> else r) (db_runs d)" for err
    by (simp add: fail_run_def upd_run_def upd_row_def)
  then show ?case
    using Cons [of "if so = None then fail_run rid ''no credential available'' now bid d else d"]
    by (cases so) (auto simp: z reject_unresolved_def)
qed

lemma get_batch_reject_unresolved:
  "get_batch b (reject_unresolved now bid zs d) = map_option (\<lambda>x. if b = bid
     then x\<lparr>bat_failed := bat_failed x + count_rows (\<lambda>z. snd z = None) zs\<rparr> else x) (get_batch b d)"
proof (induction zs arbitrary: d)
  case Nil
  then show ?case by (simp add: reject_unresolved_def option.map_ident_strong)
next
  case (Cons z zs)
  obtain dev g rid so where z: "z = ((dev, g, rid), so)" by (cases z) auto
  show ?case
    using Cons [of "if so = None then fail_run rid ''no credential available'' now bid d else d"]
    by (cases so; cases "get_batch b d") (auto simp: z reject_unresolved_def get_batch_fail_run)
qed

text \<open>The rows of a firing: the old runs are kept, the new ones follow in the order of the targets.\<close>

lemma create_rows_runs:
  assumes "create_rows j sid sname now ts d = (bid, pairs, d1)"
  shows "db_runs d1 = db_runs d @ map (\<lambda>(dev, g, rid). new_run now rid j sid bid (dev_id dev)) pairs"
    and "bid = seq_batch d" and "pairs = number_targets (seq_run d) ts"
  using assms by (auto simp: create_rows_def Let_def)

lemma number_targets_nth:
  "i < length ts \<Longrightarrow> number_targets k ts ! i = (fst (ts ! i), snd (ts ! i), k + int i)"
proof (induction k ts arbitrary: i rule: number_targets.induct)
  case (1 k)
  then show ?case by simp
next
  case (2 k dev g ts)
  then show ?case by (cases i) auto
qed

lemma pair_ids_number_targets: "pair_ids (number_targets k ts) = map (\<lambda>i. k + int i) [0..<length ts]"
  unfolding pair_ids_def by (rule number_targets_ids)

lemma old_run_ids:
  "acct_ok d \<Longrightarrow> r \<in> set (db_runs d) \<Longrightarrow> run_id r \<notin> set (pair_ids (number_targets (seq_run d) ts))"
  by (auto simp: pair_ids_number_targets acct_ok_def keys_ok_def list_all_iff)

lemma spec_for_create_rows [simp]:
  assumes "create_rows j' sid' sname now ts d = (bid, pairs, d1)"
  shows "spec_for S d1 dev j rid sid g cred = spec_for S d dev j rid sid g cred"
proof -
  have "db_credentials d1 = db_credentials d" "db_platforms d1 = db_platforms d"
    "db_parser_templates d1 = db_parser_templates d"
    using assms by (auto simp: create_rows_def Let_def)
  then have "get_credential i d1 = get_credential i d" "get_platform i d1 = get_platform i d"
    "get_parser i d1 = get_parser i d" for i
    by (simp_all add: get_credential_def get_platform_def get_parser_def)
  then have "device_credential d1 dev = device_credential d dev"
    "group_default_credential d1 g' = group_default_credential d g'"
    "device_custom_platform d1 dev = device_custom_platform d dev"
    "job_parser_template d1 j = job_parser_template d j" for g'
    by (simp_all add: device_credential_def group_default_credential_def device_custom_platform_def
        job_parser_template_def follow_def)
  then show ?thesis by (simp only: spec_for_def effective_credential_def)
qed

lemma spec_for_reject_unresolved:
  "spec_for S (reject_unresolved now bid zs d) dev j rid sid g cred = spec_for S d dev j rid sid g cred"
proof (induction zs arbitrary: d)
  case Nil
  then show ?case by (simp add: reject_unresolved_def)
next
  case (Cons z zs)
  obtain dv h k so where z: "z = ((dv, h, k), so)" by (cases z) auto
  show ?case
    using Cons [of "if so = None then fail_run k ''no credential available'' now bid d else d"]
    by (cases so) (simp_all add: z reject_unresolved_def)
qed

text \<open>A firing that passes the capacity check is the creation of its rows and the publishing loop.\<close>

lemma fire_job_admitted:
  assumes "high_water st = Inr hw"
    and "check_capacity B st hw (count_streams st (device_group_pairs d j) []) q = (Inr None, q1)"
    and "create_rows j sid sname now (device_group_pairs d j) d = (bid, pairs, d1)"
  shows "fire_job B C S st now j sid sname (d, q)
    = seq (publish_all B C S st j sid (default_credential d) now bid pairs) (\<lambda>_. ret bid) (d1, q1)"
  by (simp add: fire_job_def Let_def assms) (simp add: seq_def on_broker_def assms)

text \<open>The runs and the batch after the first targets have been handled.\<close>

lemma rejected_rows:
  assumes ok: "acct_ok d" and c: "create_rows j sid sname now ts d = (bid, pairs, d1)"
    and len: "length sos \<le> length ts"
  shows "life_of (reject_unresolved now bid (zip pairs sos) d1) = life_of d @ map
      (\<lambda>i. (seq_run d + int i, Some (seq_batch d),
        if i < length sos \<and> sos ! i = None then Failed else Pending)) [0..<length ts]"
    and "get_batch bid (reject_unresolved now bid (zip pairs sos) d1) =
      Some ((new_batch bid j sid sname (length ts) now)\<lparr>bat_failed := count_rows (\<lambda>so. so = None) sos\<rparr>)"
proof -
  note rows = create_rows_runs [OF c]
  let ?f = "\<lambda>r. if \<exists>dev g. ((dev, g, run_id r), None) \<in> set (zip pairs sos)
     then r\<lparr>run_status := Failed, run_error := Some ''no credential available'', run_finished_at := Some now\<rparr>
     else r"
  have lp: "length pairs = length ts" using pair_ids_number_targets [of "seq_run d" ts]
    by (metis length_map length_upt diff_zero pair_ids_def rows(3))
  have old: "?f r = r" if "r \<in> set (db_runs d)" for r
  proof -
    have "run_id r \<notin> set (pair_ids pairs)" using old_run_ids [OF ok that] rows(3) by simp
    then show ?thesis by (force simp: pair_ids_def dest: set_zip_leftD)
  qed
  have new: "((dev, g, seq_run d + int i), None) \<in> set (zip pairs sos) \<longleftrightarrow>
      i < length sos \<and> sos ! i = None \<and> (dev, g) = ts ! i" if "i < length ts" for dev g i
    using that len lp number_targets_nth [OF that, of "seq_run d"]
    by (auto simp: set_zip rows(3) number_targets_nth intro!: exI [of _ i]) (metis fst_conv snd_conv)+
  have "map (\<lambda>(dev, g, rid). run_view (?f (new_run now rid j sid bid (dev_id dev)))) pairs = map
      (\<lambda>i. (seq_run d + int i, Some (seq_batch d),
        if i < length sos \<and> sos ! i = None then Failed else Pending)) [0..<length ts]"
  proof (rule nth_equalityI)
    fix i
    assume "i < length (map (\<lambda>(dev, g, rid). run_view (?f (new_run now rid j sid bid (dev_id dev)))) pairs)"
    then have i: "i < length ts" by (simp add: lp)
    have "pairs ! i = (fst (ts ! i), snd (ts ! i), seq_run d + int i)"
      using number_targets_nth [OF i] rows(3) by simp
    then show "map (\<lambda>(dev, g, rid). run_view (?f (new_run now rid j sid bid (dev_id dev)))) pairs ! i = map
      (\<lambda>i. (seq_run d + int i, Some (seq_batch d),
        if i < length sos \<and> sos ! i = None then Failed else Pending)) [0..<length ts] ! i"
      using new [OF i] i lp by (cases "ts ! i") (simp add: run_view_def new_run_def rows(2))
  qed (simp add: lp)
  then show "life_of (reject_unresolved now bid (zip pairs sos) d1) = life_of d @ map
      (\<lambda>i. (seq_run d + int i, Some (seq_batch d),
        if i < length sos \<and> sos ! i = None then Failed else Pending)) [0..<length ts]"
    unfolding life_of_def runs_fold_fail rows(1) by (simp add: old comp_def case_prod_unfold)
  have "count_rows (\<lambda>z. snd z = None) (zip pairs sos) = count_rows (\<lambda>so. so = None) (map snd (zip pairs sos))"
    by (simp add: count_rows_map comp_def)
  also have "map snd (zip pairs sos) = sos" using len lp by (simp add: map_snd_zip_take)
  finally have n: "count_rows (\<lambda>z. snd z = None) (zip pairs sos) = count_rows (\<lambda>so. so = None) sos" .
  have "bid \<notin> bat_id ` set (db_batches d)"
    using ok by (force simp: acct_ok_def keys_ok_def list_all_iff rows(2))
  then have "get_batch bid d1 = Some (new_batch bid j sid sname (length ts) now)"
    using c by (auto simp: create_rows_def Let_def get_batch_def get_row_append get_row_None_iff [THEN iffD2])
      (simp_all add: get_row_def new_batch_def)
  then show "get_batch bid (reject_unresolved now bid (zip pairs sos) d1) =
      Some ((new_batch bid j sid sname (length ts) now)\<lparr>bat_failed := count_rows (\<lambda>so. so = None) sos\<rparr>)"
    by (simp add: get_batch_reject_unresolved n new_batch_def)
qed

section \<open>The sample firing\<close>

definition demo_spec2 :: job_spec where
  "demo_spec2 = demo_spec\<lparr>sp_run_id := 2, sp_device_id := 2, sp_device_name := ''r2''\<rparr>"

definition demo_sos :: "job_spec option list" where
  "demo_sos = [Some demo_spec, Some demo_spec2]"

definition demo_sent :: server where
  "demo_sent = snd (send_all demo_broker demo_codec default_settings (somes demo_sos) empty_server)"

text \<open>The same inventory, the second device with a credential of its own in a vault that is sealed.\<close>

definition vault_db :: db where
  "vault_db = demo_db\<lparr>
     db_devices := [demo_device 1 ''r1'', (demo_device 2 ''r2'')\<lparr>dev_credential_id := Some 2\<rparr>],
     db_credentials := [demo_credential, demo_credential\<lparr>cred_id := 2, cred_provider := Prov_vault,
       cred_ref := Some ''kv/lab'', cred_is_default := False\<rparr>]\<rparr>"

definition failing_vault :: secret_store where
  "failing_vault = demo_secrets\<lparr>vault_read := (\<lambda>m p. Inl (Exn ''RuntimeError'' ''sealed''))\<rparr>"

lemma demo_high_water: "high_water default_settings = Inr 8000"
  by code_simp

lemma demo_admitted:
  "check_capacity demo_broker default_settings 8000
     (count_streams default_settings (device_group_pairs demo_db demo_job) []) empty_server
   = (Inr None, empty_server)"
  by code_simp

lemma demo_targets:
  "device_group_pairs demo_db demo_job
   = [(demo_device 1 ''r1'', Some demo_group), (demo_device 2 ''r2'', Some demo_group)]"
  by code_simp

lemma demo_specs:
  "list_all2 (\<lambda>(dev, g, rid) so. spec_for demo_secrets demo_db dev demo_job rid None g
       (default_credential demo_db) = Inr so)
     (number_targets (seq_run demo_db) (device_group_pairs demo_db demo_job)) demo_sos"
  by code_simp

section \<open>A firing\<close>

text \<open>What a firing that passes the capacity check leaves.\<close>

lemma fire_job_effect:
  assumes ok: "acct_ok d" and hw: "high_water st = Inr hw"
    and cap: "check_capacity B st hw (count_streams st (device_group_pairs d j) []) q = (Inr None, q1)"
    and specs: "list_all2 (\<lambda>(dev, g, rid) so. spec_for S d dev j rid sid g (default_credential d) = Inr so)
      (number_targets (seq_run d) (device_group_pairs d j)) sos"
    and sent: "send_all B C st (somes sos) q1 = (Inr (), q')"
  shows "\<exists>d'. fire_job B C S st now j sid sname (d, q) = (Inr (seq_batch d), (d', q'))
    \<and> life_of d' = life_of d @ map (\<lambda>i. (seq_run d + int i, Some (seq_batch d),
        if sos ! i = None then Failed else Pending)) [0..<length (device_group_pairs d j)]
    \<and> get_batch (seq_batch d) d' = Some ((new_batch (seq_batch d) j sid sname
        (length (device_group_pairs d j)) now)\<lparr>bat_failed := count_rows (\<lambda>so. so = None) sos\<rparr>)"
proof -
  let ?ts = "device_group_pairs d j"
  obtain bid pairs d1 where c: "create_rows j sid sname now ?ts d = (bid, pairs, d1)"
    by (metis prod.exhaust)
  note rows = create_rows_runs [OF c]
  have len: "length sos = length ?ts"
    using list_all2_lengthD [OF specs] pair_ids_number_targets [of "seq_run d" ?ts]
    by (metis length_map length_upt diff_zero pair_ids_def)
  have "list_all2 (\<lambda>(dev, g, rid) so. spec_for S d1 dev j rid sid g (default_credential d) = Inr so) pairs sos"
    using specs by (simp add: rows(3) spec_for_create_rows [OF c])
  from publish_all_append [OF this sent, where rest = "[]"]
  have "publish_all B C S st j sid (default_credential d) now bid pairs (d1, q1)
      = (Inr (), (reject_unresolved now bid (zip pairs sos) d1, q'))"
    by simp
  then have "fire_job B C S st now j sid sname (d, q)
      = (Inr (seq_batch d), (reject_unresolved now bid (zip pairs sos) d1, q'))"
    unfolding fire_job_admitted [OF hw cap c] by (simp add: seq_def rows(2))
  then show ?thesis
    using rejected_rows [OF ok c, of sos] len by (auto simp: rows(2))
qed

text \<open>
  C14: A firing that passes the capacity check creates one run per selected device, in order, in one
  new batch, and publishes exactly the specs of the devices that have a credential, in that order and
  nothing else; the runs of the other devices are failed and counted. The batch is left unfinished,
  also when nothing was published.
\<close>

theorem firing_publishes_specs_in_order:
  assumes ok: "acct_ok d" and hw: "high_water st = Inr hw"
    and cap: "check_capacity B st hw (count_streams st (device_group_pairs d j) []) q = (Inr None, q1)"
    and specs: "list_all2 (\<lambda>(dev, g, rid) so. spec_for S d dev j rid sid g (default_credential d) = Inr so)
      (number_targets (seq_run d) (device_group_pairs d j)) sos"
    and sent: "send_all B C st (somes sos) q1 = (Inr (), q')"
  shows "\<exists>d'. fire_job B C S st now j sid sname (d, q) = (Inr (seq_batch d), (d', q'))
    \<and> life_of d' = life_of d @ map (\<lambda>i. (seq_run d + int i, Some (seq_batch d),
        if sos ! i = None then Failed else Pending)) [0..<length (device_group_pairs d j)]
    \<and> get_batch (seq_batch d) d' = Some ((new_batch (seq_batch d) j sid sname
        (length (device_group_pairs d j)) now)\<lparr>bat_failed := count_rows (\<lambda>so. so = None) sos\<rparr>)"
  by (rule fire_job_effect [OF ok hw cap specs sent])

theorem firing_publishes_specs_in_order_witness:
  "\<exists>d'. fire_job demo_broker demo_codec demo_secrets default_settings 10 demo_job None None
       (demo_db, empty_server) = (Inr 1, (d', demo_sent))
    \<and> life_of d' = [(1, Some 1, Pending), (2, Some 1, Pending)]"
proof -
  have l: "life_of demo_db = []" "seq_run demo_db = 1" "seq_batch demo_db = 1" by code_simp+
  have s: "send_all demo_broker demo_codec default_settings (somes demo_sos) empty_server = (Inr (), demo_sent)"
    by code_simp
  have n: "demo_sos ! 0 \<noteq> None" "demo_sos ! Suc 0 \<noteq> None" by (simp_all add: demo_sos_def)
  show ?thesis
    using firing_publishes_specs_in_order [OF acct_ok_demo demo_high_water demo_admitted demo_specs s,
        of 10 None]
    by (auto simp: l demo_targets n upt_rec)
qed

text \<open>
  C15: When a credential provider raises for one device, the firing raises there: the specs of the
  devices before it are already on their streams, those after it are never published, and the
  runs of all of them are in the database the exception leaves.
\<close>

theorem raising_resolver_stops_firing:
  assumes ok: "acct_ok d" and hw: "high_water st = Inr hw"
    and cap: "check_capacity B st hw (count_streams st (device_group_pairs d j) []) q = (Inr None, q1)"
    and split: "number_targets (seq_run d) (device_group_pairs d j) = ps @ (dev, g, rid) # rest"
    and specs: "list_all2 (\<lambda>(dev, g, rid) so. spec_for S d dev j rid sid g (default_credential d) = Inr so) ps sos"
    and sent: "send_all B C st (somes sos) q1 = (Inr (), q')"
    and raises: "spec_for S d dev j rid sid g (default_credential d) = Inl e"
  shows "\<exists>d'. fire_job B C S st now j sid sname (d, q) = (Inl e, (d', q'))
    \<and> life_of d' = life_of d @ map (\<lambda>i. (seq_run d + int i, Some (seq_batch d),
        if i < length ps \<and> sos ! i = None then Failed else Pending)) [0..<length (device_group_pairs d j)]"
proof -
  let ?ts = "device_group_pairs d j"
  obtain bid pairs d1 where c: "create_rows j sid sname now ?ts d = (bid, pairs, d1)"
    by (metis prod.exhaust)
  note rows = create_rows_runs [OF c]
  have pairs: "pairs = ps @ (dev, g, rid) # rest" using rows(3) split by simp
  have len: "length sos = length ps" using list_all2_lengthD [OF specs] by simp
  have "length ps \<le> length ?ts"
    using pair_ids_number_targets [of "seq_run d" ?ts] split
    by (metis length_map length_upt diff_zero pair_ids_def length_append le_add1)
  have all: "list_all2 (\<lambda>(dev, g, rid) so. spec_for S d1 dev j rid sid g (default_credential d) = Inr so) ps sos"
    using specs by (simp add: spec_for_create_rows [OF c])
  let ?d = "reject_unresolved now bid (zip ps sos) d1"
  have spec: "spec_for S ?d dev j rid sid g (default_credential d) = Inl e"
    using raises by (simp add: spec_for_reject_unresolved spec_for_create_rows [OF c])
  have "publish_all B C S st j sid (default_credential d) now bid pairs (d1, q1) = (Inl e, (?d, q'))"
    unfolding pairs publish_all_append [OF all sent] by (simp add: spec)
  then have "fire_job B C S st now j sid sname (d, q) = (Inl e, (?d, q'))"
    unfolding fire_job_admitted [OF hw cap c] by (simp add: seq_def)
  moreover have "zip ps sos = zip pairs sos" by (simp add: pairs zip_append1 len)
  ultimately show ?thesis
    using rejected_rows(1) [OF ok c, of sos] len \<open>length ps \<le> length ?ts\<close> by auto
qed

theorem raising_resolver_stops_firing_witness:
  "\<exists>d' q'. fire_job demo_broker demo_codec failing_vault default_settings 10 demo_job None None
       (vault_db, empty_server) = (Inl (Exn ''RuntimeError'' ''sealed''), (d', q'))
    \<and> life_of d' = [(1, Some 1, Pending), (2, Some 1, Pending)]"
proof -
  let ?ps = "take 1 (number_targets (seq_run vault_db) (device_group_pairs vault_db demo_job))"
  have ok: "acct_ok vault_db" by (simp add: acct_ok_def keys_ok_def vault_db_def demo_db_def empty_db_def)
  have cap: "check_capacity demo_broker default_settings 8000
     (count_streams default_settings (device_group_pairs vault_db demo_job) []) empty_server
     = (Inr None, empty_server)" by code_simp
  have split: "number_targets (seq_run vault_db) (device_group_pairs vault_db demo_job)
     = ?ps @ [((demo_device 2 ''r2'')\<lparr>dev_credential_id := Some 2\<rparr>, Some demo_group, 2)]" by code_simp
  have specs: "list_all2 (\<lambda>(dev, g, rid) so. spec_for failing_vault vault_db dev demo_job rid None g
     (default_credential vault_db) = Inr so) ?ps [Some demo_spec]" by code_simp
  have l: "life_of vault_db = []" "seq_run vault_db = 1" "seq_batch vault_db = 1" "length ?ps = 1"
    "length (device_group_pairs vault_db demo_job) = 2" by code_simp+
  obtain q' where s: "send_all demo_broker demo_codec default_settings (somes [Some demo_spec]) empty_server
     = (Inr (), q')" by (simp add: seq_def publish_job_def demo_broker_def)
  have raises: "spec_for failing_vault vault_db ((demo_device 2 ''r2'')\<lparr>dev_credential_id := Some 2\<rparr>) demo_job 2 None
     (Some demo_group) (default_credential vault_db) = Inl (Exn ''RuntimeError'' ''sealed'')" by code_simp
  show ?thesis
    using raising_resolver_stops_firing [OF ok demo_high_water cap split specs s raises, of 10 None]
    by (auto simp: l numeral_2_eq_2)
qed

text \<open>
  C16: A firing that would put a stream over the high-water mark raises before it has created a row
  or published a spec: the look-up of the undefined name \<open>log\<close> fails.
\<close>

theorem over_capacity_firing_raises:
  assumes hw: "high_water st = Inr hw"
    and split: "count_streams st (device_group_pairs d j) [] = pre @ (s, n) # post"
    and pass: "check_capacity B st hw pre q = (Inr None, q1)"
    and full: "job_stream_pressure B st s q1 = (Inr (u, len), q2)" "u + n > hw"
  shows "fire_job B C S st now j sid sname (d, q)
    = (Inl (Exn ''NameError'' ''name 'log' is not defined''), (d, q2))"
proof -
  have "check_capacity B st hw (pre @ (s, n) # post) q
      = (Inl (Exn ''NameError'' ''name 'log' is not defined''), q2)"
    using pass
  proof (induction pre arbitrary: q)
    case Nil
    then show ?case using full by (simp add: seq_def log_warning_def)
  next
    case (Cons p pre)
    then show ?case
      by (cases p) (auto simp: seq_def log_warning_def split: prod.splits sum.splits if_splits)
  qed
  then show ?thesis
    by (simp add: fire_job_def Let_def seq_def on_broker_def hw split)
qed

theorem over_capacity_firing_raises_witness:
  "fire_job demo_broker demo_codec demo_secrets (default_settings\<lparr>set_stream_max_len := 1\<rparr>) 10 demo_job None None
     (demo_db, empty_server)
   = (Inl (Exn ''NameError'' ''name 'log' is not defined''), (demo_db, empty_server))"
proof -
  let ?st = "default_settings\<lparr>set_stream_max_len := 1\<rparr>"
  have hw: "high_water ?st = Inr 0" by code_simp
  have c: "count_streams ?st (device_group_pairs demo_db demo_job) [] = [] @ (set_job_stream ?st, 2) # []"
    by code_simp
  have p: "job_stream_pressure demo_broker ?st (set_job_stream ?st) empty_server = (Inr (0, 1), empty_server)"
    by code_simp
  show ?thesis by (rule over_capacity_firing_raises [OF hw c _ p]) simp_all
qed

section \<open>Selection and routing\<close>

lemma find_concat_pairs:
  assumes "find P (concat (map (\<lambda>g. map (\<lambda>v. (v, Some g)) (D g)) gs) @ map (\<lambda>v. (v, None)) vs) = Some t"
    and "\<And>v g g'. P (v, g) \<longleftrightarrow> P (v, g')"
  shows "snd t = find (\<lambda>g. \<exists>v \<in> set (D g). P (v, None)) gs"
  using assms(1)
proof (induction gs)
  case Nil
  then show ?case by (auto simp: find_Some_iff)
next
  case (Cons g gs)
  show ?case
  proof (cases "find P (map (\<lambda>v. (v, Some g)) (D g))")
    case None
    moreover have "find P (map (\<lambda>v. (v, Some g)) (D g) @ ys) = find P ys" for ys
      using None by (simp add: find_append)
    ultimately show ?thesis
      using Cons assms(2) by (simp add: find_None_iff) blast
  next
    case (Some t')
    then have "t' = t" using Cons.prems by (simp add: find_append)
    with Some show ?thesis
      using assms(2) by (force simp: find_Some_iff)
  qed
qed

text \<open>
  C17: A firing selects every enabled device of the job's groups and of its own list, each once; a
  device is fired for the first group of the job that holds it, for no group if it is only listed.
\<close>

theorem device_selection:
  "distinct (map (dev_id \<circ> fst) (device_group_pairs d j))
   \<and> dev_id ` fst ` set (device_group_pairs d j)
     = dev_id ` {v. dev_enabled v \<and> (v \<in> set (job_devices d j) \<or> v \<in> (\<Union>g \<in> set (job_groups d j). set (group_devices d g)))}
   \<and> set (device_group_pairs d j) \<subseteq> {(v, h). dev_enabled v \<and> h = find (\<lambda>g. \<exists>w \<in> set (group_devices d g).
         dev_enabled w \<and> dev_id w = dev_id v) (job_groups d j)}"
proof (intro conjI)
  show "distinct (map (dev_id \<circ> fst) (device_group_pairs d j))"
    unfolding device_group_pairs_collect
    using collector.gather_distinct [of target_key target_ok "candidates d j"]
    by (simp add: target_key_def [abs_def] comp_def)
  show "dev_id ` fst ` set (device_group_pairs d j)
     = dev_id ` {v. dev_enabled v \<and> (v \<in> set (job_devices d j) \<or> v \<in> (\<Union>g \<in> set (job_groups d j). set (group_devices d g)))}"
    by (rule selected_devices)
  show "set (device_group_pairs d j) \<subseteq> {(v, h). dev_enabled v \<and> h = find (\<lambda>g. \<exists>w \<in> set (group_devices d g).
         dev_enabled w \<and> dev_id w = dev_id v) (job_groups d j)}"
  proof
    fix t
    assume t: "t \<in> set (device_group_pairs d j)"
    let ?P = "\<lambda>y. target_ok y \<and> target_key y = target_key t"
    from collector.gather_first [OF t [unfolded device_group_pairs_collect]]
    have "target_ok t" and "find ?P (candidates d j) = Some t" by auto
    then have "snd t = find (\<lambda>g. \<exists>v \<in> set (group_devices d g). ?P (v, None)) (job_groups d j)"
      by (intro find_concat_pairs) (simp_all add: candidates_def target_ok_def target_key_def)
    with \<open>target_ok t\<close> show "t \<in> {(v, h). dev_enabled v \<and> h = find (\<lambda>g. \<exists>w \<in> set (group_devices d g).
         dev_enabled w \<and> dev_id w = dev_id v) (job_groups d j)}"
      by (cases t) (simp add: target_ok_def target_key_def)
  qed
qed

text \<open>
  The pre-flight check counts, for every stream, the targets that are routed to it, and lists
  each such stream once.
\<close>

lemma capacity_counts_targets:
  "distinct (map fst (count_streams st ts []))
   \<and> map_of (count_streams st ts []) s
     = (let n = count_rows (\<lambda>(dev, g). job_stream_for st (effective_pool dev g) = s) ts
        in if n = 0 then None else Some n)"
proof -
  have "distinct (map fst cs) \<Longrightarrow> distinct (map fst (count_streams st ts cs))" for cs
    by (induction st ts cs rule: count_streams.induct) (simp_all add: Let_def distinct_dict_set)
  moreover have "map_of (count_streams st ts cs) s
     = (let n = count_rows (\<lambda>(dev, g). job_stream_for st (effective_pool dev g) = s) ts
        in if n = 0 then map_of cs s else Some (n + (case map_of cs s of None \<Rightarrow> 0 | Some k \<Rightarrow> k)))" for cs
  proof (induction st ts cs rule: count_streams.induct)
    case (1 st counts)
    then show ?case by simp
  next
    case (2 st dev g ts counts)
    define n where "n = count_rows (\<lambda>(dev, g). job_stream_for st (effective_pool dev g) = s) ts"
    have "0 \<le> n" by (simp add: n_def)
    with 2 show ?case
      by (cases "job_stream_for st (effective_pool dev g) = s")
        (auto simp: Let_def n_def [symmetric] split: option.splits)
  qed
  ultimately show ?thesis by (simp add: Let_def)
qed

text \<open>
  C18: A spec is put on the stream a worker reads exactly if the worker serves the effective pool of
  the device: the device's own pool, else that of the group it is fired for, else the common one.
\<close>

theorem spec_reaches_its_pool:
  assumes "spec_for S d dev j rid sid g cred = Inr (Some spec)"
    and "set_job_stream wst = set_job_stream st"
  shows "spec_stream st spec = effective_job_stream wst \<longleftrightarrow>
    or_none (set_worker_pool wst) = (if truthy (dev_worker_pool dev) then dev_worker_pool dev
      else Option.bind g (\<lambda>g. or_none (grp_worker_pool g)))"
proof -
  have "sp_worker_pool spec = effective_pool dev g"
    using assms(1) by (auto simp: spec_for_def bind_result_Inr_iff Let_def split: option.splits)
  moreover have "effective_job_stream wst = job_stream_for st (set_worker_pool wst)"
    using assms(2) by (simp add: effective_job_stream_for job_stream_for_def)
  ultimately have "spec_stream st spec = effective_job_stream wst
      \<longleftrightarrow> or_none (effective_pool dev g) = or_none (set_worker_pool wst)"
    by (simp add: spec_stream_def job_stream_for_eq_iff)
  then show ?thesis
    by (auto simp: effective_pool_def or_none_truthy split: option.splits)
qed

theorem spec_reaches_its_pool_witness:
  "spec_stream default_settings demo_spec = effective_job_stream default_settings"
proof -
  have s: "spec_for demo_secrets demo_db (demo_device 1 ''r1'') demo_job 1 None None (Some demo_credential)
      = Inr (Some demo_spec)" by code_simp
  have p: "set_worker_pool default_settings = None" "dev_worker_pool (demo_device 1 ''r1'') = None" by code_simp+
  show ?thesis using spec_reaches_its_pool [OF s, of default_settings default_settings] by (simp add: p)
qed

text \<open>
  A reader gets the messages that were published, with their ids and in order: entries without
  data, or whose data does not decode, are skipped wherever they stand and stop nothing.
\<close>

lemma published_messages_are_read:
  assumes "\<And>i v. (i, v) \<in> set msgs \<Longrightarrow> load (dump v) = Some v \<and> dump v \<noteq> []"
    and "filter (\<lambda>(i, fs). truthy (map_of fs ''data'') \<and> load (the (map_of fs ''data'')) \<noteq> None) es
      = map (\<lambda>(i, v). (i, [(''data'', dump v)])) msgs"
  shows "unpack load [(stream, es)] = msgs"
proof -
  let ?ok = "\<lambda>(i, fs). truthy (map_of fs ''data'') \<and> load (the (map_of fs ''data'')) \<noteq> None"
  have "concat (map (unpack_entry load) es) = concat (map (unpack_entry load) (filter ?ok es))"
    by (induction es) (auto simp: unpack_entry_def split: option.splits if_splits)
  also have "\<dots> = msgs"
    unfolding assms(2) using assms(1)
  proof (induction msgs)
    case Nil
    then show ?case by simp
  next
    case (Cons m msgs)
    have "load (dump (snd m)) = Some (snd m) \<and> dump (snd m) \<noteq> []"
      by (rule Cons.prems [of "fst m"]) simp
    then have "unpack_entry load (case m of (i, v) \<Rightarrow> (i, [(''data'', dump v)])) = [m]"
      by (cases m) (simp add: unpack_entry_def)
    moreover have "concat (map (unpack_entry load) (map (\<lambda>(i, v). (i, [(''data'', dump v)])) msgs)) = msgs"
      by (rule Cons.IH) (metis Cons.prems list.set_intros(2))
    ultimately show ?case by simp
  qed
  finally show ?thesis by (simp add: unpack_def)
qed

lemma published_messages_are_read_witness:
  "unpack (\<lambda>t. if t = ''spec'' then Some demo_spec else None)
     [(''jobs'', [(''0'', []), (''1'', [(''data'', ''spec'')]), (''2'', [(''data'', ''?'')])])] = [(''1'', demo_spec)]"
  by (rule published_messages_are_read [where dump = "\<lambda>_. ''spec''"]) auto

end
