(* ===== verification/Delivery.thy ===== *)
theory Delivery
  imports Samples
begin

text \<open>
  When jobs run and what becomes of them: the properties of the scheduler's pass, of the worker and of
  the credentials it gets, each with a witness.
\<close>

section \<open>Samples\<close>

text \<open>A device library: every command is answered by its echo and one line.\<close>

definition demo_lib :: "(nat, nat) device_lib" where
  "demo_lib = \<lparr>
     cli_new = (\<lambda>c w. (Inr 0, w)), cli_open = (\<lambda>h w. (Inr (), w)),
     cli_send = (\<lambda>h b cmd w. (Inr \<lparr>rp_result = cmd @ [CR, LF] @ ''hostname r1  '' @ [LF, LF], rp_failed = False\<rparr>, w + 1)),
     cli_close = (\<lambda>h w. (Inr (), w)), netconf_new = (\<lambda>c w. (Inr 0, w)), netconf_open = (\<lambda>h w. (Inr (), w)),
     netconf_rpc = (\<lambda>h r w. (Inr \<lparr>rp_result = r, rp_failed = False\<rparr>, w + 1)),
     netconf_close = (\<lambda>h w. (Inr (), w)), temp_file = (\<lambda>t w. (Inr ''tmp'', w)), unlink = (\<lambda>p w. (Inr (), w)),
     bundled_definition = (\<lambda>p. None), now_iso = (\<lambda>w. ''now''), perf_ms = int, traceback = (\<lambda>e. []),
     repr_float = (\<lambda>f. []), nvd_fetch = (\<lambda>c. Inr PNone), validation_text = (\<lambda>v. [])\<rparr>"

definition demo_material :: credential_material where
  "demo_material = the (sp_credential_material demo_spec)"

definition demo_answer :: job_result where
  "demo_answer = fst (answer demo_lib demo_engines default_settings demo_spec 0)"

text \<open>A schedule that is due at instant 100, and a cron library whose schedules recur after 60.\<close>

definition demo_schedule :: schedule where
  "demo_schedule = \<lparr>sch_id = 1, sch_name = ''hourly'', sch_description = None, sch_job_id = Some 1,
     sch_cron = ''0 * * * *'', sch_timezone = ''UTC'', sch_enabled = True, sch_skip_next_run = False, sch_last_run_at = None,
     sch_next_run_at = Some 90\<rparr>"

definition demo_cron :: cron_lib where
  "demo_cron = \<lparr>zone_known = (\<lambda>z. True), cron_next = (\<lambda>c z t. Inr (t + 60))\<rparr>"

definition scheduled_db :: db where
  "scheduled_db = demo_db\<lparr>db_schedules := [demo_schedule]\<rparr>"

definition demo_sent_twice :: server where
  "demo_sent_twice = snd (seq (publish_job demo_broker demo_codec default_settings demo_spec)
     (\<lambda>i. publish_job demo_broker demo_codec default_settings demo_spec) empty_server)"

section \<open>Scheduling\<close>

text \<open>
  C19: A pass of the scheduler that ends moves every enabled schedule that was due, fired or not, to
  its next instant and clears its skip mark, gives an instant to those that had none, and touches no
  other schedule: a firing that fails cannot pin its schedule in the past.
\<close>

theorem pass_advances_due_schedules:
  assumes "distinct (map sch_id (db_schedules d))"
    and "fire_due L B C S st now (d, q) = (Inr n, (d', q'))"
  shows "db_schedules d' = map (\<lambda>s. if \<not> sch_enabled s then s
      else case sch_next_run_at s of
        None \<Rightarrow> s\<lparr>sch_next_run_at := Some (the_next L now s)\<rparr>
      | Some planned \<Rightarrow> if planned > now then s
          else s\<lparr>sch_skip_next_run := False, sch_last_run_at := Some now,
                 sch_next_run_at := Some (the_next L now s)\<rparr>) (db_schedules d)"
proof -
  let ?ss = "filter sch_enabled (db_schedules d)"
  have "db_schedules d' = map (\<lambda>x. if sch_id x \<in> sch_id ` set ?ss
      then advanced now (the_next L now x) x else x) (db_schedules d)"
    by (rule fire_each_advances [OF assms(1)])
      (use assms in \<open>auto simp: fire_due_def distinct_map intro: inj_on_subset\<close>)
  moreover have "sch_id x \<in> sch_id ` set ?ss \<longleftrightarrow> sch_enabled x" if "x \<in> set (db_schedules d)" for x
    using that assms(1) by (auto simp: distinct_map dest: inj_onD)
  ultimately show ?thesis
    by (auto simp: advanced_def set_next_def mark_skipped_def mark_run_def split: option.split)
qed

theorem pass_advances_due_schedules_witness:
  "\<exists>d'. fst (snd (fire_due demo_cron demo_broker demo_codec demo_secrets default_settings 100
       (scheduled_db, empty_server))) = d'
     \<and> map sch_next_run_at (db_schedules d') = [Some 160]"
proof -
  let ?r = "fire_due demo_cron demo_broker demo_codec demo_secrets default_settings 100 (scheduled_db, empty_server)"
  have "fst ?r = Inr 2" by code_simp
  then obtain d' q' where r: "?r = (Inr 2, (d', q'))" by (metis prod.collapse)
  have s: "db_schedules scheduled_db = [demo_schedule]" by (simp add: scheduled_db_def)
  from pass_advances_due_schedules [OF _ r] show ?thesis
    by (simp add: s r) (simp add: demo_schedule_def the_next_def next_fire_def demo_cron_def)
qed

text \<open>
  C20: What was fired is not fired again: when every enabled schedule's next instant lies after the
  instant of the pass, another pass at that instant queues nothing and changes neither the database
  nor the server.
\<close>

theorem second_pass_is_idle:
  assumes "distinct (map sch_id (db_schedules d))"
    and "fire_due L B C S st now (d, q) = (Inr n, (d', q'))"
    and "\<And>s. s \<in> set (db_schedules d) \<Longrightarrow> sch_enabled s \<Longrightarrow> now < the_next L now s"
  shows "fire_due L B C S st now (d', q') = (Inr 0, (d', q'))"
proof -
  let ?ss = "filter sch_enabled (db_schedules d)"
  have adv: "db_schedules d' = map (\<lambda>x. if sch_id x \<in> sch_id ` set ?ss
      then advanced now (the_next L now x) x else x) (db_schedules d)"
    by (rule fire_each_advances [OF assms(1)])
      (use assms in \<open>auto simp: fire_due_def distinct_map intro: inj_on_subset\<close>)
  have keep: "sch_enabled (advanced now t s) \<longleftrightarrow> sch_enabled s" for t s
    by (simp add: advanced_def set_next_def mark_skipped_def mark_run_def split: option.split)
  have "\<exists>planned. sch_next_run_at s = Some planned \<and> now < planned"
    if s: "s \<in> set (db_schedules d')" "sch_enabled s" for s
  proof -
    from s(1) obtain x where x: "x \<in> set (db_schedules d)"
      "s = (if sch_id x \<in> sch_id ` set ?ss then advanced now (the_next L now x) x else x)"
      by (auto simp: adv)
    with s(2) have "sch_enabled x" by (auto simp: keep split: if_splits)
    with x have "s = advanced now (the_next L now x) x" by auto
    then show ?thesis using advanced_later [OF assms(3) [OF x(1) \<open>sch_enabled x\<close>]] by simp
  qed
  then show ?thesis unfolding fire_due_def prod.case by (intro fire_each_idle) auto
qed

theorem second_pass_is_idle_witness:
  "\<exists>d' q'. fire_due demo_cron demo_broker demo_codec demo_secrets default_settings 100 (d', q') = (Inr 0, (d', q'))
     \<and> map sch_enabled (db_schedules d') = [True]"
proof -
  let ?r = "fire_due demo_cron demo_broker demo_codec demo_secrets default_settings 100 (scheduled_db, empty_server)"
  have "fst ?r = Inr 2 \<and> map sch_enabled (db_schedules (fst (snd ?r))) = [True]" by code_simp
  then obtain d' q' where r: "?r = (Inr 2, (d', q'))" "map sch_enabled (db_schedules d') = [True]"
    by (metis prod.collapse)
  have s: "db_schedules scheduled_db = [demo_schedule]" by (simp add: scheduled_db_def)
  have "fire_due demo_cron demo_broker demo_codec demo_secrets default_settings 100 (d', q') = (Inr 0, (d', q'))"
    by (rule second_pass_is_idle [OF _ r(1)])
      (simp_all add: s the_next_def next_fire_def demo_cron_def)
  with r(2) show ?thesis by (intro exI conjI)
qed

text \<open>
  C21: However many replicas of the scheduler run, in whatever order they take their turns, stop and
  are interleaved with the other processes: as long as no replica loses its database connection, at
  most one of them leads, and the turn of a replica while another one leads fires nothing and leaves
  it a follower.
\<close>

theorem one_leader:
  assumes "advisory P" and "cluster_init s0" and "cluster_run P L B C S st s0 es s"
    and "list_all keeps_connection es"
  shows "(\<forall>i j. cl_have s i \<and> cl_have s j \<longrightarrow> i = j)
    \<and> (\<forall>i j now s'. cl_have s j \<and> j \<noteq> i \<and> cluster_step P L B C S st s (Turn i now) s'
        \<longrightarrow> cl_world s' = cl_world s \<and> \<not> cl_have s' i)"
proof -
  have ok: "leader_ok P st s"
    by (rule leader_ok_run [OF assms(1,3,4) leader_ok_init [OF assms(2)]])
  moreover have "cl_world s' = cl_world s \<and> \<not> cl_have s' i"
    if j: "cl_have s j" "j \<noteq> i" and t: "cluster_step P L B C S st s (Turn i now) s'" for i j now s'
  proof -
    have ok': "leader_ok P st s'" by (rule leader_ok_step [OF assms(1) t _ ok]) simp
    from t obtain h l w where s': "s' = s\<lparr>cl_have := (cl_have s)(i := h), cl_locks := l, cl_world := w\<rparr>"
      and it: "scheduler_iteration P L B C S st now (cl_conn s i) (cl_have s i, cl_locks s, cl_world s) = (h, l, w)"
      by (rule cluster_turnE)
    have "cl_have s' j" using j by (simp add: s')
    with ok' j have "\<not> cl_have s' i" by (auto simp: leader_ok_def)
    moreover from this have "\<not> h" by (simp add: s')
    ultimately show ?thesis using scheduler_iteration_cases [OF it] by (auto simp: s')
  qed
  ultimately show ?thesis by (auto simp: leader_ok_def)
qed

text \<open>The lock table of a server: for every key the connection that holds it and how often.\<close>

definition lock_table :: "(int \<Rightarrow> (int \<times> nat) option) lock_server" where
  "lock_table = \<lparr>
     pg_try_lock = (\<lambda>c k l. case l k of
        None \<Rightarrow> (True, l(k \<mapsto> (c, 1)))
      | Some (c', n) \<Rightarrow> if c' = c then (True, l(k \<mapsto> (c, n + 1))) else (False, l)),
     pg_unlock = (\<lambda>c k l. case l k of
        None \<Rightarrow> l
      | Some (c', n) \<Rightarrow> if c' \<noteq> c then l else if n \<le> 1 then l(k := None) else l(k \<mapsto> (c, n - 1))),
     pg_disconnect = (\<lambda>c l k. case l k of None \<Rightarrow> None | Some (c', n) \<Rightarrow> if c' = c then None else Some (c', n)),
     pg_holds = (\<lambda>l k c. \<exists>n. l k = Some (c, n))\<rparr>"

lemma advisory_lock_table: "advisory lock_table"
  by (auto simp: advisory_def lock_table_def split: option.splits if_splits)

text \<open>Two replicas: the first takes its turn and leads, the second follows.\<close>

definition two_replicas :: "(int \<Rightarrow> (int \<times> nat) option, server) cluster" where
  "two_replicas = \<lparr>cl_live = (\<lambda>i. i < 2), cl_have = (\<lambda>i. False), cl_conn = int, cl_locks = (\<lambda>k. None),
     cl_world = (scheduled_db, empty_server)\<rparr>"

theorem one_leader_witness:
  "\<exists>s s'. cluster_step lock_table demo_cron demo_broker demo_codec demo_secrets default_settings two_replicas (Turn 0 100) s
     \<and> cluster_step lock_table demo_cron demo_broker demo_codec demo_secrets default_settings s (Turn 1 100) s'
     \<and> cl_have s 0 \<and> \<not> cl_have s' 1 \<and> cl_world s' = cl_world s"
proof -
  let ?k = "set_scheduler_advisory_lock_id default_settings"
  let ?w = "snd (fire_due demo_cron demo_broker demo_codec demo_secrets default_settings 100 (scheduled_db, empty_server))"
  let ?l = "(\<lambda>k. None)(?k \<mapsto> (0, 1))"
  let ?s = "two_replicas\<lparr>cl_have := (cl_have two_replicas)(0 := True), cl_locks := ?l, cl_world := ?w\<rparr>"
  have "scheduler_iteration lock_table demo_cron demo_broker demo_codec demo_secrets default_settings 100
      (cl_conn two_replicas 0) (cl_have two_replicas 0, cl_locks two_replicas, cl_world two_replicas) = (True, ?l, ?w)"
    by (simp add: two_replicas_def scheduler_iteration_granted try_acquire_lock_def lock_table_def)
  then have t: "cluster_step lock_table demo_cron demo_broker demo_codec demo_secrets default_settings two_replicas (Turn 0 100) ?s"
    by (rule turn [rotated]) (simp add: two_replicas_def)
  have i: "cluster_init two_replicas"
    by (simp add: cluster_init_def two_replicas_def inj_def)
  have r: "cluster_run lock_table demo_cron demo_broker demo_codec demo_secrets default_settings two_replicas [Turn 0 100] ?s"
    by (rule cluster_run.more [OF t cluster_run.none])
  have k: "list_all keeps_connection [Turn 0 100]" by simp
  have h: "cl_have ?s 0" by simp
  have n: "(0::nat) \<noteq> 1" by simp
  have live: "cl_live ?s 1" by (simp add: two_replicas_def)
  obtain h l w where it: "scheduler_iteration lock_table demo_cron demo_broker demo_codec demo_secrets default_settings 100
      (cl_conn ?s 1) (cl_have ?s 1, cl_locks ?s, cl_world ?s) = (h, l, w)"
    by (rule prod_cases3)
  note t' = turn [OF live it]
  from conjunct2 [OF one_leader [OF advisory_lock_table i r k], rule_format, OF conjI [OF h conjI [OF n t']]]
  show ?thesis using t t' h by blast
qed

section \<open>Working\<close>

text \<open>
  C22: Every spec a worker takes is answered once, whatever the device, the parser or the driver do:
  the result names the run and the device of the spec, claims success only without an error and
  without a failed command, and the job is acknowledged after the result is on its stream and not
  when publishing it raised.
\<close>

theorem every_spec_is_answered:
  "\<exists>res w'. answer D E st spec w = (res, w')
    \<and> (jr_run_id res, jr_device_id res, jr_device_name res, jr_kind res)
      = (sp_run_id spec, sp_device_id spec, sp_device_name spec, sp_kind spec)
    \<and> \<not> (jr_success res \<and> (jr_error res \<noteq> None \<or> any_failed (jr_command_results res)))
    \<and> handle D E B C st (i, spec) (w, q) = (case publish_result B C st res q of
        (Inl e, q') \<Rightarrow> (Inl e, (w', q'))
      | (Inr m, q') \<Rightarrow> (fst (ack_job B st i q'), (w', snd (ack_job B st i q'))))"
proof -
  obtain res w' where a: "answer D E st spec w = (res, w')" by (cases "answer D E st spec w")
  then show ?thesis
    using answer_answers [OF a]
    by (auto simp: handle_def seq_def answers_def split: prod.splits sum.splits)
qed

theorem every_spec_is_answered_witness:
  "fst (handle demo_lib demo_engines demo_broker demo_codec default_settings (''0'', demo_spec) (0, empty_server)) = Inr ()
   \<and> jr_run_id (fst (answer demo_lib demo_engines default_settings demo_spec 0)) = 1"
proof -
  obtain res w' where "answer demo_lib demo_engines default_settings demo_spec 0 = (res, w')"
    and "jr_run_id res = sp_run_id demo_spec"
    and h: "handle demo_lib demo_engines demo_broker demo_codec default_settings (''0'', demo_spec) (0, empty_server)
      = (case publish_result demo_broker demo_codec default_settings res empty_server of
          (Inl e, q') \<Rightarrow> (Inl e, (w', q'))
        | (Inr m, q') \<Rightarrow> (fst (ack_job demo_broker default_settings ''0'' q'),
            (w', snd (ack_job demo_broker default_settings ''0'' q'))))"
    using every_spec_is_answered [of demo_lib demo_engines default_settings demo_spec 0 demo_broker demo_codec
        "''0''" empty_server] by auto
  moreover have "sp_run_id demo_spec = 1" by code_simp
  ultimately show ?thesis
    by (simp add: h publish_result_def ack_job_def demo_broker_def seq_def Let_def)
qed

lemma run_commands_all:
  "run_commands D h b cmds acc w = ((None, rs), w') \<Longrightarrow> map cr_command rs = map cr_command acc @ cmds"
proof (induction cmds arbitrary: acc w)
  case Nil
  then show ?case by simp
next
  case (Cons cmd cmds)
  then show ?case by (auto split: prod.splits sum.splits)
qed

lemma cli_session_all:
  "cli_session D h temp b cmds w = (Inr (None, rs), w') \<Longrightarrow> map cr_command rs = cmds"
  by (auto simp: cli_session_def Let_def split: prod.splits sum.splits option.splits dest: run_commands_all)

text \<open>
  C23: A successful result of a command job means that all commands of the spec ran, in order, and
  that none was reported as failed; for a backup the text is the joined output of all of them.
\<close>

theorem success_means_all_commands:
  assumes "answer D E st spec w = (res, w')" and "jr_success res" and "sp_driver_kind spec = ''cli''"
  shows "map cr_command (jr_command_results res) = sp_commands spec
    \<and> filter cr_failed (jr_command_results res) = []
    \<and> (sp_kind spec \<noteq> ''backup'' \<or> sp_commands spec = []
       \<or> jr_config_text res = Some (join [LF] (map cr_output (jr_command_results res))))"
proof -
  from assms obtain m where x: "execute D E st spec m w = (Inr res, w')"
    by (auto simp: answer_def failed_result_def split: option.splits prod.splits sum.splits)
  have ok: "jr_error res = None" "\<not> any_failed (jr_command_results res)"
    using answer_answers [OF assms(1)] assms(2) by (simp_all add: answers_def)
  have all: "map cr_command (jr_command_results res) = sp_commands spec"
    using x assms(3) ok
    by (auto simp: execute_def run_cli_def run_cve_scan_def Let_def checked_Inr
        elim!: seq_Inr_obtain split: prod.splits if_splits dest!: cli_session_all)
  have "jr_config_text res = (if jr_command_results res \<noteq> []
      then Some (join [LF] (map cr_output (jr_command_results res))) else None)" if "sp_kind spec = ''backup''"
    using x assms(3) that
    by (auto simp: execute_def run_cli_def Let_def checked_Inr elim!: seq_Inr_obtain split: prod.splits if_splits)
  with all ok show ?thesis by (auto simp: any_failed_def list_ex_iff filter_empty_conv)
qed

theorem success_means_all_commands_witness:
  "map cr_command (jr_command_results demo_answer) = [''show run''] \<and> jr_config_text demo_answer = Some ''hostname r1''"
proof -
  have a: "answer demo_lib demo_engines default_settings demo_spec 0 = (demo_answer, 1)"
    unfolding demo_answer_def prod_eq_iff fst_conv snd_conv by (intro conjI refl) code_simp
  have ok: "jr_success demo_answer" "sp_driver_kind demo_spec = ''cli''" "sp_commands demo_spec = [''show run'']"
    "jr_config_text demo_answer = Some ''hostname r1''" by code_simp+
  show ?thesis using success_means_all_commands [OF a ok(1,2)] ok by simp
qed

lemma checked_valid: "checked D r = Inr res \<Longrightarrow> valid_parsed (jr_parsed res)"
  by (auto simp: checked_Inr)

lemma answer_valid_parsed:
  assumes "answer D E st spec w = (res, w')"
  shows "valid_parsed (jr_parsed res)"
proof -
  have f: "valid_parsed (jr_parsed (failed_result spec err now))" for err now
    by (simp add: failed_result_def valid_parsed_def)
  have x: "valid_parsed (jr_parsed r)" if "execute D E st spec m w = (Inr r, w1)" for m r w1
    using that
    by (auto simp: execute_def run_cli_def run_netconf_def run_cve_scan_def Let_def
        elim!: seq_Inr_obtain dest!: checked_valid split: prod.splits if_splits)
  show ?thesis
    using assms x f by (auto simp: answer_def split: option.splits prod.splits sum.splits)
qed

text \<open>
  C24: Every result a worker publishes is well formed: what was parsed is missing, a dictionary or a
  list of dictionaries, and the text of a backup holds no carriage return, so that the recorder's file
  reads back as it was sent.
\<close>

theorem answers_are_well_formed:
  assumes "answer D E st spec w = (res, w')"
  shows "(case jr_parsed res of
      None \<Rightarrow> True | Some v \<Rightarrow> v = PNone \<or> is_dict v \<or> (\<exists>xs. v = PList xs \<and> list_all is_dict xs))
    \<and> (jr_kind res \<noteq> ''backup'' \<or> (case jr_config_text res of
      None \<Rightarrow> True | Some t \<Rightarrow> CR \<notin> set t \<and> universal_newlines t = t))"
proof -
  have "universal_newlines t = t \<and> CR \<notin> set t" if "jr_kind res = ''backup''" "jr_config_text res = Some t" for t
    using answer_config_no_CR [OF assms that] by (simp add: universal_newlines_id)
  then show ?thesis
    using answer_valid_parsed [OF assms]
    by (cases "jr_parsed res"; cases "the (jr_parsed res)") (auto simp: valid_parsed_def split: option.split)
qed

theorem answers_are_well_formed_witness:
  "CR \<notin> set (the (jr_config_text demo_answer)) \<and> jr_config_text demo_answer \<noteq> None"
proof -
  have a: "answer demo_lib demo_engines default_settings demo_spec 0 = (demo_answer, 1)"
    unfolding demo_answer_def prod_eq_iff fst_conv snd_conv by (intro conjI refl) code_simp
  have ok: "jr_kind demo_answer = ''backup''" "jr_config_text demo_answer = Some ''hostname r1''" by code_simp+
  from answers_are_well_formed [OF a] show ?thesis by (simp add: ok)
qed

text \<open>
  C25: A normalised configuration has no carriage return, and normalising it again changes nothing,
  unless the stripping of escape sequences has put a new escape character together.
\<close>

theorem normalize_config_idempotent:
  assumes "ESC \<notin> set (normalize_config t)"
  shows "normalize_config (normalize_config t) = normalize_config t \<and> CR \<notin> set (normalize_config t)"
  using normalize_idem [OF assms] normalize_no_CR by simp

theorem normalize_config_idempotent_witness:
  "normalize_config ''hostname r1'' = ''hostname r1'' \<and> CR \<notin> set ''hostname r1''"
proof -
  have "normalize_config (''hostname r1  '' @ [CR, LF, LF]) = ''hostname r1''" by code_simp
  with normalize_config_idempotent [of "''hostname r1  '' @ [CR, LF, LF]"] show ?thesis
    by (simp add: ESC_def)
qed

lemma length_unpack: "length (unpack load es) \<le> sum_list (map (length \<circ> snd) es)"
proof -
  have one: "length (unpack_entry load e) \<le> 1" for e
    by (cases e) (simp add: unpack_entry_def split: option.split)
  have "length (concat (map (unpack_entry load) msgs)) \<le> length msgs" for msgs
  proof (induction msgs)
    case Nil
    then show ?case by simp
  next
    case (Cons m msgs)
    then show ?case using one [of m] by simp
  qed
  then show ?thesis
    by (induction es) (auto simp: unpack_def intro: add_mono)
qed

text \<open>
  C26: The pool of a worker never holds more jobs than its configured concurrency, provided the
  server honours the count of a group read.
\<close>

theorem worker_pool_is_bounded:
  assumes "\<And>g c s n b q es q'. 0 < n \<Longrightarrow> xreadgroup B g c s n b q = (Inr es, q') \<Longrightarrow>
      int (sum_list (map (length \<circ> snd) es)) \<le> n"
    and "int (length pending) \<le> set_worker_concurrency st"
    and "worker_turn B C st consumer finished (pending, q) = (pending', q')"
  shows "int (length pending') \<le> set_worker_concurrency st"
proof -
  let ?kept = "filter (\<lambda>m. \<not> finished (fst m)) pending"
  let ?slots = "set_worker_concurrency st - int (length ?kept)"
  have kept: "int (length ?kept) \<le> set_worker_concurrency st"
    using assms(2) length_filter_le [of "\<lambda>m. \<not> finished (fst m)" pending] by linarith
  consider "pending' = ?kept"
    | jobs q1 where "0 < ?slots" "pending' = ?kept @ jobs" "read_jobs B C st consumer ?slots 2000 q = (Inr jobs, q1)"
    using assms(3) by (auto simp: worker_turn_def Let_def split: if_splits prod.splits sum.splits)
  then show ?thesis
  proof cases
    case 1
    with kept show ?thesis by simp
  next
    case 2
    then obtain es q2 q3 where "xreadgroup B (set_job_consumer_group st) consumer (effective_job_stream st)
        ?slots 2000 q2 = (Inr es, q3)" and jobs: "jobs = unpack (load_spec C) es"
      by (auto simp: read_jobs_def Let_def seq_Inr_iff)
    from assms(1) [OF 2(1) this(1)] have "int (length jobs) \<le> ?slots"
      using length_unpack [of "load_spec C" es] by (simp add: jobs)
    with 2 show ?thesis by simp
  qed
qed

theorem worker_pool_is_bounded_witness:
  "int (length (fst (worker_turn demo_broker demo_codec (default_settings\<lparr>set_worker_concurrency := 1\<rparr>) ''w''
     (\<lambda>i. False) ([], demo_sent_twice)))) \<le> 1"
proof -
  let ?st = "default_settings\<lparr>set_worker_concurrency := 1\<rparr>"
  have count: "int (sum_list (map (length \<circ> snd) es)) \<le> n"
    if "0 < n" "xreadgroup demo_broker g c s n b q = (Inr es, q')" for g c s n b q es q'
    using that by (auto simp: demo_broker_def)
  obtain p q where t: "worker_turn demo_broker demo_codec ?st ''w'' (\<lambda>i. False) ([], demo_sent_twice) = (p, q)"
    by (metis prod.exhaust)
  show ?thesis using worker_pool_is_bounded [OF count _ t] by (simp add: t)
qed

section \<open>Secrets\<close>



end
