(* ===== verification/Backups.thy ===== *)
theory Backups
  imports Progress Devices Search
begin

text \<open>
  The way of a backup from the result of a worker to those who read it: the file in the store, the page
  of the device, the stored copy that compliance and search look at. What the recorder does after it
  stored a backup leaves all of these alone.
\<close>

section \<open>What nothing else touches\<close>

definition same_backups :: "db \<Rightarrow> db \<Rightarrow> bool" where
  "same_backups d d' \<longleftrightarrow> db_devices d' = db_devices d \<and> db_configs d' = db_configs d
     \<and> db_groups d' = db_groups d \<and> db_memberships d' = db_memberships d"

interpretation backups: db_relation same_backups
  by unfold_locales (auto simp: same_backups_def)

lemma same_backups_upd [simp]:
  "same_backups d (upd_run k f e) = same_backups d e" "same_backups d (upd_batch k g e) = same_backups d e"
  "same_backups d (stamp_runs k f e) = same_backups d e"
  by (simp_all add: same_backups_def upd_run_def upd_batch_def stamp_runs_def)

lemma same_backups_evaluate:
  "evaluate_policies E re now devs ps d = Inr d' \<Longrightarrow> same_backups d d'"
  by (induction ps arbitrary: d)
    (fastforce simp: Let_def bind_result_Inr_iff upsert_compliance_results_def same_backups_def split: if_splits)+

lemma closing_keeps_backups: "carries same_backups (close_if_done V res k)"
proof (rule backups.closing_carries)
  show "auto_evaluate_compliance V k d = Inr d' \<Longrightarrow> same_backups d d'" for d d'
    by (auto simp: auto_evaluate_compliance_def Let_def backups.stays split: if_splits
        intro: same_backups_evaluate)
qed (simp_all add: backups.stays)

lemma same_backups_close_run: "same_backups d (close_run fromiso res b d)"
  by (simp add: close_run_def bump_batch_def backups.stays split: option.split)

lemma closing_keeps_files:
  "close_if_done V res k s = (r, s') \<Longrightarrow> st_files (rec_store s') = st_files (rec_store s)"
  by (auto simp: close_if_done_def commit_staged_def Let_def seq_def on_store_def modify_db_def modify_db_r_def
      dest!: commit_batch_files split: option.splits if_splits prod.splits sum.splits)

section \<open>Storing\<close>

text \<open>Whether staged for a batch or committed at once: the file reads back as the text.\<close>

lemma stage_reads_back:
  assumes "stage sha grp dev text st = ((changed, h), st')" and "CR \<notin> set text"
    and "\<And>old. sha old = sha text \<Longrightarrow> old = text"
  shows "map_option universal_newlines (st_files st' (file_path grp dev)) = Some text"
  using git_store.put_holds [OF assms(1) universal_newlines_id [OF assms(2)]] assms(3) by auto

lemma store_backup_reads_back:
  assumes "store_backup V res batch grp text s = (Inr h, s')" and "CR \<notin> set text"
    and "\<And>old. env_sha V old = env_sha V text \<Longrightarrow> old = text"
  shows "map_option universal_newlines (st_files (rec_store s') (file_path grp (jr_device_name res))) = Some text"
    and "same_backups (rec_db s) (rec_db s')"
proof -
  obtain ch h' st where st: "stage (env_sha V) grp (jr_device_name res) text (rec_store s) = ((ch, h'), st)"
    by (metis prod.exhaust)
  have "st_files (rec_store s') = st_files st"
    using assms(1) st
    by (auto simp: store_backup_def write_config_def on_store_def modify_db_def seq_def Let_def
        dest!: on_git_files split: option.splits prod.splits sum.splits if_splits)
  with stage_reads_back [OF st assms(2,3)]
  show "map_option universal_newlines (st_files (rec_store s') (file_path grp (jr_device_name res))) = Some text"
    by simp
  show "same_backups (rec_db s) (rec_db s')"
    by (rule carriesD [OF backups.storing_carries assms(1)]) (simp add: backups.stays)
qed

text \<open>What is stored of a successful backup once its result is persisted.\<close>

lemma backup_group_same:
  assumes "same_backups d d'"
  shows "backup_group d' k = backup_group d k"
proof -
  have "linked ps k get_group d' = linked ps k get_group d" for ps k
    using assms by (induction ps) (auto simp: same_backups_def get_group_def split: option.split)
  with assms show ?thesis
    by (simp add: same_backups_def backup_group_def get_device_def device_groups_def split: option.split)
qed

lemma upserted_config:
  "cfg_device_id c = k \<Longrightarrow> find (\<lambda>x. cfg_device_id x = k) (upsert_config c cs) = Some c"
  by (induction c cs rule: upsert_config.induct) auto

lemma noted_backup:
  fixes fromiso res b rel cont h d
  defines "d' \<equiv> note_backup fromiso res b rel cont h d"
  assumes "jr_device_id res \<in> dev_id ` set (db_devices d)"
  shows "\<exists>c. find (\<lambda>x. cfg_device_id x = jr_device_id res) (db_configs d') = Some c \<and> cfg_content c = Some cont"
    and "\<exists>v. get_device (jr_device_id res) d' = Some v \<and> dev_latest_backup_path v = Some rel"
proof -
  show "\<exists>c. find (\<lambda>x. cfg_device_id x = jr_device_id res) (db_configs d') = Some c \<and> cfg_content c = Some cont"
    by (simp add: d'_def note_backup_def Let_def upserted_config)
  obtain v where "get_device (jr_device_id res) d = Some v"
    using assms(2) by (cases "get_device (jr_device_id res) d") (auto simp: get_device_def get_row_None_iff)
  then show "\<exists>v. get_device (jr_device_id res) d' = Some v \<and> dev_latest_backup_path v = Some rel"
    by (simp add: d'_def note_backup_def Let_def get_device_def upd_device_def upd_run_def get_row_upd_row)
qed

lemma persisted_backup:
  assumes run: "get_run (jr_run_id res) (rec_db s) = Some x" "run_status x \<noteq> Cancelled"
    and res: "jr_success res" "jr_kind res = ''backup''" "jr_config_text res = Some text" "CR \<notin> set text"
    and sha: "\<And>old. env_sha V old = env_sha V text \<Longrightarrow> old = text"
    and persisted: "persist V res s = (Inr (), s')"
    and path: "path = file_path (backup_group (rec_db s) (jr_device_id res)) (jr_device_name res)"
  shows "map_option universal_newlines (st_files (rec_store s') path) = Some text"
    and "\<exists>c. find (\<lambda>x. cfg_device_id x = jr_device_id res) (db_configs (rec_db s')) = Some c \<and> cfg_content c = Some text"
    and "\<exists>v. get_device (jr_device_id res) (rec_db s') = Some v \<and> dev_latest_backup_path v = Some path"
proof -
  let ?b = "batch_of (rec_db s) (jr_run_id res)"
  let ?s0 = "s\<lparr>rec_db := close_run (env_fromiso V) res ?b (rec_db s)\<rparr>"
  let ?g = "backup_group (rec_db ?s0) (jr_device_id res)"
  have g: "?g = backup_group (rec_db s) (jr_device_id res)"
    by (simp add: backup_group_same [OF same_backups_close_run])
  have "after_close V res ?b (run_batch_id x) ?s0 = (Inr (), s')"
    using persisted persist_body_closing [OF run, of V]
    by (auto simp: persist_def session_scope_def split: prod.splits sum.splits)
  then obtain h s1 where stored: "store_backup V res ?b ?g text ?s0 = (Inr h, s1)"
    and known: "jr_device_id res \<in> dev_id ` set (db_devices (rec_db s1))"
    and rest: "(case ?b of None \<Rightarrow> ret () | Some k \<Rightarrow> close_if_done V res k)
      (s1\<lparr>rec_db := note_backup (env_fromiso V) res (run_batch_id x) (file_path ?g (jr_device_name res)) text h (rec_db s1)\<rparr>)
      = (Inr (), s')"
    by (auto simp: after_close_def record_payload_def record_backup_def res Let_def seq_def modify_db_r_def
        bind_result_def refers_to_def split: prod.splits sum.splits if_splits)
  let ?s2 = "s1\<lparr>rec_db := note_backup (env_fromiso V) res (run_batch_id x) (file_path ?g (jr_device_name res)) text h (rec_db s1)\<rparr>"
  have kept: "same_backups (rec_db ?s2) (rec_db s')" "st_files (rec_store s') = st_files (rec_store s1)"
    using rest carriesD [OF closing_keeps_backups] closing_keeps_files
    by (cases ?b; fastforce simp: ret_def backups.stays)+
  show "map_option universal_newlines (st_files (rec_store s') path) = Some text"
    using store_backup_reads_back(1) [OF stored res(4) sha] kept(2) g path by simp
  show "\<exists>c. find (\<lambda>x. cfg_device_id x = jr_device_id res) (db_configs (rec_db s')) = Some c \<and> cfg_content c = Some text"
    using noted_backup(1) [OF known] kept(1) by (simp add: same_backups_def)
  show "\<exists>v. get_device (jr_device_id res) (rec_db s') = Some v \<and> dev_latest_backup_path v = Some path"
    using noted_backup(2) [OF known] kept(1) g path by (simp add: same_backups_def get_device_def)
qed

section \<open>Reading\<close>

lemma join_devices_member:
  "c \<in> set cs \<Longrightarrow> get_device (cfg_device_id c) d = Some v \<Longrightarrow> (c, v) \<in> set (join_devices d cs)"
  by (induction cs) (auto split: option.splits)

text \<open>A page of the list holds any given member.\<close>

lemma member_on_page:
  assumes "x \<in> set xs"
  shows "\<exists>n. x \<in> set (take PAGE_SIZE (page_of (n * PAGE_SIZE) (PAGE_SIZE + 1) xs))"
proof -
  from assms obtain i where i: "i < length xs" "xs ! i = x" by (auto simp: in_set_conv_nth)
  let ?n = "i div PAGE_SIZE"
  let ?p = "take PAGE_SIZE (page_of (?n * PAGE_SIZE) (PAGE_SIZE + 1) xs)"
  define j where "j = i mod PAGE_SIZE"
  have j: "j < PAGE_SIZE" "?n * PAGE_SIZE + j = i" unfolding j_def by (simp_all add: PAGE_SIZE_def)
  with i have "j < length xs - ?n * PAGE_SIZE" by linarith
  with i j have "j < length ?p" "?p ! j = x" by (simp_all add: page_of_def)
  then show ?thesis by (metis nth_mem)
qed

lemma search_finds:
  assumes "find (\<lambda>c. cfg_device_id c = k) (db_configs d) = Some c" and "cfg_content c = Some text"
    and "get_device k d = Some v" and "strip q \<noteq> []" and "contains (py_lower (strip q)) (py_lower text)"
  shows "\<exists>page. k \<in> fd_device_id ` set (pg_results (projr (search_configs X d q ''0'' ''exact'' cs ctx page)))"
proof -
  let ?cond = "ilike (wrapped (ilike_escape (strip q)))"
  let ?xs = "sort_key (\<lambda>(c, dev). desc_key (cfg_captured_at c))
      (filter (\<lambda>(c, dev). (case cfg_content c of None \<Rightarrow> False | Some t \<Rightarrow> ?cond t) \<and> in_group d 0 (dev_id dev))
        (join_devices d (db_configs d)))"
  have c: "c \<in> set (db_configs d)" "cfg_device_id c = k" using assms(1) by (auto simp: find_Some_iff)
  then have "(c, v) \<in> set (join_devices d (db_configs d))" using join_devices_member [OF c(1)] assms(3) by simp
  then have "(c, v) \<in> set ?xs" using assms(2,5) by (simp add: ilike_exact in_group_def)
  from member_on_page [OF this]
  obtain n where n: "(c, v) \<in> set (take PAGE_SIZE (page_of (n * PAGE_SIZE) (PAGE_SIZE + 1) ?xs))" by (elim exE)
  have g: "group_param ''0'' = Inr 0" by code_simp
  have "projr (search_configs X d q ''0'' ''exact'' cs ctx (int n + 1)) =
      page_result (int n + 1) (page_of (n * PAGE_SIZE) (PAGE_SIZE + 1) ?xs)
        (found_row d (\<lambda>_. None) (\<lambda>t. extract_context t [strip q] None ctx))"
    using assms(4) by (simp add: search_configs_def Let_def g config_rows_def max_def)
  then show ?thesis
    using n c(2) by (intro exI [of _ "int n + 1"]) (force simp: page_result_def found_row_def)
qed

end
