(* ===== verification/Evidence.thy ===== *)
theory Evidence
  imports Samples Backups
begin

text \<open>
  What is kept and shown of the devices: the properties of the backup store, its diffs, the compliance
  policies, the parser clean-up and the search, each with a witness.
\<close>

section \<open>A sample policy\<close>

definition demo_check :: compliance_check where
  "demo_check = \<lparr>chk_id = 1, chk_name = ''version known'', chk_field = ''version'', chk_operator = ''exists'',
     chk_expected = None, chk_mode = ''all'', chk_severity = ''critical'', chk_description = None,
     chk_sort_order = 0\<rparr>"

definition demo_policy :: compliance_policy where
  "demo_policy = \<lparr>pol_id = 1, pol_name = ''versions'', pol_description = None, pol_parser_type = ''textfsm'',
     pol_parser_body = ''Start'', pol_enabled = True, pol_auto_evaluate = True, pol_checks = [demo_check]\<rparr>"

definition policy_db :: db where
  "policy_db = demo_db\<lparr>db_policies := [demo_policy], db_policy_groups := [(1, 1)],
     db_configs := [\<lparr>cfg_device_id = 1, cfg_batch_id = None, cfg_captured_at = None,
       cfg_content = Some ''hostname r1''\<rparr>]\<rparr>"

section \<open>The store\<close>

text \<open>
  Storing a text without carriage returns leaves a file at the device's path that reads back with
  the digest that was returned, touches no other file, and storing the same text again changes nothing.
\<close>

lemma staging_is_stable:
  assumes "stage sha grp dev content s = ((changed, h), s')" and "CR \<notin> set content"
  shows "h = sha content
    \<and> (\<exists>t. st_files s' (file_path grp dev) = Some t \<and> sha (universal_newlines t) = h)
    \<and> (\<forall>p. p = file_path grp dev \<or> st_files s' p = st_files s p)
    \<and> st_git s' = st_git s
    \<and> stage sha grp dev content s' = ((False, h), s')"
proof -
  have u: "universal_newlines content = content" using assms(2) by (rule universal_newlines_id)
  have h: "h = sha content" by (rule git_store.put_digest [OF assms(1)])
  moreover have "st_git s' = st_git s"
    using assms(1) by (auto simp: stage_def Let_def split: if_splits option.splits)
  ultimately show ?thesis
    using git_store.put_holds [OF assms(1) u] git_store.put_again [OF assms(1) u]
      git_store.put_other [OF assms(1)] by auto
qed

lemma staging_is_stable_witness:
  "stage (\<lambda>t. t) ''core'' ''r1'' ''hostname r1'' (snd (stage (\<lambda>t. t) ''core'' ''r1'' ''hostname r1'' empty_store))
   = ((False, ''hostname r1''), snd (stage (\<lambda>t. t) ''core'' ''r1'' ''hostname r1'' empty_store))"
proof -
  obtain ch h s' where s: "stage (\<lambda>t. t) ''core'' ''r1'' ''hostname r1'' empty_store = ((ch, h), s')"
    by (metis prod.exhaust)
  from staging_is_stable [OF s] show ?thesis by (simp add: s CR_def)
qed




text \<open>
  C29: A unified diff is shown with the right line numbers: the two file headers and the hunk headers
  as headers, and every line of a hunk with its kind, its text and the numbers that the spans in the
  hunk header give it, whatever the spans, as long as no removed line begins with two dashes and no
  added one with two pluses.
\<close>

theorem diff_is_numbered:
  assumes "unified (splitlines_keep (or_str (read_at find_commit rel sha_a) []))
        (splitlines_keep (or_str (read_at find_commit rel sha_b) [])) (take 8 sha_a) (take 8 sha_b)
      = (''--- '' @ take 8 sha_a) # (''+++ '' @ take 8 sha_b) # concat (map render_hunk hs)"
    and "list_all plain_hunk hs" and "LF \<notin> set sha_a \<union> set sha_b"
  shows "diff_commits unified find_commit rel sha_a sha_b
    = header_row (''--- '' @ take 8 sha_a) # header_row (''+++ '' @ take 8 sha_b) # concat (map numbered_hunk hs)"
proof -
  have "rstrip_char LF (''--- '' @ take 8 sha_a) = ''--- '' @ take 8 sha_a"
    "rstrip_char LF (''+++ '' @ take 8 sha_b) = ''+++ '' @ take 8 sha_b"
    using assms(3) by (auto intro!: rstrip_char_id simp: LF_def dest: in_set_takeD)
  then show ?thesis
    unfolding diff_commits_def Let_def assms(1)
    by (simp add: diff_rows_hunks [OF assms(2)] startswith_def)
qed

definition demo_hunk :: hunk where
  "demo_hunk = Hunk 3 2 3 2 [(Keep ''interface e1'', True), (Del ''mtu 1500'', True), (Ins ''mtu 9000'', False)]"

theorem diff_is_numbered_witness:
  "map (\<lambda>r. (dr_old_no r, dr_new_no r)) (diff_commits (\<lambda>a b f t. (''--- '' @ f) # (''+++ '' @ t) # render_hunk demo_hunk)
     (\<lambda>c. None) ''r1.cfg'' ''aa'' ''bb'')
   = [(None, None), (None, None), (None, None), (Some 3, Some 3), (Some 4, None), (None, Some 4)]"
proof -
  have p: "list_all plain_hunk [demo_hunk]"
    by (simp add: demo_hunk_def plain_hunk_def LF_def startswith_def)
  have "diff_commits (\<lambda>a b f t. (''--- '' @ f) # (''+++ '' @ t) # render_hunk demo_hunk) (\<lambda>c. None) ''r1.cfg'' ''aa'' ''bb''
    = header_row (''--- '' @ take 8 ''aa'') # header_row (''+++ '' @ take 8 ''bb'') # concat (map numbered_hunk [demo_hunk])"
    by (rule diff_is_numbered [OF _ p]) (simp_all add: LF_def)
  then show ?thesis by (simp add: demo_hunk_def header_row_def)
qed

text \<open>
  A removed line that begins with two dashes is shown as a header instead, and the old numbers of
  all lines after it in the hunk are one too low.
\<close>

lemma removed_dashes_misread:
  assumes "startswith s ''--''" and "LF \<notin> set s" and "list_all (\<lambda>x. plain_edit (fst x)) es"
  shows "diff_rows o1 n1 (map terminated ((Del s, lf) # es)) = header_row (CHR ''-'' # s) # numbered o1 n1 (map fst es)"
proof -
  have nolf: "LF \<notin> set (CHR ''-'' # s)" using assms(2) by (simp add: LF_def)
  have r: "rstrip_char LF (terminated (Del s, lf)) = CHR ''-'' # s"
    using rstrip_char_id [OF nolf] by (simp add: rstrip_char_def)
  obtain u where "s = CHR ''-'' # CHR ''-'' # u" using assms(1) by (auto simp: startswith_iff)
  then have s: "\<not> startswith (CHR ''-'' # s) ''@@''" "startswith (CHR ''-'' # s) ''---''"
    by (simp_all add: startswith_def)
  have "diff_rows o1 n1 (map terminated es @ []) = numbered o1 n1 (map fst es)"
    using diff_rows_edits_append [OF assms(3), of o1 n1 "[]"] by auto
  then show ?thesis
    by (simp only: list.map diff_rows.simps Let_def r s if_False if_True simp_thms append_Nil2)
qed

lemma removed_dashes_misread_sample:
  "map dr_old_no (diff_rows 5 5 (map terminated [(Del ''-- old banner'', True), (Keep ''end'', True)])) = [None, Some 5]"
  using removed_dashes_misread [of "''-- old banner''" "[(Keep ''end'', True)]" 5 5 True]
  by (simp add: startswith_def LF_def header_row_def)

section \<open>Compliance\<close>



text \<open>
  The status of an evaluated policy is error exactly if the parser raised, and otherwise fail
  exactly if a check that is not merely informational failed: the outcomes are one per check, in order.
\<close>

lemma policy_status:
  assumes "evaluate_policy E re p content = Inr (status, detail)"
  shows "case parse E (Some (pol_parser_type p)) (Some (pol_parser_body p)) content of
      Inl e \<Rightarrow> status = ''error'' \<and> detail = Parse_failed (exn_msg e)
    | Inr v \<Rightarrow> (\<exists>outs. detail = Outcomes outs \<and> map out_check outs = pol_checks p
        \<and> status = (if \<exists>x \<in> set outs. out_status x = ''fail'' \<and> chk_severity (out_check x) \<noteq> ''info''
                    then ''fail'' else ''pass''))"
proof (cases "parse E (Some (pol_parser_type p)) (Some (pol_parser_body p)) content")
  case (Inl e)
  with assms show ?thesis by (simp add: evaluate_policy_def)
next
  case (Inr v)
  with assms obtain outs where t: "traverse (\<lambda>c. evaluate_check re c (parsed_rows v)) (pol_checks p) = Inr outs"
    and st: "status = overall_status outs" "detail = Outcomes outs"
    by (auto simp: evaluate_policy_def bind_result_Inr_iff)
  have "out_check x = c" if "evaluate_check re c rs = Inr x" for c rs x
    using that by (auto simp: evaluate_check_def bind_result_Inr_iff Let_def outcome_def split: if_splits)
  with t have "map out_check outs = pol_checks p"
    unfolding traverse_Inr_iff by (induction rule: list_all2_induct) simp_all
  with Inr st show ?thesis
    by (auto simp: overall_status_def list_ex_iff)
qed

lemma policy_status_witness:
  "fst (projr (evaluate_policy demo_engines (\<lambda>p t. Inr True) demo_policy ''hostname r1'')) = ''pass''"
proof -
  have "isl (evaluate_policy demo_engines (\<lambda>p t. Inr True) demo_policy ''hostname r1'') = False" by code_simp
  then obtain st det where e: "evaluate_policy demo_engines (\<lambda>p t. Inr True) demo_policy ''hostname r1'' = Inr (st, det)"
    by (cases "evaluate_policy demo_engines (\<lambda>p t. Inr True) demo_policy ''hostname r1''") auto
  have p: "parse demo_engines (Some (pol_parser_type demo_policy)) (Some (pol_parser_body demo_policy)) ''hostname r1''
      = Inr (Some (PList [PDict [(''version'', PStr ''1'')]]))"
    by code_simp
  have d: "det = Outcomes [\<lparr>out_check = demo_check, out_status = ''pass'', out_failing_rows = []\<rparr>]"
  proof -
    have "snd (projr (evaluate_policy demo_engines (\<lambda>p t. Inr True) demo_policy ''hostname r1''))
      = Outcomes [\<lparr>out_check = demo_check, out_status = ''pass'', out_failing_rows = []\<rparr>]" by code_simp
    then show ?thesis by (simp add: e)
  qed
  show ?thesis using policy_status [OF e] by (simp add: p d e)
qed

lemma result_of_fold_upsert:
  assumes "list_all2 (\<lambda>i r. f i = Some r \<and> res_key r = (pid, i)) is rs" and "distinct is"
  shows "result_of k (fold upsert_result rs xs) =
    (if fst k = pid \<and> snd k \<in> set is then f (snd k) else result_of k xs)"
  using assms
proof (induction "is" rs arbitrary: xs rule: list_all2_induct)
  case Nil
  then show ?case by simp
next
  case (Cons i "is" r rs)
  then show ?case by (cases k) (auto simp: result_of_upsert)
qed

text \<open>
  C31: Running a policy leaves exactly one result per policy and device, gives every device in scope
  its new result (skipped without a stored configuration, else the evaluation of that configuration)
  and keeps the results of all other policies and devices.
\<close>

theorem run_policy_updates_scope:
  assumes "run_policy_now E re now p d = Inr d'"
    and "distinct (map res_key (db_compliance_results d))"
  shows "distinct (map res_key (db_compliance_results d'))
    \<and> distinct (scoped_device_ids d p)
    \<and> (\<forall>k. result_of k (db_compliance_results d') =
        (if fst k = pol_id p \<and> snd k \<in> set (scoped_device_ids d p)
         then (case config_content d (snd k) of
             None \<Rightarrow> Some \<lparr>cres_policy_id = pol_id p, cres_device_id = snd k, cres_evaluated_at = now,
                       cres_status = ''skip'', cres_detail = Outcomes []\<rparr>
           | Some t \<Rightarrow> (case evaluate_policy E re p t of
               Inl e \<Rightarrow> None
             | Inr (st, det) \<Rightarrow> Some \<lparr>cres_policy_id = pol_id p, cres_device_id = snd k, cres_evaluated_at = now,
                       cres_status = st, cres_detail = det\<rparr>))
         else result_of k (db_compliance_results d)))"
proof (intro conjI allI)
  let ?ids = "scoped_device_ids d p"
  show ids: "distinct ?ids"
    unfolding scoped_device_ids_collect by (rule collector.gather_distinct)
  obtain rs where rs: "run_policy_for_devices E re now p (map (\<lambda>i. (i, config_content d i)) ?ids) = Inr rs"
    and d': "db_compliance_results d' = fold upsert_result rs (db_compliance_results d)"
  proof (cases "?ids = []")
    case True
    with assms(1) that [of "[]"] show ?thesis by (simp add: run_policy_now_def)
  next
    case False
    with assms(1) that show ?thesis
      by (auto simp: run_policy_now_def bind_result_Inr_iff upsert_compliance_results_def)
  qed
  show "distinct (map res_key (db_compliance_results d'))"
    unfolding d' by (rule distinct_fold_upsert [OF assms(2)])
  let ?new = "\<lambda>i. case config_content d i of
             None \<Rightarrow> Some \<lparr>cres_policy_id = pol_id p, cres_device_id = i, cres_evaluated_at = now,
                       cres_status = ''skip'', cres_detail = Outcomes []\<rparr>
           | Some t \<Rightarrow> (case evaluate_policy E re p t of
               Inl e \<Rightarrow> None
             | Inr (st, det) \<Rightarrow> Some \<lparr>cres_policy_id = pol_id p, cres_device_id = i, cres_evaluated_at = now,
                       cres_status = st, cres_detail = det\<rparr>)"
  have shape: "list_all2 (\<lambda>i r. ?new i = Some r \<and> res_key r = (pol_id p, i)) ?ids rs"
    using run_policy_for_devices_shape [OF rs]
    unfolding list_all2_map1
    by (rule list_all2_mono) (auto simp: res_key_def intro!: compliance_result.equality split: option.splits)
  fix k
  show "result_of k (db_compliance_results d') =
        (if fst k = pol_id p \<and> snd k \<in> set ?ids then ?new (snd k)
         else result_of k (db_compliance_results d))"
    unfolding d' by (rule result_of_fold_upsert [OF shape ids])
qed

theorem run_policy_updates_scope_witness:
  "map_option cres_status (result_of (1, 2) (db_compliance_results
     (projr (run_policy_now demo_engines (\<lambda>p t. Inr True) 50 demo_policy policy_db)))) = Some ''skip''"
proof -
  have "isl (run_policy_now demo_engines (\<lambda>p t. Inr True) 50 demo_policy policy_db) = False" by code_simp
  then obtain d' where r: "run_policy_now demo_engines (\<lambda>p t. Inr True) 50 demo_policy policy_db = Inr d'"
    by (cases "run_policy_now demo_engines (\<lambda>p t. Inr True) 50 demo_policy policy_db") auto
  have f: "pol_id demo_policy = 1" "scoped_device_ids policy_db demo_policy = [1, 2]"
    "config_content policy_db 2 = None" "db_compliance_results policy_db = []" by code_simp+
  show ?thesis using run_policy_updates_scope [OF r] by (simp add: f r)
qed

section \<open>Cleaning and searching\<close>

lemma clean_from_prefix:
  "CHR ''{'' \<notin> set a \<Longrightarrow> clean_from bol (a @ s) = a @ clean_from (if a = [] then bol else last a = LF) s"
proof (induction a arbitrary: bol)
  case Nil
  then show ?case by simp
next
  case (Cons c a)
  then have "match_indicator (c # a @ s) = None"
    by (auto simp: match_indicator_def split: list.splits)
  with Cons show ?case by simp
qed

lemma to_line_end_LF:
  assumes "LF \<notin> set (takeWhile is_space b)" and "dropWhile is_space b \<noteq> []"
  shows "to_line_end (LF # b) = Some (LF # b)"
proof -
  have "takeWhile (\<lambda>c. c \<noteq> LF) (rev (takeWhile is_space b) @ [LF]) = rev (takeWhile is_space b)"
    using assms(1) by (subst takeWhile_append2) auto
  with assms(2) show ?thesis by (simp add: to_line_end_def Let_def)
qed

text \<open>
  The clean-up before parsing empties the routing-engine indicator line (a lower-case name in
  braces, with an optional colon and number) and leaves the text before and after it as it is.
\<close>

lemma clean_empties_indicator:
  assumes "CHR ''{'' \<notin> set (a @ b)" and "a = [] \<or> last a = LF"
    and "is_az c" and "list_all (\<lambda>x. is_az x \<or> is_digit x) n" and "list_all is_digit ds"
    and "LF \<notin> set (takeWhile is_space b)" and "dropWhile is_space b \<noteq> []"
  shows "clean (a @ (''{'' @ (c # n) @ (if ds = [] then [] else '':'' @ ds) @ ''}'') @ LF # b) = a @ LF # b"
proof -
  let ?p = "if ds = [] then [] else '':'' @ ds"
  let ?name = "\<lambda>x. is_az x \<or> is_digit x"
  let ?t = "?p @ ''}'' @ LF # b"
  have brace: "\<not> ?name CHR ''}''" "\<not> ?name CHR '':''" by (simp_all add: is_az_def is_digit_def)
  then have "dropWhile ?name ?t = ?t" by simp
  then have "dropWhile ?name (n @ ?t) = ?t"
    using assms(4) by (simp add: dropWhile_append2 list_all_iff)
  moreover have "after_name ?t = Some (LF # b)"
  proof (cases "ds = []")
    case True
    then show ?thesis by (simp add: after_name_def)
  next
    case False
    have "takeWhile is_digit (ds @ ''}'' @ LF # b) = ds" "dropWhile is_digit (ds @ ''}'' @ LF # b) = ''}'' @ LF # b"
      using assms(5) brace by (simp_all add: list_all_iff takeWhile_append2 dropWhile_append2)
    with False show ?thesis by (simp add: after_name_def)
  qed
  ultimately have m: "match_indicator ((''{'' @ (c # n) @ ?p @ ''}'') @ LF # b) = Some (LF # b)"
    using assms(3) to_line_end_LF [OF assms(6,7)] by (simp add: match_indicator_def)
  have bol: "(if a = [] then True else last a = LF)" using assms(2) by auto
  have "clean (a @ (''{'' @ (c # n) @ ?p @ ''}'') @ LF # b)
      = a @ clean_from True ((''{'' @ (c # n) @ ?p @ ''}'') @ LF # b)"
    unfolding clean_def using clean_from_prefix [of a True] assms(1) bol by simp
  also have "clean_from True ((''{'' @ (c # n) @ ?p @ ''}'') @ LF # b) = clean_from False (LF # b)"
    using m by simp
  also have "\<dots> = LF # b"
    by (rule clean_from_no_brace) (use assms(1) in \<open>simp add: LF_def\<close>)
  finally show ?thesis .
qed

lemma clean_empties_indicator_witness:
  "clean (''show version'' @ [LF] @ ''{master:0}'' @ [LF] @ ''Hostname: r1'') = ''show version'' @ [LF, LF] @ ''Hostname: r1''"
  using clean_empties_indicator [of "''show version'' @ [LF]" "''Hostname: r1''" "CHR ''m''" "''aster''" "''0''"]
  by (simp add: is_az_def is_digit_def is_space_def LF_def)



lemma map_upto_Suc: "map (\<lambda>i. i + 1) [a..c] = [a + 1..c + 1]" for a c :: int
proof (induction a c rule: upto.induct)
  case (1 a c)
  then show ?case by (cases "a \<le> c") (simp_all add: upto_rec1)
qed

text \<open>
  C33: The context of a search shows every line within the given distance of a hit and no other, with
  its number, its text and its own mark, in blocks of consecutive lines that are separated by at least
  one line that is not shown.
\<close>

theorem context_blocks_are_neighbourhoods:
  assumes "content \<noteq> []" and "terms \<noteq> [] \<or> regex \<noteq> None"
    and ls: "ls = splitlines content"
    and hit: "hit = (case regex of Some search \<Rightarrow> search | None \<Rightarrow> term_hit terms)"
    and x: "bs = extract_context content terms regex n"
  shows "concat (map blk_lines bs) = map (\<lambda>i. \<lparr>sl_num = i + 1, sl_text = ls ! nat i, sl_hit = hit (ls ! nat i)\<rparr>)
      (filter (near hit n ls) [0..int (length ls) - 1])
    \<and> list_all (\<lambda>b. blk_lines b \<noteq> [] \<and> map sl_num (blk_lines b) = [blk_start b..sl_num (last (blk_lines b))]) bs
    \<and> successively (\<lambda>b c. sl_num (last (blk_lines b)) + 1 < blk_start c) bs"
proof (intro conjI)
  let ?is = "filter (near hit n ls) [0..int (length ls) - 1]"
  let ?cs = "cut_blocks [] [] ?is"
  have bs: "bs = map (show_block hit ls) ?cs"
    unfolding x ls hit by (rule extract_context_blocks [OF assms(1,2)])
  have "sorted_wrt (<) ([] @ ?is)" by (auto intro: sorted_wrt_filter)
  then have shape: "list_all consecutive ?cs" "successively apart ?cs"
    using cut_blocks_shape [of "[]" "[]" ?is] by simp_all
  have "concat (map blk_lines bs) = map (show_line hit ls) (concat ?cs)"
    unfolding bs by (simp add: show_block_def comp_def map_concat)
  then show "concat (map blk_lines bs) = map (\<lambda>i. \<lparr>sl_num = i + 1, sl_text = ls ! nat i, sl_hit = hit (ls ! nat i)\<rparr>) ?is"
    by (simp add: concat_cut_blocks show_line_def [abs_def])
  show "list_all (\<lambda>b. blk_lines b \<noteq> [] \<and> map sl_num (blk_lines b) = [blk_start b..sl_num (last (blk_lines b))]) bs"
    unfolding bs list_all_iff
  proof
    fix b
    assume "b \<in> set (map (show_block hit ls) ?cs)"
    then obtain c where c: "b = show_block hit ls c" "consecutive c"
      using shape(1) by (auto simp: list_all_iff)
    then have "c \<noteq> []" "c = [hd c..last c]" by (simp_all add: consecutive_def)
    then have "map (\<lambda>i. i + 1) c = [hd c + 1..last c + 1]" using map_upto_Suc by metis
    with c \<open>c \<noteq> []\<close> show "blk_lines b \<noteq> [] \<and> map sl_num (blk_lines b) = [blk_start b..sl_num (last (blk_lines b))]"
      by (simp add: show_block_def last_map show_line_def comp_def)
  qed
  show "successively (\<lambda>b c. sl_num (last (blk_lines b)) + 1 < blk_start c) bs"
    unfolding bs successively_map
    by (rule successively_mono [OF shape(2)])
      (use shape(1) in \<open>auto simp: apart_def show_block_def show_line_def last_map list_all_iff consecutive_def\<close>)
qed

theorem context_blocks_are_neighbourhoods_witness:
  "concat (map (map sl_num \<circ> blk_lines) (extract_context (''a'' @ [LF] @ ''b'' @ [LF] @ ''c'' @ [LF] @ ''hit'' @ [LF] @ ''d'')
      [''HIT''] None 1)) = [3, 4, 5]"
proof -
  let ?t = "''a'' @ [LF] @ ''b'' @ [LF] @ ''c'' @ [LF] @ ''hit'' @ [LF] @ ''d''"
  let ?f = "\<lambda>i. \<lparr>sl_num = i + 1, sl_text = splitlines ?t ! nat i, sl_hit = term_hit [''HIT''] (splitlines ?t ! nat i)\<rparr>"
  have f: "filter (near (term_hit [''HIT'']) 1 (splitlines ?t)) [0..int (length (splitlines ?t)) - 1] = [2, 3, 4]"
    by code_simp
  have "concat (map blk_lines (extract_context ?t [''HIT''] None 1)) = map ?f [2, 3, 4]"
    using context_blocks_are_neighbourhoods [of ?t "[''HIT'']" None "splitlines ?t" "term_hit [''HIT'']" _ 1]
    by (simp only: f option.case) simp
  then have "map sl_num (concat (map blk_lines (extract_context ?t [''HIT''] None 1))) = map sl_num (map ?f [2, 3, 4])"
    by (simp only:)
  then show ?thesis by (simp add: map_concat comp_def)
qed

end
