(* ===== verification/Routes.thy ===== *)
theory Routes
  imports Auth
begin

text \<open>
  The routes of the application: the \<open>Router\<close> objects of \<open>web/routes\<close> with the method, the path and the
  guards of their handlers, as \<open>web/app.py\<close> registers them, and the way of a request through them. A
  path is the list of its parts. A handler is called by its name; what it does is a parameter here, its
  model is in the theory of its page. The static files are served by the framework.
\<close>

section \<open>Routers\<close>

datatype http_method = GET | POST

text \<open>A part of a path: itself, or a parameter \<open>{...:int}\<close> or \<open>{...:str}\<close>.\<close>

datatype path_part = Lit string | Int_param | Str_param

datatype guard = Authenticated | Admin

record endpoint =
  ep_method :: http_method
  ep_path :: "path_part list"
  ep_guards :: "guard list"
  ep_handler :: string

record router =
  rt_path :: "path_part list"
  rt_guards :: "guard list"
  rt_handlers :: "endpoint list"

definition get_page :: "path_part list \<Rightarrow> string \<Rightarrow> endpoint" where
  "get_page path h = \<lparr>ep_method = GET, ep_path = path, ep_guards = [], ep_handler = h\<rparr>"

definition admin_page :: "path_part list \<Rightarrow> string \<Rightarrow> endpoint" where
  "admin_page path h = \<lparr>ep_method = GET, ep_path = path, ep_guards = [Admin], ep_handler = h\<rparr>"

definition open_post :: "path_part list \<Rightarrow> string \<Rightarrow> endpoint" where
  "open_post path h = \<lparr>ep_method = POST, ep_path = path, ep_guards = [], ep_handler = h\<rparr>"

definition admin_post :: "path_part list \<Rightarrow> string \<Rightarrow> endpoint" where
  "admin_post path h = \<lparr>ep_method = POST, ep_path = path, ep_guards = [Admin], ep_handler = h\<rparr>"

text \<open>A router for signed-in users.\<close>

definition user_router :: "path_part list \<Rightarrow> endpoint list \<Rightarrow> router" where
  "user_router path hs = \<lparr>rt_path = path, rt_guards = [Authenticated], rt_handlers = hs\<rparr>"

definition api_router :: router where
  "api_router = \<lparr>rt_path = [Lit ''api'', Lit ''v1''], rt_guards = [Admin],
     rt_handlers = [admin_post [Lit ''devices'', Lit ''import''] ''import_devices'']\<rparr>"

definition auth_router :: router where
  "auth_router = \<lparr>rt_path = [Lit ''auth''], rt_guards = [], rt_handlers =
     [get_page [Lit ''login''] ''login'', get_page [Lit ''callback''] ''callback'',
      open_post [Lit ''logout''] ''logout'', get_page [Lit ''dev-login''] ''dev_login_form'',
      open_post [Lit ''dev-login''] ''dev_login_submit'']\<rparr>"

definition dashboard_router :: router where
  "dashboard_router = user_router [] [get_page [] ''index'']"

definition docs_router :: router where
  "docs_router = user_router []
     [get_page [Lit ''docs'', Str_param] ''get_doc'', get_page [Lit ''help'', Str_param] ''get_help_page'']"

definition groups_router :: router where
  "groups_router = user_router [Lit ''groups'']
     [get_page [] ''list_groups'', get_page [Lit ''new''] ''new_group'', admin_post [] ''create_group'',
      admin_post [Lit ''bulk''] ''bulk_groups'', get_page [Int_param, Lit ''edit''] ''edit_group'',
      admin_post [Int_param] ''update_group'', admin_post [Int_param, Lit ''delete''] ''delete_group'',
      get_page [Int_param] ''view_group'']"

definition devices_router :: router where
  "devices_router = user_router [Lit ''devices'']
     [get_page [] ''list_devices'', get_page [Lit ''new''] ''new_device'', admin_post [] ''create_device'',
      admin_post [Lit ''bulk''] ''bulk_devices'', get_page [Lit ''report''] ''device_report'',
      get_page [Int_param] ''view_device'', get_page [Int_param, Lit ''edit''] ''edit_device'',
      admin_post [Int_param] ''update_device'', admin_post [Int_param, Lit ''delete''] ''delete_device'',
      get_page [Lit ''import''] ''import_form'',
      get_page [Lit ''import'', Lit ''template''] ''import_template'',
      admin_post [Lit ''import''] ''import_submit'',
      get_page [Int_param, Lit ''config''] ''view_config'',
      get_page [Int_param, Lit ''config'', Lit ''diff''] ''view_config_diff'',
      get_page [Int_param, Lit ''config'', Lit ''history''] ''view_config_history'',
      get_page [Int_param, Lit ''config'', Lit ''search''] ''search_config_history'']"

definition platforms_router :: router where
  "platforms_router = user_router [Lit ''platforms'']
     [get_page [] ''list_platforms'', get_page [Lit ''new''] ''new_platform'', admin_post [] ''create_platform'',
      get_page [Int_param, Lit ''edit''] ''edit_platform'', admin_post [Int_param] ''update_platform'',
      admin_post [Int_param, Lit ''delete''] ''delete_platform'']"

definition jobs_router :: router where
  "jobs_router = user_router [Lit ''jobs'']
     [get_page [] ''list_jobs'', get_page [Lit ''new''] ''new_job'', admin_post [] ''create_job'',
      admin_post [Lit ''bulk''] ''bulk_jobs'', get_page [Int_param, Lit ''edit''] ''edit_job'',
      admin_post [Int_param] ''update_job'', admin_post [Int_param, Lit ''delete''] ''delete_job'',
      admin_post [Int_param, Lit ''run''] ''run_job_adhoc'', get_page [Int_param, Lit ''data''] ''job_data'']"

definition parsers_router :: router where
  "parsers_router = user_router [Lit ''parsers'']
     [get_page [] ''list_parsers'', get_page [Lit ''new''] ''new_parser'', admin_post [] ''create_parser'',
      admin_post [Lit ''bulk''] ''bulk_parsers'', get_page [Int_param, Lit ''edit''] ''edit_parser'',
      admin_post [Int_param] ''update_parser'', admin_post [Int_param, Lit ''delete''] ''delete_parser'',
      get_page [Lit ''test''] ''test_bed'', admin_post [Lit ''test'', Lit ''run''] ''run_test'']"

definition credentials_router :: router where
  "credentials_router = user_router [Lit ''credentials'']
     [get_page [] ''list_creds'', admin_page [Lit ''new''] ''new_cred'', admin_post [] ''create_cred'',
      admin_post [Lit ''bulk''] ''bulk_creds'', admin_page [Int_param, Lit ''edit''] ''edit_cred'',
      admin_post [Int_param] ''update_cred'', admin_post [Int_param, Lit ''delete''] ''delete_cred'']"

definition schedules_router :: router where
  "schedules_router = user_router [Lit ''schedules'']
     [get_page [] ''list_schedules'', get_page [Lit ''new''] ''new_schedule'', admin_post [] ''create_schedule'',
      admin_post [Lit ''bulk''] ''bulk_schedules'', get_page [Int_param, Lit ''edit''] ''edit_schedule'',
      admin_post [Int_param] ''update_schedule'', admin_post [Int_param, Lit ''delete''] ''delete_schedule'',
      admin_post [Int_param, Lit ''skip-next''] ''skip_next_run'']"

definition runs_router :: router where
  "runs_router = user_router [Lit ''runs'']
     [get_page [] ''list_batches'', get_page [Lit ''batches'', Int_param] ''view_batch'',
      get_page [Lit ''batches'', Int_param, Lit ''live''] ''batch_live_fragment'',
      get_page [Lit ''batches'', Int_param, Lit ''row''] ''batch_row_fragment'',
      get_page [Int_param] ''view_run'', admin_post [Lit ''purge-queue''] ''purge_queue'',
      admin_post [Lit ''batches'', Int_param, Lit ''cancel''] ''cancel_batch'']"

definition cve_router :: router where
  "cve_router = user_router [Lit ''cve''] [get_page [] ''list_cve_scans'']"

definition search_router :: router where
  "search_router = user_router [Lit ''search''] [get_page [] ''search_configs'']"

definition compliance_router :: router where
  "compliance_router = user_router [Lit ''compliance'']
     [get_page [] ''list_policies'', get_page [Lit ''new''] ''new_policy_form'', admin_post [] ''create_policy'',
      get_page [Int_param] ''view_policy'', get_page [Int_param, Lit ''edit''] ''edit_policy_form'',
      admin_post [Int_param] ''update_policy'', admin_post [Int_param, Lit ''run''] ''run_policy'',
      admin_post [Int_param, Lit ''delete''] ''delete_policy'']"

definition route_handlers :: "router list" where
  "route_handlers =
     [api_router, auth_router, dashboard_router, docs_router, groups_router, devices_router,
      platforms_router, jobs_router, parsers_router, credentials_router, schedules_router, runs_router,
      cve_router, search_router, compliance_router]"

section \<open>Serving a request\<close>

text \<open>The handlers with their whole path and all their guards, the router's first.\<close>

definition router_routes :: "router \<Rightarrow> endpoint list" where
  "router_routes r = map (\<lambda>e. e\<lparr>ep_path := rt_path r @ ep_path e, ep_guards := rt_guards r @ ep_guards e\<rparr>) (rt_handlers r)"

definition routes :: "endpoint list" where
  "routes = concat (map router_routes route_handlers)"

fun part_matches :: "path_part \<Rightarrow> string \<Rightarrow> bool" where
  "part_matches (Lit a) s \<longleftrightarrow> s = a"
| "part_matches Int_param s \<longleftrightarrow> py_int s \<noteq> None"
| "part_matches Str_param s \<longleftrightarrow> True"

fun path_matches :: "path_part list \<Rightarrow> string list \<Rightarrow> bool" where
  "path_matches [] [] \<longleftrightarrow> True"
| "path_matches (p # ps) (s # ss) \<longleftrightarrow> part_matches p s \<and> path_matches ps ss"
| "path_matches _ _ \<longleftrightarrow> False"

definition route_matches :: "http_method \<Rightarrow> string list \<Rightarrow> endpoint \<Rightarrow> bool" where
  "route_matches m path e \<longleftrightarrow> ep_method e = m \<and> path_matches (ep_path e) path"

definition find_route :: "http_method \<Rightarrow> string list \<Rightarrow> endpoint option" where
  "find_route m path = find (route_matches m path) routes"

definition path_string :: "string list \<Rightarrow> string" where
  "path_string path = (if path = [] then ''/'' else concat (map (\<lambda>s. CHR ''/'' # s) path))"

fun guard_check :: "settings \<Rightarrow> guard \<Rightarrow> user option \<Rightarrow> unit result" where
  "guard_check st Authenticated = require_authenticated st"
| "guard_check st Admin = require_admin st"

text \<open>
  A request: nothing if no route matches (the framework answers not found), else what the guards and
  the handler give.
\<close>

definition serve :: "settings \<Rightarrow> (string \<Rightarrow> user option \<Rightarrow> 's \<Rightarrow> 'a \<times> 's) \<Rightarrow> http_method \<Rightarrow> string list
    \<Rightarrow> string \<Rightarrow> row \<Rightarrow> 's \<Rightarrow> (response + 'a) option \<times> 's" where
  "serve st handler m path accept session s =
     (case find_route m path of
        None \<Rightarrow> (None, s)
      | Some e \<Rightarrow>
          apfst Some (guarded st (map (guard_check st) (ep_guards e)) (path_string path) accept session
            (handler (ep_handler e)) s))"

text \<open>The forms for credentials, which the list of credentials leads to.\<close>

definition credential_form :: "string list \<Rightarrow> bool" where
  "credential_form path \<longleftrightarrow> take 1 path = [''credentials''] \<and> 1 < length path"

section \<open>What the table holds\<close>

text \<open>A first part that neither begins like \<open>auth\<close> nor like \<open>static\<close>, whatever follows.\<close>

definition plain_part :: "string \<Rightarrow> bool" where
  "plain_part a \<longleftrightarrow> 2 \<le> length a \<and> take 2 a \<notin> {''au'', ''st''}"

definition follows_policy :: "endpoint \<Rightarrow> bool" where
  "follows_policy e =
     (case ep_path e of
        [] \<Rightarrow> ep_method e = GET \<and> ep_guards e = [Authenticated]
      | Lit a # ps \<Rightarrow>
          if a = ''auth'' then ep_guards e = []
          else plain_part a \<and> ep_guards e \<noteq> []
            \<and> (Admin \<in> set (ep_guards e) \<longleftrightarrow> ep_method e = POST \<or> (a = ''credentials'' \<and> ps \<noteq> []))
      | _ \<Rightarrow> False)"

lemma routes_follow_policy: "list_all follows_policy routes"
  by code_simp

lemma find_route_SomeD:
  "find_route m path = Some e \<Longrightarrow> e \<in> set routes \<and> ep_method e = m \<and> path_matches (ep_path e) path"
  by (auto simp: find_route_def find_Some_iff route_matches_def)

lemma path_matches_length: "path_matches ps path \<Longrightarrow> length path = length ps"
  by (induction ps path rule: path_matches.induct) auto

lemma path_matches_Lit: "path_matches (Lit a # ps) path \<longleftrightarrow> (\<exists>ss. path = a # ss \<and> path_matches ps ss)"
  by (cases path) auto

lemma plain_not_excluded:
  assumes "plain_part a"
  shows "\<not> excluded_path (path_string (a # ss))"
proof -
  define t where "t = a @ concat (map (\<lambda>s. CHR ''/'' # s) ss)"
  have path: "path_string (a # ss) = CHR ''/'' # t" by (simp add: path_string_def t_def)
  have "take 2 t \<notin> {''au'', ''st''}" using assms by (simp add: plain_part_def t_def)
  moreover have "take 2 t = ''au''" if "startswith (CHR ''/'' # t) ''/auth''"
    using that by (auto simp: startswith_iff)
  moreover have "take 2 t = ''st''" if "startswith (CHR ''/'' # t) ''/static''"
    using that by (auto simp: startswith_iff)
  ultimately show ?thesis unfolding excluded_path_def path by blast
qed

lemma root_not_excluded: "\<not> excluded_path (path_string [])"
  by code_simp

lemma guards_pass:
  assumes "set_auth_provider st \<noteq> ''none''" and "gs \<noteq> []"
  shows "run_guards (map (guard_check st) gs) u = Inr ()
    \<longleftrightarrow> (if Admin \<in> set gs then \<exists>usr. u = Some usr \<and> is_admin usr else u \<noteq> None)"
proof -
  have "guard_check st g u = Inr () \<longleftrightarrow> (if g = Admin then \<exists>usr. u = Some usr \<and> is_admin usr else u \<noteq> None)" for g
    using assms(1) by (cases g) (simp_all add: require_admin_iff require_authenticated_iff)
  with assms(2) show ?thesis by (auto simp: run_guards_Inr_iff neq_Nil_conv)
qed

text \<open>What the guards of a routed request come to.\<close>

lemma routed_admission:
  assumes "find_route m path = Some e"
  shows "run_guards (map (guard_check st) (ep_guards e)) (connection_user st (path_string path) session) = Inr ()
    \<longleftrightarrow> set_auth_provider st = ''none'' \<or> take 1 path = [''auth''] \<or> session_role session = Some ''admin''
      \<or> (session_role session = Some ''operator'' \<and> m = GET \<and> credential_form path = False)"
    (is "?pass \<longleftrightarrow> _")
proof (cases "set_auth_provider st = ''none''")
  case True
  have "guard_check st g u = Inr ()" for g u
    using True by (cases g) (simp_all add: require_admin_iff require_authenticated_iff)
  with True show ?thesis by (simp add: run_guards_Inr_iff)
next
  case False
  from find_route_SomeD [OF assms] have e: "e \<in> set routes" "ep_method e = m" "path_matches (ep_path e) path"
    by simp_all
  with routes_follow_policy have pol: "follows_policy e" by (simp add: list_all_iff)
  have role: "session_role session = None \<or> session_role session = Some ''admin'' \<or> session_role session = Some ''operator''"
    using authenticate_role [of session] by (cases "authenticate_request session") (auto simp: session_role_def is_operator_def)
  have pass: "?pass \<longleftrightarrow> (if Admin \<in> set (ep_guards e) then session_role session = Some ''admin''
      else session_role session \<noteq> None)"
    if "ep_guards e \<noteq> []" and "\<not> excluded_path (path_string path)"
    using that False guards_pass [OF False that(1)]
    by (auto simp: connection_user_def session_role_def is_admin_def)
  show ?thesis
  proof (cases "ep_path e")
    case Nil
    with e have "path = []" by (cases path) simp_all
    with Nil pol pass e role root_not_excluded False show ?thesis
      by (auto simp: follows_policy_def credential_form_def)
  next
    case (Cons p ps)
    with pol obtain a where a: "ep_path e = Lit a # ps" by (cases p) (simp_all add: follows_policy_def)
    with e obtain ss where ss: "path = a # ss" "path_matches ps ss" by (auto simp: path_matches_Lit)
    have len: "ss = [] \<longleftrightarrow> ps = []" using path_matches_length [OF ss(2)] by auto
    show ?thesis
    proof (cases "a = ''auth''")
      case True
      with pol a ss show ?thesis by (simp add: follows_policy_def)
    next
      case nonauth: False
      with pol a have pol': "plain_part a" "ep_guards e \<noteq> []"
          "Admin \<in> set (ep_guards e) \<longleftrightarrow> m = POST \<or> (a = ''credentials'' \<and> ps \<noteq> [])"
        using e(2) by (simp_all add: follows_policy_def)
      from pass [OF pol'(2)] plain_not_excluded [OF pol'(1)] ss
      have "?pass \<longleftrightarrow> (if Admin \<in> set (ep_guards e) then session_role session = Some ''admin''
          else session_role session \<noteq> None)" by simp
      with role pol'(3) len nonauth False ss show ?thesis
        by (cases m) (auto simp: credential_form_def)
    qed
  qed
qed

section \<open>No two routes for one request\<close>

fun parts_overlap :: "path_part \<Rightarrow> path_part \<Rightarrow> bool" where
  "parts_overlap (Lit a) (Lit b) \<longleftrightarrow> a = b"
| "parts_overlap (Lit a) Int_param \<longleftrightarrow> py_int a \<noteq> None"
| "parts_overlap Int_param (Lit a) \<longleftrightarrow> py_int a \<noteq> None"
| "parts_overlap _ _ \<longleftrightarrow> True"

fun paths_overlap :: "path_part list \<Rightarrow> path_part list \<Rightarrow> bool" where
  "paths_overlap [] [] \<longleftrightarrow> True"
| "paths_overlap (p # ps) (q # qs) \<longleftrightarrow> parts_overlap p q \<and> paths_overlap ps qs"
| "paths_overlap _ _ \<longleftrightarrow> False"

lemma parts_overlap: "part_matches p s \<Longrightarrow> part_matches q s \<Longrightarrow> parts_overlap p q"
  by (cases p; cases q) auto

lemma paths_overlap: "path_matches ps path \<Longrightarrow> path_matches qs path \<Longrightarrow> paths_overlap ps qs"
proof (induction ps path arbitrary: qs rule: path_matches.induct)
  case 1
  then show ?case by (cases qs) auto
next
  case (2 p ps s ss)
  then show ?case by (cases qs) (auto intro: parts_overlap)
qed simp_all

fun no_overlap :: "endpoint list \<Rightarrow> bool" where
  "no_overlap [] \<longleftrightarrow> True"
| "no_overlap (e # es) \<longleftrightarrow>
     list_all (\<lambda>f. \<not> (ep_method f = ep_method e \<and> paths_overlap (ep_path e) (ep_path f))) es \<and> no_overlap es"

lemma routes_do_not_overlap: "no_overlap routes"
  by code_simp

lemma at_most_one: "no_overlap es \<Longrightarrow> length (filter (route_matches m path) es) \<le> 1"
proof (induction es)
  case (Cons e es)
  show ?case
  proof (cases "route_matches m path e")
    case True
    have "\<not> route_matches m path f" if "f \<in> set es" for f
      using Cons.prems True that paths_overlap [of "ep_path e" path "ep_path f"]
      by (auto simp: route_matches_def list_all_iff)
    then have "filter (route_matches m path) es = []" by (simp add: filter_empty_conv)
    with True show ?thesis by simp
  next
    case False
    with Cons show ?thesis by simp
  qed
qed simp

end
