(* ===== verification/Frontdoor.thy ===== *)
theory Frontdoor
  imports Samples Routes
begin

text \<open>
  What comes in through the web: the properties of the guards and the login, of the bulk import, of the
  credentials' pages and of the paging, each with a witness.
\<close>

section \<open>Who may change what\<close>

text \<open>
  C34: Who may do what: a request for a route of the application reaches the route's handler exactly if
  authentication is off, the path is below \<open>/auth\<close>, the session is an admin's, or it is an operator's
  and the request a GET for no credential form; any other is answered by the login redirect or 401 and
  changes nothing. A request without a route changes nothing.
\<close>

theorem access_policy:
  "serve st handler m path accept session s =
    (case find_route m path of
       None \<Rightarrow> (None, s)
     | Some e \<Rightarrow>
         if set_auth_provider st = ''none'' \<or> take 1 path = [''auth''] \<or> session_role session = Some ''admin''
           \<or> (session_role session = Some ''operator'' \<and> m = GET \<and> credential_form path = False)
         then apfst (Some \<circ> Inr) (handler (ep_handler e) (connection_user st (path_string path) session) s)
         else (Some (Inl (auth_exception_handler st accept)), s))"
proof (cases "find_route m path")
  case (Some e)
  show ?thesis
    using routed_admission [OF Some, of st session]
    by (cases "run_guards (map (guard_check st) (ep_guards e)) (connection_user st (path_string path) session)")
      (auto simp: Some serve_def guarded_def Let_def split: prod.split)
qed (simp add: serve_def)

text \<open>
  At most one route matches a request: the order of the handlers does not matter.
\<close>

lemma one_route_per_request:
  "length (filter (route_matches m path) routes) \<le> 1"
  by (rule at_most_one [OF routes_do_not_overlap])

text \<open>
  With authentication on, a handler behind both guards runs exactly if the session carries a
  subject and the role admin and the path is not one the middleware skips; otherwise nothing is
  changed and the answer is the redirect to the login page or the 401 reply.
\<close>

lemma admin_guard_is_exact:
  "guarded st [require_authenticated st, require_admin st] path accept session body s =
    (if set_auth_provider st = ''none''
        \<or> (excluded_path path = False \<and> py_truth (session_get session ''user_sub'' PNone)
            \<and> session_get session ''user_role'' (PStr ''operator'') = PStr ''admin'')
     then (case body (connection_user st path session) s of (x, s') \<Rightarrow> (Inr x, s'))
     else (Inl (if contains ''text/html'' accept then Redirect (redir st ''/auth/login'') else Unauthorized_json), s))"
  by (auto simp: guarded_def Let_def bind_result_def require_authenticated_def require_admin_def
      connection_user_def authenticate_request_def is_admin_def known_role_def auth_exception_handler_def
      split: prod.splits)

text \<open>
  C35: A session becomes an admin session through the callback of the identity provider only if the
  request carries the state the login put into the session and the provider's verified claims hold the
  admin role under the configured path.
\<close>

theorem admin_by_verified_claims:
  assumes "callback st I code error oauth_state session = (r, session')"
    and "session_role session' = Some ''admin''" and "session_role session \<noteq> Some ''admin''"
  shows "error = [] \<and> oauth_state \<noteq> [] \<and> session_get session ''oidc_state'' PNone = PStr oauth_state
    \<and> (\<exists>id_token jwks claims. oidc_decode I id_token jwks = Inr claims
        \<and> PStr (set_oidc_admin_role st) \<in> set (extract_roles claims (set_oidc_role_claim st))
        \<and> session_get session' ''user_sub'' PNone = session_get claims ''sub'' (PStr []))"
proof -
  have ne: "session' \<noteq> session" using assms(2,3) by auto
  then obtain body tokens jwks claims role where
    c: "error = []" "oauth_state \<noteq> []" "session_get session ''oidc_state'' PNone = PStr oauth_state"
      "oidc_decode I (session_get tokens ''id_token'' PNone) jwks = Inr claims"
      "role_of st (extract_roles claims (set_oidc_role_claim st)) = Some role"
      "session' = sign_in claims role session"
    using assms(1) by (auto simp: callback_def Let_def split: if_splits sum.splits prod.splits option.splits)
  have "known_role (PStr role) = ''admin''"
    using assms(2) by (simp add: c(6) session_role_sign_in split: if_splits)
  then have "role = ''admin''" by (auto simp: known_role_def split: if_splits)
  with c(5) have "PStr (set_oidc_admin_role st) \<in> set (extract_roles claims (set_oidc_role_claim st))"
    by (auto simp: role_of_def split: if_splits)
  moreover have "session_get session' ''user_sub'' PNone = session_get claims ''sub'' (PStr [])"
    by (simp add: c(6) sign_in_def set_user_def)
  ultimately show ?thesis using c by blast
qed

definition demo_claims :: row where
  "demo_claims = [(''sub'', PStr ''u1''), (''groups'', PList [PStr ''kiroku-admin'', PStr ''admin'', PStr ''kiroku_admin''])]"

definition demo_oidc :: oidc where
  "demo_oidc = \<lparr>oidc_discover = Inr [], oidc_state = ''s'', oidc_authorize_url = (\<lambda>e r s. []),
     oidc_prepare_token = (\<lambda>e r c. Inr []), oidc_exchange = (\<lambda>e b j. Inr ([(''id_token'', PStr ''jwt'')], PNone)),
     oidc_decode = (\<lambda>t j. Inr demo_claims)\<rparr>"

theorem admin_by_verified_claims_witness:
  "PStr ''kiroku-admin'' \<in> set (extract_roles demo_claims ''groups'')"
proof -
  let ?st = "default_settings\<lparr>set_oidc_admin_role := ''kiroku-admin'', set_oidc_role_claim := ''groups''\<rparr>"
  let ?s = "[(''oidc_state'', PStr ''s'')]"
  obtain r s' where c: "callback ?st demo_oidc ''code'' [] ''s'' ?s = (r, s')" by (metis prod.exhaust)
  have "session_role (snd (callback ?st demo_oidc ''code'' [] ''s'' ?s)) = Some ''admin''" by code_simp
  then have a: "session_role s' = Some ''admin''" by (simp add: c)
  have "session_role ?s \<noteq> Some ''admin''" by code_simp
  from admin_by_verified_claims [OF c a this] show ?thesis by (auto simp: demo_oidc_def)
qed

section \<open>The bulk import\<close>

text \<open>The inventory's keys: no name and no id twice, the ids below the sequence.\<close>

definition names_ok :: "db \<Rightarrow> bool" where
  "names_ok d \<longleftrightarrow> distinct (map dev_name (db_devices d)) \<and> distinct (map dev_id (db_devices d))
     \<and> list_all (\<lambda>v. dev_id v < seq_device d) (db_devices d)"

lemma upd_device_names:
  assumes "\<And>v. dev_id (f v) = dev_id v \<and> dev_name (f v) = dev_name v"
  shows "map dev_name (db_devices (upd_device k f d)) = map dev_name (db_devices d)
    \<and> map dev_id (db_devices (upd_device k f d)) = map dev_id (db_devices d)
    \<and> seq_device (upd_device k f d) = seq_device d"
  using assms by (auto simp: upd_device_def upd_row_def)

text \<open>What the loop over the rows keeps, \<open>d0\<close> being the inventory it was read against.\<close>

definition import_inv :: "db \<Rightarrow> import_state \<Rightarrow> bool" where
  "import_inv d0 s \<longleftrightarrow> map dev_name (db_devices (im_db s)) = map dev_name (db_devices d0)
     \<and> map dev_id (db_devices (im_db s)) = map dev_id (db_devices d0)
     \<and> seq_device (im_db s) = seq_device d0
     \<and> list_all (\<lambda>x. dev_name (fst x) \<in> set (im_seen s) \<and> dev_name (fst x) \<notin> dev_name ` set (db_devices d0)) (im_new s)
     \<and> distinct (map (dev_name \<circ> fst) (im_new s))"

lemma import_row_inv: "import_inv d0 s \<Longrightarrow> import_inv d0 (import_row d0 headers idx r s)"
proof (cases "check_row d0 (im_seen s) (cell headers r)")
  case (Inl e)
  assume "import_inv d0 s"
  with Inl show ?thesis by (simp add: import_row_def Let_def import_inv_def)
next
  case (Inr row)
  assume inv: "import_inv d0 s"
  let ?name = "cell headers r ''name''"
  have row: "?name \<notin> set (im_seen s)" "ir_name row = ?name"
    using Inr by (auto simp: check_row_def Let_def bind_result_Inr_iff split: if_splits)
  show ?thesis
  proof (cases "find (\<lambda>v. dev_name v = ?name) (db_devices d0)")
    case None
    then have "?name \<notin> dev_name ` set (db_devices d0)" by (auto simp: find_None_iff)
    with None Inr inv row show ?thesis
      by (auto simp: import_row_def Let_def new_device_row_def import_inv_def list_all_iff)
  next
    case (Some v)
    with Inr inv show ?thesis
      using upd_device_names [of "update_device_row (cell headers r) row"]
      by (simp add: import_row_def Let_def import_inv_def list_all_iff)
  qed
qed

lemma import_rows_inv: "import_inv d0 s \<Longrightarrow> import_inv d0 (import_rows d0 headers idx rs s)"
  by (induction d0 headers idx rs s rule: import_rows.induct) (simp_all add: import_row_inv)

lemma add_devices_names:
  "map dev_name (db_devices (add_devices new d)) = map dev_name (db_devices d) @ map (dev_name \<circ> fst) new
   \<and> map dev_id (db_devices (add_devices new d)) = map dev_id (db_devices d) @ map (\<lambda>i. seq_device d + int i) [0..<length new]
   \<and> seq_device (add_devices new d) = seq_device d + int (length new)"
proof (induction new d rule: add_devices.induct)
  case (1 d)
  then show ?case by simp
next
  case (2 v gids new d)
  have "map (\<lambda>i. seq_device d + 1 + int i) [0..<length new] = map (\<lambda>i. seq_device d + int i) (map Suc [0..<length new])"
    by simp
  with 2 show ?case by (simp add: upt_conv_Cons map_Suc_upt del: upt_Suc)
qed

lemma fresh_ids:
  assumes "distinct ids" and "list_all (\<lambda>i. i < n) ids"
  shows "distinct (ids @ map (\<lambda>i. n + int i) [0..<k])"
    and "list_all (\<lambda>i. i < n + int k) (ids @ map (\<lambda>i. n + int i) [0..<k])"
  using assms by (auto simp: distinct_map inj_on_def list_all_iff)

text \<open>Devices with new and distinct names that get the next ids keep names and ids unique.\<close>

lemma names_ok_extended:
  assumes "names_ok d" and names: "map dev_name (db_devices d') = map dev_name (db_devices d) @ ns"
    and ids: "map dev_id (db_devices d') = map dev_id (db_devices d) @ map (\<lambda>i. seq_device d + int i) [0..<n]"
    and "seq_device d' = seq_device d + int n"
    and "distinct ns" and "dev_name ` set (db_devices d) \<inter> set ns = {}"
  shows "names_ok d'"
  unfolding names_ok_def
proof (intro conjI)
  show "distinct (map dev_name (db_devices d'))"
    unfolding names distinct_append set_map
    by (intro conjI conjunct1 [OF assms(1) [unfolded names_ok_def]] assms(5,6))
  have old: "distinct (map dev_id (db_devices d))" "list_all (\<lambda>i. i < seq_device d) (map dev_id (db_devices d))"
    using assms(1) unfolding names_ok_def list.pred_map comp_def by blast+
  show "distinct (map dev_id (db_devices d'))"
    unfolding ids by (rule fresh_ids(1) [OF old])
  have "list_all (\<lambda>i. i < seq_device d') (map dev_id (db_devices d'))"
    unfolding ids assms(4) by (rule fresh_ids(2) [OF old])
  then show "list_all (\<lambda>v. dev_id v < seq_device d') (db_devices d')"
    unfolding list.pred_map comp_def .
qed

text \<open>
  C36: A bulk import is all or nothing: either the inventory is as before, or every row was accepted;
  then no device was lost, renamed or renumbered, the new ones follow with fresh ids, and names and ids
  are still unique.
\<close>

theorem import_is_atomic:
  assumes "names_ok d" and "import_csv raw d = (res, d')"
  shows "d' = d \<or> ((\<exists>rs created updated. res = Inr (rs, created, updated) \<and> list_all rr_ok rs
      \<and> length (db_devices d') = length (db_devices d) + created)
    \<and> take (length (db_devices d)) (map dev_name (db_devices d')) = map dev_name (db_devices d)
    \<and> take (length (db_devices d)) (map dev_id (db_devices d')) = map dev_id (db_devices d)
    \<and> names_ok d' \<and> distinct (db_memberships d'))"
proof (cases "d' = d")
  case True
  then show ?thesis ..
next
  case False
  with assms(2) obtain headers rs s where
    s: "s = import_rows d headers 2 rs \<lparr>im_db = d, im_new = [], im_seen = [], im_results = [], im_updates = 0\<rparr>"
    and ok: "list_all rr_ok (im_results s)" and m: "distinct (db_memberships d')"
    and d': "d' = add_devices (im_new s) (im_db s)"
    and res: "res = Inr (map done_message (im_results s), length (im_new s), im_updates s)"
    by (auto simp: import_csv_def Let_def list_all_iff list_ex_iff
        split: sum.splits prod.splits if_splits)
  have keys: "map dev_name (db_devices (im_db s)) = map dev_name (db_devices d)"
    "map dev_id (db_devices (im_db s)) = map dev_id (db_devices d)" "seq_device (im_db s) = seq_device d"
    "\<forall>x \<in> set (im_new s). dev_name (fst x) \<notin> dev_name ` set (db_devices d)"
    "distinct (map (dev_name \<circ> fst) (im_new s))"
    using import_rows_inv [of d "\<lparr>im_db = d, im_new = [], im_seen = [], im_results = [], im_updates = 0\<rparr>" headers 2 rs]
    by (simp_all add: s [symmetric] import_inv_def list_all_iff)
  have new: "map dev_name (db_devices d') = map dev_name (db_devices d) @ map (dev_name \<circ> fst) (im_new s)"
    "map dev_id (db_devices d') = map dev_id (db_devices d) @ map (\<lambda>i. seq_device d + int i) [0..<length (im_new s)]"
    "seq_device d' = seq_device d + int (length (im_new s))"
    using add_devices_names [of "im_new s" "im_db s"] keys by (simp_all add: d')
  have len: "length (db_devices d') = length (db_devices d) + length (im_new s)"
    using arg_cong [OF new(1), of length] by simp
  have "names_ok d'"
    using keys(4) by (intro names_ok_extended [OF assms(1) new keys(5)]) (fastforce simp: image_iff)
  moreover have "list_all rr_ok (map done_message (im_results s))"
    using ok by (auto simp: list_all_iff done_message_def)
  ultimately show ?thesis using len m by (simp add: res new)
qed

definition demo_csv :: string where
  "demo_csv = ''name,hostname,group'' @ [LF] @ ''r1,10.0.0.9,core'' @ [LF] @ ''r3,10.0.0.3,core'' @ [LF]"

theorem import_is_atomic_witness:
  "map dev_name (take 2 (db_devices (snd (import_csv demo_csv demo_db)))) = [''r1'', ''r2'']
   \<and> names_ok (snd (import_csv demo_csv demo_db))"
proof -
  have ok: "names_ok demo_db" by code_simp
  obtain res d' where i: "import_csv demo_csv demo_db = (res, d')" by (metis prod.exhaust)
  have "length (db_devices (snd (import_csv demo_csv demo_db))) = 3" by code_simp
  then have "length (db_devices d') = 3" by (simp add: i)
  then have "d' \<noteq> demo_db" by (auto simp: demo_db_def)
  moreover have "length (db_devices demo_db) = 2" "map dev_name (db_devices demo_db) = [''r1'', ''r2'']"
    by (simp_all add: demo_db_def demo_device_def)
  ultimately show ?thesis using import_is_atomic [OF ok i] by (simp add: i take_map)
qed

section \<open>Credentials\<close>

lemma committed_Inr: "committed path d r = (x, d') \<Longrightarrow> d' \<noteq> d \<Longrightarrow> r = Inr d'"
  by (auto simp: committed_def split: sum.splits)

lemma upd_row_one:
  assumes "distinct (map key rs)" and "r \<in> set rs"
  shows "key r' = key r \<Longrightarrow> map key (upd_row key (key r) (\<lambda>_. r') rs) = map key rs"
    and "f r' = f r \<Longrightarrow> map f (upd_row key (key r) (\<lambda>_. r') rs) = map f rs"
proof -
  have "x = r" if "x \<in> set rs" "key x = key r" for x
    using assms that by (meson distinct_map inj_onD)
  then show "key r' = key r \<Longrightarrow> map key (upd_row key (key r) (\<lambda>_. r') rs) = map key rs"
    and "f r' = f r \<Longrightarrow> map f (upd_row key (key r) (\<lambda>_. r') rs) = map f rs"
    by (auto simp: upd_row_def)
qed

lemma count_default_append:
  assumes "one_default d" and "\<not> cred_is_default c"
  shows "one_default (d\<lparr>db_credentials := db_credentials d @ [c], seq_credential := n\<rparr>)"
  using assms by (simp add: one_default_def)

lemma create_cred_one_default:
  assumes "distinct (map cred_id (db_credentials d))" and "list_all (\<lambda>c. cred_id c < seq_credential d) (db_credentials d)"
    and "one_default d" and c: "create_cred S st data d = (x, d')"
  shows "one_default d'"
proof (cases "d' = d")
  case True
  with assms(3) show ?thesis by simp
next
  case False
  from committed_Inr [OF c [unfolded create_cred_def] False]
  obtain c' where d': "d' = apply_default (seq_credential d) (form_truthy data ''is_default'')
      (d\<lparr>db_credentials := db_credentials d @ [c'], seq_credential := seq_credential d + 1\<rparr>)"
    and c': "\<not> cred_is_default c'" "cred_id c' = seq_credential d"
    by (auto simp: bind_result_Inr_iff Let_def)
  show ?thesis
    unfolding d'
    by (rule one_default_apply) (use assms c' in \<open>auto simp: count_default_append list_all_iff\<close>)
qed

lemma update_cred_one_default:
  assumes "distinct (map cred_id (db_credentials d))" and "one_default d" and c: "update_cred S st k data d = (x, d')"
  shows "one_default d'"
proof (cases "d' = d")
  case True
  with assms(2) show ?thesis by simp
next
  case False
  then obtain c0 where c0: "get_credential k d = Some c0"
    using c by (auto simp: update_cred_def split: option.splits)
  from committed_Inr [OF c [unfolded update_cred_def c0 option.case] False]
  obtain c' where d': "d' = apply_default k (form_truthy data ''is_default'')
      (d\<lparr>db_credentials := upd_row cred_id k (\<lambda>_. c') (db_credentials d)\<rparr>)"
    and c': "cred_is_default c' = cred_is_default c0" "cred_id c' = cred_id c0"
    by (auto simp: bind_result_Inr_iff Let_def)
  have c0': "c0 \<in> set (db_credentials d)" "cred_id c0 = k"
    using c0 by (auto simp: get_credential_def dest: get_row_Some)
  note marks = upd_row_one [OF assms(1) c0'(1), where r' = c', simplified c'(2) c0'(2)]
  have "one_default (d\<lparr>db_credentials := upd_row cred_id k (\<lambda>_. c') (db_credentials d)\<rparr>)"
    using assms(2) arg_cong [OF marks(2) [of cred_is_default], of "count_rows id"] c'(1)
    by (simp add: one_default_def count_rows_map comp_def)
  moreover have "distinct (map cred_id (upd_row cred_id k (\<lambda>_. c') (db_credentials d)))"
    using assms(1) marks(1) by simp
  ultimately show ?thesis
    unfolding d' by (intro one_default_apply) simp_all
qed

text \<open>
  C37: The pages of the credentials keep at most one default credential: creating one, and editing one
  with the default box ticked or not, takes the mark from the others or only from itself.
\<close>

theorem one_default_credential:
  assumes "distinct (map cred_id (db_credentials d))" and "list_all (\<lambda>c. cred_id c < seq_credential d) (db_credentials d)"
    and "one_default d"
  shows "one_default (snd (create_cred S st data d)) \<and> one_default (snd (update_cred S st k data d))"
  using create_cred_one_default [OF assms] update_cred_one_default [OF assms(1,3)]
  by (cases "create_cred S st data d"; cases "update_cred S st k data d") simp

definition demo_form :: form where
  "demo_form = [(''name'', FStr ''lab''), (''provider'', FStr ''local''), (''username'', FStr ''ops''),
     (''password'', FStr ''new''), (''is_default'', FStr ''on'')]"

definition two_creds :: db where
  "two_creds = demo_db\<lparr>db_credentials := [demo_credential,
     demo_credential\<lparr>cred_id := 2, cred_name := ''site'', cred_is_default := False\<rparr>], seq_credential := 3\<rparr>"

theorem one_default_credential_witness:
  "one_default (snd (update_cred demo_secrets default_settings 2 [(''name'', FStr ''site''), (''provider'', FStr ''local''),
     (''is_default'', FStr ''on'')] two_creds))"
proof -
  have "distinct (map cred_id (db_credentials two_creds))"
    "list_all (\<lambda>c. cred_id c < seq_credential two_creds) (db_credentials two_creds)" "one_default two_creds"
    by (simp_all add: two_creds_def demo_credential_def one_default_def)
  from one_default_credential [OF this, of demo_secrets default_settings _ 2] show ?thesis by simp
qed

lemma get_row_replaced:
  "get_row key k rs = Some r \<Longrightarrow> key r' = k \<Longrightarrow> get_row key k (upd_row key k (\<lambda>_. r') rs) = Some r'"
  by (induction rs) (auto simp: get_row_def upd_row_def split: if_splits)

lemma get_credential_apply_default:
  "get_credential k (apply_default k b d) = map_option (\<lambda>c. c\<lparr>cred_is_default := b\<rparr>) (get_credential k d)"
proof (cases b)
  case True
  have "get_row cred_id k (map (\<lambda>c. c\<lparr>cred_is_default := (cred_id c = k)\<rparr>) cs)
      = map_option (\<lambda>c. c\<lparr>cred_is_default := True\<rparr>) (get_row cred_id k cs)" for cs
    by (induction cs) (auto simp: get_row_def)
  with True show ?thesis by (simp add: get_credential_def apply_default_def)
next
  case False
  then show ?thesis by (simp add: get_credential_def apply_default_def get_row_upd_row)
qed

text \<open>
  Entering a new password for a local credential, the field of the enable password left blank,
  drops the enable password that was stored: what the workers get has the new password and none to
  enable with.
\<close>

lemma new_password_drops_enable_password:
  assumes "update_cred S st k data d = (Inr path, d')" and "get_credential k d = Some c"
    and "form_provider data = Inr Prov_local" and "map_of data ''password'' = Some (FStr pw)" and "pw \<noteq> []"
    and "\<not> form_truthy data ''enable_password''"
    and "box_open S (box_seal S (secret_of data)) = Inr (secret_of data)" and "box_seal S (secret_of data) \<noteq> []"
  shows "\<exists>c' m. get_credential k d' = Some c' \<and> resolve_credential S c' = Inr m
    \<and> mat_password m = Some pw \<and> mat_enable_password m = None"
proof -
  have r: "committed p e x = (Inr path, d') \<Longrightarrow> x = Inr d'" for p e x
    by (auto simp: committed_def split: sum.splits)
  have pw: "form_truthy data ''password''" using assms(4,5) by (simp add: form_truthy_def)
  obtain c0 where c0: "d' = apply_default k (form_truthy data ''is_default'')
      (d\<lparr>db_credentials := upd_row cred_id k (\<lambda>_. c0) (db_credentials d)\<rparr>)"
    "cred_id c0 = cred_id c" "cred_provider c0 = Prov_local"
    "cred_encrypted_payload c0 = build_payload S Prov_local data"
    using r [OF assms(1) [unfolded update_cred_def assms(2) option.case]] pw
    by (auto simp: bind_result_Inr_iff Let_def assms(3))
  have "cred_id c = k" using assms(2) by (auto simp: get_credential_def dest: get_row_Some)
  then have "get_credential k (d\<lparr>db_credentials := upd_row cred_id k (\<lambda>_. c0) (db_credentials d)\<rparr>) = Some c0"
    using assms(2) c0(2) by (simp add: get_credential_def get_row_replaced)
  then have g: "get_credential k d' = Some (c0\<lparr>cred_is_default := form_truthy data ''is_default''\<rparr>)"
    unfolding c0(1) by (simp add: get_credential_apply_default)
  have "or_none (form_str data ''enable_password'') = None"
    using assms(6) by (auto simp: form_str_def form_truthy_def split: option.splits formval.splits)
  moreover have "or_none (form_str data ''password'') = Some pw"
    using assms(4,5) by (simp add: form_str_def)
  ultimately have s: "map_of (secret_of data) ''password'' = Some pw" "map_of (secret_of data) ''enable_password'' = None"
    by (simp_all add: secret_of_def opt_entry_def split: option.split)
  have "\<exists>m. resolve_credential S (c0\<lparr>cred_is_default := form_truthy data ''is_default''\<rparr>) = Inr m
      \<and> mat_password m = Some pw \<and> mat_enable_password m = None"
    using assms(7,8) s by (simp add: resolve_credential_def resolver_for_def c0(3,4) local_resolve_def build_payload_def
        local_encrypt_def material_of_def)
  with g show ?thesis by blast
qed

lemma new_password_drops_enable_password_witness:
  "\<exists>c' m. get_credential 1 (snd (update_cred (demo_secrets\<lparr>box_open := (\<lambda>b. Inr [(''username'', ''ops''), (''password'', ''new'')])\<rparr>)
       default_settings 1 demo_form demo_db)) = Some c'
     \<and> resolve_credential (demo_secrets\<lparr>box_open := (\<lambda>b. Inr [(''username'', ''ops''), (''password'', ''new'')])\<rparr>) c' = Inr m
     \<and> mat_enable_password m = None"
proof -
  let ?S = "demo_secrets\<lparr>box_open := (\<lambda>b. Inr [(''username'', ''ops''), (''password'', ''new'')])\<rparr>"
  have "fst (update_cred ?S default_settings 1 demo_form demo_db) = Inr (redir default_settings ''/credentials'')"
    by code_simp
  then obtain path d' where u: "update_cred ?S default_settings 1 demo_form demo_db = (Inr path, d')"
    by (metis prod.collapse)
  have f: "get_credential 1 demo_db = Some demo_credential" "form_provider demo_form = Inr Prov_local"
    "map_of demo_form ''password'' = Some (FStr ''new'')" "\<not> form_truthy demo_form ''enable_password''"
    "box_open ?S (box_seal ?S (secret_of demo_form)) = Inr (secret_of demo_form)"
    "box_seal ?S (secret_of demo_form) \<noteq> []"
    by code_simp+
  show ?thesis
    using new_password_drops_enable_password [OF u f(1-3) _ f(4-6)] by (auto simp: u)
qed

section \<open>Paging\<close>




end
