(* ===== verification/Ddl.thy ===== *)
theory Ddl
  imports Prelude
begin

text \<open>
  The fragment of SQL's data definition language that the migrations under \<open>alembic/versions\<close> use, as
  statements that act on a schema: tables with their columns, keys, foreign keys and indexes, and the
  enumerated types. A statement fails where PostgreSQL refuses it: what it creates exists already,
  what it changes or drops does not exist, or something else still depends on what it drops.
\<close>

section \<open>Schemas\<close>

datatype sql_type =
    T_integer
  | T_string nat
  | T_text
  | T_boolean
  | T_datetime
  | T_binary
  | T_numeric nat nat
  | T_json
  | T_jsonb
  | T_tsvector
  | T_enum string

record column =
  col_name :: string
  col_type :: sql_type
  col_nullable :: bool

record foreign_key =
  fk_name :: string
  fk_column :: string
  fk_table :: string
  fk_ref_column :: string
  fk_ondelete :: string

text \<open>An index, or a unique constraint, which is an index; \<open>ix_where\<close> restricts a partial index.\<close>

record sql_index =
  ix_name :: string
  ix_columns :: "string list"
  ix_unique :: bool
  ix_where :: "string option"

record table =
  tab_columns :: "column list"
  tab_primary_key :: "string list"
  tab_foreign_keys :: "foreign_key list"
  tab_indexes :: "sql_index list"

record schema =
  sch_tables :: "(string \<times> table) list"
  sch_enums :: "(string \<times> string list) list"

definition empty_schema :: schema where
  "empty_schema = \<lparr>sch_tables = [], sch_enums = []\<rparr>"

section \<open>Definitions of columns and tables\<close>

text \<open>
  \<open>sa.Column(...)\<close>: \<open>cd_enum\<close> lists the values of an enumerated type that is created with the table,
  \<open>cd_references\<close> the table, column and action of a foreign key.
\<close>

record column_def =
  cd_name :: string
  cd_type :: sql_type
  cd_enum :: "string list"
  cd_nullable :: bool
  cd_primary_key :: bool
  cd_unique :: bool
  cd_references :: "(string \<times> string \<times> string) option"

definition sa_column :: "string \<Rightarrow> sql_type \<Rightarrow> column_def" where
  "sa_column name ty = \<lparr>cd_name = name, cd_type = ty, cd_enum = [], cd_nullable = True,
     cd_primary_key = False, cd_unique = False, cd_references = None\<rparr>"

definition not_null :: "column_def \<Rightarrow> column_def" where
  "not_null c = c\<lparr>cd_nullable := False\<rparr>"

definition primary_key :: "column_def \<Rightarrow> column_def" where
  "primary_key c = c\<lparr>cd_primary_key := True, cd_nullable := False\<rparr>"

definition unique :: "column_def \<Rightarrow> column_def" where
  "unique c = c\<lparr>cd_unique := True\<rparr>"

definition references :: "string \<Rightarrow> string \<Rightarrow> column_def \<Rightarrow> column_def" where
  "references tab ondelete c = c\<lparr>cd_references := Some (tab, ''id'', ondelete)\<rparr>"

definition enum_column :: "string \<Rightarrow> string \<Rightarrow> string list \<Rightarrow> column_def" where
  "enum_column name ty values = (sa_column name (T_enum ty))\<lparr>cd_enum := values\<rparr>"

definition column_of :: "column_def \<Rightarrow> column" where
  "column_of c = \<lparr>col_name = cd_name c, col_type = cd_type c, col_nullable = cd_nullable c\<rparr>"

text \<open>The names PostgreSQL gives to constraints that have none.\<close>

definition fkey_name :: "string \<Rightarrow> string \<Rightarrow> string" where
  "fkey_name tab c = tab @ ''_'' @ c @ ''_fkey''"

definition ukey_name :: "string \<Rightarrow> string \<Rightarrow> string" where
  "ukey_name tab c = tab @ ''_'' @ c @ ''_key''"

definition foreign_keys_of :: "string \<Rightarrow> column_def \<Rightarrow> foreign_key list" where
  "foreign_keys_of tab c =
     (case cd_references c of
        None \<Rightarrow> []
      | Some (ref, ref_col, ondelete) \<Rightarrow>
          [\<lparr>fk_name = fkey_name tab (cd_name c), fk_column = cd_name c, fk_table = ref,
            fk_ref_column = ref_col, fk_ondelete = ondelete\<rparr>])"

definition unique_of :: "string \<Rightarrow> column_def \<Rightarrow> sql_index list" where
  "unique_of tab c =
     (if cd_unique c
      then [\<lparr>ix_name = ukey_name tab (cd_name c), ix_columns = [cd_name c], ix_unique = True, ix_where = None\<rparr>]
      else [])"

text \<open>The items of a \<open>create_table\<close> besides its columns.\<close>

datatype table_item =
    Primary_key "string list"
  | Foreign_key string string string
  | Unique_constraint string "string list"

fun add_item :: "string \<Rightarrow> table_item \<Rightarrow> table \<Rightarrow> table" where
  "add_item tab (Primary_key cs) t = t\<lparr>tab_primary_key := cs,
     tab_columns := map (\<lambda>c. if col_name c \<in> set cs then c\<lparr>col_nullable := False\<rparr> else c) (tab_columns t)\<rparr>"
| "add_item tab (Foreign_key c ref ondelete) t = t\<lparr>tab_foreign_keys := tab_foreign_keys t
     @ [\<lparr>fk_name = fkey_name tab c, fk_column = c, fk_table = ref, fk_ref_column = ''id'', fk_ondelete = ondelete\<rparr>]\<rparr>"
| "add_item tab (Unique_constraint name cs) t = t\<lparr>tab_indexes := tab_indexes t
     @ [\<lparr>ix_name = name, ix_columns = cs, ix_unique = True, ix_where = None\<rparr>]\<rparr>"

definition build_table :: "string \<Rightarrow> column_def list \<Rightarrow> table_item list \<Rightarrow> table" where
  "build_table tab cds items = fold (add_item tab) items
     \<lparr>tab_columns = map column_of cds,
      tab_primary_key = map cd_name (filter cd_primary_key cds),
      tab_foreign_keys = concat (map (foreign_keys_of tab) cds),
      tab_indexes = concat (map (unique_of tab) cds)\<rparr>"

section \<open>Statements\<close>

text \<open>
  The methods of \<open>op\<close> and the SQL texts the migrations execute. \<open>Dml\<close> stands for a statement that
  changes rows: the columns it writes and the tables it reads have to exist. \<open>No_ddl\<close> is a statement
  without an effect on the schema (\<open>COMMIT\<close>, an extension).
\<close>

datatype ddl =
    Create_table string "column_def list" "table_item list"
  | Drop_table string
  | Drop_table_if_exists string
  | Rename_table string string
  | Add_column string column_def
  | Drop_column string string
  | Rename_column string string string
  | Set_nullable string string bool
  | Create_index string string "string list" bool "string option"
  | Drop_index string string
  | Create_foreign_key string string string string string
  | Drop_constraint string string
  | Add_enum_value string string
  | Drop_enum string
  | Dml string "string list" "string list"
  | No_ddl string

definition sql_error :: "string \<Rightarrow> string \<Rightarrow> py_exn" where
  "sql_error what name = Exn ''ProgrammingError'' (what @ '': '' @ name)"

definition require :: "bool \<Rightarrow> py_exn \<Rightarrow> unit result" where
  "require b e = (if b then Inr () else Inl e)"

definition table_of :: "string \<Rightarrow> schema \<Rightarrow> table result" where
  "table_of tab s = (case map_of (sch_tables s) tab of
     None \<Rightarrow> Inl (sql_error ''undefined table'' tab) | Some t \<Rightarrow> Inr t)"

definition set_table :: "string \<Rightarrow> table \<Rightarrow> schema \<Rightarrow> schema" where
  "set_table tab t s = s\<lparr>sch_tables := dict_set tab t (sch_tables s)\<rparr>"

definition has_column :: "string \<Rightarrow> table \<Rightarrow> bool" where
  "has_column c t \<longleftrightarrow> c \<in> set (map col_name (tab_columns t))"

definition index_names :: "schema \<Rightarrow> string list" where
  "index_names s = concat (map (map ix_name \<circ> tab_indexes \<circ> snd) (sch_tables s))"

text \<open>A foreign key of \<open>t\<close>, the new state of the table \<open>tab\<close>, refers to a column that exists.\<close>

definition refers_ok :: "string \<Rightarrow> table \<Rightarrow> schema \<Rightarrow> foreign_key \<Rightarrow> bool" where
  "refers_ok tab t s k \<longleftrightarrow> has_column (fk_column k) t
     \<and> (case map_of (sch_tables (set_table tab t s)) (fk_table k) of
          None \<Rightarrow> False | Some t' \<Rightarrow> has_column (fk_ref_column k) t')"

definition enum_known :: "schema \<Rightarrow> sql_type \<Rightarrow> bool" where
  "enum_known s ty \<longleftrightarrow> (case ty of T_enum n \<Rightarrow> n \<in> set (map fst (sch_enums s)) | _ \<Rightarrow> True)"

text \<open>\<open>create_table\<close> creates the enumerated types of its columns that do not exist.\<close>

fun create_enums :: "column_def list \<Rightarrow> (string \<times> string list) list \<Rightarrow> (string \<times> string list) list" where
  "create_enums [] es = es"
| "create_enums (c # cs) es = create_enums cs
     (case cd_type c of
        T_enum n \<Rightarrow> if n \<in> set (map fst es) then es else es @ [(n, cd_enum c)]
      | _ \<Rightarrow> es)"

definition uses_enum :: "string \<Rightarrow> table \<Rightarrow> bool" where
  "uses_enum n t \<longleftrightarrow> list_ex (\<lambda>c. col_type c = T_enum n) (tab_columns t)"

definition depends_on_table :: "string \<Rightarrow> string \<times> table \<Rightarrow> bool" where
  "depends_on_table tab = (\<lambda>(n, t). n \<noteq> tab \<and> list_ex (\<lambda>k. fk_table k = tab) (tab_foreign_keys t))"

definition depends_on_column :: "string \<Rightarrow> string \<Rightarrow> string \<times> table \<Rightarrow> bool" where
  "depends_on_column tab c = (\<lambda>(n, t). list_ex (\<lambda>k. fk_table k = tab \<and> fk_ref_column k = c) (tab_foreign_keys t))"

definition rename_refs :: "string \<Rightarrow> string \<Rightarrow> table \<Rightarrow> table" where
  "rename_refs old new t = t\<lparr>tab_foreign_keys :=
     map (\<lambda>k. if fk_table k = old then k\<lparr>fk_table := new\<rparr> else k) (tab_foreign_keys t)\<rparr>"

definition rename_in :: "string \<Rightarrow> string \<Rightarrow> string list \<Rightarrow> string list" where
  "rename_in old new cs = map (\<lambda>c. if c = old then new else c) cs"

definition rename_column :: "string \<Rightarrow> string \<Rightarrow> table \<Rightarrow> table" where
  "rename_column old new t = \<lparr>
     tab_columns = map (\<lambda>c. if col_name c = old then c\<lparr>col_name := new\<rparr> else c) (tab_columns t),
     tab_primary_key = rename_in old new (tab_primary_key t),
     tab_foreign_keys = map (\<lambda>k. if fk_column k = old then k\<lparr>fk_column := new\<rparr> else k) (tab_foreign_keys t),
     tab_indexes = map (\<lambda>i. i\<lparr>ix_columns := rename_in old new (ix_columns i)\<rparr>) (tab_indexes t)\<rparr>"

text \<open>With a column go the foreign keys and the indexes on it.\<close>

definition remove_column :: "string \<Rightarrow> table \<Rightarrow> table" where
  "remove_column c t = \<lparr>
     tab_columns = filter (\<lambda>x. col_name x \<noteq> c) (tab_columns t),
     tab_primary_key = (if c \<in> set (tab_primary_key t) then [] else tab_primary_key t),
     tab_foreign_keys = filter (\<lambda>k. fk_column k \<noteq> c) (tab_foreign_keys t),
     tab_indexes = filter (\<lambda>i. c \<notin> set (ix_columns i)) (tab_indexes t)\<rparr>"

definition remove_table :: "string \<Rightarrow> schema \<Rightarrow> schema" where
  "remove_table tab s = s\<lparr>sch_tables := filter (\<lambda>p. fst p \<noteq> tab) (sch_tables s)\<rparr>"

definition drop_table :: "string \<Rightarrow> schema \<Rightarrow> schema result" where
  "drop_table tab s =
     bind_result (require (\<not> list_ex (depends_on_table tab) (sch_tables s))
         (sql_error ''other objects depend on table'' tab)) (\<lambda>_.
       Inr (remove_table tab s))"

definition change_table :: "string \<Rightarrow> (table \<Rightarrow> table result) \<Rightarrow> schema \<Rightarrow> schema result" where
  "change_table tab f s =
     bind_result (table_of tab s) (\<lambda>t. bind_result (f t) (\<lambda>t'. Inr (set_table tab t' s)))"

text \<open>The keys \<open>ks\<close> are new in the table \<open>tab\<close>, which becomes \<open>t\<close>.\<close>

definition need_refs :: "string \<Rightarrow> table \<Rightarrow> schema \<Rightarrow> foreign_key list \<Rightarrow> unit result" where
  "need_refs tab t s ks =
     require (list_all (refers_ok tab t s) ks) (sql_error ''foreign key refers to nothing in'' tab)"

definition need_column :: "string \<Rightarrow> table \<Rightarrow> unit result" where
  "need_column c t = require (has_column c t) (sql_error ''undefined column'' c)"

fun execute_ddl :: "ddl \<Rightarrow> schema \<Rightarrow> schema result" where
  "execute_ddl (Create_table tab cds items) s =
     bind_result (require (map_of (sch_tables s) tab = None) (sql_error ''duplicate table'' tab)) (\<lambda>_.
     bind_result (require (distinct (map cd_name cds)) (sql_error ''duplicate column in'' tab)) (\<lambda>_.
       let t = build_table tab cds items in
       bind_result (need_refs tab t s (tab_foreign_keys t)) (\<lambda>_.
         Inr (set_table tab t (s\<lparr>sch_enums := create_enums cds (sch_enums s)\<rparr>)))))"
| "execute_ddl (Drop_table tab) s = bind_result (table_of tab s) (\<lambda>_. drop_table tab s)"
| "execute_ddl (Drop_table_if_exists tab) s =
     (if map_of (sch_tables s) tab = None then Inr s else drop_table tab s)"
| "execute_ddl (Rename_table old new) s =
     bind_result (table_of old s) (\<lambda>_.
     bind_result (require (map_of (sch_tables s) new = None) (sql_error ''duplicate table'' new)) (\<lambda>_.
       Inr (s\<lparr>sch_tables := map (\<lambda>(n, t). (if n = old then new else n, rename_refs old new t)) (sch_tables s)\<rparr>)))"
| "execute_ddl (Add_column tab cd) s = change_table tab (\<lambda>t.
     bind_result (require (\<not> has_column (cd_name cd) t) (sql_error ''duplicate column'' (cd_name cd))) (\<lambda>_.
     bind_result (require (enum_known s (cd_type cd)) (sql_error ''undefined type of'' (cd_name cd))) (\<lambda>_.
       let t' = t\<lparr>tab_columns := tab_columns t @ [column_of cd],
                  tab_foreign_keys := tab_foreign_keys t @ foreign_keys_of tab cd,
                  tab_indexes := tab_indexes t @ unique_of tab cd\<rparr> in
       bind_result (need_refs tab t' s (foreign_keys_of tab cd)) (\<lambda>_. Inr t')))) s"
| "execute_ddl (Drop_column tab c) s =
     bind_result (require (\<not> list_ex (depends_on_column tab c) (sch_tables s))
         (sql_error ''other objects depend on column'' c)) (\<lambda>_.
       change_table tab (\<lambda>t. bind_result (need_column c t) (\<lambda>_. Inr (remove_column c t))) s)"
| "execute_ddl (Rename_column tab old new) s = change_table tab (\<lambda>t.
     bind_result (need_column old t) (\<lambda>_.
     bind_result (require (\<not> has_column new t) (sql_error ''duplicate column'' new)) (\<lambda>_.
       Inr (rename_column old new t)))) s"
| "execute_ddl (Set_nullable tab c b) s = change_table tab (\<lambda>t.
     bind_result (need_column c t) (\<lambda>_.
       Inr (t\<lparr>tab_columns := map (\<lambda>x. if col_name x = c then x\<lparr>col_nullable := b\<rparr> else x) (tab_columns t)\<rparr>))) s"
| "execute_ddl (Create_index name tab cs uniq cond) s =
     bind_result (require (name \<notin> set (index_names s)) (sql_error ''duplicate index'' name)) (\<lambda>_.
       change_table tab (\<lambda>t.
         bind_result (traverse (\<lambda>c. need_column c t) cs) (\<lambda>_.
           Inr (t\<lparr>tab_indexes := tab_indexes t
             @ [\<lparr>ix_name = name, ix_columns = cs, ix_unique = uniq, ix_where = cond\<rparr>]\<rparr>))) s)"
| "execute_ddl (Drop_index name tab) s = change_table tab (\<lambda>t.
     bind_result (require (name \<in> set (map ix_name (tab_indexes t))) (sql_error ''undefined index'' name)) (\<lambda>_.
       Inr (t\<lparr>tab_indexes := filter (\<lambda>i. ix_name i \<noteq> name) (tab_indexes t)\<rparr>))) s"
| "execute_ddl (Create_foreign_key name tab ref c ondelete) s = change_table tab (\<lambda>t.
     bind_result (require (name \<notin> set (map fk_name (tab_foreign_keys t))) (sql_error ''duplicate constraint'' name)) (\<lambda>_.
       let k = \<lparr>fk_name = name, fk_column = c, fk_table = ref, fk_ref_column = ''id'', fk_ondelete = ondelete\<rparr>
       in bind_result (need_refs tab t s [k]) (\<lambda>_.
            Inr (t\<lparr>tab_foreign_keys := tab_foreign_keys t @ [k]\<rparr>)))) s"
| "execute_ddl (Drop_constraint name tab) s = change_table tab (\<lambda>t.
     bind_result (require (name \<in> set (map fk_name (tab_foreign_keys t))) (sql_error ''undefined constraint'' name)) (\<lambda>_.
       Inr (t\<lparr>tab_foreign_keys := filter (\<lambda>k. fk_name k \<noteq> name) (tab_foreign_keys t)\<rparr>))) s"
| "execute_ddl (Add_enum_value n v) s =
     (case map_of (sch_enums s) n of
        None \<Rightarrow> Inl (sql_error ''undefined type'' n)
      | Some vs \<Rightarrow> Inr (if v \<in> set vs then s else s\<lparr>sch_enums := dict_set n (vs @ [v]) (sch_enums s)\<rparr>))"
| "execute_ddl (Drop_enum n) s =
     bind_result (require (\<not> list_ex (uses_enum n \<circ> snd) (sch_tables s))
         (sql_error ''other objects depend on type'' n)) (\<lambda>_.
       Inr (s\<lparr>sch_enums := filter (\<lambda>p. fst p \<noteq> n) (sch_enums s)\<rparr>))"
| "execute_ddl (Dml tab cs reads) s =
     bind_result (table_of tab s) (\<lambda>t.
     bind_result (traverse (\<lambda>c. need_column c t) cs) (\<lambda>_.
     bind_result (traverse (\<lambda>r. table_of r s) reads) (\<lambda>_. Inr s)))"
| "execute_ddl (No_ddl txt) s = Inr s"

fun execute_all :: "ddl list \<Rightarrow> schema \<Rightarrow> schema result" where
  "execute_all [] s = Inr s"
| "execute_all (d # ds) s = bind_result (execute_ddl d s) (execute_all ds)"

lemma execute_all_append:
  "execute_all (ds @ es) s = bind_result (execute_all ds s) (execute_all es)"
proof (induction ds arbitrary: s)
  case Nil
  then show ?case by simp
next
  case (Cons d ds)
  then show ?case by (cases "execute_ddl d s") simp_all
qed

end
