(* ===== verification/Migrations.thy ===== *)
theory Migrations
  imports Ddl
begin

text \<open>
  The migrations under \<open>alembic/versions\<close>: for every revision its identifier, the one it follows and
  the statements of its \<open>upgrade\<close> and its \<open>downgrade\<close>. Server defaults and the time stamps' functions
  are left out: they decide what a row holds, not which tables and columns there are. The statements
  that move rows are \<open>Dml\<close> here; \<open>Profiles_To_Jobs\<close> says what they do.
\<close>

section \<open>The initial schema\<close>

definition stamp :: "string \<Rightarrow> column_def" where
  "stamp name = sa_column name T_datetime"

definition id_column :: column_def where
  "id_column = primary_key (sa_column ''id'' T_integer)"

definition named_column :: column_def where
  "named_column = unique (not_null (sa_column ''name'' (T_string 128)))"

definition description_column :: column_def where
  "description_column = sa_column ''description'' T_text"

definition upgrade_0001 :: "ddl list" where
  "upgrade_0001 =
     [Create_table ''credentials''
        [id_column, named_column, description_column,
         not_null (enum_column ''provider'' ''credential_provider'' [''local'', ''vault'', ''bitwarden'']),
         sa_column ''encrypted_payload'' T_binary,
         sa_column ''ref'' (T_string 512),
         sa_column ''username'' (T_string 128),
         not_null (stamp ''created_at''), not_null (stamp ''updated_at'')] [],
      Create_table ''parser_templates''
        [id_column, named_column, description_column,
         not_null (enum_column ''type'' ''parser_type'' [''textfsm'', ''ttp'', ''xslt'']),
         not_null (sa_column ''body'' T_text),
         not_null (stamp ''created_at''), not_null (stamp ''updated_at'')] [],
      Create_table ''profiles''
        [id_column, named_column, description_column,
         not_null (enum_column ''kind'' ''profile_kind'' [''cli'', ''netconf'']),
         sa_column ''platform'' (T_string 64),
         enum_column ''transport'' ''transport_protocol'' [''ssh'', ''telnet'', ''netconf''],
         sa_column ''port'' T_integer,
         sa_column ''prompt_pattern'' (T_string 256),
         sa_column ''pre_commands'' T_text,
         sa_column ''disable_paging_command'' (T_string 256),
         sa_column ''commands'' T_text,
         sa_column ''manufacturer'' (T_string 64),
         sa_column ''rpc'' T_text,
         references ''parser_templates'' ''SET NULL'' (sa_column ''parser_template_id'' T_integer),
         not_null (stamp ''created_at''), not_null (stamp ''updated_at'')] [],
      Create_table ''device_groups''
        [id_column, named_column, description_column,
         references ''credentials'' ''SET NULL'' (sa_column ''default_credential_id'' T_integer),
         not_null (sa_column ''max_parallel'' T_integer),
         not_null (stamp ''created_at''), not_null (stamp ''updated_at'')] [],
      Create_table ''devices''
        [id_column, named_column,
         not_null (sa_column ''hostname'' (T_string 255)),
         sa_column ''port'' T_integer,
         description_column,
         references ''device_groups'' ''CASCADE'' (not_null (sa_column ''group_id'' T_integer)),
         references ''profiles'' ''RESTRICT'' (not_null (sa_column ''profile_id'' T_integer)),
         references ''credentials'' ''SET NULL'' (sa_column ''credential_id'' T_integer),
         not_null (sa_column ''enabled'' T_boolean),
         not_null (stamp ''created_at''), not_null (stamp ''updated_at'')] [],
      Create_table ''schedules''
        [id_column,
         not_null (sa_column ''name'' (T_string 128)),
         description_column,
         references ''device_groups'' ''CASCADE'' (not_null (sa_column ''group_id'' T_integer)),
         not_null (enum_column ''kind'' ''job_kind'' [''backup'', ''collect'']),
         not_null (sa_column ''cron'' (T_string 64)),
         not_null (sa_column ''timezone'' (T_string 64)),
         not_null (sa_column ''enabled'' T_boolean),
         stamp ''last_run_at'', stamp ''next_run_at'',
         not_null (stamp ''created_at''), not_null (stamp ''updated_at'')] [],
      Create_table ''runs''
        [id_column,
         references ''schedules'' ''SET NULL'' (sa_column ''schedule_id'' T_integer),
         references ''devices'' ''CASCADE'' (not_null (sa_column ''device_id'' T_integer)),
         not_null (sa_column ''kind'' (T_string 16)),
         not_null (enum_column ''status'' ''run_status''
           [''pending'', ''running'', ''success'', ''failed'', ''timeout'', ''cancelled'']),
         stamp ''started_at'', stamp ''finished_at'',
         sa_column ''commit_sha'' (T_string 64),
         sa_column ''payload_sha256'' (T_string 64),
         sa_column ''bytes_captured'' T_integer,
         sa_column ''error'' T_text,
         not_null (stamp ''created_at''), not_null (stamp ''updated_at'')] [],
      Create_index ''ix_runs_device_id_created_at'' ''runs'' [''device_id'', ''created_at''] False None]"

definition downgrade_0001 :: "ddl list" where
  "downgrade_0001 =
     [Drop_index ''ix_runs_device_id_created_at'' ''runs'',
      Drop_table ''runs'', Drop_table ''schedules'', Drop_table ''devices'', Drop_table ''device_groups'',
      Drop_table ''profiles'', Drop_table ''parser_templates'', Drop_table ''credentials'',
      Drop_enum ''run_status'', Drop_enum ''job_kind'', Drop_enum ''profile_kind'',
      Drop_enum ''parser_type'', Drop_enum ''transport_protocol'', Drop_enum ''credential_provider'']"

section \<open>Scans, batches, configurations, platforms\<close>

definition upgrade_0002 :: "ddl list" where
  "upgrade_0002 =
     [Add_column ''profiles'' (sa_column ''cve_vendor'' (T_string 64)),
      Add_column ''profiles'' (sa_column ''cve_product'' (T_string 64))]"

definition downgrade_0002 :: "ddl list" where
  "downgrade_0002 = [Drop_column ''profiles'' ''cve_product'', Drop_column ''profiles'' ''cve_vendor'']"

definition upgrade_0003 :: "ddl list" where
  "upgrade_0003 = [No_ddl ''COMMIT'', Add_enum_value ''job_kind'' ''cve_scan'']"

definition downgrade_0003 :: "ddl list" where
  "downgrade_0003 = []"

definition upgrade_0004 :: "ddl list" where
  "upgrade_0004 =
     [Create_table ''cve_scans''
        [not_null (sa_column ''id'' T_integer),
         sa_column ''run_id'' T_integer,
         not_null (sa_column ''device_id'' T_integer),
         not_null (sa_column ''cpe'' (T_string 256)),
         sa_column ''version_found'' (T_string 128),
         sa_column ''raw_version'' (T_string 128),
         not_null (stamp ''scanned_at''),
         stamp ''created_at'', stamp ''updated_at'']
        [Foreign_key ''device_id'' ''devices'' ''CASCADE'',
         Foreign_key ''run_id'' ''runs'' ''SET NULL'',
         Primary_key [''id'']],
      Create_table ''cve_results''
        [not_null (sa_column ''id'' T_integer),
         not_null (sa_column ''scan_id'' T_integer),
         not_null (sa_column ''cve_id'' (T_string 32)),
         sa_column ''cvss_v3_score'' (T_numeric 4 1),
         sa_column ''severity'' (T_string 16),
         sa_column ''summary'' T_text,
         stamp ''published_at'',
         sa_column ''url'' (T_string 512)]
        [Foreign_key ''scan_id'' ''cve_scans'' ''CASCADE'',
         Primary_key [''id'']]]"

definition downgrade_0004 :: "ddl list" where
  "downgrade_0004 = [Drop_table ''cve_results'', Drop_table ''cve_scans'']"

definition upgrade_0005 :: "ddl list" where
  "upgrade_0005 =
     [Create_table ''run_batches''
        [not_null (sa_column ''id'' T_integer),
         sa_column ''schedule_id'' T_integer,
         not_null (sa_column ''schedule_name'' (T_string 128)),
         not_null (sa_column ''kind'' (T_string 16)),
         not_null (sa_column ''total'' T_integer),
         not_null (sa_column ''succeeded'' T_integer),
         not_null (sa_column ''failed'' T_integer),
         stamp ''started_at'', stamp ''finished_at'',
         sa_column ''commit_sha'' (T_string 64),
         not_null (stamp ''created_at''), not_null (stamp ''updated_at'')]
        [Foreign_key ''schedule_id'' ''schedules'' ''SET NULL'',
         Primary_key [''id'']],
      Create_index ''ix_run_batches_started_at'' ''run_batches'' [''started_at''] False None,
      Add_column ''runs'' (sa_column ''batch_id'' T_integer),
      Create_foreign_key ''fk_runs_batch_id'' ''runs'' ''run_batches'' ''batch_id'' ''SET NULL'',
      Add_column ''devices'' (sa_column ''latest_backup_path'' (T_string 512)),
      Add_column ''devices'' (stamp ''latest_backup_at'')]"

definition downgrade_0005 :: "ddl list" where
  "downgrade_0005 =
     [Drop_column ''devices'' ''latest_backup_at'',
      Drop_column ''devices'' ''latest_backup_path'',
      Drop_constraint ''fk_runs_batch_id'' ''runs'',
      Drop_column ''runs'' ''batch_id'',
      Drop_index ''ix_run_batches_started_at'' ''run_batches'',
      Drop_table ''run_batches'']"

text \<open>The two text-search indexes are of the kind \<open>GIN\<close>; the second is on trigrams of the column.\<close>

definition upgrade_0006 :: "ddl list" where
  "upgrade_0006 =
     [No_ddl ''CREATE EXTENSION IF NOT EXISTS pg_trgm'',
      Create_table ''device_configs''
        [references ''devices'' ''CASCADE'' (primary_key (sa_column ''device_id'' T_integer)),
         references ''run_batches'' ''SET NULL'' (sa_column ''batch_id'' T_integer),
         stamp ''captured_at'',
         sa_column ''content'' T_text,
         sa_column ''content_fts'' T_tsvector] [],
      Create_index ''ix_device_configs_fts'' ''device_configs'' [''content_fts''] False None,
      Create_index ''ix_device_configs_trgm'' ''device_configs'' [''content''] False None,
      Create_index ''ix_runs_batch_id'' ''runs'' [''batch_id''] False None]"

definition downgrade_0006 :: "ddl list" where
  "downgrade_0006 =
     [Drop_index ''ix_runs_batch_id'' ''runs'',
      Drop_table_if_exists ''device_configs'',
      No_ddl ''DROP EXTENSION IF EXISTS pg_trgm'']"

definition upgrade_0007 :: "ddl list" where
  "upgrade_0007 =
     [Create_table ''platforms''
        [id_column, named_column, description_column,
         not_null (sa_column ''yaml_body'' T_text),
         not_null (stamp ''created_at''), not_null (stamp ''updated_at'')] [],
      Add_column ''profiles''
        (references ''platforms'' ''SET NULL'' (sa_column ''custom_platform_id'' T_integer))]"

definition downgrade_0007 :: "ddl list" where
  "downgrade_0007 = [Drop_column ''profiles'' ''custom_platform_id'', Drop_table ''platforms'']"

definition upgrade_0008 :: "ddl list" where
  "upgrade_0008 =
     [Drop_column ''profiles'' ''prompt_pattern'',
      Drop_column ''profiles'' ''pre_commands'',
      Drop_column ''profiles'' ''disable_paging_command'']"

definition downgrade_0008 :: "ddl list" where
  "downgrade_0008 =
     [Add_column ''profiles'' (sa_column ''disable_paging_command'' (T_string 256)),
      Add_column ''profiles'' (sa_column ''pre_commands'' T_text),
      Add_column ''profiles'' (sa_column ''prompt_pattern'' (T_string 256))]"

section \<open>Profiles become jobs\<close>

definition upgrade_0009 :: "ddl list" where
  "upgrade_0009 =
     [Add_column ''devices'' (sa_column ''platform'' (T_string 64)),
      Add_column ''devices'' (sa_column ''transport'' (T_enum ''transport_protocol'')),
      Add_column ''devices'' (sa_column ''driver_kind'' (T_string 8)),
      Add_column ''devices''
        (references ''platforms'' ''SET NULL'' (sa_column ''custom_platform_id'' T_integer)),
      Dml ''devices'' [''platform'', ''transport'', ''driver_kind'', ''custom_platform_id'', ''profile_id''] [''profiles''],
      Rename_table ''profiles'' ''jobs'',
      Rename_column ''jobs'' ''kind'' ''profile_kind_tmp'',
      Add_column ''jobs'' (sa_column ''kind'' (T_enum ''job_kind'')),
      Dml ''jobs'' [''kind'', ''id''] [''devices'', ''schedules''],
      Dml ''jobs'' [''kind''] [],
      Set_nullable ''jobs'' ''kind'' False,
      Create_table ''job_device_groups''
        [references ''jobs'' ''CASCADE'' (primary_key (sa_column ''job_id'' T_integer)),
         references ''device_groups'' ''CASCADE'' (primary_key (sa_column ''device_group_id'' T_integer))] [],
      Create_table ''job_devices''
        [references ''jobs'' ''CASCADE'' (primary_key (sa_column ''job_id'' T_integer)),
         references ''devices'' ''CASCADE'' (primary_key (sa_column ''device_id'' T_integer))] [],
      Dml ''job_device_groups'' [''job_id'', ''device_group_id''] [''devices''],
      Add_column ''schedules'' (references ''jobs'' ''SET NULL'' (sa_column ''job_id'' T_integer)),
      Dml ''schedules'' [''job_id'', ''id''] [''schedules'', ''devices''],
      Drop_constraint ''schedules_group_id_fkey'' ''schedules'',
      Drop_column ''schedules'' ''group_id'',
      Drop_column ''schedules'' ''kind'',
      Drop_constraint ''profiles_custom_platform_id_fkey'' ''jobs'',
      Drop_column ''jobs'' ''profile_kind_tmp'',
      Drop_column ''jobs'' ''platform'',
      Drop_column ''jobs'' ''transport'',
      Drop_column ''jobs'' ''port'',
      Drop_column ''jobs'' ''custom_platform_id'',
      Drop_column ''jobs'' ''manufacturer'',
      Drop_constraint ''devices_profile_id_fkey'' ''devices'',
      Drop_column ''devices'' ''profile_id'',
      Drop_enum ''profile_kind'']"

definition downgrade_0009 :: "ddl list" where
  "downgrade_0009 = []"

section \<open>Later additions\<close>

definition upgrade_0010 :: "ddl list" where
  "upgrade_0010 =
     [Add_column ''devices'' (sa_column ''connect_timeout'' T_integer),
      Add_column ''devices'' (sa_column ''command_timeout'' T_integer)]"

definition downgrade_0010 :: "ddl list" where
  "downgrade_0010 = [Drop_column ''devices'' ''command_timeout'', Drop_column ''devices'' ''connect_timeout'']"

definition upgrade_0011 :: "ddl list" where
  "upgrade_0011 =
     [Create_table ''device_group_memberships''
        [not_null (sa_column ''device_id'' T_integer),
         not_null (sa_column ''device_group_id'' T_integer)]
        [Foreign_key ''device_id'' ''devices'' ''CASCADE'',
         Foreign_key ''device_group_id'' ''device_groups'' ''CASCADE'',
         Primary_key [''device_id'', ''device_group_id'']],
      Dml ''device_group_memberships'' [''device_id'', ''device_group_id''] [''devices''],
      Drop_constraint ''devices_group_id_fkey'' ''devices'',
      Drop_column ''devices'' ''group_id'']"

definition downgrade_0011 :: "ddl list" where
  "downgrade_0011 =
     [Add_column ''devices'' (sa_column ''group_id'' T_integer),
      Create_foreign_key ''devices_group_id_fkey'' ''devices'' ''device_groups'' ''group_id'' ''CASCADE'',
      Dml ''devices'' [''group_id''] [''device_group_memberships''],
      Drop_table ''device_group_memberships'']"

definition upgrade_0012 :: "ddl list" where
  "upgrade_0012 = [Add_column ''runs'' (sa_column ''parsed_data'' T_json)]"

definition downgrade_0012 :: "ddl list" where
  "downgrade_0012 = [Drop_column ''runs'' ''parsed_data'']"

definition upgrade_0013 :: "ddl list" where
  "upgrade_0013 =
     [Add_column ''credentials'' (not_null (sa_column ''is_default'' T_boolean)),
      Create_index ''uix_credentials_is_default'' ''credentials'' [''is_default''] True (Some ''is_default = true'')]"

definition downgrade_0013 :: "ddl list" where
  "downgrade_0013 =
     [Drop_index ''uix_credentials_is_default'' ''credentials'', Drop_column ''credentials'' ''is_default'']"

definition upgrade_0014 :: "ddl list" where
  "upgrade_0014 =
     [Add_column ''devices'' (sa_column ''make'' (T_string 128)),
      Add_column ''devices'' (sa_column ''model'' (T_string 128)),
      Add_column ''devices'' (sa_column ''role'' (T_string 64)),
      Create_index ''ix_devices_make'' ''devices'' [''make''] False None,
      Create_index ''ix_devices_model'' ''devices'' [''model''] False None,
      Create_index ''ix_devices_role'' ''devices'' [''role''] False None]"

definition downgrade_0014 :: "ddl list" where
  "downgrade_0014 =
     [Drop_index ''ix_devices_role'' ''devices'', Drop_index ''ix_devices_model'' ''devices'',
      Drop_index ''ix_devices_make'' ''devices'',
      Drop_column ''devices'' ''role'', Drop_column ''devices'' ''model'', Drop_column ''devices'' ''make'']"

definition upgrade_0015 :: "ddl list" where
  "upgrade_0015 = [Add_column ''runs'' (sa_column ''parse_error'' T_text)]"

definition downgrade_0015 :: "ddl list" where
  "downgrade_0015 = [Drop_column ''runs'' ''parse_error'']"

definition upgrade_0016 :: "ddl list" where
  "upgrade_0016 =
     [Add_column ''parser_templates'' (sa_column ''jinja2_template'' T_text),
      Add_column ''runs''
        (references ''parser_templates'' ''SET NULL'' (sa_column ''parser_template_id'' T_integer))]"

definition downgrade_0016 :: "ddl list" where
  "downgrade_0016 =
     [Drop_column ''runs'' ''parser_template_id'', Drop_column ''parser_templates'' ''jinja2_template'']"

definition upgrade_0017 :: "ddl list" where
  "upgrade_0017 =
     [Add_column ''jobs'' (not_null (sa_column ''show_on_device'' T_boolean)),
      Add_column ''runs'' (references ''jobs'' ''SET NULL'' (sa_column ''job_id'' T_integer))]"

definition downgrade_0017 :: "ddl list" where
  "downgrade_0017 = [Drop_column ''runs'' ''job_id'', Drop_column ''jobs'' ''show_on_device'']"

definition upgrade_0018 :: "ddl list" where
  "upgrade_0018 = [Add_column ''parser_templates'' (sa_column ''aggregate_template'' T_text)]"

definition downgrade_0018 :: "ddl list" where
  "downgrade_0018 = [Drop_column ''parser_templates'' ''aggregate_template'']"

definition policy_id_column :: column_def where
  "policy_id_column = references ''compliance_policies'' ''CASCADE'' (sa_column ''policy_id'' T_integer)"

definition upgrade_0019 :: "ddl list" where
  "upgrade_0019 =
     [Create_table ''compliance_policies''
        [id_column, named_column, description_column,
         not_null (sa_column ''parser_type'' (T_string 16)),
         not_null (sa_column ''parser_body'' T_text),
         not_null (sa_column ''enabled'' T_boolean),
         not_null (sa_column ''auto_evaluate'' T_boolean),
         stamp ''created_at'', stamp ''updated_at''] [],
      Create_table ''compliance_policy_groups''
        [primary_key policy_id_column,
         references ''device_groups'' ''CASCADE'' (primary_key (sa_column ''device_group_id'' T_integer))] [],
      Create_table ''compliance_policy_devices''
        [primary_key policy_id_column,
         references ''devices'' ''CASCADE'' (primary_key (sa_column ''device_id'' T_integer))] [],
      Create_table ''compliance_checks''
        [id_column,
         not_null policy_id_column,
         not_null (sa_column ''name'' (T_string 128)),
         not_null (sa_column ''field'' (T_string 64)),
         not_null (sa_column ''operator'' (T_string 16)),
         sa_column ''expected'' T_text,
         not_null (sa_column ''mode'' (T_string 8)),
         not_null (sa_column ''severity'' (T_string 8)),
         description_column,
         not_null (sa_column ''sort_order'' T_integer)] [],
      Create_index ''ix_compliance_checks_policy_id'' ''compliance_checks'' [''policy_id''] False None,
      Create_table ''compliance_results''
        [id_column,
         not_null policy_id_column,
         references ''devices'' ''CASCADE'' (not_null (sa_column ''device_id'' T_integer)),
         not_null (stamp ''evaluated_at''),
         not_null (sa_column ''status'' (T_string 8)),
         sa_column ''detail'' T_jsonb]
        [Unique_constraint ''uq_compliance_results_policy_device'' [''policy_id'', ''device_id'']],
      Create_index ''ix_compliance_results_policy_id'' ''compliance_results'' [''policy_id''] False None,
      Create_index ''ix_compliance_results_device_id'' ''compliance_results'' [''device_id''] False None]"

definition downgrade_0019 :: "ddl list" where
  "downgrade_0019 =
     [Drop_table ''compliance_results'', Drop_table ''compliance_checks'',
      Drop_table ''compliance_policy_devices'', Drop_table ''compliance_policy_groups'',
      Drop_table ''compliance_policies'']"

definition upgrade_0020 :: "ddl list" where
  "upgrade_0020 =
     [Add_column ''devices'' (sa_column ''worker_pool'' (T_string 64)),
      Create_index ''ix_devices_worker_pool'' ''devices'' [''worker_pool''] False None,
      Add_column ''device_groups'' (sa_column ''worker_pool'' (T_string 64))]"

definition downgrade_0020 :: "ddl list" where
  "downgrade_0020 =
     [Drop_index ''ix_devices_worker_pool'' ''devices'',
      Drop_column ''devices'' ''worker_pool'', Drop_column ''device_groups'' ''worker_pool'']"

definition upgrade_0021 :: "ddl list" where
  "upgrade_0021 = [Add_column ''schedules'' (not_null (sa_column ''skip_next_run'' T_boolean))]"

definition downgrade_0021 :: "ddl list" where
  "downgrade_0021 = [Drop_column ''schedules'' ''skip_next_run'']"

section \<open>The chain of revisions\<close>

record migration =
  mig_revision :: string
  mig_down_revision :: "string option"
  mig_upgrade :: "ddl list"
  mig_downgrade :: "ddl list"

definition versions :: "migration list" where
  "versions =
     [\<lparr>mig_revision = ''0001_initial'', mig_down_revision = None, mig_upgrade = upgrade_0001, mig_downgrade = downgrade_0001\<rparr>,
      \<lparr>mig_revision = ''0002_profile_cve_fields'', mig_down_revision = Some ''0001_initial'', mig_upgrade = upgrade_0002, mig_downgrade = downgrade_0002\<rparr>,
      \<lparr>mig_revision = ''0003_cve_scan_job_kind'', mig_down_revision = Some ''0002_profile_cve_fields'', mig_upgrade = upgrade_0003, mig_downgrade = downgrade_0003\<rparr>,
      \<lparr>mig_revision = ''0004_cve_tables'', mig_down_revision = Some ''0003_cve_scan_job_kind'', mig_upgrade = upgrade_0004, mig_downgrade = downgrade_0004\<rparr>,
      \<lparr>mig_revision = ''0005_run_batches'', mig_down_revision = Some ''0004_cve_tables'', mig_upgrade = upgrade_0005, mig_downgrade = downgrade_0005\<rparr>,
      \<lparr>mig_revision = ''0006_device_configs'', mig_down_revision = Some ''0005_run_batches'', mig_upgrade = upgrade_0006, mig_downgrade = downgrade_0006\<rparr>,
      \<lparr>mig_revision = ''0007_custom_platforms'', mig_down_revision = Some ''0006_device_configs'', mig_upgrade = upgrade_0007, mig_downgrade = downgrade_0007\<rparr>,
      \<lparr>mig_revision = ''0008_drop_profile_generic_fields'', mig_down_revision = Some ''0007_custom_platforms'', mig_upgrade = upgrade_0008, mig_downgrade = downgrade_0008\<rparr>,
      \<lparr>mig_revision = ''0009_profiles_to_jobs'', mig_down_revision = Some ''0008_drop_profile_generic_fields'', mig_upgrade = upgrade_0009, mig_downgrade = downgrade_0009\<rparr>,
      \<lparr>mig_revision = ''0010_device_timeouts'', mig_down_revision = Some ''0009_profiles_to_jobs'', mig_upgrade = upgrade_0010, mig_downgrade = downgrade_0010\<rparr>,
      \<lparr>mig_revision = ''0011_device_many_groups'', mig_down_revision = Some ''0010_device_timeouts'', mig_upgrade = upgrade_0011, mig_downgrade = downgrade_0011\<rparr>,
      \<lparr>mig_revision = ''0012_run_parsed_data'', mig_down_revision = Some ''0011_device_many_groups'', mig_upgrade = upgrade_0012, mig_downgrade = downgrade_0012\<rparr>,
      \<lparr>mig_revision = ''0013_credential_default'', mig_down_revision = Some ''0012_run_parsed_data'', mig_upgrade = upgrade_0013, mig_downgrade = downgrade_0013\<rparr>,
      \<lparr>mig_revision = ''0014_device_metadata'', mig_down_revision = Some ''0013_credential_default'', mig_upgrade = upgrade_0014, mig_downgrade = downgrade_0014\<rparr>,
      \<lparr>mig_revision = ''0015_run_parse_error'', mig_down_revision = Some ''0014_device_metadata'', mig_upgrade = upgrade_0015, mig_downgrade = downgrade_0015\<rparr>,
      \<lparr>mig_revision = ''0016_parser_jinja2_tmpl'', mig_down_revision = Some ''0015_run_parse_error'', mig_upgrade = upgrade_0016, mig_downgrade = downgrade_0016\<rparr>,
      \<lparr>mig_revision = ''0017_job_show_on_device'', mig_down_revision = Some ''0016_parser_jinja2_tmpl'', mig_upgrade = upgrade_0017, mig_downgrade = downgrade_0017\<rparr>,
      \<lparr>mig_revision = ''0018_parser_aggregate_tmpl'', mig_down_revision = Some ''0017_job_show_on_device'', mig_upgrade = upgrade_0018, mig_downgrade = downgrade_0018\<rparr>,
      \<lparr>mig_revision = ''0019_compliance'', mig_down_revision = Some ''0018_parser_aggregate_tmpl'', mig_upgrade = upgrade_0019, mig_downgrade = downgrade_0019\<rparr>,
      \<lparr>mig_revision = ''0020_worker_pool'', mig_down_revision = Some ''0019_compliance'', mig_upgrade = upgrade_0020, mig_downgrade = downgrade_0020\<rparr>,
      \<lparr>mig_revision = ''0021_schedule_skip_next_run'', mig_down_revision = Some ''0020_worker_pool'', mig_upgrade = upgrade_0021, mig_downgrade = downgrade_0021\<rparr>]"

end
