(* ===== verification/Declared_Schema.thy ===== *)
theory Declared_Schema
  imports Migrations
begin

text \<open>
  The tables that \<open>models/*.py\<close> declares, as SQLAlchemy would create them, and the comparison of a
  schema with them. A column is nullable exactly if its declaration says so; \<open>index=True\<close> makes an index
  named after table and column; an enumeration that is not native is a string as long as its longest
  value.
\<close>

section \<open>The declarations\<close>

definition timestamp_mixin :: "column_def list" where
  "timestamp_mixin = [not_null (stamp ''created_at''), not_null (stamp ''updated_at'')]"

definition link_column :: "string \<Rightarrow> string \<Rightarrow> column_def" where
  "link_column name tab = references tab ''CASCADE'' (primary_key (sa_column name T_integer))"

definition optional_ref :: "string \<Rightarrow> string \<Rightarrow> column_def" where
  "optional_ref name tab = references tab ''SET NULL'' (sa_column name T_integer)"

definition owner_ref :: "string \<Rightarrow> string \<Rightarrow> column_def" where
  "owner_ref name tab = references tab ''CASCADE'' (not_null (sa_column name T_integer))"

definition native_enum :: "string \<Rightarrow> string \<Rightarrow> column_def" where
  "native_enum name ty = sa_column name (T_enum ty)"

text \<open>A declaration: name, columns, further constraints, columns with \<open>index=True\<close>.\<close>

type_synonym table_decl = "string \<times> column_def list \<times> table_item list \<times> string list"

definition credentials_decl :: table_decl where
  "credentials_decl = (''credentials'',
     [id_column, named_column, description_column,
      not_null (native_enum ''provider'' ''credential_provider''),
      sa_column ''encrypted_payload'' T_binary,
      sa_column ''ref'' (T_string 512),
      sa_column ''username'' (T_string 128),
      not_null (sa_column ''is_default'' T_boolean)] @ timestamp_mixin, [], [])"

definition parser_templates_decl :: table_decl where
  "parser_templates_decl = (''parser_templates'',
     [id_column, named_column, description_column,
      not_null (native_enum ''type'' ''parser_type''),
      not_null (sa_column ''body'' T_text),
      sa_column ''jinja2_template'' T_text,
      sa_column ''aggregate_template'' T_text] @ timestamp_mixin, [], [])"

definition platforms_decl :: table_decl where
  "platforms_decl = (''platforms'',
     [id_column, named_column, description_column, not_null (sa_column ''yaml_body'' T_text)]
     @ timestamp_mixin, [], [])"

definition device_groups_decl :: table_decl where
  "device_groups_decl = (''device_groups'',
     [id_column, named_column, description_column,
      optional_ref ''default_credential_id'' ''credentials'',
      not_null (sa_column ''max_parallel'' T_integer),
      sa_column ''worker_pool'' (T_string 64)] @ timestamp_mixin, [], [])"

definition devices_decl :: table_decl where
  "devices_decl = (''devices'',
     [id_column, named_column,
      not_null (sa_column ''hostname'' (T_string 255)),
      sa_column ''port'' T_integer,
      description_column,
      sa_column ''platform'' (T_string 64),
      optional_ref ''custom_platform_id'' ''platforms'',
      native_enum ''transport'' ''transport_protocol'',
      sa_column ''driver_kind'' (T_string 7),
      sa_column ''connect_timeout'' T_integer,
      sa_column ''command_timeout'' T_integer,
      optional_ref ''credential_id'' ''credentials'',
      sa_column ''make'' (T_string 128),
      sa_column ''model'' (T_string 128),
      sa_column ''role'' (T_string 64),
      not_null (sa_column ''enabled'' T_boolean),
      sa_column ''worker_pool'' (T_string 64),
      sa_column ''latest_backup_path'' (T_string 512),
      stamp ''latest_backup_at''] @ timestamp_mixin, [],
     [''make'', ''model'', ''role'', ''worker_pool''])"

definition memberships_decl :: table_decl where
  "memberships_decl = (''device_group_memberships'',
     [link_column ''device_id'' ''devices'', link_column ''device_group_id'' ''device_groups''], [], [])"

definition jobs_decl :: table_decl where
  "jobs_decl = (''jobs'',
     [id_column, named_column, description_column,
      not_null (native_enum ''kind'' ''job_kind''),
      sa_column ''commands'' T_text,
      sa_column ''rpc'' T_text,
      optional_ref ''parser_template_id'' ''parser_templates'',
      sa_column ''cve_vendor'' (T_string 64),
      sa_column ''cve_product'' (T_string 64),
      not_null (sa_column ''show_on_device'' T_boolean)] @ timestamp_mixin, [], [])"

definition job_device_groups_decl :: table_decl where
  "job_device_groups_decl = (''job_device_groups'',
     [link_column ''job_id'' ''jobs'', link_column ''device_group_id'' ''device_groups''], [], [])"

definition job_devices_decl :: table_decl where
  "job_devices_decl = (''job_devices'',
     [link_column ''job_id'' ''jobs'', link_column ''device_id'' ''devices''], [], [])"

definition schedules_decl :: table_decl where
  "schedules_decl = (''schedules'',
     [id_column, not_null (sa_column ''name'' (T_string 128)), description_column,
      optional_ref ''job_id'' ''jobs'',
      not_null (sa_column ''cron'' (T_string 64)),
      not_null (sa_column ''timezone'' (T_string 64)),
      not_null (sa_column ''enabled'' T_boolean),
      not_null (sa_column ''skip_next_run'' T_boolean),
      stamp ''last_run_at'', stamp ''next_run_at''] @ timestamp_mixin, [], [])"

definition run_batches_decl :: table_decl where
  "run_batches_decl = (''run_batches'',
     [id_column,
      optional_ref ''schedule_id'' ''schedules'',
      not_null (sa_column ''schedule_name'' (T_string 128)),
      not_null (sa_column ''kind'' (T_string 16)),
      not_null (sa_column ''total'' T_integer),
      not_null (sa_column ''succeeded'' T_integer),
      not_null (sa_column ''failed'' T_integer),
      stamp ''started_at'', stamp ''finished_at'',
      sa_column ''commit_sha'' (T_string 64)] @ timestamp_mixin, [], [])"

definition runs_decl :: table_decl where
  "runs_decl = (''runs'',
     [id_column,
      optional_ref ''schedule_id'' ''schedules'',
      optional_ref ''batch_id'' ''run_batches'',
      owner_ref ''device_id'' ''devices'',
      not_null (sa_column ''kind'' (T_string 16)),
      not_null (native_enum ''status'' ''run_status''),
      stamp ''started_at'', stamp ''finished_at'',
      sa_column ''commit_sha'' (T_string 64),
      sa_column ''payload_sha256'' (T_string 64),
      sa_column ''bytes_captured'' T_integer,
      sa_column ''error'' T_text,
      sa_column ''parsed_data'' T_json,
      sa_column ''parse_error'' T_text,
      optional_ref ''parser_template_id'' ''parser_templates'',
      optional_ref ''job_id'' ''jobs''] @ timestamp_mixin, [], [])"

definition device_configs_decl :: table_decl where
  "device_configs_decl = (''device_configs'',
     [link_column ''device_id'' ''devices'',
      optional_ref ''batch_id'' ''run_batches'',
      stamp ''captured_at'',
      sa_column ''content'' T_text], [], [])"

definition cve_scans_decl :: table_decl where
  "cve_scans_decl = (''cve_scans'',
     [id_column,
      optional_ref ''run_id'' ''runs'',
      owner_ref ''device_id'' ''devices'',
      not_null (sa_column ''cpe'' (T_string 256)),
      sa_column ''version_found'' (T_string 128),
      sa_column ''raw_version'' (T_string 128),
      not_null (stamp ''scanned_at'')] @ timestamp_mixin, [], [])"

definition cve_results_decl :: table_decl where
  "cve_results_decl = (''cve_results'',
     [id_column,
      owner_ref ''scan_id'' ''cve_scans'',
      not_null (sa_column ''cve_id'' (T_string 32)),
      sa_column ''cvss_v3_score'' (T_numeric 4 1),
      sa_column ''severity'' (T_string 16),
      sa_column ''summary'' T_text,
      stamp ''published_at'',
      sa_column ''url'' (T_string 512)], [], [])"

definition compliance_policies_decl :: table_decl where
  "compliance_policies_decl = (''compliance_policies'',
     [id_column, named_column, description_column,
      not_null (sa_column ''parser_type'' (T_string 16)),
      not_null (sa_column ''parser_body'' T_text),
      not_null (sa_column ''enabled'' T_boolean),
      not_null (sa_column ''auto_evaluate'' T_boolean)] @ timestamp_mixin, [], [])"

definition policy_groups_decl :: table_decl where
  "policy_groups_decl = (''compliance_policy_groups'',
     [link_column ''policy_id'' ''compliance_policies'', link_column ''device_group_id'' ''device_groups''], [], [])"

definition policy_devices_decl :: table_decl where
  "policy_devices_decl = (''compliance_policy_devices'',
     [link_column ''policy_id'' ''compliance_policies'', link_column ''device_id'' ''devices''], [], [])"

definition compliance_checks_decl :: table_decl where
  "compliance_checks_decl = (''compliance_checks'',
     [id_column,
      owner_ref ''policy_id'' ''compliance_policies'',
      not_null (sa_column ''name'' (T_string 128)),
      not_null (sa_column ''field'' (T_string 64)),
      not_null (sa_column ''operator'' (T_string 16)),
      sa_column ''expected'' T_text,
      not_null (sa_column ''mode'' (T_string 8)),
      not_null (sa_column ''severity'' (T_string 8)),
      description_column,
      not_null (sa_column ''sort_order'' T_integer)], [], [])"

definition compliance_results_decl :: table_decl where
  "compliance_results_decl = (''compliance_results'',
     [id_column,
      owner_ref ''policy_id'' ''compliance_policies'',
      owner_ref ''device_id'' ''devices'',
      not_null (stamp ''evaluated_at''),
      not_null (sa_column ''status'' (T_string 8)),
      sa_column ''detail'' T_jsonb],
     [Unique_constraint ''uq_compliance_results_policy_device'' [''policy_id'', ''device_id'']], [])"

definition declarations :: "table_decl list" where
  "declarations =
     [credentials_decl, parser_templates_decl, platforms_decl, device_groups_decl, devices_decl,
      memberships_decl, jobs_decl, job_device_groups_decl, job_devices_decl, schedules_decl,
      run_batches_decl, runs_decl, device_configs_decl, cve_scans_decl, cve_results_decl,
      compliance_policies_decl, policy_groups_decl, policy_devices_decl, compliance_checks_decl,
      compliance_results_decl]"

definition declared_enums :: "(string \<times> string list) list" where
  "declared_enums =
     [(''credential_provider'', [''local'', ''vault'', ''bitwarden'']),
      (''parser_type'', [''textfsm'', ''ttp'', ''xslt'']),
      (''transport_protocol'', [''ssh'', ''telnet'', ''netconf'']),
      (''job_kind'', [''backup'', ''collect'', ''cve_scan'']),
      (''run_status'', [''pending'', ''running'', ''success'', ''failed'', ''timeout'', ''cancelled''])]"

definition column_index :: "string \<Rightarrow> string \<Rightarrow> sql_index" where
  "column_index tab c = \<lparr>ix_name = ''ix_'' @ tab @ ''_'' @ c, ix_columns = [c], ix_unique = False, ix_where = None\<rparr>"

definition declared_table :: "table_decl \<Rightarrow> string \<times> table" where
  "declared_table = (\<lambda>(tab, cds, items, indexed).
     (tab, (build_table tab cds items)\<lparr>tab_indexes :=
        tab_indexes (build_table tab cds items) @ map (column_index tab) indexed\<rparr>))"

definition declared_schema :: schema where
  "declared_schema = \<lparr>sch_tables = map declared_table declarations, sch_enums = declared_enums\<rparr>"

section \<open>Comparing schemas\<close>

text \<open>
  What a schema lacks of the declared one, or has otherwise. The names of constraints and the indexes
  that are not declared are left to the schema.
\<close>

datatype difference =
    Missing_table string
  | Extra_table string
  | Missing_column string string
  | Extra_column string string
  | Other_type string string
  | Other_nullable string string
  | Other_key string
  | Other_foreign_key string
  | Missing_index string string
  | Other_enums

definition column_differences :: "string \<Rightarrow> table \<Rightarrow> column \<Rightarrow> difference list" where
  "column_differences tab t c =
     (case find (\<lambda>x. col_name x = col_name c) (tab_columns t) of
        None \<Rightarrow> [Missing_column tab (col_name c)]
      | Some x \<Rightarrow>
          (if col_type x = col_type c then [] else [Other_type tab (col_name c)])
          @ (if col_nullable x = col_nullable c then [] else [Other_nullable tab (col_name c)]))"

definition fk_view :: "foreign_key \<Rightarrow> string \<times> string \<times> string \<times> string" where
  "fk_view k = (fk_column k, fk_table k, fk_ref_column k, fk_ondelete k)"

definition ix_view :: "sql_index \<Rightarrow> string list \<times> bool \<times> string option" where
  "ix_view i = (ix_columns i, ix_unique i, ix_where i)"

definition same_members :: "'a list \<Rightarrow> 'a list \<Rightarrow> bool" where
  "same_members xs ys \<longleftrightarrow> list_all (\<lambda>x. x \<in> set ys) xs \<and> list_all (\<lambda>y. y \<in> set xs) ys"

definition table_differences :: "schema \<Rightarrow> string \<times> table \<Rightarrow> difference list" where
  "table_differences s = (\<lambda>(tab, d).
     case map_of (sch_tables s) tab of
       None \<Rightarrow> [Missing_table tab]
     | Some t \<Rightarrow>
         concat (map (column_differences tab t) (tab_columns d))
         @ map (Extra_column tab) (filter (\<lambda>c. \<not> has_column c d) (map col_name (tab_columns t)))
         @ (if same_members (tab_primary_key t) (tab_primary_key d) then [] else [Other_key tab])
         @ (if same_members (map fk_view (tab_foreign_keys t)) (map fk_view (tab_foreign_keys d)) then []
            else [Other_foreign_key tab])
         @ map (Missing_index tab \<circ> ix_name) (filter (\<lambda>i. ix_view i \<notin> set (map ix_view (tab_indexes t))) (tab_indexes d)))"

definition schema_differences :: "schema \<Rightarrow> schema \<Rightarrow> difference list" where
  "schema_differences declared s =
     concat (map (table_differences s) (sch_tables declared))
     @ map Extra_table (filter (\<lambda>n. n \<notin> set (map fst (sch_tables declared))) (map fst (sch_tables s)))
     @ (if same_members (sch_enums s) (sch_enums declared) then [] else [Other_enums])"

section \<open>Walking the chain\<close>

fun upgrade_path :: "migration list \<Rightarrow> schema \<Rightarrow> schema result" where
  "upgrade_path [] s = Inr s"
| "upgrade_path (m # ms) s = bind_result (execute_all (mig_upgrade m) s) (upgrade_path ms)"

text \<open>Downgrading, newest first: the schema and the revision at which it stops.\<close>

fun downgrade_path :: "migration list \<Rightarrow> schema \<Rightarrow> (string \<times> py_exn) option" where
  "downgrade_path [] s = None"
| "downgrade_path (m # ms) s =
     (case execute_all (mig_downgrade m) s of
        Inl e \<Rightarrow> Some (mig_revision m, e) | Inr s' \<Rightarrow> downgrade_path ms s')"

text \<open>The same tables up to the order of columns, keys and indexes.\<close>

definition same_table :: "table \<Rightarrow> table \<Rightarrow> bool" where
  "same_table t u \<longleftrightarrow> same_members (tab_columns t) (tab_columns u)
     \<and> tab_primary_key t = tab_primary_key u
     \<and> same_members (tab_foreign_keys t) (tab_foreign_keys u)
     \<and> same_members (tab_indexes t) (tab_indexes u)"

definition same_schema :: "schema \<Rightarrow> schema \<Rightarrow> bool" where
  "same_schema s u \<longleftrightarrow> list_all2 (\<lambda>(n, t) (m, v). n = m \<and> same_table t v) (sch_tables s) (sch_tables u)
     \<and> sch_enums s = sch_enums u"

text \<open>The revisions whose downgrade does not bring back the schema their upgrade started from.\<close>

fun irreversible :: "migration list \<Rightarrow> schema \<Rightarrow> string list" where
  "irreversible [] s = []"
| "irreversible (m # ms) s =
     (case execute_all (mig_upgrade m) s of
        Inl e \<Rightarrow> []
      | Inr s' \<Rightarrow>
          (case execute_all (mig_downgrade m) s' of
             Inl e \<Rightarrow> [mig_revision m]
           | Inr u \<Rightarrow> if same_schema s u then [] else [mig_revision m])
          @ irreversible ms s')"

end
