(* ===== verification/Integrity.thy ===== *)
theory Integrity
  imports Kiroku_System Pages Declared_Schema
begin

text \<open>
  Referential integrity: the foreign keys that \<open>models/*.py\<close> declares as columns of the model's tables,
  the statement that every one of them leads to a row, and its preservation by the handlers that write,
  by the recorder and by the firings. The writes check the keys they store (\<open>refers_to\<close>); the
  deletions have to clear or remove the rows that refer to what they delete.
\<close>

section \<open>The foreign keys\<close>

text \<open>A foreign key: table, column, table it refers to, its column, what a deletion does; and the two columns.\<close>

type_synonym reference =
  "(string \<times> string \<times> string \<times> string \<times> string) \<times> (db \<Rightarrow> int list) \<times> (db \<Rightarrow> int list)"

definition cascades :: "string \<Rightarrow> string \<Rightarrow> string \<Rightarrow> (db \<Rightarrow> int list) \<Rightarrow> (db \<Rightarrow> int list) \<Rightarrow> reference" where
  "cascades tab col to from keys = ((tab, col, to, ''id'', ''CASCADE''), from, keys)"

definition clears :: "string \<Rightarrow> string \<Rightarrow> string \<Rightarrow> (db \<Rightarrow> int option list) \<Rightarrow> (db \<Rightarrow> int list) \<Rightarrow> reference" where
  "clears tab col to from keys = ((tab, col, to, ''id'', ''SET NULL''), (\<lambda>d. somes (from d)), keys)"

abbreviation credential_keys :: "db \<Rightarrow> int list" where "credential_keys d \<equiv> map cred_id (db_credentials d)"
abbreviation platform_keys :: "db \<Rightarrow> int list" where "platform_keys d \<equiv> map plat_id (db_platforms d)"
abbreviation parser_keys :: "db \<Rightarrow> int list" where "parser_keys d \<equiv> map pt_id (db_parser_templates d)"
abbreviation group_keys :: "db \<Rightarrow> int list" where "group_keys d \<equiv> map grp_id (db_groups d)"
abbreviation device_keys :: "db \<Rightarrow> int list" where "device_keys d \<equiv> map dev_id (db_devices d)"
abbreviation job_keys :: "db \<Rightarrow> int list" where "job_keys d \<equiv> map job_id (db_jobs d)"
abbreviation schedule_keys :: "db \<Rightarrow> int list" where "schedule_keys d \<equiv> map sch_id (db_schedules d)"
abbreviation batch_keys :: "db \<Rightarrow> int list" where "batch_keys d \<equiv> map bat_id (db_batches d)"
abbreviation run_keys :: "db \<Rightarrow> int list" where "run_keys d \<equiv> map run_id (db_runs d)"
abbreviation scan_keys :: "db \<Rightarrow> int list" where "scan_keys d \<equiv> map scan_id (db_cve_scans d)"
abbreviation policy_keys :: "db \<Rightarrow> int list" where "policy_keys d \<equiv> map pol_id (db_policies d)"

text \<open>The checks of a policy are part of its row in the model.\<close>

definition check_policies :: "db \<Rightarrow> int list" where
  "check_policies d = concat (map (\<lambda>p. map (\<lambda>c. pol_id p) (pol_checks p)) (db_policies d))"

definition db_references :: "reference list" where
  "db_references =
     [clears ''device_groups'' ''default_credential_id'' ''credentials''
        (\<lambda>d. map grp_default_credential_id (db_groups d)) credential_keys,
      clears ''devices'' ''custom_platform_id'' ''platforms''
        (\<lambda>d. map dev_custom_platform_id (db_devices d)) platform_keys,
      clears ''devices'' ''credential_id'' ''credentials''
        (\<lambda>d. map dev_credential_id (db_devices d)) credential_keys,
      cascades ''device_group_memberships'' ''device_id'' ''devices'' (\<lambda>d. map fst (db_memberships d)) device_keys,
      cascades ''device_group_memberships'' ''device_group_id'' ''device_groups''
        (\<lambda>d. map snd (db_memberships d)) group_keys,
      clears ''jobs'' ''parser_template_id'' ''parser_templates''
        (\<lambda>d. map job_parser_template_id (db_jobs d)) parser_keys,
      cascades ''job_device_groups'' ''job_id'' ''jobs'' (\<lambda>d. map fst (db_job_device_groups d)) job_keys,
      cascades ''job_device_groups'' ''device_group_id'' ''device_groups''
        (\<lambda>d. map snd (db_job_device_groups d)) group_keys,
      cascades ''job_devices'' ''job_id'' ''jobs'' (\<lambda>d. map fst (db_job_devices d)) job_keys,
      cascades ''job_devices'' ''device_id'' ''devices'' (\<lambda>d. map snd (db_job_devices d)) device_keys,
      clears ''schedules'' ''job_id'' ''jobs'' (\<lambda>d. map sch_job_id (db_schedules d)) job_keys,
      clears ''run_batches'' ''schedule_id'' ''schedules'' (\<lambda>d. map bat_schedule_id (db_batches d)) schedule_keys,
      clears ''runs'' ''schedule_id'' ''schedules'' (\<lambda>d. map run_schedule_id (db_runs d)) schedule_keys,
      clears ''runs'' ''batch_id'' ''run_batches'' (\<lambda>d. map run_batch_id (db_runs d)) batch_keys,
      cascades ''runs'' ''device_id'' ''devices'' (\<lambda>d. map run_device_id (db_runs d)) device_keys,
      clears ''runs'' ''parser_template_id'' ''parser_templates''
        (\<lambda>d. map run_parser_template_id (db_runs d)) parser_keys,
      clears ''runs'' ''job_id'' ''jobs'' (\<lambda>d. map run_job_id (db_runs d)) job_keys,
      cascades ''device_configs'' ''device_id'' ''devices'' (\<lambda>d. map cfg_device_id (db_configs d)) device_keys,
      clears ''device_configs'' ''batch_id'' ''run_batches'' (\<lambda>d. map cfg_batch_id (db_configs d)) batch_keys,
      clears ''cve_scans'' ''run_id'' ''runs'' (\<lambda>d. map scan_run_id (db_cve_scans d)) run_keys,
      cascades ''cve_scans'' ''device_id'' ''devices'' (\<lambda>d. map scan_device_id (db_cve_scans d)) device_keys,
      cascades ''cve_results'' ''scan_id'' ''cve_scans'' (\<lambda>d. map cver_scan_id (db_cve_results d)) scan_keys,
      cascades ''compliance_policy_groups'' ''policy_id'' ''compliance_policies''
        (\<lambda>d. map fst (db_policy_groups d)) policy_keys,
      cascades ''compliance_policy_groups'' ''device_group_id'' ''device_groups''
        (\<lambda>d. map snd (db_policy_groups d)) group_keys,
      cascades ''compliance_policy_devices'' ''policy_id'' ''compliance_policies''
        (\<lambda>d. map fst (db_policy_devices d)) policy_keys,
      cascades ''compliance_policy_devices'' ''device_id'' ''devices''
        (\<lambda>d. map snd (db_policy_devices d)) device_keys,
      cascades ''compliance_checks'' ''policy_id'' ''compliance_policies'' check_policies policy_keys,
      cascades ''compliance_results'' ''policy_id'' ''compliance_policies''
        (\<lambda>d. map cres_policy_id (db_compliance_results d)) policy_keys,
      cascades ''compliance_results'' ''device_id'' ''devices''
        (\<lambda>d. map cres_device_id (db_compliance_results d)) device_keys]"

lemma db_references_are_declared:
  "map fst db_references
    = concat (map (\<lambda>(tab, t). map (\<lambda>k. (tab, fk_column k, fk_table k, fk_ref_column k, fk_ondelete k))
        (tab_foreign_keys t)) (sch_tables declared_schema))"
  by code_simp

definition refs_ok :: "db \<Rightarrow> bool" where
  "refs_ok d \<longleftrightarrow> list_all (\<lambda>(_, from, keys). set (from d) \<subseteq> set (keys d)) db_references"

text \<open>
  A step keeps the references if it keeps each of them by itself; a step that changes no key column does.
\<close>

definition refs_kept :: "db \<Rightarrow> db \<Rightarrow> bool" where
  "refs_kept d d' \<longleftrightarrow> list_all (\<lambda>(_, from, keys).
     set (from d) \<subseteq> set (keys d) \<longrightarrow> set (from d') \<subseteq> set (keys d')) db_references"

definition same_keys :: "db \<Rightarrow> db \<Rightarrow> bool" where
  "same_keys d d' \<longleftrightarrow> list_all (\<lambda>(_, from, keys). from d' = from d \<and> keys d' = keys d) db_references"

lemma refs_keptD: "refs_kept d d' \<Longrightarrow> refs_ok d \<Longrightarrow> refs_ok d'"
  unfolding refs_kept_def refs_ok_def list_all_iff by fastforce

lemma refs_kept_refl [simp]: "refs_kept d d"
  by (simp add: refs_kept_def list_all_iff case_prod_unfold)

lemma refs_kept_trans: "refs_kept a b \<Longrightarrow> refs_kept b c \<Longrightarrow> refs_kept a c"
  unfolding refs_kept_def list_all_iff by fastforce

lemma same_keys_refl [simp]: "same_keys d d"
  by (simp add: same_keys_def list_all_iff case_prod_unfold)

lemma same_keys_trans: "same_keys a b \<Longrightarrow> same_keys b c \<Longrightarrow> same_keys a c"
  unfolding same_keys_def list_all_iff by fastforce

lemma refs_kept_same: "same_keys d d' \<Longrightarrow> refs_kept d d'"
  unfolding refs_kept_def same_keys_def list_all_iff by fastforce

lemma map_upd_row: "(\<And>r. g (f r) = g r) \<Longrightarrow> map g (upd_row key k f rs) = map g rs"
  by (induction rs) (auto simp: upd_row_def)

lemmas key_columns = db_references_def cascades_def clears_def check_policies_def map_upd_row comp_def

text \<open>A nullable reference.\<close>

definition opt_in :: "int option \<Rightarrow> int set \<Rightarrow> bool" where
  "opt_in k A \<longleftrightarrow> set_option k \<subseteq> A"

lemma opt_in_simps [simp]: "opt_in None A" "opt_in (Some k) A \<longleftrightarrow> k \<in> A"
  by (simp_all add: opt_in_def)

lemma opt_in_insert: "opt_in k A \<Longrightarrow> opt_in k (insert n A)"
  by (auto simp: opt_in_def)

lemma opt_in_Un: "opt_in k A \<Longrightarrow> opt_in k (A \<union> B)"
  by (auto simp: opt_in_def)

lemma somes_subset: "set (somes xs) \<subseteq> A \<longleftrightarrow> (\<forall>x \<in> set xs. opt_in x A)"
  by (induction xs rule: somes.induct) auto

lemma refers_to_opt_in: "refers_to k keys = Inr () \<longleftrightarrow> opt_in k (set keys)"
  by (simp add: refers_to_Inr opt_in_def)

lemma opt_in_clear:
  "opt_in x (key ` A) \<Longrightarrow> opt_in (clear_if (\<exists>k \<in> D. x = Some k) x) (key ` {r \<in> A. key r \<notin> D})"
  by (cases x) (auto simp: clear_if_def)

section \<open>Operations that change no key\<close>

lemma same_keys_upd_run:
  "(\<And>r. run_id (f r) = run_id r \<and> run_schedule_id (f r) = run_schedule_id r \<and> run_batch_id (f r) = run_batch_id r
      \<and> run_device_id (f r) = run_device_id r \<and> run_parser_template_id (f r) = run_parser_template_id r
      \<and> run_job_id (f r) = run_job_id r) \<Longrightarrow> same_keys d (upd_run k f d)"
  by (simp add: same_keys_def upd_run_def key_columns)

lemma same_keys_upd_batch:
  "(\<And>b. bat_id (f b) = bat_id b \<and> bat_schedule_id (f b) = bat_schedule_id b) \<Longrightarrow> same_keys d (upd_batch k f d)"
  by (simp add: same_keys_def upd_batch_def key_columns)

lemma same_keys_upd_schedule:
  "(\<And>s. sch_id (f s) = sch_id s \<and> sch_job_id (f s) = sch_job_id s) \<Longrightarrow> same_keys d (upd_schedule k f d)"
  by (simp add: same_keys_def upd_schedule_def key_columns)

lemma same_keys_map_runs:
  "(\<And>r. run_id (f r) = run_id r \<and> run_schedule_id (f r) = run_schedule_id r \<and> run_batch_id (f r) = run_batch_id r
      \<and> run_device_id (f r) = run_device_id r \<and> run_parser_template_id (f r) = run_parser_template_id r
      \<and> run_job_id (f r) = run_job_id r) \<Longrightarrow> same_keys d (d\<lparr>db_runs := map f (db_runs d)\<rparr>)"
  by (simp add: same_keys_def key_columns)

section \<open>Deletions\<close>

lemma kept_delete_groups: "refs_kept d (delete_groups ids d)"
  by (simp add: refs_kept_def delete_groups_def key_columns somes_subset) auto

lemma kept_delete_platforms: "refs_kept d (delete_platforms ids d)"
  by (simp add: refs_kept_def delete_platforms_def key_columns somes_subset) (auto intro!: opt_in_clear)

lemma kept_delete_parsers: "refs_kept d (delete_parsers ids d)"
  by (simp add: refs_kept_def delete_parsers_def key_columns somes_subset) (auto intro!: opt_in_clear)

lemma kept_delete_schedules: "refs_kept d (delete_schedules ids d)"
  by (simp add: refs_kept_def delete_schedules_def key_columns somes_subset) (auto intro!: opt_in_clear)

lemma kept_delete_creds: "refs_kept d (delete_creds ids d)"
  by (simp add: refs_kept_def delete_creds_def key_columns somes_subset) (auto intro!: opt_in_clear)

lemma kept_delete_jobs: "refs_kept d (delete_jobs ids d)"
  by (simp add: refs_kept_def delete_jobs_def key_columns somes_subset) (auto intro!: opt_in_clear)

lemma opt_in_clear_image:
  "opt_in x (key ` A) \<Longrightarrow>
   opt_in (clear_if (\<exists>r. r \<in> A \<and> P r \<and> x = Some (key r)) x) (key ` {r \<in> A. \<not> P r})"
  by (cases x) (auto simp: clear_if_def)

lemma kept_delete_devices: "refs_kept d (delete_devices ids d)"
  by (simp add: refs_kept_def delete_devices_def Let_def key_columns somes_subset)
    (auto intro!: opt_in_clear opt_in_clear_image [where P = "\<lambda>r. run_device_id r \<in> set ids"])

lemma kept_delete_policy: "refs_kept d (snd (delete_policy st k d))"
  by (simp add: refs_kept_def delete_policy_def key_columns somes_subset split: option.split) auto

lemma kept_bulk_delete: "(\<And>ids. refs_kept d (del ids d)) \<Longrightarrow> refs_kept d (snd (bulk_delete del path data d))"
  by (simp add: bulk_delete_def committed_def bind_result_def split: sum.split)

section \<open>Writes\<close>

lemma kept_committed: "(\<And>d'. m = Inr d' \<Longrightarrow> refs_kept d d') \<Longrightarrow> refs_kept d (snd (committed path d m))"
  by (simp add: committed_def split: sum.split)

lemma set_upd_row: "set (upd_row key k f rs) = (\<lambda>r. if key r = k then f r else r) ` set rs"
  by (simp add: upd_row_def)

lemma keys_upd_const: "key v = k \<Longrightarrow> map key (upd_row key k (\<lambda>_. v) rs) = map key rs"
  by (induction rs) (simp_all add: upd_row_def)

lemmas write_simps = refs_kept_def key_columns somes_subset keys_upd_const set_upd_row

text \<open>One row written, its references checked.\<close>

lemma kept_add_group:
  "opt_in (grp_default_credential_id g) (cred_id ` set (db_credentials d))
   \<Longrightarrow> refs_kept d (d\<lparr>db_groups := db_groups d @ [g], seq_group := n\<rparr>)"
  by (simp add: write_simps) auto

lemma kept_put_group:
  "grp_id g = k \<Longrightarrow> opt_in (grp_default_credential_id g) (cred_id ` set (db_credentials d))
   \<Longrightarrow> refs_kept d (d\<lparr>db_groups := upd_row grp_id k (\<lambda>_. g) (db_groups d)\<rparr>)"
  by (simp add: write_simps) auto

lemma kept_add_platform: "refs_kept d (d\<lparr>db_platforms := db_platforms d @ [p], seq_platform := n\<rparr>)"
  by (simp add: write_simps) (auto intro: opt_in_insert)

lemma kept_put_platform:
  "plat_id p = k \<Longrightarrow> refs_kept d (d\<lparr>db_platforms := upd_row plat_id k (\<lambda>_. p) (db_platforms d)\<rparr>)"
  by (rule refs_kept_same) (simp add: same_keys_def key_columns keys_upd_const)

lemma kept_add_parser: "refs_kept d (d\<lparr>db_parser_templates := db_parser_templates d @ [p], seq_parser := n\<rparr>)"
  by (simp add: write_simps) (auto intro: opt_in_insert)

lemma kept_put_parser:
  "pt_id p = k \<Longrightarrow> refs_kept d (d\<lparr>db_parser_templates := upd_row pt_id k (\<lambda>_. p) (db_parser_templates d)\<rparr>)"
  by (rule refs_kept_same) (simp add: same_keys_def key_columns keys_upd_const)

lemma kept_add_schedule:
  "opt_in (sch_job_id s) (job_id ` set (db_jobs d))
   \<Longrightarrow> refs_kept d (d\<lparr>db_schedules := db_schedules d @ [s], seq_schedule := n\<rparr>)"
  by (simp add: write_simps) (auto intro: opt_in_insert)

lemma kept_upd_schedule:
  assumes "\<And>s. sch_id (f s) = sch_id s" and "\<And>s. opt_in (sch_job_id s) (job_id ` set (db_jobs d))
      \<Longrightarrow> opt_in (sch_job_id (f s)) (job_id ` set (db_jobs d))"
  shows "refs_kept d (upd_schedule k f d)"
  using assms by (simp add: write_simps upd_schedule_def) auto

lemma kept_add_job:
  "opt_in (job_parser_template_id j) (pt_id ` set (db_parser_templates d))
   \<Longrightarrow> refs_kept d (d\<lparr>db_jobs := db_jobs d @ [j], seq_job := n\<rparr>)"
  by (simp add: write_simps) (auto intro: opt_in_insert)

lemma kept_put_job:
  "job_id j = k \<Longrightarrow> opt_in (job_parser_template_id j) (pt_id ` set (db_parser_templates d))
   \<Longrightarrow> refs_kept d (d\<lparr>db_jobs := upd_row job_id k (\<lambda>_. j) (db_jobs d)\<rparr>)"
  by (simp add: write_simps) auto

lemma kept_add_device:
  "opt_in (dev_custom_platform_id v) (plat_id ` set (db_platforms d))
   \<Longrightarrow> opt_in (dev_credential_id v) (cred_id ` set (db_credentials d))
   \<Longrightarrow> refs_kept d (d\<lparr>db_devices := db_devices d @ [v], seq_device := n\<rparr>)"
  by (simp add: write_simps) auto

lemma kept_put_device:
  "dev_id v = k \<Longrightarrow> opt_in (dev_custom_platform_id v) (plat_id ` set (db_platforms d))
   \<Longrightarrow> opt_in (dev_credential_id v) (cred_id ` set (db_credentials d))
   \<Longrightarrow> refs_kept d (upd_device k (\<lambda>_. v) d)"
  by (simp add: write_simps upd_device_def) auto

lemma kept_add_credential: "refs_kept d (d\<lparr>db_credentials := db_credentials d @ [c], seq_credential := n\<rparr>)"
  by (simp add: write_simps) (auto intro: opt_in_insert)

lemma kept_put_credential:
  "cred_id c = k \<Longrightarrow> refs_kept d (d\<lparr>db_credentials := upd_row cred_id k (\<lambda>_. c) (db_credentials d)\<rparr>)"
  by (rule refs_kept_same) (simp add: same_keys_def key_columns keys_upd_const)

lemma kept_apply_default: "refs_kept d (apply_default k b d)"
  by (rule refs_kept_same) (simp add: same_keys_def key_columns apply_default_def)

lemma kept_add_policy: "refs_kept d (d\<lparr>db_policies := db_policies d @ [p], seq_policy := n, seq_check := m\<rparr>)"
  by (simp add: write_simps) auto

lemma kept_put_policy:
  "pol_id p = k \<Longrightarrow> refs_kept d (d\<lparr>db_policies := upd_row pol_id k (\<lambda>_. p) (db_policies d), seq_check := m\<rparr>)"
  by (simp add: write_simps) (auto intro: rev_image_eqI)

text \<open>The pairs of one row of a secondary table.\<close>

lemma set_set_links: "set (set_links k wanted pairs) = {(a, b) \<in> set pairs. a \<noteq> k} \<union> {k} \<times> set wanted"
  by (auto simp: set_links_def Let_def)

lemma existing_subset: "set (existing_groups d gids) \<subseteq> grp_id ` set (db_groups d)"
    "set (existing_devices d vids) \<subseteq> dev_id ` set (db_devices d)"
  by (auto simp: existing_groups_def existing_devices_def)

lemma kept_link_job: "k \<in> job_id ` set (db_jobs d) \<Longrightarrow> refs_kept d (link_job k gids vids d)"
  using existing_subset(1) [of d gids] existing_subset(2) [of d vids]
  by (simp add: write_simps link_job_def set_set_links image_Un) auto

lemma kept_link_policy: "k \<in> pol_id ` set (db_policies d) \<Longrightarrow> refs_kept d (link_policy k gids vids d)"
  using existing_subset(1) [of d gids] existing_subset(2) [of d vids]
  by (simp add: write_simps link_policy_def set_set_links image_Un) auto

lemma set_device_groups_links:
  "db_memberships (set_device_groups k gids d) = set_links k (existing_groups d gids) (db_memberships d)"
  by (simp add: set_device_groups_def set_links_def Let_def)

lemma kept_set_device_groups: "k \<in> dev_id ` set (db_devices d) \<Longrightarrow> refs_kept d (set_device_groups k gids d)"
  using existing_subset(1) [of d gids]
  by (simp add: write_simps set_device_groups_links set_set_links)
    (auto simp: set_device_groups_def Let_def set_links_def)

section \<open>Handlers\<close>

lemmas handler_simps = bind_result_Inr_iff refers_to_opt_in Let_def

lemma keys_upd_set: "key v = k \<Longrightarrow> key ` set (upd_row key k (\<lambda>_. v) rs) = key ` set rs"
  using arg_cong [OF keys_upd_const, of key v k set rs] by simp

lemma kept_create_group: "refs_kept d (snd (create_group st data d))"
  unfolding create_group_def by (rule kept_committed) (auto simp: handler_simps intro!: kept_add_group)

lemma apply_group_form_id: "apply_group_form data g = Inr g' \<Longrightarrow> grp_id g' = grp_id g"
  by (auto simp: apply_group_form_def bind_result_Inr_iff)

lemma kept_update_group: "refs_kept d (snd (update_group st k data d))"
  unfolding update_group_def
  by (auto simp: handler_simps get_group_def apply_group_form_id dest!: get_row_Some
      intro!: kept_committed kept_put_group split: option.split)

lemma kept_create_platform: "refs_kept d (snd (create_platform st data d))"
  unfolding create_platform_def by (rule kept_committed) (auto simp: handler_simps intro!: kept_add_platform)

lemma apply_platform_form_id: "apply_platform_form data p = Inr p' \<Longrightarrow> plat_id p' = plat_id p"
  by (auto simp: apply_platform_form_def bind_result_Inr_iff)

lemma kept_update_platform: "refs_kept d (snd (update_platform st k data d))"
  unfolding update_platform_def
  by (auto simp: handler_simps get_platform_def apply_platform_form_id dest!: get_row_Some
      intro!: kept_committed kept_put_platform split: option.split)

lemma kept_create_parser: "refs_kept d (snd (create_parser st data d))"
  unfolding create_parser_def by (rule kept_committed) (auto simp: handler_simps intro!: kept_add_parser)

lemma apply_parser_form_id: "apply_parser_form data p = Inr p' \<Longrightarrow> pt_id p' = pt_id p"
  by (auto simp: apply_parser_form_def bind_result_Inr_iff)

lemma kept_update_parser: "refs_kept d (snd (update_parser st k data d))"
  unfolding update_parser_def
  by (rule kept_committed) (auto simp: handler_simps get_parser_def apply_parser_form_id dest!: get_row_Some
      intro!: kept_put_parser split: option.splits)

lemma kept_create_schedule: "refs_kept d (snd (create_schedule st data d))"
  unfolding create_schedule_def by (rule kept_committed) (auto simp: handler_simps intro!: kept_add_schedule)

lemma kept_update_schedule: "refs_kept d (snd (update_schedule st k data d))"
  unfolding update_schedule_def
  by (auto simp: handler_simps edit_schedule_row_def intro!: kept_committed kept_upd_schedule split: option.split)

lemma kept_skip_next_run: "refs_kept d (snd (skip_next_run st k d))"
  by (auto simp: skip_next_run_def intro!: kept_upd_schedule)

lemma kept_create_cred: "refs_kept d (snd (create_cred S st data d))"
  unfolding create_cred_def
  by (rule kept_committed) (auto simp: handler_simps
      intro!: refs_kept_trans [OF kept_add_credential kept_apply_default])

lemma kept_update_cred: "refs_kept d (snd (update_cred S st k data d))"
  unfolding update_cred_def
  by (auto simp: handler_simps get_credential_def dest!: get_row_Some
      intro!: kept_committed refs_kept_trans [OF kept_put_credential kept_apply_default] split: option.split)

lemma apply_job_form_id: "apply_job_form data j = Inr j' \<Longrightarrow> job_id j' = job_id j"
  by (auto simp: apply_job_form_def bind_result_Inr_iff)

lemma kept_create_job: "refs_kept d (snd (create_job st data d))"
  unfolding create_job_def
  by (rule kept_committed) (auto simp: handler_simps
      intro!: refs_kept_trans [OF kept_add_job kept_link_job])

lemma kept_update_job: "refs_kept d (snd (update_job st k data d))"
  unfolding update_job_def
  by (auto simp: handler_simps get_job_def apply_job_form_id keys_upd_set dest!: get_row_Some
      intro!: kept_committed refs_kept_trans [OF kept_put_job kept_link_job] split: option.split)

lemma apply_policy_form_id: "apply_policy_form data p n = Inr (p', x) \<Longrightarrow> pol_id p' = pol_id p"
  by (auto simp: apply_policy_form_def bind_result_Inr_iff)

lemma kept_create_policy: "refs_kept d (snd (create_policy st data d))"
  unfolding create_policy_def Let_def
  by (rule kept_committed) (auto simp: handler_simps dest!: apply_policy_form_id
      intro!: refs_kept_trans [OF kept_add_policy kept_link_policy])

lemma kept_update_policy: "refs_kept d (snd (update_policy st k data d))"
  unfolding update_policy_def
  by (auto simp: handler_simps get_policy_def keys_upd_set dest!: get_row_Some apply_policy_form_id
      intro!: kept_committed refs_kept_trans [OF kept_put_policy kept_link_policy] split: option.split)

text \<open>Devices: the platform and the credential of the form are checked.\<close>

lemma device_refs_Inr: "device_refs d v = Inr () \<longleftrightarrow> opt_in (dev_custom_platform_id v) (plat_id ` set (db_platforms d))
    \<and> opt_in (dev_credential_id v) (cred_id ` set (db_credentials d))"
  by (simp add: device_refs_def bind_result_Inr_iff refers_to_opt_in)

lemma apply_device_form_id: "apply_device_form data v = Inr v' \<Longrightarrow> dev_id v' = dev_id v"
  by (auto simp: apply_device_form_def bind_result_Inr_iff)

lemma apply_platform_value_id: "apply_platform_value pv v = Inr v' \<Longrightarrow> dev_id v' = dev_id v"
  by (auto simp: apply_platform_value_def bind_result_Inr_iff set_platform_def split: option.splits)

lemma apply_platform_id: "apply_platform data v = Inr v' \<Longrightarrow> dev_id v' = dev_id v"
  by (auto simp: apply_platform_def apply_platform_value_id split: option.splits formval.splits)

lemma kept_create_device: "refs_kept d (snd (create_device st data d))"
  unfolding create_device_def
  by (rule kept_committed) (auto simp: handler_simps device_refs_Inr
      intro!: refs_kept_trans [OF kept_add_device kept_set_device_groups])

lemma kept_update_device: "refs_kept d (snd (update_device st k data d))"
  unfolding update_device_def
  by (auto simp: handler_simps device_refs_Inr get_device_def upd_device_def keys_upd_set
      dest!: get_row_Some apply_platform_id apply_device_form_id
      intro!: kept_committed refs_kept_trans [OF kept_put_device [unfolded upd_device_def] kept_set_device_groups] split: option.split)

lemma bulk_credential_id: "bulk_credential data v = Inr v' \<Longrightarrow> dev_id v' = dev_id v"
  by (auto simp: bulk_credential_def Let_def bind_result_Inr_iff split: if_splits)

lemma bulk_platform_id: "bulk_platform data v = Inr v' \<Longrightarrow> dev_id v' = dev_id v"
  by (auto simp: bulk_platform_def set_platform_def dest!: apply_platform_value_id split: if_splits formval.splits)

lemma bulk_enabled_id [simp]: "dev_id (bulk_enabled data v) = dev_id v"
  by (simp add: bulk_enabled_def)

lemma bulk_edit_id: "bulk_edit data v = Inr v' \<Longrightarrow> dev_id v' = dev_id v"
  unfolding bulk_edit_def bind_result_Inr_iff by (elim exE conjE) (drule bulk_platform_id bulk_credential_id; simp)+

lemma kept_join_group:
  "v \<in> dev_id ` set (db_devices d) \<Longrightarrow> g \<in> grp_id ` set (db_groups d)
   \<Longrightarrow> refs_kept d (d\<lparr>db_memberships := db_memberships d @ [(v, g)]\<rparr>)"
  by (simp add: write_simps)

lemma kept_bulk_edit_all:
  "bulk_edit_all data g vs d = Inr d' \<Longrightarrow> set vs \<subseteq> {v. dev_id v \<in> dev_id ` set (db_devices d)}
   \<Longrightarrow> opt_in g (grp_id ` set (db_groups d)) \<Longrightarrow> refs_kept d d'"
proof (induction vs arbitrary: d)
  case Nil
  then show ?case by simp
next
  case (Cons v vs)
  from Cons.prems(1) obtain v' where v': "bulk_edit data v = Inr v'" "device_refs d v' = Inr ()"
    and rest: "bulk_edit_all data g vs (case g of None \<Rightarrow> upd_device (dev_id v) (\<lambda>_. v') d
        | Some k \<Rightarrow> if (dev_id v, k) \<in> set (db_memberships (upd_device (dev_id v) (\<lambda>_. v') d))
            then upd_device (dev_id v) (\<lambda>_. v') d
            else (upd_device (dev_id v) (\<lambda>_. v') d)
              \<lparr>db_memberships := db_memberships (upd_device (dev_id v) (\<lambda>_. v') d) @ [(dev_id v, k)]\<rparr>) = Inr d'"
      (is "bulk_edit_all data g vs ?d2 = _")
    by (auto simp: bind_result_Inr_iff Let_def)
  let ?d1 = "upd_device (dev_id v) (\<lambda>_. v') d"
  have keys: "dev_id ` set (db_devices ?d1) = dev_id ` set (db_devices d)"
    using bulk_edit_id [OF v'(1)] by (simp add: upd_device_def keys_upd_set)
  have one: "refs_kept d ?d1"
    using v'(2) bulk_edit_id [OF v'(1)] by (intro kept_put_device) (simp_all add: device_refs_Inr)
  have groups: "db_groups ?d1 = db_groups d" by (simp add: upd_device_def)
  have "refs_kept ?d1 ?d2"
    using Cons.prems(2,3) kept_join_group [of "dev_id v" ?d1] by (cases g) (simp_all add: keys groups)
  moreover have "refs_kept ?d2 d'"
    using Cons.prems(2,3) keys groups by (intro Cons.IH [OF rest]) (auto split: option.split)
  ultimately show ?case using one refs_kept_trans by blast
qed

lemma bulk_group_in: "bulk_group data d = Inr g \<Longrightarrow> opt_in g (grp_id ` set (db_groups d))"
  by (cases g) (auto simp: bulk_group_def bind_result_Inr_iff get_group_def bind_eq_Some_conv dest!: get_row_Some)

lemma kept_bulk_devices: "refs_kept d (snd (bulk_devices st data d))"
  unfolding bulk_devices_def
proof (rule kept_committed)
  fix d'
  assume "bind_result (parse_ids data ''ids'') (\<lambda>ids. if ids = [] then Inr d
      else if form_is data ''action'' ''delete'' then Inr (delete_devices ids d)
      else if form_is data ''action'' ''edit'' then
        bind_result (bulk_group data d) (\<lambda>g.
          bulk_edit_all data g (filter (\<lambda>v. dev_id v \<in> set ids) (db_devices d)) d)
      else Inr d) = Inr d'"
  then consider "d' = d" | ids where "d' = delete_devices ids d"
    | g ids where "bulk_group data d = Inr g"
        "bulk_edit_all data g (filter (\<lambda>v. dev_id v \<in> set ids) (db_devices d)) d = Inr d'"
    by (auto simp: bind_result_Inr_iff split: if_splits)
  then show "refs_kept d d'"
    by cases (auto simp: kept_delete_devices dest!: bulk_group_in intro!: kept_bulk_edit_all)
qed

section \<open>Import\<close>

text \<open>What the rows read so far have left: the keys are those of the inventory, the new rows refer to it.\<close>

definition import_refs :: "db \<Rightarrow> import_state \<Rightarrow> bool" where
  "import_refs d s \<longleftrightarrow> refs_kept d (im_db s) \<and> db_groups (im_db s) = db_groups d
     \<and> db_credentials (im_db s) = db_credentials d \<and> device_keys (im_db s) = device_keys d
     \<and> (\<forall>(v, gids) \<in> set (im_new s). dev_custom_platform_id v = None
         \<and> opt_in (dev_credential_id v) (cred_id ` set (db_credentials d)) \<and> set gids \<subseteq> grp_id ` set (db_groups d))"

lemma find_group_in: "find_group d n = Inr g \<Longrightarrow> g \<in> set (db_groups d)"
  by (auto simp: find_group_def find_Some_iff split: option.splits)

lemma find_credential_in: "find_credential d n = Inr c \<Longrightarrow> set_option c \<subseteq> set (db_credentials d)"
  by (auto simp: find_credential_def find_Some_iff split: option.splits if_splits)

lemma find_groups_in: "traverse (find_group d) ns = Inr gs \<Longrightarrow> set gs \<subseteq> set (db_groups d)"
  by (induction ns arbitrary: gs) (auto simp: bind_result_Inr_iff dest: find_group_in)

lemma check_row_refs:
  assumes "check_row d seen get = Inr row"
  shows "set (ir_groups row) \<subseteq> set (db_groups d) \<and> set_option (ir_credential row) \<subseteq> set (db_credentials d)"
  using assms by (auto simp: check_row_def Let_def bind_result_Inr_iff
      dest: find_credential_in dest!: find_groups_in split: if_splits)

lemma kept_update_device_row:
  assumes "set_option (ir_credential row) \<subseteq> set (db_credentials d)"
  shows "refs_kept d (upd_device k (update_device_row get row) d)"
proof -
  have "opt_in (dev_credential_id (update_device_row get row v)) (cred_id ` set (db_credentials d))"
    if "opt_in (dev_credential_id v) (cred_id ` set (db_credentials d))" for v
    using assms that by (cases "ir_credential row") (auto simp: update_device_row_def)
  moreover have "dev_custom_platform_id (update_device_row get row v) = dev_custom_platform_id v" for v
    by (simp add: update_device_row_def)
  ultimately show ?thesis by (simp add: write_simps upd_device_def) auto
qed

lemma kept_add_memberships:
  "fst ` set ps \<subseteq> dev_id ` set (db_devices d) \<Longrightarrow> snd ` set ps \<subseteq> grp_id ` set (db_groups d)
   \<Longrightarrow> refs_kept d (d\<lparr>db_memberships := db_memberships d @ ps\<rparr>)"
  by (simp add: write_simps image_Un)

lemma import_refs_row:
  assumes "import_refs d s"
  shows "import_refs d (import_row d headers idx r s)"
proof (cases "check_row d (im_seen s) (cell headers r)")
  case (Inl e)
  with assms show ?thesis by (simp add: import_row_def import_refs_def Let_def)
next
  case (Inr row)
  let ?get = "cell headers r" and ?D = "im_db s"
  from check_row_refs [OF Inr] have groups: "grp_id ` set (ir_groups row) \<subseteq> grp_id ` set (db_groups d)"
    and cred: "set_option (ir_credential row) \<subseteq> set (db_credentials d)" by auto
  show ?thesis
  proof (cases "find (\<lambda>v. dev_name v = ?get ''name'') (db_devices d)")
    case None
    have "opt_in (dev_credential_id (new_device_row ?get row)) (cred_id ` set (db_credentials d))"
      using cred by (cases "ir_credential row") (auto simp: new_device_row_def)
    with assms None Inr groups show ?thesis
      by (auto simp: import_row_def import_refs_def Let_def new_device_row_def)
  next
    case (Some v)
    then have v: "v \<in> set (db_devices d)" by (auto simp: find_Some_iff)
    let ?U = "upd_device (dev_id v) (update_device_row ?get row) ?D"
    let ?ps = "new_memberships ?D (dev_id v) (ir_groups row)"
    have tables: "device_keys ?U = device_keys ?D" "db_groups ?U = db_groups ?D"
        "db_credentials ?U = db_credentials ?D" "db_memberships ?U = db_memberships ?D"
      by (simp_all add: upd_device_def map_upd_row)
    have dev: "dev_id ` set (db_devices ?U) = dev_id ` set (db_devices d)"
      using assms arg_cong [OF tables(1), of set] by (metis import_refs_def list.set_map)
    have "refs_kept ?D ?U"
      using assms cred by (intro kept_update_device_row) (simp add: import_refs_def)
    moreover have "refs_kept ?U (?U\<lparr>db_memberships := db_memberships ?D @ ?ps\<rparr>)"
      using assms v groups dev unfolding tables(4) [symmetric]
      by (intro kept_add_memberships) (auto simp: import_refs_def new_memberships_def tables)
    ultimately have "refs_kept d (?U\<lparr>db_memberships := db_memberships ?D @ ?ps\<rparr>)"
      using assms refs_kept_trans unfolding import_refs_def by blast
    with assms Some Inr tables show ?thesis
      by (simp add: import_row_def import_refs_def Let_def)
  qed
qed

lemma import_refs_rows: "import_refs d s \<Longrightarrow> import_refs d (import_rows d headers idx rs s)"
  by (induction rs arbitrary: idx s) (simp_all add: import_refs_row)

lemma kept_add_devices:
  "(\<forall>(v, gids) \<in> set new. dev_custom_platform_id v = None
      \<and> opt_in (dev_credential_id v) (cred_id ` set (db_credentials d)) \<and> set gids \<subseteq> grp_id ` set (db_groups d))
   \<Longrightarrow> refs_kept d (add_devices new d)"
proof (induction new arbitrary: d)
  case Nil
  then show ?case by simp
next
  case (Cons x new)
  obtain v gids where x: "x = (v, gids)" by (cases x)
  let ?k = "seq_device d"
  let ?A = "d\<lparr>db_devices := db_devices d @ [v\<lparr>dev_id := ?k\<rparr>], seq_device := ?k + 1\<rparr>"
  let ?B = "?A\<lparr>db_memberships := db_memberships ?A @ map (\<lambda>g. (?k, g)) gids\<rparr>"
  have "refs_kept d ?A" using Cons.prems by (intro kept_add_device) (auto simp: x)
  moreover have "refs_kept ?A ?B" using Cons.prems by (intro kept_add_memberships) (auto simp: x)
  moreover have "refs_kept ?B (add_devices new ?B)" using Cons.prems by (intro Cons.IH) auto
  ultimately have "refs_kept d (add_devices new ?B)" using refs_kept_trans by blast
  moreover have "d\<lparr>db_devices := db_devices d @ [v\<lparr>dev_id := ?k\<rparr>],
      db_memberships := db_memberships d @ map (\<lambda>g. (?k, g)) gids, seq_device := ?k + 1\<rparr> = ?B"
    by (cases d) simp
  ultimately show ?case by (simp only: x add_devices.simps)
qed

lemma kept_import_csv: "refs_kept d (snd (import_csv raw d))"
proof -
  let ?start = "\<lparr>im_db = d, im_new = [], im_seen = [], im_results = [], im_updates = 0\<rparr>"
  have start: "import_refs d ?start"
    by (simp add: import_refs_def)
  have "refs_kept d (add_devices (im_new s) (im_db s))" if "import_refs d s" for s
  proof -
    have "refs_kept (im_db s) (add_devices (im_new s) (im_db s))"
      using that by (intro kept_add_devices) (simp add: import_refs_def)
    with that show ?thesis unfolding import_refs_def by (blast intro: refs_kept_trans)
  qed
  then have kept: "refs_kept d (add_devices (im_new (import_rows d hs idx rs ?start)) (im_db (import_rows d hs idx rs ?start)))"
    for hs idx rs using import_refs_rows [OF start] by blast
  show ?thesis unfolding import_csv_def Let_def by (simp add: kept split: sum.split prod.split)
qed

lemma kept_import: "import_csv raw d = (x, d') \<Longrightarrow> refs_kept d d'"
  using kept_import_csv [of d raw] by simp

lemma kept_import_submit: "refs_kept d (snd (import_submit upload pasted d))"
proof -
  let ?p = "strip (or_str pasted [])"
  let ?raw = "case upload of Some t \<Rightarrow> if t \<noteq> [] then t else ?p | None \<Rightarrow> ?p"
  obtain x d' where "import_csv ?raw d = (x, d')" by (cases "import_csv ?raw d")
  with kept_import [OF this] show ?thesis
    by (cases x) (simp_all add: import_submit_def Let_def split: prod.split)
qed

lemma kept_import_devices: "refs_kept d (snd (import_devices multipart body d))"
proof -
  obtain x d' where "import_csv (api_raw multipart body) d = (x, d')" by (cases "import_csv (api_raw multipart body) d")
  with kept_import [OF this] show ?thesis
    by (cases x) (simp_all add: import_devices_def Let_def split: prod.split)
qed

end
