(* ===== verification/Integrity_System.thy ===== *)
theory Integrity_System
  imports Integrity Progress
begin

text \<open>
  Referential integrity of the running system: the firings, the scheduler's passes, the recorder and
  the closing of runs from the web, and then the invariant of the states that the handlers and
  processes reach together.
\<close>

section \<open>Firing\<close>

lemma linked_device: "v \<in> set (linked pairs k get_device d) \<Longrightarrow> v \<in> set (db_devices d)"
  by (auto simp: set_linked get_device_def dest: get_row_Some)

lemma target_known: "t \<in> set (device_group_pairs d j) \<Longrightarrow> fst t \<in> set (db_devices d)"
  using collector.gather_subset [of target_key target_ok "candidates d j"]
  by (auto simp: device_group_pairs_collect candidates_def group_devices_def job_devices_def
      dest!: subsetD intro: linked_device)

lemma number_targets_fst: "(dev, g, rid) \<in> set (number_targets k ts) \<Longrightarrow> \<exists>h. (dev, h) \<in> set ts"
  by (induction k ts rule: number_targets.induct) auto

lemma kept_create_rows:
  assumes "create_rows j sid sname now ts d = (bid, pairs, d')"
    and "\<forall>t \<in> set ts. fst t \<in> set (db_devices d)" and "opt_in sid (sch_id ` set (db_schedules d))"
  shows "refs_kept d d'"
proof -
  have "dev_id dev \<in> dev_id ` set (db_devices d)" if "(dev, g, rid) \<in> set (number_targets (seq_run d) ts)" for dev g rid
    using number_targets_fst [OF that] assms(2) by force
  then have "run_device_id ` (\<lambda>(dev, g, rid). new_run now rid j sid (seq_batch d) (dev_id dev)) `
      set (number_targets (seq_run d) ts) \<subseteq> dev_id ` set (db_devices d)"
    by (auto simp: new_run_def)
  moreover have "refs_kept d (d\<lparr>db_batches := db_batches d @ [new_batch (seq_batch d) j sid sname (length ts) now],
      db_runs := db_runs d @ rs, seq_batch := seq_batch d + 1, seq_run := n\<rparr>)"
    if "run_device_id ` set rs \<subseteq> dev_id ` set (db_devices d)"
      and "\<forall>r \<in> set rs. run_schedule_id r = sid \<and> run_batch_id r = Some (seq_batch d)
        \<and> run_parser_template_id r = None \<and> run_job_id r = None" for rs n
    using that assms(3) by (simp add: write_simps new_batch_def image_Un) (auto intro: opt_in_insert opt_in_Un)
  ultimately show ?thesis using assms(1)
    by (auto simp: create_rows_def Let_def new_run_def case_prod_unfold)
qed

lemma same_keys_fail_run: "same_keys d (fail_run rid err now bid d)"
  unfolding fail_run_def by (rule same_keys_trans [OF same_keys_upd_run same_keys_upd_batch]) simp_all

lemma same_keys_publish_all:
  "publish_all B C S st j sid cred now bid pairs (d, q) = (r, (d', q')) \<Longrightarrow> same_keys d d'"
proof (induction pairs arbitrary: d q)
  case Nil
  then show ?case by simp
next
  case (Cons p pairs)
  obtain dev g rid where p: "p = (dev, g, rid)" by (cases p)
  show ?case
    using Cons
    by (auto simp: p seq_def on_db_def on_broker_def intro: same_keys_trans [OF same_keys_fail_run]
        split: sum.splits option.splits prod.splits)
qed

lemma same_keys_reject_all: "same_keys d (reject_all err now bid pairs d)"
proof -
  have "same_keys d (fold (\<lambda>(dev, g, rid). fail_run rid err now bid) pairs d)" for d
    by (induction pairs arbitrary: d) (auto intro: same_keys_trans [OF same_keys_fail_run])
  then show ?thesis
    unfolding reject_all_def finish_batch_def by (rule same_keys_trans [OF _ same_keys_upd_batch]) simp
qed

lemma kept_fire_job:
  assumes f: "fire_job B C S st now j sid sname (d, q) = (r, (d', q'))"
    and sid: "opt_in sid (sch_id ` set (db_schedules d))"
  shows "refs_kept d d'"
proof -
  obtain bid pairs d1 where c: "create_rows j sid sname now (device_group_pairs d j) d = (bid, pairs, d1)"
    by (metis prod.exhaust)
  have rows: "refs_kept d d1" using target_known by (intro kept_create_rows [OF c _ sid]) blast
  consider "d' = d" | err where "d' = reject_all err now bid pairs d1"
    | q1 r1 where "publish_all B C S st j sid (default_credential d) now bid pairs (d1, q1) = (r1, (d', q'))"
    using f by (auto simp: fire_job_def Let_def seq_def on_broker_def c
        split: prod.splits sum.splits option.splits)
  then show ?thesis
    by cases (auto intro: refs_kept_trans [OF rows] refs_kept_same same_keys_reject_all same_keys_publish_all)
qed

lemma kept_run_job_adhoc:
  "run_job_adhoc B C S st now k (d, q) = (r, (d', q')) \<Longrightarrow> refs_kept d d'"
  by (auto simp: run_job_adhoc_def dest: kept_fire_job split: option.splits prod.splits sum.splits)

section \<open>The scheduler\<close>

lemma schedule_keys_upd: "(\<And>s. sch_id (f s) = sch_id s) \<Longrightarrow> schedule_keys (upd_schedule k f d) = schedule_keys d"
  by (simp add: upd_schedule_def map_upd_row)

lemma mark_keys [simp]:
  "sch_id (mark_run now t s) = sch_id s" "sch_job_id (mark_run now t s) = sch_job_id s"
  "sch_id (mark_skipped now t s) = sch_id s" "sch_job_id (mark_skipped now t s) = sch_job_id s"
  "sch_id (set_next t s) = sch_id s" "sch_job_id (set_next t s) = sch_job_id s"
  by (simp_all add: mark_run_def mark_skipped_def set_next_def)

lemma kept_fire_schedule:
  assumes "fire_schedule L B C S st now s (d, q) = (r, (d', q'))" and "sch_id s \<in> set (schedule_keys d)"
  shows "refs_kept d d' \<and> schedule_keys d' = schedule_keys d"
proof -
  have mark: "refs_kept e (upd_schedule k f e) \<and> schedule_keys (upd_schedule k f e) = schedule_keys e"
    if "\<And>s. sch_id (f s) = sch_id s \<and> sch_job_id (f s) = sch_job_id s" for e k f
    using that by (simp add: schedule_keys_upd kept_upd_schedule)
  have fire: "refs_kept d e \<and> schedule_keys e = schedule_keys d"
    if "fire_job B C S st now j (Some (sch_id s)) sname (d, q) = (x, (e, q1))" for j sname x e q1
    using kept_fire_job [OF that] sched_fire_job [OF that] assms(2) by simp
  have "refs_kept d (upd_schedule k (mark_run now t) e) \<and> schedule_keys (upd_schedule k (mark_run now t) e) = schedule_keys d"
    if "refs_kept d e \<and> schedule_keys e = schedule_keys d" for k t e
    using that mark [of "mark_run now t" e k] by (auto intro: refs_kept_trans)
  with assms(1) mark fire show ?thesis
    by (auto simp: fire_schedule_def seq_def on_db_def try_fire_def
        split: option.splits sum.splits if_splits prod.splits)
qed

lemma kept_fire_each:
  "fire_each L B C S st now ss (d, q) = (r, (d', q')) \<Longrightarrow> \<forall>s \<in> set ss. sch_id s \<in> set (schedule_keys d)
   \<Longrightarrow> refs_kept d d'"
proof (induction ss arbitrary: d q r)
  case Nil
  then show ?case by simp
next
  case (Cons s ss)
  obtain r1 d1 q1 where one: "fire_schedule L B C S st now s (d, q) = (r1, (d1, q1))" by (metis prod.exhaust)
  from kept_fire_schedule [OF one] Cons.prems(2) have k: "refs_kept d d1" "schedule_keys d1 = schedule_keys d"
    by simp_all
  show ?case
  proof (cases r1)
    case (Inl e)
    with Cons.prems(1) one k show ?thesis by (simp add: seq_def)
  next
    case (Inr n)
    obtain r2 d2 q2 where two: "fire_each L B C S st now ss (d1, q1) = (r2, (d2, q2))" by (metis prod.exhaust)
    with Cons.prems(1) one Inr have "(d2, q2) = (d', q')" by (cases r2) (auto simp: seq_def)
    with two have "refs_kept d1 d'" using Cons.IH [of d1 q1 r2] Cons.prems(2) k(2) by simp
    with k(1) show ?thesis by (rule refs_kept_trans)
  qed
qed

lemma kept_fire_due: "fire_due L B C S st now (d, q) = (r, (d', q')) \<Longrightarrow> refs_kept d d'"
  unfolding fire_due_def by (simp, erule kept_fire_each) auto

section \<open>Compliance\<close>

lemma res_keys_fold_upsert:
  "res_key ` set (fold upsert_result new rs) = res_key ` set rs \<union> res_key ` set new"
proof (induction new arbitrary: rs)
  case (Cons r new)
  have "res_key ` set (upsert_result r rs) = insert (res_key r) (res_key ` set rs)"
    using arg_cong [OF res_keys_upsert [of r rs], of set] by (auto split: if_splits)
  with Cons show ?case by auto
qed simp

lemma kept_upsert_results:
  assumes "\<forall>r \<in> set rs. cres_policy_id r \<in> pol_id ` set (db_policies d) \<and> cres_device_id r \<in> dev_id ` set (db_devices d)"
  shows "refs_kept d (upsert_compliance_results rs d)"
proof -
  let ?new = "fold upsert_result rs (db_compliance_results d)"
  have "fst ` res_key ` set ?new = fst ` res_key ` set (db_compliance_results d) \<union> fst ` res_key ` set rs"
    and "snd ` res_key ` set ?new = snd ` res_key ` set (db_compliance_results d) \<union> snd ` res_key ` set rs"
    unfolding res_keys_fold_upsert by (simp_all add: image_Un)
  moreover have "fst ` res_key ` A = cres_policy_id ` A" "snd ` res_key ` A = cres_device_id ` A" for A
    by (simp_all add: image_image res_key_def)
  ultimately show ?thesis using assms
    by (simp add: write_simps upsert_compliance_results_def) auto
qed

lemma scoped_known: "set (scoped_device_ids d p) \<subseteq> dev_id ` set (db_devices d)"
proof -
  let ?c = "concat (map (group_devices d) (policy_groups d p)) @ policy_devices d p"
  have "set (scoped_device_ids d p) = dev_id ` {x \<in> set ?c. True}"
    unfolding scoped_device_ids_collect using collector.gather_keys [of dev_id "\<lambda>_. True" ?c] by simp
  then show ?thesis
    by (auto simp: group_devices_def policy_devices_def dest!: linked_device)
qed

lemma kept_policy_results:
  assumes "run_policy_for_devices E re now p (map (\<lambda>i. (i, f i)) ids) = Inr rs"
    and "set ids \<subseteq> dev_id ` set (db_devices d)" and "p \<in> set (db_policies d)"
  shows "refs_kept d (upsert_compliance_results rs d)"
proof (rule kept_upsert_results, rule ballI)
  fix r
  assume "r \<in> set rs"
  then obtain k where k: "k < length rs" "rs ! k = r" by (auto simp: in_set_conv_nth)
  with list_all2_nthD2 [OF run_policy_for_devices_shape [OF assms(1)], of k]
    list_all2_lengthD [OF run_policy_for_devices_shape [OF assms(1)]]
  show "cres_policy_id r \<in> pol_id ` set (db_policies d) \<and> cres_device_id r \<in> dev_id ` set (db_devices d)"
    using assms(2,3) by (auto dest!: subsetD)
qed

lemma kept_run_policy: "refs_kept d (snd (run_policy E re now st k d))"
  by (auto simp: run_policy_def run_policy_now_def Let_def bind_result_Inr_iff get_policy_def
      dest!: get_row_Some intro!: kept_committed kept_policy_results scoped_known
      split: option.split if_splits)

lemma kept_evaluate_policies:
  "evaluate_policies E re now devs ps d = Inr d' \<Longrightarrow> set ps \<subseteq> set (db_policies d) \<Longrightarrow> refs_kept d d'"
proof (induction ps arbitrary: d)
  case Nil
  then show ?case by simp
next
  case (Cons p ps)
  let ?ids = "filter (\<lambda>i. i \<in> set devs) (scoped_device_ids d p)"
  show ?case
  proof (cases "?ids = []")
    case True
    with Cons show ?thesis by simp
  next
    case False
    with Cons.prems obtain rs where rs: "run_policy_for_devices E re now p (map (\<lambda>i. (i, config_content d i)) ?ids) = Inr rs"
      and rest: "evaluate_policies E re now devs ps (upsert_compliance_results rs d) = Inr d'"
      by (auto simp: Let_def bind_result_Inr_iff)
    have "refs_kept d (upsert_compliance_results rs d)"
      using Cons.prems(2) scoped_known [of d p] by (intro kept_policy_results [OF rs]) auto
    moreover have "refs_kept (upsert_compliance_results rs d) d'"
      using Cons.prems(2) by (intro Cons.IH [OF rest]) (simp add: upsert_compliance_results_def)
    ultimately show ?thesis by (rule refs_kept_trans)
  qed
qed

section \<open>The recorder\<close>

text \<open>
  The recorder writes the ids of one run and of its batch into other rows: its steps keep the
  references as long as these two exist, and remove neither runs nor batches.
\<close>

definition recorder_keeps :: "int option \<Rightarrow> int \<Rightarrow> db \<Rightarrow> db \<Rightarrow> bool" where
  "recorder_keeps b rid d d' \<longleftrightarrow> batch_keys d' = batch_keys d \<and> run_keys d' = run_keys d
     \<and> (opt_in b (set (batch_keys d)) \<and> rid \<in> set (run_keys d) \<longrightarrow> refs_kept d d')"

lemma recorder_keeps_trans: "recorder_keeps b rid d e \<Longrightarrow> recorder_keeps b rid e f \<Longrightarrow> recorder_keeps b rid d f"
  unfolding recorder_keeps_def by (auto intro: refs_kept_trans)

lemma same_keysD: "same_keys d d' \<Longrightarrow> batch_keys d' = batch_keys d \<and> run_keys d' = run_keys d"
  by (simp add: same_keys_def key_columns)

lemma recorder_keeps_same: "same_keys d d' \<Longrightarrow> recorder_keeps b rid d d'"
  by (simp add: recorder_keeps_def same_keysD refs_kept_same)

named_theorems recorder_intros \<open>computations of the recorder that keep the references\<close>

abbreviation keeps_refs :: "int option \<Rightarrow> int \<Rightarrow> ('g rstate, 'a) eff \<Rightarrow> bool" where
  "keeps_refs b rid \<equiv> carries (recorder_keeps b rid)"

interpretation refs: db_relation "recorder_keeps b rid" for b rid
  by unfold_locales (auto intro: recorder_keeps_same recorder_keeps_trans)

lemma keeps_refs_modify [recorder_intros]: "(\<And>d. same_keys d (f d)) \<Longrightarrow> keeps_refs b rid (modify_db f)"
  by (rule carries_modify_db) (simp add: recorder_keeps_same)

lemmas [recorder_intros] = refs.ret_carries refs.seq_carries refs.store_carries refs.modify_r_carries

lemma same_keys_close_run: "same_keys d (close_run fromiso res b d)"
proof -
  have bump: "same_keys d (bump_batch b f d)" if "\<And>x. bat_id (f x) = bat_id x \<and> bat_schedule_id (f x) = bat_schedule_id x" for f d
    using that by (auto simp: bump_batch_def intro: same_keys_upd_batch split: option.split)
  have run: "same_keys d (upd_run (jr_run_id res) (\<lambda>r. (note_times fromiso res r)\<lparr>run_status := x\<rparr>) d)" for x
    by (rule same_keys_upd_run) (simp add: note_times_def)
  show ?thesis unfolding close_run_def by (simp add: same_keys_trans [OF run bump])
qed

lemma kept_upd_run:
  assumes "\<And>r. run_id (f r) = run_id r \<and> run_schedule_id (f r) = run_schedule_id r
      \<and> run_batch_id (f r) = run_batch_id r \<and> run_device_id (f r) = run_device_id r"
    and "\<And>r. opt_in (run_parser_template_id r) (pt_id ` set (db_parser_templates d))
      \<Longrightarrow> opt_in (run_parser_template_id (f r)) (pt_id ` set (db_parser_templates d))"
    and "\<And>r. opt_in (run_job_id r) (job_id ` set (db_jobs d)) \<Longrightarrow> opt_in (run_job_id (f r)) (job_id ` set (db_jobs d))"
  shows "recorder_keeps b rid d (upd_run k f d)"
  using assms by (simp add: recorder_keeps_def upd_run_def write_simps) auto

lemma recorder_keeps_collect:
  assumes "record_collect res d = Inr d'"
  shows "recorder_keeps b rid d d'"
proof -
  have one: "opt_in x A \<Longrightarrow> opt_in (if or_int k 0 \<noteq> 0 then k else x) A" if "opt_in (nonzero k) A" for k x A
    using that by (simp add: nonzero_def split: if_splits)
  from assms have d': "d' = upd_run (jr_run_id res) (note_collect res) d"
    and "opt_in (nonzero (jr_parser_template_id res)) (pt_id ` set (db_parser_templates d))"
    and "opt_in (nonzero (jr_job_id res)) (job_id ` set (db_jobs d))"
    by (simp_all add: record_collect_def bind_result_Inr_iff refers_to_opt_in)
  then show ?thesis unfolding d'
    by (intro kept_upd_run) (simp_all add: note_collect_def one)
qed

lemma traverse_scan_ids: "traverse (cve_result_row fromiso k) es = Inr rs \<Longrightarrow> cver_scan_id ` set rs \<subseteq> {k}"
  by (induction es arbitrary: rs) (fastforce simp: bind_result_Inr_iff cve_result_row_def)+

lemma recorder_keeps_scan:
  assumes "record_cve_scan fromiso now res d = Inr d'"
  shows "recorder_keeps b (jr_run_id res) d d'"
proof -
  from assms obtain scan rows where
      d': "d' = upd_run (jr_run_id res) (\<lambda>r. r\<lparr>run_bytes_captured := Some (int (length (jr_cve_entries res)))\<rparr>)
          (d\<lparr>db_cve_scans := db_cve_scans d @ [scan], db_cve_results := db_cve_results d @ rows, seq_scan := seq_scan d + 1\<rparr>)"
      (is "_ = upd_run _ _ ?e")
    and scan: "scan_id scan = seq_scan d" "scan_run_id scan = Some (jr_run_id res)" "scan_device_id scan = jr_device_id res"
    and dev: "jr_device_id res \<in> dev_id ` set (db_devices d)" and rows: "cver_scan_id ` set rows \<subseteq> {seq_scan d}"
    by (auto simp: record_cve_scan_def Let_def bind_result_Inr_iff refers_to_opt_in dest: traverse_scan_ids)
  have "recorder_keeps b (jr_run_id res) d ?e"
    using scan dev rows by (simp add: recorder_keeps_def write_simps image_Un) auto
  moreover have "recorder_keeps b (jr_run_id res) ?e d'" unfolding d' by (rule kept_upd_run) simp_all
  ultimately show ?thesis by (rule recorder_keeps_trans)
qed

lemma set_upsert_config: "set (upsert_config c cs) \<subseteq> insert c (set cs)"
  by (induction c cs rule: upsert_config.induct) auto

lemma recorder_keeps_backup:
  assumes "jr_device_id res \<in> dev_id ` set (db_devices d)"
  shows "recorder_keeps b rid d (note_backup fromiso res b rel content digest d)"
proof -
  let ?t = "parse_iso fromiso (Some (jr_finished_at res))"
  let ?d1 = "upd_run (jr_run_id res) (\<lambda>r. r\<lparr>run_payload_sha256 := Some digest,
      run_bytes_captured := Some (utf8_len content)\<rparr>) d"
  let ?d2 = "upd_device (jr_device_id res) (\<lambda>v. v\<lparr>dev_latest_backup_path := Some rel, dev_latest_backup_at := ?t\<rparr>) ?d1"
  let ?c = "\<lparr>cfg_device_id = jr_device_id res, cfg_batch_id = b, cfg_captured_at = ?t, cfg_content = Some content\<rparr>"
  have "same_keys ?d1 ?d2" by (simp add: same_keys_def upd_device_def key_columns)
  then have 2: "same_keys d ?d2" by (rule same_keys_trans [OF same_keys_upd_run, rotated]) simp
  have "device_keys ?d2 = device_keys d" by (simp add: upd_device_def map_upd_row upd_run_def)
  then have dev: "jr_device_id res \<in> dev_id ` set (db_devices ?d2)" using assms by (metis list.set_map)
  have "recorder_keeps b rid ?d2 (?d2\<lparr>db_configs := upsert_config ?c (db_configs ?d2)\<rparr>)"
    using dev set_upsert_config [of ?c "db_configs ?d2"]
    by (simp add: recorder_keeps_def write_simps) force
  then show ?thesis
    unfolding note_backup_def Let_def by (rule recorder_keeps_trans [OF recorder_keeps_same [OF 2]])
qed

lemma keeps_refs_store_backup [recorder_intros]: "keeps_refs b rid (store_backup V res batch g content)"
  by (rule refs.storing_carries) (simp add: recorder_keeps_same same_keys_upd_run)

lemma keeps_refs_record_backup: "keeps_refs b rid (record_backup V res batch b content)"
proof -
  have "keeps_refs b rid (seq (store_backup V res batch g content) (\<lambda>digest.
      modify_db_r (\<lambda>d. bind_result (refers_to (Some (jr_device_id res)) (device_keys d))
        (\<lambda>_. Inr (note_backup (env_fromiso V) res b rel content digest d)))))" for g rel
    by (intro recorder_intros) (auto simp: bind_result_Inr_iff refers_to_opt_in intro: recorder_keeps_backup)
  then show ?thesis unfolding record_backup_def Let_def carries_def by blast
qed

lemma keeps_refs_record_payload: "keeps_refs b (jr_run_id res) (record_payload V res batch b)"
proof -
  have "keeps_refs b (jr_run_id res) (modify_db_r (record_collect res))"
    by (intro recorder_intros recorder_keeps_collect)
  moreover have "keeps_refs b (jr_run_id res) (modify_db_r (record_cve_scan (env_fromiso V) (env_now V) res))"
    by (intro recorder_intros recorder_keeps_scan)
  ultimately show ?thesis
    using refs.ret_carries [of b "jr_run_id res" "()"] keeps_refs_record_backup unfolding record_payload_def
    by (auto simp del: eff_simps)
qed

lemma same_keys_stamp_runs:
  "(\<And>r. run_id (f r) = run_id r \<and> run_schedule_id (f r) = run_schedule_id r \<and> run_batch_id (f r) = run_batch_id r
      \<and> run_device_id (f r) = run_device_id r \<and> run_parser_template_id (f r) = run_parser_template_id r
      \<and> run_job_id (f r) = run_job_id r) \<Longrightarrow> same_keys d (stamp_runs b f d)"
  unfolding stamp_runs_def by (rule same_keys_map_runs) simp

text \<open>Computations that change no key at all.\<close>

interpretation keys: db_relation same_keys
  by unfold_locales (auto intro: same_keys_trans)

lemma keeps_keys_commit_staged:
  assumes "\<And>r c. run_id (mark r c) = run_id r \<and> run_schedule_id (mark r c) = run_schedule_id r
      \<and> run_batch_id (mark r c) = run_batch_id r \<and> run_device_id (mark r c) = run_device_id r
      \<and> run_parser_template_id (mark r c) = run_parser_template_id r \<and> run_job_id (mark r c) = run_job_id r"
  shows "carries same_keys (commit_staged V k message mark)"
  by (rule keys.commit_carries, rule same_keys_trans [OF same_keys_upd_batch same_keys_stamp_runs])
    (simp_all add: assms)

lemma policies_keys: "evaluate_policies E re now devs ps d = Inr d' \<Longrightarrow> batch_keys d' = batch_keys d \<and> run_keys d' = run_keys d"
  by (induction ps arbitrary: d) (fastforce simp: Let_def bind_result_Inr_iff upsert_compliance_results_def split: if_splits)+

lemma recorder_keeps_auto_evaluate:
  "auto_evaluate_compliance V k d = Inr d' \<Longrightarrow> recorder_keeps b rid d d'"
  using kept_evaluate_policies [of "env_engines V" "env_re_search V" "env_now V" _ "auto_policies d" d d']
  by (auto simp: auto_evaluate_compliance_def Let_def recorder_keeps_def auto_policies_def
      dest: policies_keys split: if_splits)

lemma keeps_refs_close_if_done: "keeps_refs b rid (close_if_done V res k)"
proof (rule refs.closing_carries)
  show "recorder_keeps b rid d (stamp_runs k (\<lambda>r. r\<lparr>run_commit_sha := Some c\<rparr>)
      (upd_batch k (\<lambda>x. x\<lparr>bat_commit_sha := Some c\<rparr>) d))" for c d
    by (rule recorder_keeps_same, rule same_keys_trans [OF same_keys_upd_batch same_keys_stamp_runs]) simp_all
qed (simp_all add: recorder_keeps_same same_keys_upd_batch recorder_keeps_auto_evaluate)

lemma refs_ok_persist:
  assumes ok: "refs_ok (rec_db s)" and run: "persist V res s = (r, s')"
  shows "refs_ok (rec_db s')"
proof -
  obtain r1 s1 where body: "persist_body V res s = (r1, s1)" by (cases "persist_body V res s")
  have "refs_ok (rec_db s1)"
  proof (cases "get_run (jr_run_id res) (rec_db s)")
    case None
    with body ok show ?thesis by (simp add: persist_body_def)
  next
    case (Some x)
    let ?b = "batch_of (rec_db s) (jr_run_id res)"
    let ?d = "close_run (env_fromiso V) res ?b (rec_db s)"
    show ?thesis
    proof (cases "run_status x = Cancelled")
      case True
      with Some body ok show ?thesis by (simp add: persist_body_def Let_def)
    next
      case False
      from run_tab.get_Some [OF Some] have x: "x \<in> set (db_runs (rec_db s))" "run_id x = jr_run_id res" by simp_all
      have same: "same_keys (rec_db s) ?d" by (rule same_keys_close_run)
      have "opt_in (run_batch_id x) (bat_id ` set (db_batches (rec_db s)))"
        using ok x by (simp add: refs_ok_def key_columns somes_subset)
      then have known: "opt_in (run_batch_id x) (set (batch_keys ?d))" "jr_run_id res \<in> set (run_keys ?d)"
        using same_keysD [OF same] x by (auto intro: rev_image_eqI)
      have "keeps_refs (run_batch_id x) (jr_run_id res) (after_close V res ?b (run_batch_id x))"
        unfolding after_close_def
        by (intro refs.seq_carries keeps_refs_record_payload)
          (simp add: keeps_refs_close_if_done refs.ret_carries split: option.split)
      from carriesD [OF this, of "s\<lparr>rec_db := ?d\<rparr>"] body persist_body_closing [OF Some False, of V]
      have "recorder_keeps (run_batch_id x) (jr_run_id res) ?d (rec_db s1)" by auto
      with known have "refs_kept ?d (rec_db s1)" by (simp add: recorder_keeps_def)
      then show ?thesis using ok refs_keptD refs_kept_same [OF same] by blast
    qed
  qed
  with run body ok show ?thesis by (auto simp: persist_def session_scope_def split: sum.splits)
qed

section \<open>Closing runs\<close>

lemma same_keys_close_open_runs:
  "(\<And>r. run_id (f r) = run_id r \<and> run_schedule_id (f r) = run_schedule_id r \<and> run_batch_id (f r) = run_batch_id r
      \<and> run_device_id (f r) = run_device_id r \<and> run_parser_template_id (f r) = run_parser_template_id r
      \<and> run_job_id (f r) = run_job_id r) \<Longrightarrow> same_keys d (close_open_runs b f d)"
  unfolding close_open_runs_def by (rule same_keys_trans [OF same_keys_map_runs same_keys_upd_batch]) simp_all

lemma same_keys_finish_if_counted: "same_keys d (finish_if_counted b now d)"
  unfolding finish_if_counted_def by (rule same_keys_upd_batch) simp

lemma same_keys_cancel_batch: "same_keys d (cancel_batch b now d)"
  by (auto simp: cancel_batch_def cancel_run_def split: option.split
      intro!: same_keys_trans [OF same_keys_close_open_runs same_keys_finish_if_counted])

lemma same_keys_purge_runs: "same_keys d (purge_runs now ids d)"
proof -
  have one: "same_keys d (count_purged now c d)" for c d
    by (cases c) (simp add: count_purged_def same_keys_trans [OF same_keys_upd_batch same_keys_finish_if_counted])
  have "same_keys d (fold (count_purged now) cs d)" for cs d
    by (induction cs arbitrary: d) (auto intro: same_keys_trans [OF one])
  moreover have "same_keys d (d\<lparr>db_runs := map (\<lambda>r. if purged_open ids r then cancel_run now r else r) (db_runs d)\<rparr>)"
    by (rule same_keys_map_runs) (simp add: cancel_run_def)
  ultimately show ?thesis unfolding purge_runs_def Let_def by (blast intro: same_keys_trans)
qed

lemma same_keys_purge_queue: "purge_queue B C st now (d, q) = (r, (d', q')) \<Longrightarrow> same_keys d d'"
  by (auto simp: purge_queue_def same_keys_purge_runs split: prod.splits sum.splits if_splits)

lemma same_keys_reap_stale: "reap_stale_batches V t s = (r, s') \<Longrightarrow> same_keys (rec_db s) (rec_db s')"
proof (rule carriesD [OF keys.reaping_carries])
  show "carries same_keys (reap_batch V x)" for x
    unfolding reap_batch_def Let_def
    by (intro keys.seq_carries keys.modify_carries keeps_keys_commit_staged
        same_keys_trans [OF same_keys_upd_batch same_keys_close_open_runs]) (simp_all add: timeout_run_def)
qed

section \<open>Reachable states\<close>

text \<open>What a request to a page may do to the database.\<close>

inductive edits :: "db \<Rightarrow> db \<Rightarrow> bool" for d where
  "edits d (snd (create_device st data d))"
| "edits d (snd (update_device st k data d))"
| "edits d (snd (delete_device st k d))"
| "edits d (snd (bulk_devices st data d))"
| "edits d (snd (import_submit upload pasted d))"
| "edits d (snd (import_devices multipart body d))"
| "edits d (snd (create_group st data d))"
| "edits d (snd (update_group st k data d))"
| "edits d (snd (delete_group st k d))"
| "edits d (snd (bulk_groups st data d))"
| "edits d (snd (create_platform st data d))"
| "edits d (snd (update_platform st k data d))"
| "edits d (snd (delete_platform st k d))"
| "edits d (snd (create_parser st data d))"
| "edits d (snd (update_parser st k data d))"
| "edits d (snd (delete_parser st k d))"
| "edits d (snd (bulk_parsers st data d))"
| "edits d (snd (create_schedule st data d))"
| "edits d (snd (update_schedule st k data d))"
| "edits d (snd (delete_schedule st k d))"
| "edits d (snd (bulk_schedules st data d))"
| "edits d (snd (skip_next_run st k d))"
| "edits d (snd (create_cred S st data d))"
| "edits d (snd (update_cred S st k data d))"
| "edits d (snd (delete_cred st k d))"
| "edits d (snd (bulk_creds st data d))"
| "edits d (snd (create_job st data d))"
| "edits d (snd (update_job st k data d))"
| "edits d (snd (delete_job st k d))"
| "edits d (snd (bulk_jobs st data d))"
| "edits d (snd (create_policy st data d))"
| "edits d (snd (update_policy st k data d))"
| "edits d (snd (delete_policy st k d))"
| "edits d (snd (run_policy E re now st k d))"
| "edits d (cancel_batch b now d)"

lemma kept_deletes:
  "refs_kept d (snd (delete_device st k d))" "refs_kept d (snd (delete_group st k d))"
  "refs_kept d (snd (delete_platform st k d))" "refs_kept d (snd (delete_parser st k d))"
  "refs_kept d (snd (delete_schedule st k d))" "refs_kept d (snd (delete_cred st k d))"
  "refs_kept d (snd (delete_job st k d))"
  by (simp_all add: delete_device_def delete_group_def delete_platform_def delete_parser_def
      delete_schedule_def delete_cred_def delete_job_def kept_delete_devices kept_delete_groups
      kept_delete_platforms kept_delete_parsers kept_delete_schedules kept_delete_creds kept_delete_jobs)

lemma kept_bulks:
  "refs_kept d (snd (bulk_groups st data d))" "refs_kept d (snd (bulk_parsers st data d))"
  "refs_kept d (snd (bulk_schedules st data d))" "refs_kept d (snd (bulk_creds st data d))"
  "refs_kept d (snd (bulk_jobs st data d))"
  by (simp_all add: bulk_groups_def bulk_parsers_def bulk_schedules_def bulk_creds_def bulk_jobs_def
      kept_bulk_delete kept_delete_groups kept_delete_parsers kept_delete_schedules kept_delete_creds kept_delete_jobs)

lemmas kept_handlers = kept_create_device kept_update_device kept_bulk_devices kept_import_submit
  kept_import_devices kept_create_group kept_update_group kept_create_platform kept_update_platform
  kept_create_parser kept_update_parser kept_create_schedule kept_update_schedule kept_skip_next_run
  kept_create_cred kept_update_cred kept_create_job kept_update_job kept_create_policy kept_update_policy
  kept_delete_policy kept_run_policy kept_deletes kept_bulks refs_kept_same [OF same_keys_cancel_batch]

lemma kept_edits: "edits d d' \<Longrightarrow> refs_kept d d'"
  by (induction rule: edits.induct) (rule kept_handlers)+

text \<open>
  One transaction of any process: a page, a firing from a page, a scheduler pass, a result, a pass of
  the reaper, a purge. Nothing is assumed of the results, nor of the form data.
\<close>

inductive transaction :: "('g, 'q) rworld \<Rightarrow> ('g, 'q) rworld \<Rightarrow> bool" where
  Edit: "edits (rec_db s) d' \<Longrightarrow> transaction (s, q) (s\<lparr>rec_db := d'\<rparr>, q)"
| Run_job: "run_job_adhoc B C S st now k (rec_db s, q) = (r, (d', q')) \<Longrightarrow>
    transaction (s, q) (s\<lparr>rec_db := d'\<rparr>, q')"
| Schedule: "fire_due L B C S st now (rec_db s, q) = (r, (d', q')) \<Longrightarrow> transaction (s, q) (s\<lparr>rec_db := d'\<rparr>, q')"
| Result: "persist V res s = (r, s') \<Longrightarrow> transaction (s, q) (s', q)"
| Reaper: "reap_stale_batches V timeout_s s = (r, s') \<Longrightarrow> transaction (s, q) (s', q)"
| Purge_queue: "purge_queue B C st now (rec_db s, q) = (r, (d', q')) \<Longrightarrow> transaction (s, q) (s\<lparr>rec_db := d'\<rparr>, q')"

lemma transaction_refs_ok: "transaction w w' \<Longrightarrow> refs_ok (rec_db (fst w)) \<Longrightarrow> refs_ok (rec_db (fst w'))"
proof (induction rule: transaction.induct)
  case (Result V res s r s' q)
  then show ?case using refs_ok_persist by fastforce
qed (auto intro: refs_keptD dest: kept_edits kept_run_job_adhoc kept_fire_due
      refs_kept_same [OF same_keys_reap_stale] refs_kept_same [OF same_keys_purge_queue])

lemma transactions_refs_ok: "transaction\<^sup>*\<^sup>* w w' \<Longrightarrow> refs_ok (rec_db (fst w)) \<Longrightarrow> refs_ok (rec_db (fst w'))"
  by (induction rule: rtranclp_induct) (simp_all add: transaction_refs_ok)

end
