(* ===== verification/Profiles_To_Jobs.thy ===== *)
theory Profiles_To_Jobs
  imports Dispatch
begin

text \<open>
  What the statements of the revisions \<open>0009_profiles_to_jobs\<close> and \<open>0011_device_many_groups\<close> do to the
  rows. Before, a device was in one group and had a profile, which held its driver settings and what
  to run on it, and a schedule named a group and a kind. Afterwards devices hold their driver settings,
  profiles are jobs, and a schedule names a job.
\<close>

section \<open>The rows before\<close>

record profile =
  pr_id :: int
  pr_name :: string
  pr_description :: "string option"
  pr_kind :: driver_kind
  pr_platform :: "string option"
  pr_transport :: "transport_protocol option"
  pr_port :: "int option"
  pr_custom_platform_id :: "int option"
  pr_commands :: "string option"
  pr_manufacturer :: "string option"
  pr_rpc :: "string option"
  pr_parser_template_id :: "int option"
  pr_cve_vendor :: "string option"
  pr_cve_product :: "string option"

text \<open>A device row with the two columns it loses; the columns it gains are null before.\<close>

record old_device =
  od_row :: device
  od_group_id :: int
  od_profile_id :: int

record old_schedule =
  os_row :: schedule
  os_group_id :: int
  os_kind :: job_kind

record old_db =
  old_groups :: "device_group list"
  old_profiles :: "profile list"
  old_devices :: "old_device list"
  old_schedules :: "old_schedule list"

section \<open>The most frequent value\<close>

text \<open>
  \<open>mode() WITHIN GROUP (ORDER BY key)\<close>: the first, in the order of the key, of the most frequent
  values; null for no rows.
\<close>

definition occurrences :: "'a list \<Rightarrow> 'a \<Rightarrow> nat" where
  "occurrences xs x = length (filter (\<lambda>y. y = x) xs)"

fun most_frequent :: "'a list \<Rightarrow> 'a list \<Rightarrow> 'a option" where
  "most_frequent all [] = None"
| "most_frequent all (x # xs) =
     (case most_frequent all xs of
        None \<Rightarrow> Some x
      | Some y \<Rightarrow> if occurrences all y > occurrences all x then Some y else Some x)"

definition mode_by :: "('a \<Rightarrow> int) \<Rightarrow> 'a list \<Rightarrow> 'a option" where
  "mode_by key xs = most_frequent xs (sort_key key xs)"

definition kind_rank :: "job_kind \<Rightarrow> int" where
  "kind_rank k = (case k of Backup \<Rightarrow> 0 | Collect \<Rightarrow> 1 | Cve_scan \<Rightarrow> 2)"

section \<open>0009\<close>

text \<open>\<open>UPDATE devices d SET ... FROM profiles p WHERE d.profile_id = p.id\<close>.\<close>

definition configure_device :: "profile list \<Rightarrow> old_device \<Rightarrow> old_device" where
  "configure_device ps v =
     (case get_row pr_id (od_profile_id v) ps of
        None \<Rightarrow> v
      | Some p \<Rightarrow> v\<lparr>od_row := (od_row v)
          \<lparr>dev_platform := pr_platform p, dev_transport := pr_transport p,
           dev_driver_kind := Some (pr_kind p), dev_custom_platform_id := pr_custom_platform_id p\<rparr>\<rparr>)"

text \<open>The kinds of the schedules of a profile: one per device of the profile and schedule of its group.\<close>

definition profile_kinds :: "old_db \<Rightarrow> int \<Rightarrow> job_kind list" where
  "profile_kinds old p = concat (map (\<lambda>v. if od_profile_id v = p
      then map os_kind (filter (\<lambda>s. os_group_id s = od_group_id v) (old_schedules old)) else []) (old_devices old))"

definition job_of_profile :: "old_db \<Rightarrow> profile \<Rightarrow> job" where
  "job_of_profile old p = \<lparr>
     job_id = pr_id p, job_name = pr_name p, job_description = pr_description p,
     job_kind = (case mode_by kind_rank (profile_kinds old (pr_id p)) of None \<Rightarrow> Backup | Some k \<Rightarrow> k),
     job_commands = pr_commands p, job_rpc = pr_rpc p, job_parser_template_id = pr_parser_template_id p,
     job_cve_vendor = pr_cve_vendor p, job_cve_product = pr_cve_product p, job_show_on_device = False\<rparr>"

text \<open>\<open>SELECT DISTINCT profile_id, group_id FROM devices\<close>.\<close>

definition profile_groups :: "old_db \<Rightarrow> (int \<times> int) list" where
  "profile_groups old = remdups (map (\<lambda>v. (od_profile_id v, od_group_id v)) (old_devices old))"

text \<open>The profiles of the enabled devices of a group, one per device.\<close>

definition group_profiles :: "old_db \<Rightarrow> int \<Rightarrow> int list" where
  "group_profiles old g = map od_profile_id
     (filter (\<lambda>v. od_group_id v = g \<and> dev_enabled (od_row v)) (old_devices old))"

definition schedule_of_group :: "old_db \<Rightarrow> old_schedule \<Rightarrow> schedule" where
  "schedule_of_group old s = (os_row s)\<lparr>sch_job_id := mode_by (\<lambda>p. p) (group_profiles old (os_group_id s))\<rparr>"

section \<open>0011\<close>

text \<open>\<open>INSERT INTO device_group_memberships ... SELECT id, group_id FROM devices\<close>.\<close>

definition memberships_of :: "old_db \<Rightarrow> (int \<times> int) list" where
  "memberships_of old = map (\<lambda>v. (dev_id (od_row v), od_group_id v)) (old_devices old)"

text \<open>The tables afterwards; the other tables are not touched (\<open>d\<close> holds them).\<close>

definition migrate_data :: "old_db \<Rightarrow> db \<Rightarrow> db" where
  "migrate_data old d = d\<lparr>
     db_groups := old_groups old,
     db_devices := map (od_row \<circ> configure_device (old_profiles old)) (old_devices old),
     db_memberships := memberships_of old,
     db_jobs := map (job_of_profile old) (old_profiles old),
     db_job_device_groups := profile_groups old,
     db_job_devices := [],
     db_schedules := map (schedule_of_group old) (old_schedules old)\<rparr>"

text \<open>The downgrade of 0011: the group of a device is its first one, by number.\<close>

definition first_group :: "db \<Rightarrow> int \<Rightarrow> int option" where
  "first_group d k =
     (case sort (map snd (filter (\<lambda>(v, g). v = k) (db_memberships d))) of [] \<Rightarrow> None | g # _ \<Rightarrow> Some g)"

section \<open>Lemmas\<close>

lemma most_frequent_None: "most_frequent all xs = None \<longleftrightarrow> xs = []"
  by (cases xs) (auto split: option.splits)

lemma most_frequent_Some:
  "most_frequent all xs = Some x \<Longrightarrow> x \<in> set xs \<and> (\<forall>y \<in> set xs. occurrences all y \<le> occurrences all x)"
proof (induction xs arbitrary: x)
  case Nil
  then show ?case by simp
next
  case (Cons z xs)
  show ?case
  proof (cases "most_frequent all xs")
    case None
    with Cons.prems show ?thesis by (simp add: most_frequent_None)
  next
    case (Some y)
    from Cons.IH [OF this] Cons.prems Some show ?thesis by (force split: if_splits)
  qed
qed

lemma occurrences_none: "x \<notin> set xs \<Longrightarrow> occurrences xs x = 0"
  by (auto simp: occurrences_def filter_empty_conv)

text \<open>The contract of the aggregate: a value that occurs, and none occurs more often.\<close>

lemma mode_by_None: "mode_by key xs = None \<longleftrightarrow> xs = []"
  by (metis length_0_conv length_sort mode_by_def most_frequent_None)

lemma mode_by_Some:
  "mode_by key xs = Some x \<Longrightarrow> x \<in> set xs \<and> (\<forall>y \<in> set xs. occurrences xs y \<le> occurrences xs x)"
  using most_frequent_Some [of xs "sort_key key xs" x] by (simp add: mode_by_def)

lemma mode_by_constant: "xs \<noteq> [] \<Longrightarrow> set xs \<subseteq> {x} \<Longrightarrow> mode_by key xs = Some x"
  using mode_by_None [of key xs] mode_by_Some [of key xs] by (cases "mode_by key xs") auto

lemma configure_device_simps [simp]:
  "dev_id (od_row (configure_device ps v)) = dev_id (od_row v)"
  "dev_enabled (od_row (configure_device ps v)) = dev_enabled (od_row v)"
  "od_group_id (configure_device ps v) = od_group_id v"
  "od_profile_id (configure_device ps v) = od_profile_id v"
  by (simp_all add: configure_device_def split: option.split)

text \<open>A well-formed database before: the keys are unique and every reference leads to a row.\<close>

definition old_ok :: "old_db \<Rightarrow> bool" where
  "old_ok old \<longleftrightarrow> distinct (map grp_id (old_groups old)) \<and> distinct (map pr_id (old_profiles old))
     \<and> distinct (map (dev_id \<circ> od_row) (old_devices old))
     \<and> list_all (\<lambda>v. od_group_id v \<in> set (map grp_id (old_groups old))
         \<and> od_profile_id v \<in> set (map pr_id (old_profiles old))) (old_devices old)
     \<and> list_all (\<lambda>s. os_group_id s \<in> set (map grp_id (old_groups old))) (old_schedules old)"

lemma get_row_in: "k \<in> set (map key rows) \<Longrightarrow> \<exists>r \<in> set rows. get_row key k rows = Some r \<and> key r = k"
  by (induction rows) (auto simp: get_row_def)

lemma device_dist:
  "old_ok old \<Longrightarrow> distinct (map dev_id (db_devices (migrate_data old d)))"
  by (simp add: old_ok_def migrate_data_def comp_def)

lemma migrated_device:
  assumes "old_ok old" and "v \<in> set (old_devices old)"
  shows "get_device (dev_id (od_row v)) (migrate_data old d) = Some (od_row (configure_device (old_profiles old) v))"
  using get_row_distinct [OF device_dist [OF assms(1)], of "od_row (configure_device (old_profiles old) v)"] assms(2)
  by (simp add: get_device_def migrate_data_def)

lemma set_memberships_of:
  "(g, b) \<in> set (map (\<lambda>(dv, gr). (gr, dv)) (memberships_of old))
    \<longleftrightarrow> (\<exists>v \<in> set (old_devices old). od_group_id v = g \<and> dev_id (od_row v) = b)"
  by (auto simp: memberships_of_def)

lemma migrated_group_devices:
  assumes "old_ok old"
  shows "set (group_devices (migrate_data old d) g)
    = (\<lambda>v. od_row (configure_device (old_profiles old) v)) ` {v \<in> set (old_devices old). od_group_id v = grp_id g}"
proof -
  have m: "db_memberships (migrate_data old d) = memberships_of old"
    by (simp add: migrate_data_def)
  have "x \<in> set (group_devices (migrate_data old d) g)
      \<longleftrightarrow> (\<exists>v \<in> set (old_devices old). od_group_id v = grp_id g
            \<and> get_device (dev_id (od_row v)) (migrate_data old d) = Some x)" for x
    unfolding group_devices_def set_linked m set_memberships_of by blast
  then show ?thesis using migrated_device [OF assms, of _ d] by auto
qed

lemma job_id_of_profile [simp]: "job_id (job_of_profile old p) = pr_id p"
  by (simp add: job_of_profile_def)

lemma migrated_job_devices [simp]: "job_devices (migrate_data old d) j = []"
  by (simp add: job_devices_def migrate_data_def)

lemma migrated_job_groups:
  assumes "old_ok old"
  shows "g \<in> set (job_groups (migrate_data old d) (job_of_profile old p)) \<longleftrightarrow> g \<in> set (old_groups old)
    \<and> (\<exists>u \<in> set (old_devices old). od_profile_id u = pr_id p \<and> od_group_id u = grp_id g)"
proof -
  have pairs: "(job_id (job_of_profile old p), b) \<in> set (db_job_device_groups (migrate_data old d))
      \<longleftrightarrow> (\<exists>u \<in> set (old_devices old). od_profile_id u = pr_id p \<and> od_group_id u = b)" for b
    by (simp add: migrate_data_def profile_groups_def job_of_profile_def image_iff) metis
  have get: "get_group b (migrate_data old d) = Some g \<longleftrightarrow> g \<in> set (old_groups old) \<and> grp_id g = b" for b
    using assms get_row_distinct [of grp_id "old_groups old" g] get_row_in [of b grp_id "old_groups old"]
    by (auto simp: get_group_def migrate_data_def old_ok_def get_row_def find_Some_iff dest: nth_mem)
  show ?thesis unfolding job_groups_def set_linked pairs get by auto
qed

lemma migrated_selection:
  assumes "old_ok old"
  shows "dev_id ` fst ` set (device_group_pairs (migrate_data old d) (job_of_profile old p))
    = (dev_id \<circ> od_row) ` {w \<in> set (old_devices old). dev_enabled (od_row w)
        \<and> (\<exists>u \<in> set (old_devices old). od_profile_id u = pr_id p \<and> od_group_id u = od_group_id w)}"
    (is "_ = (dev_id \<circ> od_row) ` ?W")
proof -
  let ?row = "\<lambda>v. od_row (configure_device (old_profiles old) v)"
  have group: "\<exists>g \<in> set (old_groups old). grp_id g = od_group_id w" if "w \<in> set (old_devices old)" for w
    using assms that by (force simp: old_ok_def list_all_iff)
  let ?shared = "\<lambda>b. \<exists>u \<in> set (old_devices old). od_profile_id u = pr_id p \<and> od_group_id u = b"
  have "x \<in> {v. dev_enabled v \<and> (\<exists>g \<in> set (job_groups (migrate_data old d) (job_of_profile old p)).
            v \<in> set (group_devices (migrate_data old d) g))} \<longleftrightarrow> x \<in> ?row ` ?W" (is "?lhs \<longleftrightarrow> _") for x
  proof -
    have "?lhs \<longleftrightarrow> dev_enabled x \<and> (\<exists>g \<in> set (old_groups old). ?shared (grp_id g)
        \<and> (\<exists>w \<in> set (old_devices old). od_group_id w = grp_id g \<and> x = ?row w))"
      unfolding migrated_group_devices [OF assms] Bex_def migrated_job_groups [OF assms] by blast
    also have "\<dots> \<longleftrightarrow> (\<exists>w \<in> set (old_devices old). dev_enabled x \<and> ?shared (od_group_id w) \<and> x = ?row w)"
      using group by metis
    finally show ?thesis by auto
  qed
  then have "{v. dev_enabled v \<and> (\<exists>g \<in> set (job_groups (migrate_data old d) (job_of_profile old p)).
            v \<in> set (group_devices (migrate_data old d) g))} = ?row ` ?W" by blast
  moreover have "dev_id ` ?row ` ?W = (dev_id \<circ> od_row) ` ?W"
    by (force simp: image_iff)
  ultimately show ?thesis by (simp add: selected_devices)
qed

text \<open>The downgrade of 0011 finds the group a device was in.\<close>

lemma membership_round_trip:
  assumes "old_ok old" and "v \<in> set (old_devices old)"
  shows "first_group (migrate_data old d) (dev_id (od_row v)) = Some (od_group_id v)"
proof -
  have "filter (\<lambda>(w, g). w = dev_id (od_row v)) (memberships_of old) = [(dev_id (od_row v), od_group_id v)]"
    if "distinct (map (dev_id \<circ> od_row) vs)" and "v \<in> set vs" and "old_devices old = vs" for vs
    unfolding memberships_of_def that(3) using that(1,2)
  proof (induction vs)
    case (Cons u vs)
    then show ?case
      by (cases "u = v") (auto simp: filter_empty_conv image_iff)
  qed simp
  from this [of "old_devices old"] assms show ?thesis by (simp add: first_group_def migrate_data_def old_ok_def)
qed

text \<open>The port of a profile is not moved to its devices: it leaves no trace.\<close>

lemma get_row_port:
  "get_row pr_id k (map (pr_port_update f) ps) = map_option (pr_port_update f) (get_row pr_id k ps)"
  by (induction ps) (simp_all add: get_row_def)

lemma profile_port_is_lost:
  "migrate_data (old\<lparr>old_profiles := map (pr_port_update f) (old_profiles old)\<rparr>) d = migrate_data old d"
proof -
  have conf: "configure_device (map (pr_port_update f) ps) = configure_device ps" for ps
    by (rule ext) (simp add: configure_device_def get_row_port split: option.split)
  have job: "job_of_profile (old\<lparr>old_profiles := qs\<rparr>) (pr_port_update f p) = job_of_profile old p" for qs p
    by (simp add: job_of_profile_def profile_kinds_def cong: if_cong)
  have schedule: "schedule_of_group (old\<lparr>old_profiles := qs\<rparr>) = schedule_of_group old" for qs
    by (rule ext) (simp add: schedule_of_group_def group_profiles_def)
  show ?thesis
    by (simp add: migrate_data_def conf job schedule comp_def memberships_of_def profile_groups_def)
qed

end
