(* ===== verification/Cascade.thy ===== *)
theory Cascade
  imports Integrity
begin

text \<open>
  What \<open>ON DELETE\<close> means: deleting rows of a table under the foreign keys that \<open>models/*.py\<close> declares
  deletes the rows that refer to them by a key with \<open>CASCADE\<close>, with what follows from that, and clears
  the columns of the keys with \<open>SET NULL\<close>. The deletions of the pages refine it: they do to the tables
  of the model what the declarations ask for, and nothing else.
\<close>

section \<open>Tables as relations\<close>

text \<open>A row: its id and its references, by column; and what else it holds, without the nullable references.\<close>

datatype payload =
    Link
  | Device_row device
  | Group_row device_group
  | Credential_row credential
  | Platform_row platform
  | Parser_row parser_template
  | Job_row job
  | Schedule_row schedule
  | Batch_row run_batch
  | Run_row run
  | Config_row device_config
  | Scan_row cve_scan
  | Cve_row cve_result
  | Policy_row compliance_policy
  | Check_row compliance_check
  | Outcome_row compliance_result

type_synonym tuple = "(string \<times> int option) list \<times> payload"

type_synonym relations = "(string \<times> tuple list) list"

definition column :: "string \<Rightarrow> tuple \<Rightarrow> int option" where
  "column c r = (case map_of (fst r) c of None \<Rightarrow> None | Some x \<Rightarrow> x)"

definition points_to :: "string \<Rightarrow> int list \<Rightarrow> tuple \<Rightarrow> bool" where
  "points_to c ks r \<longleftrightarrow> (case column c r of None \<Rightarrow> False | Some k \<Rightarrow> k \<in> set ks)"

definition clear_column :: "string \<Rightarrow> int list \<Rightarrow> tuple \<Rightarrow> tuple" where
  "clear_column c ks r =
     (if points_to c ks r then (map (\<lambda>(n, x). (n, if n = c then None else x)) (fst r), snd r) else r)"

definition rows_of :: "string \<Rightarrow> relations \<Rightarrow> tuple list" where
  "rows_of tab R = (case map_of R tab of None \<Rightarrow> [] | Some rs \<Rightarrow> rs)"

definition on_table :: "string \<Rightarrow> (tuple list \<Rightarrow> tuple list) \<Rightarrow> relations \<Rightarrow> relations" where
  "on_table tab f R = map (\<lambda>(n, rs). (n, if n = tab then f rs else rs)) R"

section \<open>Deleting\<close>

text \<open>The foreign keys that lead to a table: table, column and action of each.\<close>

definition referrers :: "string \<Rightarrow> (string \<times> string \<times> string) list" where
  "referrers tab = concat (map (\<lambda>(t, s). map (\<lambda>k. (t, fk_column k, fk_ondelete k))
     (filter (\<lambda>k. fk_table k = tab) (tab_foreign_keys s))) (sch_tables declared_schema))"

text \<open>
  Deleting the rows of a table that satisfy a condition; \<open>None\<close> if an action is another one or the
  cascade is deeper than the bound.
\<close>

fun delete_where :: "nat \<Rightarrow> string \<Rightarrow> (tuple \<Rightarrow> bool) \<Rightarrow> relations \<Rightarrow> relations option" where
  "delete_where 0 tab P R = None"
| "delete_where (Suc n) tab P R =
     (let dead = somes (map (column ''id'') (filter P (rows_of tab R))) in
      fold (\<lambda>(t, c, action) acc. Option.bind acc (\<lambda>R.
          if action = ''CASCADE'' then delete_where n t (points_to c dead) R
          else if action = ''SET NULL'' then Some (on_table t (map (clear_column c dead)) R)
          else None))
        (referrers tab) (Some (on_table tab (filter (\<lambda>r. \<not> P r)) R)))"

text \<open>No cascade is deeper than three tables: devices, scans, the entries of a scan.\<close>

definition delete_rows :: "string \<Rightarrow> int list \<Rightarrow> relations \<Rightarrow> relations option" where
  "delete_rows tab ks = delete_where 3 tab (points_to ''id'' ks)"

section \<open>The tables of the model\<close>

definition link :: "string \<Rightarrow> string \<Rightarrow> int \<times> int \<Rightarrow> tuple" where
  "link a b p = ([(a, Some (fst p)), (b, Some (snd p))], Link)"

definition device_tuple :: "device \<Rightarrow> tuple" where
  "device_tuple v =
     ([(''id'', Some (dev_id v)), (''custom_platform_id'', dev_custom_platform_id v),
       (''credential_id'', dev_credential_id v)],
      Device_row (v\<lparr>dev_custom_platform_id := None, dev_credential_id := None\<rparr>))"

definition group_tuple :: "device_group \<Rightarrow> tuple" where
  "group_tuple g =
     ([(''id'', Some (grp_id g)), (''default_credential_id'', grp_default_credential_id g)],
      Group_row (g\<lparr>grp_default_credential_id := None\<rparr>))"

definition job_tuple :: "job \<Rightarrow> tuple" where
  "job_tuple j =
     ([(''id'', Some (job_id j)), (''parser_template_id'', job_parser_template_id j)],
      Job_row (j\<lparr>job_parser_template_id := None\<rparr>))"

definition schedule_tuple :: "schedule \<Rightarrow> tuple" where
  "schedule_tuple s =
     ([(''id'', Some (sch_id s)), (''job_id'', sch_job_id s)], Schedule_row (s\<lparr>sch_job_id := None\<rparr>))"

definition batch_tuple :: "run_batch \<Rightarrow> tuple" where
  "batch_tuple b =
     ([(''id'', Some (bat_id b)), (''schedule_id'', bat_schedule_id b)],
      Batch_row (b\<lparr>bat_schedule_id := None\<rparr>))"

definition run_tuple :: "run \<Rightarrow> tuple" where
  "run_tuple r =
     ([(''id'', Some (run_id r)), (''schedule_id'', run_schedule_id r), (''batch_id'', run_batch_id r),
       (''device_id'', Some (run_device_id r)), (''parser_template_id'', run_parser_template_id r),
       (''job_id'', run_job_id r)],
      Run_row (r\<lparr>run_schedule_id := None, run_batch_id := None, run_parser_template_id := None,
        run_job_id := None\<rparr>))"

definition config_tuple :: "device_config \<Rightarrow> tuple" where
  "config_tuple c =
     ([(''device_id'', Some (cfg_device_id c)), (''batch_id'', cfg_batch_id c)],
      Config_row (c\<lparr>cfg_batch_id := None\<rparr>))"

definition scan_tuple :: "cve_scan \<Rightarrow> tuple" where
  "scan_tuple s =
     ([(''id'', Some (scan_id s)), (''run_id'', scan_run_id s), (''device_id'', Some (scan_device_id s))],
      Scan_row (s\<lparr>scan_run_id := None\<rparr>))"

definition cve_tuple :: "cve_result \<Rightarrow> tuple" where
  "cve_tuple r = ([(''scan_id'', Some (cver_scan_id r))], Cve_row r)"

definition policy_tuple :: "compliance_policy \<Rightarrow> tuple" where
  "policy_tuple p = ([(''id'', Some (pol_id p))], Policy_row (p\<lparr>pol_checks := []\<rparr>))"

definition check_tuple :: "int \<Rightarrow> compliance_check \<Rightarrow> tuple" where
  "check_tuple k c = ([(''id'', Some (chk_id c)), (''policy_id'', Some k)], Check_row c)"

definition outcome_tuple :: "compliance_result \<Rightarrow> tuple" where
  "outcome_tuple r =
     ([(''policy_id'', Some (cres_policy_id r)), (''device_id'', Some (cres_device_id r))], Outcome_row r)"

definition check_tuples :: "compliance_policy \<Rightarrow> tuple list" where
  "check_tuples p = map (check_tuple (pol_id p)) (pol_checks p)"

definition relations_of :: "db \<Rightarrow> relations" where
  "relations_of d =
     [(''credentials'', map (\<lambda>c. ([(''id'', Some (cred_id c))], Credential_row c)) (db_credentials d)),
      (''parser_templates'', map (\<lambda>p. ([(''id'', Some (pt_id p))], Parser_row p)) (db_parser_templates d)),
      (''platforms'', map (\<lambda>p. ([(''id'', Some (plat_id p))], Platform_row p)) (db_platforms d)),
      (''device_groups'', map group_tuple (db_groups d)),
      (''devices'', map device_tuple (db_devices d)),
      (''device_group_memberships'', map (link ''device_id'' ''device_group_id'') (db_memberships d)),
      (''jobs'', map job_tuple (db_jobs d)),
      (''job_device_groups'', map (link ''job_id'' ''device_group_id'') (db_job_device_groups d)),
      (''job_devices'', map (link ''job_id'' ''device_id'') (db_job_devices d)),
      (''schedules'', map schedule_tuple (db_schedules d)),
      (''run_batches'', map batch_tuple (db_batches d)),
      (''runs'', map run_tuple (db_runs d)),
      (''device_configs'', map config_tuple (db_configs d)),
      (''cve_scans'', map scan_tuple (db_cve_scans d)),
      (''cve_results'', map cve_tuple (db_cve_results d)),
      (''compliance_policies'', map policy_tuple (db_policies d)),
      (''compliance_policy_groups'', map (link ''policy_id'' ''device_group_id'') (db_policy_groups d)),
      (''compliance_policy_devices'', map (link ''policy_id'' ''device_id'') (db_policy_devices d)),
      (''compliance_checks'', concat (map check_tuples (db_policies d))),
      (''compliance_results'', map outcome_tuple (db_compliance_results d))]"

section \<open>The declarations, table by table\<close>

lemma referrers_simps:
  "referrers ''credentials'' = [(''device_groups'', ''default_credential_id'', ''SET NULL''),
     (''devices'', ''credential_id'', ''SET NULL'')]"
  "referrers ''parser_templates'' = [(''jobs'', ''parser_template_id'', ''SET NULL''),
     (''runs'', ''parser_template_id'', ''SET NULL'')]"
  "referrers ''platforms'' = [(''devices'', ''custom_platform_id'', ''SET NULL'')]"
  "referrers ''device_groups'' = [(''device_group_memberships'', ''device_group_id'', ''CASCADE''),
     (''job_device_groups'', ''device_group_id'', ''CASCADE''),
     (''compliance_policy_groups'', ''device_group_id'', ''CASCADE'')]"
  "referrers ''devices'' = [(''device_group_memberships'', ''device_id'', ''CASCADE''),
     (''job_devices'', ''device_id'', ''CASCADE''), (''runs'', ''device_id'', ''CASCADE''),
     (''device_configs'', ''device_id'', ''CASCADE''), (''cve_scans'', ''device_id'', ''CASCADE''),
     (''compliance_policy_devices'', ''device_id'', ''CASCADE''),
     (''compliance_results'', ''device_id'', ''CASCADE'')]"
  "referrers ''jobs'' = [(''job_device_groups'', ''job_id'', ''CASCADE''), (''job_devices'', ''job_id'', ''CASCADE''),
     (''schedules'', ''job_id'', ''SET NULL''), (''runs'', ''job_id'', ''SET NULL'')]"
  "referrers ''schedules'' = [(''run_batches'', ''schedule_id'', ''SET NULL''),
     (''runs'', ''schedule_id'', ''SET NULL'')]"
  "referrers ''runs'' = [(''cve_scans'', ''run_id'', ''SET NULL'')]"
  "referrers ''cve_scans'' = [(''cve_results'', ''scan_id'', ''CASCADE'')]"
  "referrers ''compliance_policies'' = [(''compliance_policy_groups'', ''policy_id'', ''CASCADE''),
     (''compliance_policy_devices'', ''policy_id'', ''CASCADE''),
     (''compliance_checks'', ''policy_id'', ''CASCADE''), (''compliance_results'', ''policy_id'', ''CASCADE'')]"
  by code_simp+

lemma referrers_none:
  "referrers ''device_group_memberships'' = []" "referrers ''job_device_groups'' = []"
  "referrers ''job_devices'' = []" "referrers ''device_configs'' = []" "referrers ''cve_results'' = []"
  "referrers ''compliance_policy_groups'' = []" "referrers ''compliance_policy_devices'' = []"
  "referrers ''compliance_checks'' = []" "referrers ''compliance_results'' = []"
  by code_simp+

section \<open>Lemmas\<close>

lemmas tuple_defs = link_def device_tuple_def group_tuple_def job_tuple_def schedule_tuple_def batch_tuple_def
  run_tuple_def config_tuple_def scan_tuple_def cve_tuple_def policy_tuple_def check_tuple_def outcome_tuple_def

lemma points_to_keys: "points_to c ks (cols, p) \<longleftrightarrow> (\<exists>k \<in> set ks. map_of cols c = Some (Some k))"
  by (auto simp: points_to_def column_def split: option.splits)

lemma somes_Some: "somes (map (\<lambda>r. Some (f r)) rs) = map f rs"
  by (induction rs) simp_all

lemma point_tuple:
  "column ''id'' (device_tuple v) = Some (dev_id v)"
  "column ''id'' (group_tuple g) = Some (grp_id g)"
  "column ''id'' (job_tuple j) = Some (job_id j)"
  "column ''id'' (schedule_tuple s) = Some (sch_id s)"
  "column ''id'' (batch_tuple b) = Some (bat_id b)"
  "column ''id'' (run_tuple r) = Some (run_id r)"
  "column ''id'' (scan_tuple c) = Some (scan_id c)"
  "column ''id'' (policy_tuple p) = Some (pol_id p)"
  "points_to ''id'' ks (device_tuple v) \<longleftrightarrow> dev_id v \<in> set ks"
  "points_to ''id'' ks (group_tuple g) \<longleftrightarrow> grp_id g \<in> set ks"
  "points_to ''id'' ks (job_tuple j) \<longleftrightarrow> job_id j \<in> set ks"
  "points_to ''id'' ks (schedule_tuple s) \<longleftrightarrow> sch_id s \<in> set ks"
  "points_to ''id'' ks (batch_tuple b) \<longleftrightarrow> bat_id b \<in> set ks"
  "points_to ''id'' ks (run_tuple r) \<longleftrightarrow> run_id r \<in> set ks"
  "points_to ''id'' ks (scan_tuple c) \<longleftrightarrow> scan_id c \<in> set ks"
  "points_to ''id'' ks (policy_tuple p) \<longleftrightarrow> pol_id p \<in> set ks"
  "points_to ''device_id'' ks (run_tuple r) \<longleftrightarrow> run_device_id r \<in> set ks"
  "points_to ''device_id'' ks (config_tuple f) \<longleftrightarrow> cfg_device_id f \<in> set ks"
  "points_to ''device_id'' ks (scan_tuple c) \<longleftrightarrow> scan_device_id c \<in> set ks"
  "points_to ''scan_id'' ks (cve_tuple e) \<longleftrightarrow> cver_scan_id e \<in> set ks"
  "points_to ''policy_id'' ks (outcome_tuple u) \<longleftrightarrow> cres_policy_id u \<in> set ks"
  "points_to ''device_id'' ks (outcome_tuple u) \<longleftrightarrow> cres_device_id u \<in> set ks"
  "column ''id'' ([(''id'', Some k)], q) = Some k" "points_to ''id'' ks ([(''id'', Some k)], q) \<longleftrightarrow> k \<in> set ks"
  "points_to ''policy_id'' ks (check_tuple k x) \<longleftrightarrow> k \<in> set ks"
  by (simp_all add: tuple_defs column_def points_to_def)

lemma point_link:
  "points_to a ks (link a b p) \<longleftrightarrow> fst p \<in> set ks"
  "a \<noteq> b \<Longrightarrow> points_to b ks (link a b p) \<longleftrightarrow> snd p \<in> set ks"
  "a \<noteq> ''id'' \<Longrightarrow> b \<noteq> ''id'' \<Longrightarrow> column ''id'' (link a b p) = None"
  by (simp_all add: link_def column_def points_to_def)

lemma somes_None: "somes (map (\<lambda>r. None) rs) = []"
  by (induction rs) simp_all

lemmas unfold_delete = delete_rows_def numeral_3_eq_3 referrers_simps referrers_none relations_of_def rows_of_def
  on_table_def filter_map comp_def point_tuple point_link somes_Some case_prod_unfold Let_def

lemma clear_tuple:
  "clear_column ''custom_platform_id'' ks (device_tuple v)
    = device_tuple (v\<lparr>dev_custom_platform_id := clear_if (\<exists>k \<in> set ks. dev_custom_platform_id v = Some k) (dev_custom_platform_id v)\<rparr>)"
  "clear_column ''credential_id'' ks (device_tuple v)
    = device_tuple (v\<lparr>dev_credential_id := clear_if (\<exists>k \<in> set ks. dev_credential_id v = Some k) (dev_credential_id v)\<rparr>)"
  "clear_column ''default_credential_id'' ks (group_tuple g)
    = group_tuple (g\<lparr>grp_default_credential_id := clear_if (\<exists>k \<in> set ks. grp_default_credential_id g = Some k) (grp_default_credential_id g)\<rparr>)"
  "clear_column ''parser_template_id'' ks (job_tuple j)
    = job_tuple (j\<lparr>job_parser_template_id := clear_if (\<exists>k \<in> set ks. job_parser_template_id j = Some k) (job_parser_template_id j)\<rparr>)"
  "clear_column ''job_id'' ks (schedule_tuple s)
    = schedule_tuple (s\<lparr>sch_job_id := clear_if (\<exists>k \<in> set ks. sch_job_id s = Some k) (sch_job_id s)\<rparr>)"
  "clear_column ''schedule_id'' ks (batch_tuple b)
    = batch_tuple (b\<lparr>bat_schedule_id := clear_if (\<exists>k \<in> set ks. bat_schedule_id b = Some k) (bat_schedule_id b)\<rparr>)"
  "clear_column ''schedule_id'' ks (run_tuple r)
    = run_tuple (r\<lparr>run_schedule_id := clear_if (\<exists>k \<in> set ks. run_schedule_id r = Some k) (run_schedule_id r)\<rparr>)"
  "clear_column ''parser_template_id'' ks (run_tuple r)
    = run_tuple (r\<lparr>run_parser_template_id := clear_if (\<exists>k \<in> set ks. run_parser_template_id r = Some k) (run_parser_template_id r)\<rparr>)"
  "clear_column ''job_id'' ks (run_tuple r)
    = run_tuple (r\<lparr>run_job_id := clear_if (\<exists>k \<in> set ks. run_job_id r = Some k) (run_job_id r)\<rparr>)"
  "clear_column ''run_id'' ks (scan_tuple c)
    = scan_tuple (c\<lparr>scan_run_id := clear_if (\<exists>k \<in> set ks. scan_run_id c = Some k) (scan_run_id c)\<rparr>)"
  by (auto simp: clear_column_def tuple_defs points_to_keys clear_if_def)

lemma referred:
  assumes "refs_ok d"
  shows
    "p \<in> set (db_memberships d) \<Longrightarrow> fst p \<in> dev_id ` set (db_devices d)"
    "p \<in> set (db_memberships d) \<Longrightarrow> snd p \<in> grp_id ` set (db_groups d)"
    "p \<in> set (db_job_device_groups d) \<Longrightarrow> fst p \<in> job_id ` set (db_jobs d)"
    "p \<in> set (db_job_device_groups d) \<Longrightarrow> snd p \<in> grp_id ` set (db_groups d)"
    "p \<in> set (db_job_devices d) \<Longrightarrow> fst p \<in> job_id ` set (db_jobs d)"
    "p \<in> set (db_job_devices d) \<Longrightarrow> snd p \<in> dev_id ` set (db_devices d)"
    "r \<in> set (db_runs d) \<Longrightarrow> run_device_id r \<in> dev_id ` set (db_devices d)"
    "f \<in> set (db_configs d) \<Longrightarrow> cfg_device_id f \<in> dev_id ` set (db_devices d)"
    "c \<in> set (db_cve_scans d) \<Longrightarrow> scan_device_id c \<in> dev_id ` set (db_devices d)"
    "e \<in> set (db_cve_results d) \<Longrightarrow> cver_scan_id e \<in> scan_id ` set (db_cve_scans d)"
    "p \<in> set (db_policy_groups d) \<Longrightarrow> fst p \<in> pol_id ` set (db_policies d)"
    "p \<in> set (db_policy_groups d) \<Longrightarrow> snd p \<in> grp_id ` set (db_groups d)"
    "p \<in> set (db_policy_devices d) \<Longrightarrow> fst p \<in> pol_id ` set (db_policies d)"
    "p \<in> set (db_policy_devices d) \<Longrightarrow> snd p \<in> dev_id ` set (db_devices d)"
    "u \<in> set (db_compliance_results d) \<Longrightarrow> cres_policy_id u \<in> pol_id ` set (db_policies d)"
    "u \<in> set (db_compliance_results d) \<Longrightarrow> cres_device_id u \<in> dev_id ` set (db_devices d)"
    "g \<in> set (db_groups d) \<Longrightarrow> opt_in (grp_default_credential_id g) (cred_id ` set (db_credentials d))"
    "v \<in> set (db_devices d) \<Longrightarrow> opt_in (dev_custom_platform_id v) (plat_id ` set (db_platforms d))"
    "v \<in> set (db_devices d) \<Longrightarrow> opt_in (dev_credential_id v) (cred_id ` set (db_credentials d))"
    "j \<in> set (db_jobs d) \<Longrightarrow> opt_in (job_parser_template_id j) (pt_id ` set (db_parser_templates d))"
    "s \<in> set (db_schedules d) \<Longrightarrow> opt_in (sch_job_id s) (job_id ` set (db_jobs d))"
    "b \<in> set (db_batches d) \<Longrightarrow> opt_in (bat_schedule_id b) (sch_id ` set (db_schedules d))"
    "r \<in> set (db_runs d) \<Longrightarrow> opt_in (run_schedule_id r) (sch_id ` set (db_schedules d))"
    "r \<in> set (db_runs d) \<Longrightarrow> opt_in (run_parser_template_id r) (pt_id ` set (db_parser_templates d))"
    "r \<in> set (db_runs d) \<Longrightarrow> opt_in (run_job_id r) (job_id ` set (db_jobs d))"
    "c \<in> set (db_cve_scans d) \<Longrightarrow> opt_in (scan_run_id c) (run_id ` set (db_runs d))"
  using assms by (auto simp: refs_ok_def key_columns somes_subset)

text \<open>A key that leads to a row is deleted exactly if it is named.\<close>

lemma found_keys:
  "k \<in> key ` A \<Longrightarrow> k \<in> key ` {x \<in> A. key x \<in> D} \<longleftrightarrow> k \<in> D"
  "opt_in f (key ` A) \<Longrightarrow> (\<exists>x \<in> A. key x \<in> D \<and> f = Some (key x)) \<longleftrightarrow> (\<exists>k \<in> D. f = Some k)"
  "opt_in f (key ` A) \<Longrightarrow> (\<exists>x. x \<in> A \<and> key x \<in> D \<and> f = Some (key x)) \<longleftrightarrow> (\<exists>k \<in> D. f = Some k)"
  by (auto simp: opt_in_def)

section \<open>The deletions of the pages\<close>

lemma delete_creds_declared:
  "refs_ok d \<Longrightarrow> delete_rows ''credentials'' ids (relations_of d) = Some (relations_of (delete_creds ids d))"
  by (simp add: unfold_delete delete_creds_def clear_tuple)
    (simp add: found_keys referred cong: map_cong filter_cong)

lemma delete_groups_declared:
  "refs_ok d \<Longrightarrow> delete_rows ''device_groups'' ids (relations_of d) = Some (relations_of (delete_groups ids d))"
  by (simp add: unfold_delete delete_groups_def clear_tuple)
    (simp add: found_keys referred cong: map_cong filter_cong)

lemma delete_platforms_declared:
  "refs_ok d \<Longrightarrow> delete_rows ''platforms'' ids (relations_of d) = Some (relations_of (delete_platforms ids d))"
  by (simp add: unfold_delete delete_platforms_def clear_tuple)
    (simp add: found_keys referred cong: map_cong filter_cong)

lemma delete_parsers_declared:
  "refs_ok d \<Longrightarrow> delete_rows ''parser_templates'' ids (relations_of d) = Some (relations_of (delete_parsers ids d))"
  by (simp add: unfold_delete delete_parsers_def clear_tuple)
    (simp add: found_keys referred cong: map_cong filter_cong)

lemma delete_schedules_declared:
  "refs_ok d \<Longrightarrow> delete_rows ''schedules'' ids (relations_of d) = Some (relations_of (delete_schedules ids d))"
  by (simp add: unfold_delete delete_schedules_def clear_tuple)
    (simp add: found_keys referred cong: map_cong filter_cong)

lemma delete_jobs_declared:
  "refs_ok d \<Longrightarrow> delete_rows ''jobs'' ids (relations_of d) = Some (relations_of (delete_jobs ids d))"
  by (simp add: unfold_delete delete_jobs_def clear_tuple)
    (simp add: found_keys referred cong: map_cong filter_cong)

lemma check_tuples_kept:
  "filter (\<lambda>r. \<not> points_to ''policy_id'' ks r) (concat (map check_tuples ps))
    = concat (map check_tuples (filter (\<lambda>p. pol_id p \<notin> set ks) ps))"
  by (induction ps) (simp_all add: check_tuples_def filter_map comp_def point_tuple filter_True filter_False)

lemma delete_policy_declared:
  "delete_rows ''compliance_policies'' [k] (relations_of d) = Some (relations_of (snd (delete_policy st k d)))"
proof (cases "get_policy k d")
  case None
  then have "k \<notin> pol_id ` set (db_policies d)" by (simp add: get_policy_def get_row_None_iff)
  moreover from this have "{x \<in> set (db_policies d). pol_id x = k} = {}" by auto
  moreover have "filter (\<lambda>x. pol_id x \<noteq> k) (db_policies d) = db_policies d"
    using calculation(1) by (auto intro: filter_True)
  ultimately show ?thesis
    using None by (simp add: unfold_delete delete_policy_def check_tuples_kept)
next
  case (Some p)
  then have "(\<lambda>x. k) ` {x \<in> set (db_policies d). pol_id x = k} = {k}"
    using get_row_Some [of pol_id k "db_policies d"] by (auto simp: get_policy_def)
  with Some show ?thesis
    by (simp add: unfold_delete delete_policy_def check_tuples_kept)
qed

text \<open>Deleting devices is deleting those that exist, as nothing refers to another.\<close>

lemma delete_existing_devices:
  assumes "refs_ok d" and "\<And>k. k \<in> dev_id ` set (db_devices d) \<Longrightarrow> k \<in> set ids' \<longleftrightarrow> k \<in> set ids"
  shows "delete_devices ids' d = delete_devices ids d"
proof -
  note same = referred(1,6,7-9,14,16) [OF assms(1), THEN assms(2)]
  have "filter (\<lambda>v. dev_id v \<notin> set ids') (db_devices d) = filter (\<lambda>v. dev_id v \<notin> set ids) (db_devices d)"
    using assms(2) by (intro filter_cong) auto
  moreover have "filter (\<lambda>r. run_device_id r \<in> set ids') (db_runs d) = filter (\<lambda>r. run_device_id r \<in> set ids) (db_runs d)"
      "filter (\<lambda>r. run_device_id r \<notin> set ids') (db_runs d) = filter (\<lambda>r. run_device_id r \<notin> set ids) (db_runs d)"
      "filter (\<lambda>s. scan_device_id s \<in> set ids') (db_cve_scans d) = filter (\<lambda>s. scan_device_id s \<in> set ids) (db_cve_scans d)"
      "filter (\<lambda>s. scan_device_id s \<notin> set ids') (db_cve_scans d) = filter (\<lambda>s. scan_device_id s \<notin> set ids) (db_cve_scans d)"
      "filter (\<lambda>c. cfg_device_id c \<notin> set ids') (db_configs d) = filter (\<lambda>c. cfg_device_id c \<notin> set ids) (db_configs d)"
      "filter (\<lambda>r. cres_device_id r \<notin> set ids') (db_compliance_results d) = filter (\<lambda>r. cres_device_id r \<notin> set ids) (db_compliance_results d)"
      "filter (\<lambda>(v, g). v \<notin> set ids') (db_memberships d) = filter (\<lambda>(v, g). v \<notin> set ids) (db_memberships d)"
      "filter (\<lambda>(j, v). v \<notin> set ids') (db_job_devices d) = filter (\<lambda>(j, v). v \<notin> set ids) (db_job_devices d)"
      "filter (\<lambda>(p, v). v \<notin> set ids') (db_policy_devices d) = filter (\<lambda>(p, v). v \<notin> set ids) (db_policy_devices d)"
    by (intro filter_cong; auto dest: same)+
  ultimately show ?thesis by (simp only: delete_devices_def Let_def)
qed

lemma device_referrers:
  "delete_where (Suc n) ''device_group_memberships'' (points_to ''device_id'' ks) (relations_of d)
    = Some (relations_of (d\<lparr>db_memberships := filter (\<lambda>(v, g). v \<notin> set ks) (db_memberships d)\<rparr>))"
  "delete_where (Suc n) ''job_devices'' (points_to ''device_id'' ks) (relations_of d)
    = Some (relations_of (d\<lparr>db_job_devices := filter (\<lambda>(j, v). v \<notin> set ks) (db_job_devices d)\<rparr>))"
  "delete_where (Suc n) ''device_configs'' (points_to ''device_id'' ks) (relations_of d)
    = Some (relations_of (d\<lparr>db_configs := filter (\<lambda>c. cfg_device_id c \<notin> set ks) (db_configs d)\<rparr>))"
  "delete_where (Suc n) ''compliance_policy_devices'' (points_to ''device_id'' ks) (relations_of d)
    = Some (relations_of (d\<lparr>db_policy_devices := filter (\<lambda>(p, v). v \<notin> set ks) (db_policy_devices d)\<rparr>))"
  "delete_where (Suc n) ''compliance_results'' (points_to ''device_id'' ks) (relations_of d)
    = Some (relations_of (d\<lparr>db_compliance_results :=
        filter (\<lambda>r. cres_device_id r \<notin> set ks) (db_compliance_results d)\<rparr>))"
  by (simp_all add: unfold_delete)

lemma delete_runs_declared:
  "delete_where (Suc n) ''runs'' (points_to ''device_id'' ks) (relations_of d)
    = Some (relations_of (d\<lparr>db_runs := filter (\<lambda>r. run_device_id r \<notin> set ks) (db_runs d),
        db_cve_scans := map (\<lambda>s. s\<lparr>scan_run_id := clear_if
          (\<exists>k \<in> set (map run_id (filter (\<lambda>r. run_device_id r \<in> set ks) (db_runs d))). scan_run_id s = Some k)
          (scan_run_id s)\<rparr>) (db_cve_scans d)\<rparr>))"
  by (simp add: unfold_delete clear_tuple)

lemma delete_scans_declared:
  "delete_where (Suc (Suc n)) ''cve_scans'' (points_to ''device_id'' ks) (relations_of d)
    = Some (relations_of (d\<lparr>db_cve_scans := filter (\<lambda>s. scan_device_id s \<notin> set ks) (db_cve_scans d),
        db_cve_results := filter (\<lambda>r. cver_scan_id r
          \<notin> set (map scan_id (filter (\<lambda>s. scan_device_id s \<in> set ks) (db_cve_scans d)))) (db_cve_results d)\<rparr>))"
  by (simp add: unfold_delete)

lemma delete_device_rows:
  "rows_of ''devices'' (relations_of d) = map device_tuple (db_devices d)"
  "on_table ''devices'' (filter (\<lambda>r. \<not> points_to ''id'' ids r)) (relations_of d)
    = relations_of (d\<lparr>db_devices := filter (\<lambda>v. dev_id v \<notin> set ids) (db_devices d)\<rparr>)"
  by (simp_all add: relations_of_def rows_of_def on_table_def filter_map comp_def point_tuple)

lemma delete_devices_declared:
  assumes "refs_ok d"
  shows "delete_rows ''devices'' ids (relations_of d) = Some (relations_of (delete_devices ids d))"
proof -
  define ids' where "ids' = map dev_id (filter (\<lambda>v. dev_id v \<in> set ids) (db_devices d))"
  have dead: "somes (map (column ''id'') (filter (points_to ''id'' ids) (rows_of ''devices'' (relations_of d)))) = ids'"
    by (simp add: delete_device_rows filter_map comp_def point_tuple somes_Some ids'_def)
  have f: "filter (\<lambda>x. dev_id x \<notin> set ids) (db_devices d) = filter (\<lambda>x. dev_id x \<notin> set ids') (db_devices d)"
    by (intro filter_cong) (auto simp: ids'_def)
  have scans: "scan_id ` {x \<in> (\<lambda>s. s\<lparr>scan_run_id := h s\<rparr>) ` S. scan_device_id x \<in> A}
      = scan_id ` {s \<in> S. scan_device_id s \<in> A}" for h S A
    by (force simp: image_iff)
  have "delete_rows ''devices'' ids (relations_of d) = Some (relations_of (delete_devices ids' d))"
    unfolding delete_rows_def numeral_3_eq_3 delete_where.simps(2) [of "Suc (Suc 0)"] dead Let_def
    by (simp add: referrers_simps device_referrers delete_runs_declared delete_scans_declared delete_device_rows f
      del: delete_where.simps) (simp add: delete_devices_def Let_def scans filter_map comp_def relations_of_def)
  moreover have "delete_devices ids' d = delete_devices ids d"
    using assms by (rule delete_existing_devices) (auto simp: ids'_def)
  ultimately show ?thesis by simp
qed

end
