(* ===== verification/Revisions.thy ===== *)
theory Revisions
  imports Declared_Schema
begin

text \<open>
  The schema: what the migrations build on an empty database, and which of them can be taken back.
\<close>

section \<open>Forth and back\<close>


text \<open>
  Exactly three revisions do not return to the schema they started from when they are taken back
  at once: 0003 leaves a value in an enumeration, 0009 does nothing, 0011 makes the group of a device
  optional.
\<close>

lemma irreversible_revisions:
  "irreversible versions empty_schema
    = [''0003_cve_scan_job_kind'', ''0009_profiles_to_jobs'', ''0011_device_many_groups'']"
  by code_simp

text \<open>
  Taking back all revisions from the newest on ends at 0008 with an undefined table: 0009 did not
  restore the profiles.
\<close>

lemma downgrade_ends_at_profiles:
  "bind_result (upgrade_path versions empty_schema) (\<lambda>s. Inr (downgrade_path (rev versions) s))
    = Inr (Some (''0008_drop_profile_generic_fields'', sql_error ''undefined table'' ''profiles''))"
  by code_simp

text \<open>
  The revisions form one chain, and their names fit the 32 characters of the table in which Alembic
  keeps the current one.
\<close>

lemma revisions_form_a_chain:
  "map mig_down_revision versions = None # map (Some \<circ> mig_revision) (butlast versions)
   \<and> distinct (map mig_revision versions)
   \<and> list_all (\<lambda>m. length (mig_revision m) \<le> 32) versions"
  by code_simp

end
