(* ===== verification/Upkeep.thy ===== *)
theory Upkeep
  imports Samples Integrity_System Profiles_To_Jobs Cascade Revisions
begin

text \<open>
  What the migrations do to the rows of an installation that still had profiles, and the integrity of
  the references that the schema declares.
\<close>

section \<open>The rows\<close>

text \<open>
  C40: a schedule whose group had an enabled device names afterwards the job of a most frequent
  profile of these devices; firing the job selects exactly the enabled devices of the groups in which
  some device had the profile, so every enabled device of the schedule's own group.
\<close>

theorem schedules_keep_their_devices:
  assumes "old_ok old" and "v \<in> set (old_devices old)" and "dev_enabled (od_row v)"
    and "od_group_id v = os_group_id s"
  shows "\<exists>p \<in> set (old_profiles old).
      sch_job_id (schedule_of_group old s) = Some (job_id (job_of_profile old p))
      \<and> (\<forall>q. occurrences (group_profiles old (os_group_id s)) q
             \<le> occurrences (group_profiles old (os_group_id s)) (pr_id p))
      \<and> dev_id ` fst ` set (device_group_pairs (migrate_data old d) (job_of_profile old p))
        = (dev_id \<circ> od_row) ` {w \<in> set (old_devices old). dev_enabled (od_row w)
            \<and> (\<exists>u \<in> set (old_devices old). od_profile_id u = pr_id p \<and> od_group_id u = od_group_id w)}
      \<and> dev_id (od_row v) \<in> dev_id ` fst ` set (device_group_pairs (migrate_data old d) (job_of_profile old p))"
proof -
  let ?ps = "group_profiles old (os_group_id s)"
  have "?ps \<noteq> []" using assms(2-4) by (auto simp: group_profiles_def filter_empty_conv)
  then obtain k where k: "mode_by (\<lambda>p. p) ?ps = Some k" by (metis mode_by_None not_None_eq)
  from mode_by_Some [OF k] obtain u where u: "u \<in> set (old_devices old)" "od_profile_id u = k"
      "od_group_id u = os_group_id s" and most: "\<And>q. q \<in> set ?ps \<Longrightarrow> occurrences ?ps q \<le> occurrences ?ps k"
    by (auto simp: group_profiles_def)
  have most': "occurrences ?ps q \<le> occurrences ?ps k" for q
    using most [of q] by (cases "q \<in> set ?ps") (simp_all add: occurrences_none)
  from assms(1) u obtain p where p: "p \<in> set (old_profiles old)" "pr_id p = k"
    by (force simp: old_ok_def list_all_iff)
  have "dev_id (od_row v) \<in> (dev_id \<circ> od_row) ` {w \<in> set (old_devices old). dev_enabled (od_row w)
            \<and> (\<exists>u \<in> set (old_devices old). od_profile_id u = pr_id p \<and> od_group_id u = od_group_id w)}"
    using assms(2-4) u p(2) by (intro image_eqI [of _ _ v]) auto
  with p k most' show ?thesis
    by (intro bexI [of _ p]) (simp_all add: schedule_of_group_def migrated_selection [OF assms(1)])
qed

text \<open>Two profiles and two groups: the second profile is used in both.\<close>

definition demo_profile :: "int \<Rightarrow> string \<Rightarrow> profile" where
  "demo_profile k name = \<lparr>pr_id = k, pr_name = name, pr_description = None, pr_kind = Dk_cli,
     pr_platform = Some ''arista_eos'', pr_transport = None, pr_port = Some 8022,
     pr_custom_platform_id = None, pr_commands = Some ''show run'', pr_manufacturer = None, pr_rpc = None,
     pr_parser_template_id = None, pr_cve_vendor = None, pr_cve_product = None\<rparr>"

definition demo_old :: old_db where
  "demo_old = \<lparr>
     old_groups = [demo_group, demo_group\<lparr>grp_id := 2, grp_name := ''edge''\<rparr>],
     old_profiles = [demo_profile 1 ''eos'', demo_profile 2 ''junos''],
     old_devices =
       [\<lparr>od_row = demo_device 1 ''r1'', od_group_id = 1, od_profile_id = 1\<rparr>,
        \<lparr>od_row = demo_device 2 ''r2'', od_group_id = 1, od_profile_id = 2\<rparr>,
        \<lparr>od_row = demo_device 3 ''r3'', od_group_id = 1, od_profile_id = 2\<rparr>,
        \<lparr>od_row = demo_device 4 ''r4'', od_group_id = 2, od_profile_id = 2\<rparr>],
     old_schedules = []\<rparr>"

definition demo_old_schedule :: old_schedule where
  "demo_old_schedule = \<lparr>os_row = \<lparr>sch_id = 1, sch_name = ''nightly'', sch_description = None,
     sch_job_id = None, sch_cron = ''@daily'', sch_timezone = ''UTC'', sch_enabled = True,
     sch_skip_next_run = False, sch_last_run_at = None, sch_next_run_at = None\<rparr>,
     os_group_id = 1, os_kind = Backup\<rparr>"

theorem schedules_keep_their_devices_witness:
  "\<exists>p \<in> set (old_profiles demo_old).
      sch_job_id (schedule_of_group demo_old demo_old_schedule) = Some (job_id (job_of_profile demo_old p))"
proof -
  have "old_ok demo_old" by code_simp
  moreover have "\<lparr>od_row = demo_device 1 ''r1'', od_group_id = 1, od_profile_id = 1\<rparr> \<in> set (old_devices demo_old)"
    by (simp add: demo_old_def)
  moreover have "dev_enabled (demo_device 1 ''r1'')" by code_simp
  ultimately show ?thesis
    using schedules_keep_their_devices [of demo_old _ demo_old_schedule empty_db]
    by (fastforce simp: demo_old_schedule_def)
qed

text \<open>
  The job of the shared profile is fired for both groups: the schedule of the first now reaches the
  device of the second.
\<close>

lemma shared_profile_fires_both_groups:
  "sch_job_id (schedule_of_group demo_old demo_old_schedule) = Some 2
   \<and> map (dev_id \<circ> fst) (device_group_pairs (migrate_data demo_old empty_db)
        (job_of_profile demo_old (demo_profile 2 ''junos''))) = [1, 2, 3, 4]"
  by code_simp

section \<open>The references\<close>




text \<open>
  C6: the deletions of the pages refine what \<open>models/*.py\<close> declares. Where every reference leads to a
  row, they change the tables exactly as the declared \<open>ON DELETE\<close> clauses demand: rows that refer by a
  key with \<open>CASCADE\<close> go, with all that follows, columns with \<open>SET NULL\<close> are cleared, and everything
  else stays as it is.
\<close>

theorem deletions_follow_declarations:
  assumes "refs_ok d"
  shows "delete_rows ''devices'' ids (relations_of d) = Some (relations_of (delete_devices ids d))
    \<and> delete_rows ''device_groups'' ids (relations_of d) = Some (relations_of (delete_groups ids d))
    \<and> delete_rows ''platforms'' ids (relations_of d) = Some (relations_of (delete_platforms ids d))
    \<and> delete_rows ''parser_templates'' ids (relations_of d) = Some (relations_of (delete_parsers ids d))
    \<and> delete_rows ''schedules'' ids (relations_of d) = Some (relations_of (delete_schedules ids d))
    \<and> delete_rows ''credentials'' ids (relations_of d) = Some (relations_of (delete_creds ids d))
    \<and> delete_rows ''jobs'' ids (relations_of d) = Some (relations_of (delete_jobs ids d))
    \<and> delete_rows ''compliance_policies'' [k] (relations_of d) = Some (relations_of (snd (delete_policy st k d)))"
  using delete_devices_declared [OF assms] delete_groups_declared [OF assms] delete_platforms_declared [OF assms]
    delete_parsers_declared [OF assms] delete_schedules_declared [OF assms] delete_creds_declared [OF assms]
    delete_jobs_declared [OF assms] delete_policy_declared by (intro conjI) simp_all

text \<open>Deleting a device of the fired batch takes its run with it.\<close>

theorem deletions_follow_declarations_witness:
  "map_option (\<lambda>R. map (column ''device_id'') (rows_of ''runs'' R)) (delete_rows ''devices'' [1] (relations_of fired_db))
    = Some [Some 2]"
proof -
  have "refs_ok fired_db" by code_simp
  moreover have "map (column ''device_id'') (rows_of ''runs'' (relations_of (delete_devices [1] fired_db))) = [Some 2]"
    by code_simp
  ultimately show ?thesis
    using deletions_follow_declarations [of fired_db "[1]" 1 default_settings] by simp
qed

text \<open>
  C8: a successful result of a collection whose parser template was deleted while it was on its way
  cannot be stored: the reference of the run would lead nowhere. Nothing is kept of it, it stays
  unacknowledged, and the run stays open.
\<close>

theorem deleted_template_blocks_result:
  assumes "get_run (jr_run_id res) (rec_db s) = Some r" and "run_status r \<noteq> Cancelled"
    and "jr_success res" and "jr_kind res = ''collect''"
    and "nonzero (jr_parser_template_id res) = Some t" and "get_parser t (rec_db s) = None"
  shows "\<exists>s'. persist V res s = (Inl foreign_key_error, s') \<and> rec_db s' = rec_db s
    \<and> handle_result V B st (m, res) (s, q) = (s', q)"
proof -
  let ?b = "batch_of (rec_db s) (jr_run_id res)"
  let ?d = "close_run (env_fromiso V) res ?b (rec_db s)"
  have "db_parser_templates ?d = db_parser_templates (rec_db s)"
    by (simp add: close_run_def bump_batch_def upd_run_def upd_batch_def split: option.split)
  then have "record_collect res ?d = Inl foreign_key_error"
    using assms(5,6)
    by (auto simp: record_collect_def refers_to_def get_parser_def get_row_None_iff bind_result_def)
  then have "persist_body V res s = (Inl foreign_key_error, s\<lparr>rec_db := ?d\<rparr>)"
    using assms(3,4) persist_body_closing [OF assms(1,2), of V]
    by (simp add: after_close_def record_payload_def modify_db_r_def seq_def)
  then have "persist V res s = (Inl foreign_key_error, s\<lparr>rec_db := rec_db s\<rparr>)"
    by (simp add: persist_def session_scope_def)
  then show ?thesis by (simp add: handle_result_def)
qed

definition collected :: job_result where
  "collected = (demo_result 1 True)\<lparr>jr_kind := ''collect'', jr_parser_template_id := Some 7\<rparr>"

theorem deleted_template_blocks_result_witness:
  "\<exists>s'. persist demo_env collected (demo_state fired_db) = (Inl foreign_key_error, s') \<and> rec_db s' = fired_db"
proof -
  have "get_run 1 fired_db = Some (new_run 10 1 demo_job None 1 1)"
    using fired_db_runs by (simp add: get_run_def get_row_def new_run_def)
  then have run: "get_run (jr_run_id collected) (rec_db (demo_state fired_db)) = Some (new_run 10 1 demo_job None 1 1)"
    and open_run: "run_status (new_run 10 1 demo_job None 1 1) \<noteq> Cancelled"
    by (simp_all add: collected_def demo_result_def demo_state_def new_run_def)
  have "jr_success collected" "jr_kind collected = ''collect''" "nonzero (jr_parser_template_id collected) = Some 7"
      "get_parser 7 (rec_db (demo_state fired_db)) = None" by code_simp+
  from deleted_template_blocks_result [OF run open_run this, of demo_env demo_broker default_settings "''1''" empty_server]
  obtain s' where "persist demo_env collected (demo_state fired_db) = (Inl foreign_key_error, s')"
      "rec_db s' = rec_db (demo_state fired_db)" by blast
  then show ?thesis by (intro exI conjI) (simp_all add: demo_state_def)
qed

end
