(* ===== verification/Spec2Isabelle.thy ===== *)
theory Spec2Isabelle
  imports Settlement Firing Delivery Evidence Frontdoor Upkeep
begin

text \<open>
  A model of Kiroku (\<open>src/kiroku\<close>), a network device backup and compliance service, and the
  theorems that make its parts correct.

  \<^bold>\<open>The program.\<close> A scheduler (\<open>scheduler/runner.py\<close>) and the web handlers (\<open>web/routes\<close>) fire jobs
  through \<open>dispatch.py\<close>: a firing writes a batch and one run per target device into the database and
  publishes one job spec per run on a Redis stream (\<open>queue.py\<close>). Workers (\<open>worker/runner.py\<close>,
  \<open>worker/scrapli_runner.py\<close>) read specs, talk to the devices, parse what they get (\<open>parsers.py\<close>) and
  publish one result per spec. The recorder (\<open>recorder/runner.py\<close>) reads results, closes the runs,
  counts them in their batches, writes configurations into a git working tree
  (\<open>recorder/git_store.py\<close>) and evaluates compliance policies (\<open>compliance.py\<close>); a reaper closes the
  batches whose results never came. The web handlers edit the inventory, cancel batches, purge the
  queue, search the backups and show the results.

  \<^bold>\<open>Theories.\<close>
  \<^item> \<open>Prelude\<close>: exceptions as values of a sum, the state and error monad (\<open>seq\<close>, \<open>ret\<close>, \<open>raise\<close>, \<open>catch\<close>),
    Python's truthiness and dictionaries. \<open>PyStr\<close>, \<open>PyFloat\<close>: the methods of \<open>str\<close>, \<open>int\<close> and \<open>float\<close> the
    program calls. \<open>Csv\<close>: \<open>csv.DictReader\<close>. \<open>Sql\<close>: \<open>ILIKE\<close> and ordering.
  \<^item> \<open>Models\<close>, \<open>Schema\<close>, \<open>Tables\<close>: \<open>models/*.py\<close>, \<open>jobs.py\<close>, \<open>config.py\<close>; one record per table or
    message, the database as a record of tables, relationships as look-ups. The locale \<open>row_table\<close> is
    the contract of a keyed table, \<open>unique_collector\<close> that of the "collect what was not seen" loops.
  \<^item> \<open>Queue\<close>: \<open>queue.py\<close> over a record of Redis commands. \<open>Credentials\<close>: \<open>credentials/*.py\<close>; the locale
    \<open>credential_source\<close> is the contract of a provider. \<open>Dispatch\<close>: \<open>dispatch.py\<close>.
  \<^item> \<open>GitStore\<close> (locale \<open>config_store\<close>), \<open>Parsers\<close>, \<open>Compliance\<close>, \<open>Recorder\<close>, \<open>Cve\<close>, \<open>Worker\<close>,
    \<open>Scheduler\<close>: the modules of the same names (\<open>Cve\<close> is \<open>cve/*.py\<close>). \<open>Leader\<close>: the loop of
    \<open>run_scheduler\<close> in several replicas, a step relation over their turns, ends, lost connections and
    the other processes, with the invariant that a leader holds the lock.
  \<^item> \<open>Web\<close>, \<open>Auth\<close>, \<open>Search\<close>, \<open>Import\<close>, \<open>Runs\<close>, \<open>Devices\<close>, \<open>Inventory\<close>, \<open>Pages\<close>, \<open>Views\<close>: the
    handlers of \<open>web/\<close> (\<open>Views\<close>: those that only show); each is a function from the form, the user and
    the database to the response and the database that is committed. \<open>Routes\<close>: the routers of \<open>web/routes\<close> with the methods, paths and guards of
    their handlers, as \<open>web/app.py\<close> registers them, and the way of a request through middleware, guards
    and handler; what the table of routes holds is computed once (\<open>follows_policy\<close>).
  \<^item> \<open>Ddl\<close>: a schema as a value (tables, columns, keys, foreign keys, indices, enumerations) and the
    operations of Alembic on it, each with the errors of PostgreSQL. \<open>Migrations\<close>: the 21 revisions of
    \<open>alembic/versions\<close>, up and down. \<open>Declared_Schema\<close>: the tables as \<open>models/*.py\<close> declares them, and the
    comparison with a schema. \<open>Profiles_To_Jobs\<close>: what 0009 and 0011 do to the rows.
  \<^item> \<open>Accounting\<close>, \<open>Lifecycle\<close>, \<open>Kiroku_System\<close>, \<open>Progress\<close>: the accounting invariant, its preservation by
    every operation (locale \<open>settling\<close>: the contract of an operation that closes runs, interpreted on
    the recorder, the rejection, the reaper and the cancellation), the system as an inductive step
    relation with its reachable states, and the abstract life of the runs that every step refines. The
    locale \<open>db_relation\<close> is what holds of every relation between databases that stays and composes: the
    recorder's steps carry it if their writes do. It is interpreted on the ledger, the books, the life
    of the runs, the counters, the key columns, the references and the stored backups.
  \<^item> \<open>Integrity\<close>, \<open>Integrity_System\<close>: the references between rows, the same list as the foreign keys of
    the declared schema, and that pages, import, scheduler, recorder, reaper and purges keep them.
    \<open>Cascade\<close>: the tables as relations and what the declared \<open>ON DELETE\<close> clauses mean for them, the
    specification that the deletions of the pages refine. A cascade visits at most three tables, one
    after the other; a deeper one would be \<open>None\<close>, and the refinement shows that it never is.
    \<open>Backups\<close>: what the recorder stores of a backup, and that nothing it does afterwards touches it.
  \<^item> \<open>Samples\<close>: concrete instances for the witnesses. The properties, with a witness where they have hypotheses:
    \<open>Settlement\<close> (how results, the reaper, cancellations and purges settle runs and batches), \<open>Firing\<close>
    (what a firing creates and publishes, and what the queue delivers), \<open>Delivery\<close> (scheduler passes,
    the election of the leader, the worker's answers, secrets), \<open>Evidence\<close> (backups and those who read them, diffs,
    compliance and search), \<open>Frontdoor\<close> (admission, import, credentials, paging), \<open>Revisions\<close> (the migrations of
    the schema), \<open>Upkeep\<close> (those of the rows, and the integrity of references). This theory adds the way of one job
    through all of them, from the firing to the closed run.

  \<^bold>\<open>State and effects.\<close> An operation is a function from a state to a result (\<open>Inl\<close> an exception, \<open>Inr\<close> a
  value) and the state it leaves. A session's flushes and its commit act on the one database record;
  \<open>session_scope\<close> restores the database of its start when the body raises. A foreign key that leads nowhere raises where
  the row is stored (\<open>refers_to\<close>); a deletion cascades or clears as the declarations say. The git repository, Redis,
  the devices, the parser engines, the regular expressions, the cipher, the remote secret services,
  the clock and the cron library are parameters (records of functions): nothing is assumed of them
  unless a theorem says so.

  \<^bold>\<open>Loops.\<close> The model of the code uses no fuel (the specification of a cascade, \<open>delete_where\<close>, has the
  bound three). The loops of the program run over finite lists and are structural
  recursions or folds; the scanners over strings (\<open>split\<close>, \<open>replace\<close>, the indicator cleaner, the escape
  stripper, the csv reader) are recursive functions with termination proofs by the length of what is
  left. The endless service loops are modelled one pass at a time, and the scheduler's also as
  runs of any length.

  \<^bold>\<open>Not modelled.\<close> \<open>cli.py\<close>, \<open>logging.py\<close>, \<open>web/deps.py\<close>, \<open>alembic/env.py\<close> and the package
  initialisers (wiring and process start: library calls only), the Jinja templates and static files,
  the opening of the git repository, the signal handlers, the transport libraries. The lengths of
  columns are part of the schema but not checked when a row is stored, nor is the range of an integer
  column. Characters
  above code point 255 do not occur in the model: the strings are lists of \<open>char\<close>.
\<close>

lemma life_entry:
  assumes "keys_ok d" and "(k, b, st) \<in> set (life_of d)"
  shows "\<exists>r. get_run k d = Some r \<and> run_batch_id r = b \<and> run_status r = st"
proof -
  from assms(2) obtain r where r: "r \<in> set (db_runs d)" "run_id r = k" "run_batch_id r = b" "run_status r = st"
    by (auto simp: life_of_def run_view_def)
  then have "get_run (run_id r) d = Some r"
    using assms(1) by (intro run_tab.get_member) (simp_all add: keys_ok_def)
  with r show ?thesis by auto
qed

lemma spec_for_run_id: "spec_for S d dev j rid sid g cred = Inr (Some spec) \<Longrightarrow> sp_run_id spec = rid"
  by (auto simp: spec_for_def bind_result_Inr_iff Let_def split: option.splits)

text \<open>The specs of a firing name the runs in order.\<close>

lemma published_run_id:
  assumes "list_all2 (\<lambda>(dev, g, rid) so. spec_for S d dev j rid sid g cred = Inr so) (number_targets n ts) sos"
    and "i < length sos" and "sos ! i = Some spec"
  shows "sp_run_id spec = n + int i"
proof -
  have "length sos = length ts"
    using list_all2_lengthD [OF assms(1)] pair_ids_number_targets [of n ts]
    by (metis length_map length_upt diff_zero pair_ids_def)
  moreover have "(\<lambda>(dev, g, rid) so. spec_for S d dev j rid sid g cred = Inr so) (number_targets n ts ! i) (sos ! i)"
    using list_all2_nthD2 [OF assms(1,2)] .
  ultimately show ?thesis
    using assms(2,3) number_targets_nth [of i ts n] spec_for_run_id by simp
qed

lemma count_rows_partition: "count_rows P xs + count_rows (\<lambda>x. \<not> P x) xs = int (length xs)"
  by (induction xs) auto

section \<open>From the firing to the closed run\<close>

text \<open>
  C3: The way of one job through the system. A firing that passes the capacity check publishes a spec
  for a device; whatever a worker with any device library makes of that spec, and whatever the recorder
  stores with it: when the worker's result is persisted, the run of that device, and no other, is
  closed with the state the result claims, and the batch of the firing is finished exactly if no other
  device of the firing had a credential.
\<close>

theorem fired_job_is_settled:
  assumes ok: "acct_ok d" and hw: "high_water st = Inr hw"
    and cap: "check_capacity B st hw (count_streams st (device_group_pairs d j) []) q = (Inr None, q1)"
    and specs: "list_all2 (\<lambda>(dev, g, rid) so. spec_for S d dev j rid sid g (default_credential d) = Inr so)
      (number_targets (seq_run d) (device_group_pairs d j)) sos"
    and sent: "send_all B C st (somes sos) q1 = (Inr (), q')"
    and fired: "fire_job B C S st now j sid sname (d, q) = (Inr b, (d', q'))"
    and i: "i < length sos" "sos ! i = Some spec"
    and answered: "answer D E wst spec w = (res, w')"
    and persisted: "persist V res (s\<lparr>rec_db := d'\<rparr>) = (Inr (), s')"
  shows "life_of (rec_db s') = life_of d @ map (\<lambda>k. (seq_run d + int k, Some b,
      if sos ! k = None then Failed else if k = i then (if jr_success res then Success else Failed) else Pending))
      [0..<length sos]
    \<and> (batch_done b (rec_db s') \<longleftrightarrow> count_rows (\<lambda>so. so \<noteq> None) sos = 1)"
proof -
  let ?s = "s\<lparr>rec_db := d'\<rparr>"
  let ?ts = "device_group_pairs d j"
  have len: "length sos = length ?ts"
    using list_all2_lengthD [OF specs] pair_ids_number_targets [of "seq_run d" ?ts]
    by (metis length_map length_upt diff_zero pair_ids_def)
  have b: "b = seq_batch d" and life: "life_of d' = life_of d @ map (\<lambda>k. (seq_run d + int k, Some b,
        if sos ! k = None then Failed else Pending)) [0..<length sos]"
    and batch: "get_batch b d' = Some ((new_batch b j sid sname (length sos) now)
        \<lparr>bat_failed := count_rows (\<lambda>so. so = None) sos\<rparr>)"
    using fire_job_effect [OF ok hw cap specs sent, of now sname] fired len by auto
  have ok': "acct_ok d'" by (rule acct_ok_fire_job [OF ok fired])
  then have keys: "keys_ok d'" by (simp add: acct_ok_def)
  have rid: "jr_run_id res = seq_run d + int i"
    using answer_answers [OF answered] published_run_id [OF specs i] by (simp add: answers_def)
  have "(jr_run_id res, Some b, Pending) \<in> set (life_of d')"
    using i unfolding life rid by force
  from life_entry [OF keys this] batch have openr: "run_open (jr_run_id res) (rec_db ?s)"
    and bat: "batch_of (rec_db ?s) (jr_run_id res) = Some b"
    by (auto simp: run_open_def batch_of_def new_batch_def)
  have old: "x \<noteq> seq_run d + int k" if "(x, c, y) \<in> set (life_of d)" for x c y k
    using that ok by (force simp: life_of_def run_view_def acct_ok_def keys_ok_def list_all_iff)
  have "life_of (rec_db s') = map (\<lambda>(k, c, y). (k, c, if k = jr_run_id res
       then (if jr_success res then Success else Failed) else y)) (life_of d')"
    using persist_effect [OF _ openr persisted] keys by simp
  also have "\<dots> = life_of d @ map (\<lambda>k. (seq_run d + int k, Some b,
      if sos ! k = None then Failed else if k = i then (if jr_success res then Success else Failed) else Pending))
      [0..<length sos]"
    unfolding life rid map_append using old i by (auto intro!: map_idI)
  finally have l: "life_of (rec_db s') = \<dots>" .
  have "tally d' b open_status = int (length sos) - count_rows (\<lambda>so. so = None) sos"
    using batch_ok_open [OF conjunct1 [OF acct_ok_get [OF ok' batch]]] by (simp add: new_batch_def)
  then have "tally d' b open_status = count_rows (\<lambda>so. so \<noteq> None) sos"
    using count_rows_partition [of "\<lambda>so. so = None" sos] by simp
  then have "batch_done b (rec_db s') \<longleftrightarrow> count_rows (\<lambda>so. so \<noteq> None) sos = 1"
    using persist_done [OF _ openr bat persisted] ok' by simp
  with l show ?thesis by blast
qed

definition demo_fired_db :: db where
  "demo_fired_db = fst (snd (fire_job demo_broker demo_codec demo_secrets default_settings 10 demo_job None None
     (demo_db, empty_server)))"

theorem fired_job_is_settled_witness:
  "life_of (rec_db (snd (persist demo_env demo_answer (demo_state demo_fired_db))))
   = [(1, Some 1, Success), (2, Some 1, Pending)]"
proof -
  let ?f = "fire_job demo_broker demo_codec demo_secrets default_settings 10 demo_job None None (demo_db, empty_server)"
  let ?p = "persist demo_env demo_answer (demo_state demo_fired_db)"
  have sent: "send_all demo_broker demo_codec default_settings (somes demo_sos) empty_server = (Inr (), demo_sent)"
    by code_simp
  have "fst ?f = Inr 1" "snd (snd ?f) = demo_sent" by code_simp+
  then have f: "?f = (Inr 1, (demo_fired_db, demo_sent))"
    by (simp add: demo_fired_db_def prod_eq_iff)
  have sos: "0 < length demo_sos" "demo_sos ! 0 = Some demo_spec" "demo_sos ! Suc 0 = Some demo_spec2" "length demo_sos = 2"
    by (simp_all add: demo_sos_def)
  have a: "answer demo_lib demo_engines default_settings demo_spec 0 = (demo_answer, 1)"
    unfolding demo_answer_def prod_eq_iff fst_conv snd_conv by (intro conjI refl) code_simp
  have "fst ?p = Inr ()" by code_simp
  then obtain s' where p: "persist demo_env demo_answer ((demo_state demo_db)\<lparr>rec_db := demo_fired_db\<rparr>) = (Inr (), s')"
    and s': "snd ?p = s'"
    by (cases ?p) (auto simp: demo_state_def)
  have l: "life_of demo_db = []" "seq_run demo_db = 1" "jr_success demo_answer" by code_simp+
  from fired_job_is_settled [OF acct_ok_demo demo_high_water demo_admitted demo_specs sent f sos(1,2) a p]
  show ?thesis by (simp add: s' l sos numeral_2_eq_2)
qed

end
